(* ===== verification/Js_Prelude.thy ===== *)
theory Js_Prelude
  imports Main "HOL-Library.Multiset"
begin

section \<open>Shared vocabulary of the development\<close>

text \<open>
  What every component uses of the language: JavaScript strings as lists of UTF-16 code
  units, the string methods the sources call (\<^verbatim>\<open>trim\<close>, \<^verbatim>\<open>toLowerCase\<close>, \<^verbatim>\<open>toUpperCase\<close>,
  \<^verbatim>\<open>split\<close> on a character class, \<^verbatim>\<open>join\<close>, \<^verbatim>\<open>includes\<close>, \<^verbatim>\<open>startsWith\<close>, \<^verbatim>\<open>String(n)\<close>),
  truthiness, \<^verbatim>\<open>Array.prototype.sort\<close>, and programs that thread a state and may throw.

  No source computes with a code unit as a number, so a code unit is a \<^typ>\<open>nat\<close>. A literal
  of ASCII characters is written \<open>lit ''abc''\<close>; a literal with other characters is a list of
  code units, in the theory \<open>Js_Text\<close>. Case mapping is that of the ASCII and the Cyrillic
  letters, the alphabets of the product; every other code unit is left as it is.
\<close>

named_theorems js_simps "rewrite rules that evaluate the string methods"
named_theorems prog_simps "rewrite rules that run a program"

subsection \<open>Strings\<close>

type_synonym code_unit = nat
type_synonym jsstr = "code_unit list"

definition lit :: "string \<Rightarrow> jsstr" where
  "lit s = map of_char s"

lemma lit_Nil [simp]: "lit [] = []"
  by (simp add: lit_def)

lemma lit_Cons [js_simps]: "lit (c # cs) = of_char c # lit cs"
  by (simp add: lit_def)

lemma lit_inject [simp]: "lit s = lit t \<longleftrightarrow> s = t"
proof -
  have "inj (of_char :: char \<Rightarrow> nat)"
    by (rule injI) simp
  then show ?thesis by (simp add: lit_def inj_map_eq_map)
qed

lemma lit_eq_Nil [simp]: "lit s = [] \<longleftrightarrow> s = []" "[] = lit s \<longleftrightarrow> s = []"
  by (auto simp: lit_def)

lemma length_lit [simp]: "length (lit s) = length s"
  by (simp add: lit_def)

lemma lit_append [simp]: "lit (s @ t) = lit s @ lit t"
  by (simp add: lit_def)

text \<open>A string is truthy when it is not empty; an absent value is falsy.\<close>

abbreviation truthy :: "jsstr \<Rightarrow> bool" where
  "truthy s \<equiv> s \<noteq> []"

definition truthy_opt :: "jsstr option \<Rightarrow> bool" where
  "truthy_opt v = (case v of None \<Rightarrow> False | Some s \<Rightarrow> truthy s)"

lemma truthy_opt_simps [simp]:
  "\<not> truthy_opt None" "truthy_opt (Some s) \<longleftrightarrow> s \<noteq> []"
  by (simp_all add: truthy_opt_def)

text \<open>\<^verbatim>\<open>x || y\<close> on strings that may be absent, and \<^verbatim>\<open>x ?? y\<close>.\<close>

definition or_str :: "jsstr option \<Rightarrow> jsstr \<Rightarrow> jsstr" where
  "or_str v d = (case v of None \<Rightarrow> d | Some s \<Rightarrow> if s = [] then d else s)"

definition nullish :: "'a option \<Rightarrow> 'a \<Rightarrow> 'a" where
  "nullish v d = (case v of None \<Rightarrow> d | Some x \<Rightarrow> x)"

lemma or_str_simps [simp]:
  "or_str None d = d" "or_str (Some s) d = (if s = [] then d else s)"
  by (simp_all add: or_str_def)

lemma nullish_simps [simp]: "nullish None d = d" "nullish (Some x) d = x"
  by (simp_all add: nullish_def)

subsection \<open>White space and trimming\<close>

text \<open>The code units that \<^verbatim>\<open>trim\<close> removes and that \<^verbatim>\<open>\s\<close> matches: white space and line
  terminators of the language.\<close>

definition is_ws :: "code_unit \<Rightarrow> bool" where
  "is_ws c \<longleftrightarrow> c \<in> {9, 10, 11, 12, 13, 32, 160, 5760, 8232, 8233, 8239, 8287, 12288, 65279}
     \<or> (8192 \<le> c \<and> c \<le> 8202)"

definition trim_start :: "jsstr \<Rightarrow> jsstr" where
  "trim_start s = dropWhile is_ws s"

definition trim_end :: "jsstr \<Rightarrow> jsstr" where
  "trim_end s = rev (dropWhile is_ws (rev s))"

definition trim :: "jsstr \<Rightarrow> jsstr" where
  "trim s = trim_end (trim_start s)"

lemma set_trim: "set (trim s) \<subseteq> set s"
proof
  fix c
  assume "c \<in> set (trim s)"
  then have "c \<in> set (dropWhile is_ws (rev (dropWhile is_ws s)))"
    by (simp add: trim_def trim_end_def trim_start_def)
  then have "c \<in> set (rev (dropWhile is_ws s))" by (rule set_dropWhileD)
  then have "c \<in> set (dropWhile is_ws s)" by simp
  then show "c \<in> set s" by (rule set_dropWhileD)
qed

lemma dropWhile_hd: "xs = [] \<or> \<not> P (hd xs) \<Longrightarrow> dropWhile P xs = xs"
  by (cases xs) auto

lemma hd_dropWhile_not: "dropWhile P xs \<noteq> [] \<Longrightarrow> \<not> P (hd (dropWhile P xs))"
  by (induction xs) auto

lemma trim_id: "s = [] \<or> \<not> is_ws (hd s) \<and> \<not> is_ws (last s) \<Longrightarrow> trim s = s"
  by (auto simp: trim_def trim_end_def trim_start_def dropWhile_hd hd_rev)

lemma trim_no_ws [simp]: "\<forall>c \<in> set s. \<not> is_ws c \<Longrightarrow> trim s = s"
  by (rule trim_id) (cases s; auto)


lemma trim_hd_last: "trim s \<noteq> [] \<Longrightarrow> \<not> is_ws (hd (trim s)) \<and> \<not> is_ws (last (trim s))"
proof -
  assume ne: "trim s \<noteq> []"
  let ?t = "dropWhile is_ws s"
  let ?u = "dropWhile is_ws (rev ?t)"
  have u: "trim s = rev ?u" by (simp add: trim_def trim_end_def trim_start_def)
  with ne have "?u \<noteq> []" by simp
  then have l: "\<not> is_ws (last (trim s))"
    by (simp add: u last_rev hd_dropWhile_not)
  have "?t = rev ?u @ rev (takeWhile is_ws (rev ?t))"
    by (metis rev_append rev_rev_ident takeWhile_dropWhile_id)
  with \<open>?u \<noteq> []\<close> have "hd (rev ?u) = hd ?t"
    by (metis hd_append2 rev_is_Nil_conv)
  moreover have "?t \<noteq> []" using \<open>?u \<noteq> []\<close> by (cases "?t = []") simp_all
  ultimately have "\<not> is_ws (hd (rev ?u))" using hd_dropWhile_not [of is_ws s] by simp
  with l show ?thesis by (simp add: u)
qed

lemma trim_trim [simp]: "trim (trim s) = trim s"
  using trim_hd_last trim_id by blast

lemma trim_Nil [simp]: "trim [] = []"
  by (simp add: trim_def trim_end_def trim_start_def)

subsection \<open>Case mapping\<close>

definition lower_cu :: "code_unit \<Rightarrow> code_unit" where
  "lower_cu c = (if 65 \<le> c \<and> c \<le> 90 then c + 32
     else if 1040 \<le> c \<and> c \<le> 1071 then c + 32
     else if 1024 \<le> c \<and> c \<le> 1039 then c + 80
     else c)"

definition upper_cu :: "code_unit \<Rightarrow> code_unit" where
  "upper_cu c = (if 97 \<le> c \<and> c \<le> 122 then c - 32
     else if 1072 \<le> c \<and> c \<le> 1103 then c - 32
     else if 1104 \<le> c \<and> c \<le> 1119 then c - 80
     else c)"

definition toLowerCase :: "jsstr \<Rightarrow> jsstr" where
  "toLowerCase s = map lower_cu s"

definition toUpperCase :: "jsstr \<Rightarrow> jsstr" where
  "toUpperCase s = map upper_cu s"

lemma lower_cu_idem [simp]: "lower_cu (lower_cu c) = lower_cu c"
  by (simp add: lower_cu_def)

lemma upper_cu_idem [simp]: "upper_cu (upper_cu c) = upper_cu c"
proof -
  consider (a) "97 \<le> c" "c \<le> 122" | (b) "1072 \<le> c" "c \<le> 1103" | (c) "1104 \<le> c" "c \<le> 1119" | (d) "upper_cu c = c"
    by (force simp: upper_cu_def)
  then show ?thesis
  proof cases
    case a
    then have "upper_cu c = c - 32" "c - 32 \<le> 90" by (simp_all add: upper_cu_def)
    then show ?thesis by (simp add: upper_cu_def)
  next
    case b
    then have "upper_cu c = c - 32" "c - 32 \<le> 1071" "1040 \<le> c - 32" by (simp_all add: upper_cu_def)
    then show ?thesis by (simp add: upper_cu_def)
  next
    case c
    then have "upper_cu c = c - 80" "c - 80 \<le> 1039" "1024 \<le> c - 80" by (simp_all add: upper_cu_def)
    then show ?thesis by (simp add: upper_cu_def)
  qed simp
qed

lemma toLowerCase_idem [simp]: "toLowerCase (toLowerCase s) = toLowerCase s"
  by (simp add: toLowerCase_def)

lemma toUpperCase_idem [simp]: "toUpperCase (toUpperCase s) = toUpperCase s"
  by (simp add: toUpperCase_def)

lemma toLowerCase_append [simp]: "toLowerCase (s @ t) = toLowerCase s @ toLowerCase t"
  by (simp add: toLowerCase_def)

lemma toLowerCase_eq_Nil [simp]: "toLowerCase s = [] \<longleftrightarrow> s = []"
  by (simp add: toLowerCase_def)

lemma toUpperCase_eq_Nil [simp]: "toUpperCase s = [] \<longleftrightarrow> s = []"
  by (simp add: toUpperCase_def)

lemma not_ws_ranges:
  "65 \<le> c \<Longrightarrow> c \<le> 122 \<Longrightarrow> \<not> is_ws c" "1024 \<le> c \<Longrightarrow> c \<le> 1119 \<Longrightarrow> \<not> is_ws c"
  by (simp_all add: is_ws_def)

lemma is_ws_lower [simp]: "is_ws (lower_cu c) = is_ws c"
  by (simp add: lower_cu_def not_ws_ranges)

lemma is_ws_upper [simp]: "is_ws (upper_cu c) = is_ws c"
  unfolding upper_cu_def
  by (auto simp: not_ws_ranges intro!: not_ws_ranges(1) [of "c - 32"] not_ws_ranges(2))

lemma dropWhile_map_inv: "(\<And>c. P (f c) = P c) \<Longrightarrow> dropWhile P (map f s) = map f (dropWhile P s)"
  by (induction s) auto

lemma trim_toUpperCase: "trim (toUpperCase s) = toUpperCase (trim s)"
  by (simp add: trim_def trim_end_def trim_start_def toUpperCase_def dropWhile_map_inv rev_map)

lemma trim_toLowerCase: "trim (toLowerCase s) = toLowerCase (trim s)"
  by (simp add: trim_def trim_end_def trim_start_def toLowerCase_def dropWhile_map_inv rev_map)

subsection \<open>Splitting, joining, searching\<close>

text \<open>\<^verbatim>\<open>s.split(/[...]+/)\<close>: a maximal run of separators ends a piece, so a leading or a
  trailing run leaves an empty piece at that end, and the empty string is one empty piece.\<close>

function split_runs :: "(code_unit \<Rightarrow> bool) \<Rightarrow> jsstr \<Rightarrow> jsstr list" where
  "split_runs P [] = [[]]"
| "split_runs P (c # cs) =
     (if P c then [] # split_runs P (dropWhile P cs)
      else (case split_runs P cs of [] \<Rightarrow> [[c]] | w # ws \<Rightarrow> (c # w) # ws))"
  by pat_completeness auto
termination
  by (relation "measure (\<lambda>(P, s). length s)") (auto simp: le_imp_less_Suc length_dropWhile_le)

fun join :: "jsstr \<Rightarrow> jsstr list \<Rightarrow> jsstr" where
  "join sep [] = []"
| "join sep [s] = s"
| "join sep (s # t # ts) = s @ sep @ join sep (t # ts)"

lemma split_runs_nonempty: "split_runs P s \<noteq> []"
  by (induction P s rule: split_runs.induct) (auto split: list.splits)

lemma split_runs_no_sep: "w \<in> set (split_runs P s) \<Longrightarrow> c \<in> set w \<Longrightarrow> \<not> P c"
proof (induction P s arbitrary: w rule: split_runs.induct)
  case (2 P d cs)
  show ?case
  proof (cases "P d")
    case True
    with 2 show ?thesis by auto
  next
    case False
    with 2 show ?thesis
      by (cases "split_runs P cs") (auto simp: False, blast)
  qed
qed simp

lemma split_runs_word: "\<forall>c \<in> set w. \<not> P c \<Longrightarrow> split_runs P w = [w]"
  by (induction w) auto

lemma split_runs_append_sep:
  assumes "\<forall>c \<in> set w. \<not> P c" and "P d"
  shows "split_runs P (w @ d # s) = w # split_runs P (dropWhile P s)"
  using assms by (induction w) auto

lemma split_runs_join:
  assumes "\<forall>w \<in> set ws. w \<noteq> [] \<and> (\<forall>c \<in> set w. \<not> P c)" and "P d" and "ws \<noteq> []"
  shows "split_runs P (join [d] ws) = ws"
  using assms
proof (induction "[d]" ws rule: join.induct)
  case (3 s t ts)
  have "dropWhile P (join [d] (t # ts)) = join [d] (t # ts)"
  proof (rule dropWhile_hd)
    from "3.prems" obtain c t' where "t = c # t'" "\<not> P c" by (cases t) auto
    then show "join [d] (t # ts) = [] \<or> \<not> P (hd (join [d] (t # ts)))"
      by (cases ts) auto
  qed
  with 3 show ?case by (simp add: split_runs_append_sep)
qed (simp_all add: split_runs_word)

text \<open>A token of a text: a maximal non-empty run of characters that do not separate.\<close>

definition is_token :: "(code_unit \<Rightarrow> bool) \<Rightarrow> jsstr \<Rightarrow> jsstr \<Rightarrow> bool" where
  "is_token P s w \<longleftrightarrow> w \<noteq> [] \<and> (\<forall>c \<in> set w. \<not> P c) \<and>
     (\<exists>p q. s = p @ w @ q \<and> (p = [] \<or> P (last p)) \<and> (q = [] \<or> P (hd q)))"

lemma is_tokenI:
  "w \<noteq> [] \<Longrightarrow> \<forall>c \<in> set w. \<not> P c \<Longrightarrow> p = [] \<or> P (last p) \<Longrightarrow> q = [] \<or> P (hd q) \<Longrightarrow>
     is_token P (p @ w @ q) w"
  by (auto simp: is_token_def)

lemma is_token_sep: "P c \<Longrightarrow> is_token P (c # s) w \<longleftrightarrow> is_token P s w"
proof
  assume "P c" "is_token P (c # s) w"
  then obtain p q where w: "w \<noteq> []" "\<forall>c \<in> set w. \<not> P c" and s: "c # s = p @ w @ q"
    and p: "p = [] \<or> P (last p)" and q: "q = [] \<or> P (hd q)" by (auto simp: is_token_def)
  from s w \<open>P c\<close> obtain p' where "p = c # p'" "s = p' @ w @ q" by (cases p; cases w) auto
  with w p q show "is_token P s w" by (auto simp: is_token_def split: if_splits)
next
  assume "P c" "is_token P s w"
  then obtain p q where "w \<noteq> []" "\<forall>c \<in> set w. \<not> P c" "s = p @ w @ q"
    "p = [] \<or> P (last p)" "q = [] \<or> P (hd q)" by (auto simp: is_token_def)
  with \<open>P c\<close> show "is_token P (c # s) w"
    unfolding is_token_def by (intro conjI exI [of _ "c # p"] exI [of _ q]) auto
qed

lemma is_token_dropWhile: "is_token P (dropWhile P s) w \<longleftrightarrow> is_token P s w"
  by (induction s) (auto simp: is_token_sep)

lemma is_token_word: "\<forall>c \<in> set u. \<not> P c \<Longrightarrow> is_token P u w \<longleftrightarrow> w = u \<and> u \<noteq> []"
proof
  assume u: "\<forall>c \<in> set u. \<not> P c" and "is_token P u w"
  then obtain p q where "w \<noteq> []" "u = p @ w @ q" "p = [] \<or> P (last p)" "q = [] \<or> P (hd q)"
    by (auto simp: is_token_def)
  moreover from this u have "p = []" by (cases p rule: rev_cases) auto
  moreover from calculation u have "q = []" by (cases q) auto
  ultimately show "w = u \<and> u \<noteq> []" by simp
next
  assume "\<forall>c \<in> set u. \<not> P c" "w = u \<and> u \<noteq> []"
  then show "is_token P u w"
    unfolding is_token_def by (intro conjI exI [of _ "[]"]) auto
qed

lemma is_token_first:
  assumes u: "\<forall>c \<in> set u. \<not> P c" and d: "P d"
  shows "is_token P (u @ d # s) w \<longleftrightarrow> w = u \<and> u \<noteq> [] \<or> is_token P s w"
proof
  assume "is_token P (u @ d # s) w"
  then obtain p q where w: "w \<noteq> []" "\<forall>c \<in> set w. \<not> P c" and eq: "u @ d # s = p @ w @ q"
    and p: "p = [] \<or> P (last p)" and q: "q = [] \<or> P (hd q)" by (auto simp: is_token_def)
  from eq consider (left) us where "u = p @ us" "us @ d # s = w @ q"
    | (right) us where "p = u @ us" "d # s = us @ w @ q"
    by (auto simp: append_eq_append_conv2)
  then show "w = u \<and> u \<noteq> [] \<or> is_token P s w"
  proof cases
    case left
    with u p have [simp]: "p = []" by (cases p rule: rev_cases) auto
    from left(2) consider vs where "us = w @ vs" "vs @ d # s = q" | vs where "w = us @ vs" "d # s = vs @ q"
      by (auto simp: append_eq_append_conv2)
    then show ?thesis
    proof cases
      case 1
      with q u left have "vs = []" by (cases vs) auto
      with 1 left w show ?thesis by simp
    next
      case 2
      with w d have "vs = []" by (cases vs) auto
      with 2 left w show ?thesis by simp
    qed
  next
    case right
    with w d obtain vs where "us = d # vs" "s = vs @ w @ q" by (cases us; cases w) auto
    moreover from this p right have "vs = [] \<or> P (last vs)" by (auto split: if_splits)
    ultimately show ?thesis using w q by (simp add: is_tokenI)
  qed
next
  assume "w = u \<and> u \<noteq> [] \<or> is_token P s w"
  then show "is_token P (u @ d # s) w"
  proof
    assume "w = u \<and> u \<noteq> []"
    with u d show ?thesis
      unfolding is_token_def by (intro conjI exI [of _ "[]"] exI [of _ "d # s"]) auto
  next
    assume "is_token P s w"
    then obtain p q where "w \<noteq> []" "\<forall>c \<in> set w. \<not> P c" "s = p @ w @ q"
      "p = [] \<or> P (last p)" "q = [] \<or> P (hd q)" by (auto simp: is_token_def)
    moreover from this d have "u @ d # s = (u @ d # p) @ w @ q" "P (last (u @ d # p))" by auto
    ultimately show ?thesis unfolding is_token_def by blast
  qed
qed

lemma split_first_sep:
  obtains "\<forall>c \<in> set s. \<not> P c" | u d ds where "s = u @ d # ds" "\<forall>c \<in> set u. \<not> P c" "P d"
  using split_list_first_prop [of s P] by blast

lemma split_runs_tokens: "w \<in> set (split_runs P s) \<and> w \<noteq> [] \<longleftrightarrow> is_token P s w"
proof (induction s rule: length_induct)
  case (1 s)
  show ?case
  proof (cases rule: split_first_sep [of s P])
    case 1
    then show ?thesis by (auto simp: split_runs_word is_token_word)
  next
    case (2 u d ds)
    then have "length (dropWhile P ds) < length s"
      using length_dropWhile_le [of P ds] by simp
    with 1 have "w \<in> set (split_runs P (dropWhile P ds)) \<and> w \<noteq> [] \<longleftrightarrow> is_token P ds w"
      by (simp add: is_token_dropWhile)
    with 2 show ?thesis by (auto simp: split_runs_append_sep is_token_first)
  qed
qed

text \<open>The newline of a \<^verbatim>\<open>"\n"\<close> literal.\<close>

abbreviation nl :: jsstr where
  "nl \<equiv> [10]"

fun starts_with :: "jsstr \<Rightarrow> jsstr \<Rightarrow> bool" where
  "starts_with s [] = True"
| "starts_with [] (c # cs) = False"
| "starts_with (d # ds) (c # cs) = (d = c \<and> starts_with ds cs)"

lemma starts_with_iff: "starts_with s p \<longleftrightarrow> (\<exists>t. s = p @ t)"
  by (induction s p rule: starts_with.induct) auto

fun includes_str :: "jsstr \<Rightarrow> jsstr \<Rightarrow> bool" where
  "includes_str [] n = (n = [])"
| "includes_str (c # cs) n = (starts_with (c # cs) n \<or> includes_str cs n)"

lemma includes_str_iff: "includes_str h n \<longleftrightarrow> (\<exists>p q. h = p @ n @ q)"
proof (induction h)
  case (Cons c cs)
  note IH = Cons.IH
  show ?case
  proof
    assume "includes_str (c # cs) n"
    then consider "starts_with (c # cs) n" | "includes_str cs n" by auto
    then show "\<exists>p q. c # cs = p @ n @ q"
      by cases (metis append_Nil starts_with_iff, metis Cons.IH append_Cons)
  next
    assume "\<exists>p q. c # cs = p @ n @ q"
    then obtain p q where pq: "c # cs = p @ n @ q" by blast
    show "includes_str (c # cs) n"
    proof (cases p)
      case Nil
      with pq have "starts_with (c # cs) n" by (auto simp: starts_with_iff)
      then show ?thesis by simp
    next
      case (Cons d ds)
      with pq have "includes_str cs n" using IH by auto
      then show ?thesis by simp
    qed
  qed
qed simp

definition ends_with :: "jsstr \<Rightarrow> jsstr \<Rightarrow> bool" where
  "ends_with s p = starts_with (rev s) (rev p)"

lemma ends_with_iff: "ends_with s p \<longleftrightarrow> (\<exists>t. s = t @ p)"
  by (simp add: ends_with_def starts_with_iff) (metis rev_append rev_rev_ident)

subsection \<open>Numbers in template strings\<close>

text \<open>\<^verbatim>\<open>String(n)\<close> and \<^verbatim>\<open>${n}\<close> of an integer: its decimal digits, after a minus sign when it is
  negative.\<close>

fun show_nat :: "nat \<Rightarrow> jsstr" where
  "show_nat n = (if n < 10 then [48 + n] else show_nat (n div 10) @ [48 + n mod 10])"

declare show_nat.simps [simp del]

definition show_int :: "int \<Rightarrow> jsstr" where
  "show_int i = (if i < 0 then 45 # show_nat (nat (- i)) else show_nat (nat i))"

lemma show_nat_digits: "c \<in> set (show_nat n) \<Longrightarrow> 48 \<le> c \<and> c \<le> 57"
proof (induction n rule: show_nat.induct)
  case (1 n)
  show ?case
  proof (cases "n < 10")
    case True
    with "1.prems" show ?thesis by (simp add: show_nat.simps [of n])
  next
    case False
    with "1.prems" have "c \<in> set (show_nat (n div 10)) \<or> c = 48 + n mod 10"
      by (auto simp: show_nat.simps [of n])
    with "1.IH" False show ?thesis by (auto simp: less_Suc_eq_le)
  qed
qed

lemma show_nat_nonempty [simp]: "show_nat n \<noteq> []"
  by (simp add: show_nat.simps [of n])

lemma show_nat_inject [simp]: "show_nat m = show_nat n \<longleftrightarrow> m = n"
proof (induction m arbitrary: n rule: show_nat.induct)
  case (1 m)
  have len: "length (show_nat k) = 1 \<longleftrightarrow> k < 10" for k
    by (simp add: show_nat.simps [of k])
  show ?case
  proof (cases "m < 10")
    case True
    then show ?thesis
      using len [of m] len [of n] by (auto simp: show_nat.simps [of m] show_nat.simps [of n])
  next
    case False
    show ?thesis
    proof
      assume eq: "show_nat m = show_nat n"
      with False have n: "\<not> n < 10" using len [of m] len [of n] by auto
      from eq False n have "show_nat (m div 10) = show_nat (n div 10)" "m mod 10 = n mod 10"
        by (simp_all add: show_nat.simps [of m] show_nat.simps [of n])
      with "1.IH" False have "m div 10 = n div 10" by blast
      with \<open>m mod 10 = n mod 10\<close> show "m = n" by (metis div_mult_mod_eq)
    qed simp
  qed
qed

lemma show_int_inject [simp]: "show_int i = show_int j \<longleftrightarrow> i = j"
proof -
  have "show_nat k \<noteq> 45 # s" "45 # s \<noteq> show_nat k" for k s
    using show_nat_digits [of 45 k] by (auto simp: eq_commute [of "45 # s"])
  then show ?thesis by (auto simp: show_int_def)
qed

lemma show_int_nonempty [simp]: "show_int i \<noteq> []"
  by (simp add: show_int_def)

subsection \<open>Sorting with a comparator\<close>

text \<open>\<^verbatim>\<open>Array.prototype.sort\<close> is stable. For a consistent comparator the result is determined; it
  is computed here by insertion, with \<open>le a b\<close> standing for "the comparator does not put \<open>a\<close>
  after \<open>b\<close>".\<close>

fun insort_by :: "('a \<Rightarrow> 'a \<Rightarrow> bool) \<Rightarrow> 'a \<Rightarrow> 'a list \<Rightarrow> 'a list" where
  "insort_by le x [] = [x]"
| "insort_by le x (y # ys) = (if le x y then x # y # ys else y # insort_by le x ys)"

definition js_sort :: "('a \<Rightarrow> 'a \<Rightarrow> bool) \<Rightarrow> 'a list \<Rightarrow> 'a list" where
  "js_sort le xs = foldr (insort_by le) xs []"

lemma js_sort_simps [simp]:
  "js_sort le [] = []" "js_sort le (x # xs) = insort_by le x (js_sort le xs)"
  by (simp_all add: js_sort_def)

lemma mset_insort_by [simp]: "mset (insort_by le x xs) = add_mset x (mset xs)"
  by (induction xs) auto

lemma mset_js_sort [simp]: "mset (js_sort le xs) = mset xs"
  by (induction xs) auto

lemma set_js_sort [simp]: "set (js_sort le xs) = set xs"
  by (metis mset_js_sort set_mset_mset)

lemma set_insort_by [simp]: "set (insort_by le x xs) = insert x (set xs)"
  by (induction xs) auto

lemma length_js_sort [simp]: "length (js_sort le xs) = length xs"
  by (metis mset_js_sort size_mset)

lemma distinct_map_js_sort: "distinct (map f (js_sort le xs)) \<longleftrightarrow> distinct (map f xs)"
proof -
  have "mset (map f (js_sort le xs)) = mset (map f xs)" by simp
  then show ?thesis by (rule mset_eq_imp_distinct_iff)
qed

lemma sorted_insort_by:
  assumes "\<And>a b. le a b \<or> le b a" and "\<And>a b c. le a b \<Longrightarrow> le b c \<Longrightarrow> le a c"
    and "sorted_wrt le xs"
  shows "sorted_wrt le (insort_by le x xs)"
  using assms(3)
proof (induction xs)
  case (Cons y ys)
  show ?case
  proof (cases "le x y")
    case True
    with Cons.prems show ?thesis by (auto intro: assms(2))
  next
    case False
    with assms(1) have "le y x" by blast
    with Cons False show ?thesis by simp
  qed
qed simp

lemma sorted_js_sort:
  assumes "\<And>a b. le a b \<or> le b a" and "\<And>a b c. le a b \<Longrightarrow> le b c \<Longrightarrow> le a c"
  shows "sorted_wrt le (js_sort le xs)"
  by (induction xs) (simp_all add: sorted_insort_by assms)

lemma insort_by_id: "\<forall>y \<in> set xs. le x y \<Longrightarrow> insort_by le x xs = x # xs"
  by (cases xs) auto

lemma js_sort_id: "sorted_wrt le xs \<Longrightarrow> js_sort le xs = xs"
  by (induction xs) (auto simp: insort_by_id)

text \<open>Stability: the elements of a class the comparator does not order keep their order.\<close>

lemma filter_insort_by:
  assumes "sorted_wrt le xs" "\<And>a b. le a b \<or> le b a" "\<And>a b c. le a b \<Longrightarrow> le b c \<Longrightarrow> le a c"
    and "\<And>a b. P a \<Longrightarrow> P b \<Longrightarrow> le a b"
  shows "filter P (insort_by le x xs) = (if P x then x # filter P xs else filter P xs)"
  using assms(1)
proof (induction xs)
  case (Cons y ys)
  show ?case
  proof (cases "P x \<and> \<not> le x y")
    case True
    with assms(4) have "\<not> P y" by blast
    with Cons True show ?thesis by simp
  next
    case False
    with Cons show ?thesis by auto
  qed
qed simp

lemma js_sort_stable:
  assumes "\<And>a b. le a b \<or> le b a" "\<And>a b c. le a b \<Longrightarrow> le b c \<Longrightarrow> le a c"
    and "\<And>a b. P a \<Longrightarrow> P b \<Longrightarrow> le a b"
  shows "filter P (js_sort le xs) = filter P xs"
  by (induction xs) (simp_all add: filter_insort_by [OF sorted_js_sort] assms)

end
