(* ===== verification/Js_Program.thy ===== *)
theory Js_Program
  imports Js_Prelude Complex_Main "HOL-Library.AList"
begin

section \<open>Values from outside, exceptions, programs\<close>

text \<open>
  JSON values with property access as the language has it (reading a property of \<^verbatim>\<open>null\<close> throws,
  an absent property is \<^verbatim>\<open>undefined\<close>), exceptions, and programs: functions that take a state
  and return either an exception or a value, with the state after it. \<open>bindp\<close> is the
  sequencing of \<^verbatim>\<open>await\<close>ed calls, \<open>catchp\<close> is \<^verbatim>\<open>try { ... } catch { ... }\<close>.
\<close>

subsection \<open>Exceptions\<close>

text \<open>\<open>Error m\<close> is \<^verbatim>\<open>new Error(m)\<close> of a source. The others are raised by the language or the
  platform: a property read of \<^verbatim>\<open>null\<close>, a status or a URI component out of range, JSON that does not parse, a \<^verbatim>\<open>fetch\<close> that fails on the
  network, a cookie store that cannot be written.\<close>

datatype exn = Error jsstr | TypeError | RangeError | URIError | SyntaxError | NetworkError | CookieError

subsection \<open>JSON values\<close>

datatype json =
    JNull
  | JBool bool
  | JNum rat
  | JStr jsstr
  | JArr "json list"
  | JObj "(jsstr \<times> json) list"

text \<open>\<^typ>\<open>json option\<close> is a value that may be \<^verbatim>\<open>undefined\<close>.\<close>

type_synonym jval = "json option"

definition jget :: "json \<Rightarrow> jsstr \<Rightarrow> exn + jval" where
  "jget v k = (case v of JNull \<Rightarrow> Inl TypeError | JObj kvs \<Rightarrow> Inr (map_of kvs k) | _ \<Rightarrow> Inr None)"

text \<open>\<^verbatim>\<open>v?.k\<close>\<close>

definition jget_safe :: "json \<Rightarrow> jsstr \<Rightarrow> jval" where
  "jget_safe v k = (case v of JObj kvs \<Rightarrow> map_of kvs k | _ \<Rightarrow> None)"

text \<open>\<^verbatim>\<open>"k" in v\<close>\<close>

definition jhas :: "json \<Rightarrow> jsstr \<Rightarrow> exn + bool" where
  "jhas v k = (case v of
     JObj kvs \<Rightarrow> Inr (map_of kvs k \<noteq> None) | JArr _ \<Rightarrow> Inr False | _ \<Rightarrow> Inl TypeError)"

fun jtruthy :: "jval \<Rightarrow> bool" where
  "jtruthy None = False"
| "jtruthy (Some JNull) = False"
| "jtruthy (Some (JBool b)) = b"
| "jtruthy (Some (JNum n)) = (n \<noteq> 0)"
| "jtruthy (Some (JStr s)) = (s \<noteq> [])"
| "jtruthy (Some (JArr _)) = True"
| "jtruthy (Some (JObj _)) = True"

text \<open>\<^verbatim>\<open>v ?? d\<close> on values that may be absent or \<^verbatim>\<open>null\<close>.\<close>

definition jnullish :: "jval \<Rightarrow> json \<Rightarrow> json" where
  "jnullish v d = (case v of None \<Rightarrow> d | Some JNull \<Rightarrow> d | Some x \<Rightarrow> x)"

lemma jget_safe_jget: "jget v k = Inr r \<Longrightarrow> jget_safe v k = r"
  by (cases v) (auto simp: jget_def jget_safe_def)

lemma jget_JObj [simp]: "jget (JObj kvs) k = Inr (map_of kvs k)"
  by (simp add: jget_def)

lemma jget_safe_JObj [simp]: "jget_safe (JObj kvs) k = map_of kvs k"
  by (simp add: jget_safe_def)

lemma jhas_JObj [simp]: "jhas (JObj kvs) k = Inr (map_of kvs k \<noteq> None)"
  by (simp add: jhas_def)

text \<open>The conversion of a value in a template literal; \<open>N\<close> is the conversion of numbers. An array
  joins its elements with commas, with nothing for \<^verbatim>\<open>null\<close>.\<close>

fun template :: "(rat \<Rightarrow> jsstr) \<Rightarrow> json \<Rightarrow> jsstr" where
  "template N JNull = lit ''null''"
| "template N (JBool b) = (if b then lit ''true'' else lit ''false'')"
| "template N (JNum n) = N n"
| "template N (JStr s) = s"
| "template N (JArr xs) = join (lit '','') (map (\<lambda>x. if x = JNull then [] else template N x) xs)"
| "template N (JObj _) = lit ''[object Object]''"

text \<open>Objects keep their properties in the order of insertion; assigning a property that is present
  keeps its place. \<open>own_props\<close> are the properties that \<^verbatim>\<open>...v\<close> copies: those of an object, the
  indexed elements of an array or of a string, none of another value.\<close>

definition spread :: "(jsstr \<times> 'v) list \<Rightarrow> (jsstr \<times> 'v) list \<Rightarrow> (jsstr \<times> 'v) list" where
  "spread base over = foldl (\<lambda>m k. case map_of over k of Some v \<Rightarrow> AList.update k v m | None \<Rightarrow> m)
     base (map fst over)"

definition own_props :: "jval \<Rightarrow> (jsstr \<times> json) list" where
  "own_props v = (case v of
     Some (JObj kvs) \<Rightarrow> kvs
   | Some (JArr xs) \<Rightarrow> zip (map show_nat [0..<length xs]) xs
   | Some (JStr s) \<Rightarrow> zip (map show_nat [0..<length s]) (map (\<lambda>c. JStr [c]) s)
   | _ \<Rightarrow> [])"

text \<open>\<^verbatim>\<open>v?.k\<close> of a value that may be \<^verbatim>\<open>undefined\<close>, \<^verbatim>\<open>Array.isArray(v) ? v : []\<close>, and
  \<^verbatim>\<open>v || d\<close>.\<close>

definition jopt :: "jval \<Rightarrow> jsstr \<Rightarrow> jval" where
  "jopt v k = (case v of None \<Rightarrow> None | Some j \<Rightarrow> jget_safe j k)"

definition jarray :: "jval \<Rightarrow> json list" where
  "jarray v = (case v of Some (JArr xs) \<Rightarrow> xs | _ \<Rightarrow> [])"

definition jor :: "jval \<Rightarrow> json \<Rightarrow> json" where
  "jor v d = (if jtruthy v then the v else d)"

text \<open>A property of a body whose type the source asserts: one of another type reads as the empty text, or as zero.\<close>

definition str_at :: "jval \<Rightarrow> jsstr \<Rightarrow> jsstr" where
  "str_at v k = (case jopt v k of Some (JStr s) \<Rightarrow> s | _ \<Rightarrow> [])"

definition num_at :: "jval \<Rightarrow> jsstr \<Rightarrow> rat" where
  "num_at v k = (case jopt v k of Some (JNum n) \<Rightarrow> n | _ \<Rightarrow> 0)"

lemma map_of_spread_keys:
  "map_of (foldl (\<lambda>m k. case f k of Some v \<Rightarrow> AList.update k v m | None \<Rightarrow> m) base ks) k =
     (if k \<in> set ks \<and> f k \<noteq> None then f k else map_of base k)"
  by (induction ks arbitrary: base) (auto simp: update_conv' split: option.splits)

lemma map_of_spread [simp]:
  "map_of (spread base over) k = (case map_of over k of None \<Rightarrow> map_of base k | Some v \<Rightarrow> Some v)"
  by (auto simp: spread_def map_of_spread_keys map_of_eq_None_iff split: option.splits
      dest!: map_of_SomeD intro: rev_image_eqI)

lemma map_of_update [simp]: "map_of (AList.update k v m) k' = (if k' = k then Some v else map_of m k')"
  by (simp add: update_conv')

lemma jopt_simps [simp]:
  "jopt None k = None" "jopt (Some (JObj kvs)) k = map_of kvs k"
  by (simp_all add: jopt_def)

lemma jarray_simps [simp]: "jarray (Some (JArr xs)) = xs" "jarray None = []"
  by (simp_all add: jarray_def)

subsection \<open>Programs\<close>

type_synonym ('s, 'a) prog = "'s \<Rightarrow> (exn + 'a) \<times> 's"

definition ret :: "'a \<Rightarrow> ('s, 'a) prog" where
  "ret x = (\<lambda>s. (Inr x, s))"

definition throw :: "exn \<Rightarrow> ('s, 'a) prog" where
  "throw e = (\<lambda>s. (Inl e, s))"

definition bindp :: "('s, 'a) prog \<Rightarrow> ('a \<Rightarrow> ('s, 'b) prog) \<Rightarrow> ('s, 'b) prog" where
  "bindp m f = (\<lambda>s. case m s of (Inl e, s') \<Rightarrow> (Inl e, s') | (Inr x, s') \<Rightarrow> f x s')"

definition thenp :: "('s, unit) prog \<Rightarrow> ('s, 'b) prog \<Rightarrow> ('s, 'b) prog" where
  "thenp m n = bindp m (\<lambda>_. n)"

definition catchp :: "('s, 'a) prog \<Rightarrow> (exn \<Rightarrow> ('s, 'a) prog) \<Rightarrow> ('s, 'a) prog" where
  "catchp m h = (\<lambda>s. case m s of (Inl e, s') \<Rightarrow> h e s' | (Inr x, s') \<Rightarrow> (Inr x, s'))"

text \<open>A value that is computed or throws, without touching the state.\<close>

definition lift :: "exn + 'a \<Rightarrow> ('s, 'a) prog" where
  "lift r = (\<lambda>s. (r, s))"

lemma ret_run [prog_simps]: "ret x s = (Inr x, s)"
  by (simp add: ret_def)

lemma throw_run [prog_simps]: "throw e s = (Inl e, s)"
  by (simp add: throw_def)

lemma lift_run [prog_simps]: "lift r s = (r, s)"
  by (simp add: lift_def)

lemma bindp_run [prog_simps]:
  "bindp m f s = (case m s of (r, s') \<Rightarrow> case r of Inl e \<Rightarrow> (Inl e, s') | Inr x \<Rightarrow> f x s')"
  by (simp add: bindp_def split: prod.split sum.split)

lemma thenp_run [prog_simps]:
  "thenp m n s = (case m s of (r, s') \<Rightarrow> case r of Inl e \<Rightarrow> (Inl e, s') | Inr x \<Rightarrow> n s')"
  by (simp add: thenp_def bindp_run)

lemma catchp_run [prog_simps]:
  "catchp m h s = (case m s of (r, s') \<Rightarrow> case r of Inl e \<Rightarrow> h e s' | Inr x \<Rightarrow> (Inr x, s'))"
  by (simp add: catchp_def split: prod.split sum.split)

lemma bindp_ret: "bindp (ret x) f = f x"
  by (simp add: fun_eq_iff prog_simps)

lemma bindp_lift_Inr: "bindp (lift (Inr x)) f = f x"
  by (simp add: fun_eq_iff prog_simps)

lemma bindp_assoc: "bindp (bindp m f) g = bindp m (\<lambda>x. bindp (f x) g)"
  by (simp add: fun_eq_iff prog_simps split: prod.split sum.split)

subsection \<open>Programs that never throw\<close>

definition never_throws :: "('s, 'a) prog \<Rightarrow> bool" where
  "never_throws m \<longleftrightarrow> (\<forall>s e s'. m s \<noteq> (Inl e, s'))"

lemma never_throwsD: "never_throws m \<Longrightarrow> \<exists>x s'. m s = (Inr x, s')"
  unfolding never_throws_def by (metis obj_sumE surj_pair)

lemma never_throws_ret [intro]: "never_throws (ret x)"
  by (simp add: never_throws_def ret_run)

lemma never_throws_catchp:
  "(\<And>e. never_throws (h e)) \<Longrightarrow> never_throws (catchp m h)"
  by (auto simp: never_throws_def catchp_run split: prod.splits sum.splits)

lemma never_throws_bindp:
  "never_throws m \<Longrightarrow> (\<And>x. never_throws (k x)) \<Longrightarrow> never_throws (bindp m k)"
  by (auto simp: never_throws_def bindp_run split: prod.splits sum.splits)

subsection \<open>HTTP messages\<close>

text \<open>\<^verbatim>\<open>Headers\<close> compares names without case: a name is kept in lower case, setting a name that
  is present replaces its value. A body is absent, a JSON text (kept as its value, so that
  \<^verbatim>\<open>JSON.stringify\<close> and \<^verbatim>\<open>json()\<close> are inverse), or another text that is not JSON.\<close>

type_synonym headers = "(jsstr \<times> jsstr) list"

definition header_get :: "headers \<Rightarrow> jsstr \<Rightarrow> jsstr option" where
  "header_get h n = map_of h (toLowerCase n)"

definition header_has :: "headers \<Rightarrow> jsstr \<Rightarrow> bool" where
  "header_has h n \<longleftrightarrow> header_get h n \<noteq> None"

definition header_set :: "headers \<Rightarrow> jsstr \<Rightarrow> jsstr \<Rightarrow> headers" where
  "header_set h n v = (let k = toLowerCase n in
     if map_of h k = None then h @ [(k, v)] else map (\<lambda>(a, b). if a = k then (a, v) else (a, b)) h)"

definition new_headers :: "(jsstr \<times> jsstr) list \<Rightarrow> headers" where
  "new_headers nvs = foldl (\<lambda>h (n, v). header_set h n v) [] nvs"

lemma map_of_map_upd:
  "map_of (map (\<lambda>(a, b). if a = k then (a, v) else (a, b)) h) m =
     (if m = k \<and> map_of h k \<noteq> None then Some v else map_of h m)"
  by (induction h) auto

lemma header_get_set [simp]:
  "header_get (header_set h n v) m = (if toLowerCase m = toLowerCase n then Some v else header_get h m)"
  by (auto simp: header_get_def header_set_def Let_def map_of_map_upd map_add_def split: option.splits)

datatype body = NoBody | JsonBody json | TextBody jsstr

record request =
  rq_url :: jsstr
  rq_method :: jsstr
  rq_headers :: headers
  rq_body :: body
  rq_no_store :: bool

record response =
  rs_status :: nat
  rs_headers :: headers
  rs_body :: body

definition rs_ok :: "response \<Rightarrow> bool" where
  "rs_ok r \<longleftrightarrow> 200 \<le> rs_status r \<and> rs_status r \<le> 299"

text \<open>\<^verbatim>\<open>await response.json()\<close>\<close>

definition json_of :: "response \<Rightarrow> exn + json" where
  "json_of r = (case rs_body r of JsonBody j \<Rightarrow> Inr j | _ \<Rightarrow> Inl SyntaxError)"

lemma json_of_simps [simp]:
  "rs_body r = JsonBody j \<Longrightarrow> json_of r = Inr j"
  "rs_body r = NoBody \<Longrightarrow> json_of r = Inl SyntaxError"
  "rs_body r = TextBody t \<Longrightarrow> json_of r = Inl SyntaxError"
  by (simp_all add: json_of_def)

end
