(* ===== verification/Js_Effects.thy ===== *)
theory Js_Effects
  imports Js_Program
begin

section \<open>A logic of effects\<close>

text \<open>
  The state of a program that acts on the outside: an opaque world and the list of the effects so
  far, in order. \<open>effects\<close> and \<open>counts\<close> say which effects a program can add and how many of a kind;
  the collections \<open>effect_rules\<close> and \<open>count_rules\<close> derive them from the structure of the program.
\<close>

record ('w, 'x) logged =
  sv_world :: 'w
  sv_log :: "'x list"


text \<open>\<open>effects Q m\<close>: a run of \<open>m\<close> only adds effects that satisfy \<open>Q\<close>. \<open>counts Q n m\<close>: it adds at
  most \<open>n\<close> effects that satisfy \<open>Q\<close>; \<open>costs c n m\<close>: the effects it adds cost at most \<open>n\<close> together. Both follow the structure of the program.\<close>

definition effects :: "('x \<Rightarrow> bool) \<Rightarrow> (('w, 'x) logged, 'a) prog \<Rightarrow> bool" where
  "effects Q m \<longleftrightarrow> (\<forall>s r s'. m s = (r, s') \<longrightarrow> (\<exists>new. sv_log s' = sv_log s @ new \<and> (\<forall>e \<in> set new. Q e)))"

definition costs :: "('x \<Rightarrow> nat) \<Rightarrow> nat \<Rightarrow> (('w, 'x) logged, 'a) prog \<Rightarrow> bool" where
  "costs c n m \<longleftrightarrow> (\<forall>s r s'. m s = (r, s') \<longrightarrow>
     (\<exists>new. sv_log s' = sv_log s @ new \<and> sum_list (map c new) \<le> n))"

abbreviation counts :: "('x \<Rightarrow> bool) \<Rightarrow> nat \<Rightarrow> (('w, 'x) logged, 'a) prog \<Rightarrow> bool" where
  "counts Q \<equiv> costs (\<lambda>e. if Q e then 1 else 0)"

lemma sum_list_indicator: "sum_list (map (\<lambda>e. if Q e then 1 else 0) es) = length (filter Q es)"
  by (induction es) auto

named_theorems effect_rules "effects of a program, by its structure"
named_theorems count_rules "how many effects a program adds, by its structure"

lemma effectsD:
  "effects Q m \<Longrightarrow> m s = (r, s') \<Longrightarrow> \<exists>new. sv_log s' = sv_log s @ new \<and> (\<forall>e \<in> set new. Q e)"
  by (simp add: effects_def)

lemma costsD:
  "costs c n m \<Longrightarrow> m s = (r, s') \<Longrightarrow> \<exists>new. sv_log s' = sv_log s @ new \<and> sum_list (map c new) \<le> n"
  by (simp add: costs_def)

lemma countsD:
  "counts Q n m \<Longrightarrow> m s = (r, s') \<Longrightarrow> \<exists>new. sv_log s' = sv_log s @ new \<and> length (filter Q new) \<le> n"
  using costsD [of "\<lambda>e. if Q e then 1 else 0"] by (simp add: sum_list_indicator)

lemma effects_pure [effect_rules]:
  "effects Q (ret x)" "effects Q (throw e)" "effects Q (lift r)"
  by (auto simp: effects_def prog_simps)

lemma counts_pure [count_rules]:
  "costs c n (ret x)" "costs c n (throw e)" "costs c n (lift r)"
  by (auto simp: costs_def prog_simps)

lemma effects_bindp [effect_rules]:
  assumes m: "effects Q m" and f: "\<And>x. effects Q (f x)"
  shows "effects Q (bindp m f)"
  unfolding effects_def
proof (intro allI impI)
  fix s r s'
  assume run: "bindp m f s = (r, s')"
  obtain r1 s1 where m1: "m s = (r1, s1)" by fastforce
  obtain new1 where n1: "sv_log s1 = sv_log s @ new1" "\<forall>e \<in> set new1. Q e"
    using effectsD [OF m m1] by blast
  show "\<exists>new. sv_log s' = sv_log s @ new \<and> (\<forall>e \<in> set new. Q e)"
  proof (cases r1)
    case (Inl e)
    with run m1 n1 show ?thesis by (auto simp: bindp_run)
  next
    case (Inr x)
    with run m1 have "f x s1 = (r, s')" by (simp add: bindp_run)
    then obtain new2 where "sv_log s' = sv_log s1 @ new2" "\<forall>e \<in> set new2. Q e"
      using effectsD [OF f] by blast
    with n1 show ?thesis by (intro exI [of _ "new1 @ new2"]) auto
  qed
qed

lemma effects_catchp [effect_rules]:
  assumes m: "effects Q m" and h: "\<And>e. effects Q (h e)"
  shows "effects Q (catchp m h)"
  unfolding effects_def
proof (intro allI impI)
  fix s r s'
  assume run: "catchp m h s = (r, s')"
  obtain r1 s1 where m1: "m s = (r1, s1)" by fastforce
  obtain new1 where n1: "sv_log s1 = sv_log s @ new1" "\<forall>e \<in> set new1. Q e"
    using effectsD [OF m m1] by blast
  show "\<exists>new. sv_log s' = sv_log s @ new \<and> (\<forall>e \<in> set new. Q e)"
  proof (cases r1)
    case (Inr x)
    with run m1 n1 show ?thesis by (auto simp: catchp_run)
  next
    case (Inl e)
    with run m1 have "h e s1 = (r, s')" by (simp add: catchp_run)
    then obtain new2 where "sv_log s' = sv_log s1 @ new2" "\<forall>e \<in> set new2. Q e"
      using effectsD [OF h] by blast
    with n1 show ?thesis by (intro exI [of _ "new1 @ new2"]) auto
  qed
qed

lemma effects_thenp [effect_rules]: "effects Q m \<Longrightarrow> effects Q n \<Longrightarrow> effects Q (thenp m n)"
  unfolding thenp_def by (rule effects_bindp)

lemma counts_bindp:
  assumes m: "costs c a m" and f: "\<And>x. costs c b (f x)"
  shows "costs c (a + b) (bindp m f)"
  unfolding costs_def
proof (intro allI impI)
  fix s r s'
  assume run: "bindp m f s = (r, s')"
  obtain r1 s1 where m1: "m s = (r1, s1)" by fastforce
  obtain new1 where n1: "sv_log s1 = sv_log s @ new1" "sum_list (map c new1) \<le> a"
    using costsD [OF m m1] by blast
  show "\<exists>new. sv_log s' = sv_log s @ new \<and> sum_list (map c new) \<le> a + b"
  proof (cases r1)
    case (Inl e)
    with run m1 n1 show ?thesis by (auto simp: bindp_run)
  next
    case (Inr x)
    with run m1 have "f x s1 = (r, s')" by (simp add: bindp_run)
    then obtain new2 where "sv_log s' = sv_log s1 @ new2" "sum_list (map c new2) \<le> b"
      using costsD [OF f] by blast
    with n1 show ?thesis by (intro exI [of _ "new1 @ new2"]) auto
  qed
qed

lemma counts_catchp:
  assumes m: "costs c a m" and h: "\<And>e. costs c b (h e)"
  shows "costs c (a + b) (catchp m h)"
  unfolding costs_def
proof (intro allI impI)
  fix s r s'
  assume run: "catchp m h s = (r, s')"
  obtain r1 s1 where m1: "m s = (r1, s1)" by fastforce
  obtain new1 where n1: "sv_log s1 = sv_log s @ new1" "sum_list (map c new1) \<le> a"
    using costsD [OF m m1] by blast
  show "\<exists>new. sv_log s' = sv_log s @ new \<and> sum_list (map c new) \<le> a + b"
  proof (cases r1)
    case (Inr x)
    with run m1 n1 show ?thesis by (auto simp: catchp_run)
  next
    case (Inl e)
    with run m1 have "h e s1 = (r, s')" by (simp add: catchp_run)
    then obtain new2 where "sv_log s' = sv_log s1 @ new2" "sum_list (map c new2) \<le> b"
      using costsD [OF h] by blast
    with n1 show ?thesis by (intro exI [of _ "new1 @ new2"]) auto
  qed
qed

lemma counts_thenp: "costs c a m \<Longrightarrow> costs c b n \<Longrightarrow> costs c (a + b) (thenp m n)"
  unfolding thenp_def by (rule counts_bindp)

lemma counts_weaken: "costs c a m \<Longrightarrow> a \<le> b \<Longrightarrow> costs c b m"
  unfolding costs_def by (meson le_trans)

lemma effects_weaken: "effects Q m \<Longrightarrow> (\<And>e. Q e \<Longrightarrow> R e) \<Longrightarrow> effects R m"
  unfolding effects_def by meson

text \<open>A program none of whose effects is counted.\<close>

lemma costs_none: "effects (\<lambda>e. c e = 0) m \<Longrightarrow> costs c 0 m"
  unfolding effects_def costs_def by (metis (no_types, lifting) le_zero_eq map_cong sum_list_0 map_replicate_const sum_list_replicate mult_0_right)

lemma counts_none: "effects (\<lambda>e. \<not> Q e) m \<Longrightarrow> counts Q 0 m"
  by (rule costs_none) (simp add: effects_def)

lemma effects_if [effect_rules]:
  "(b \<Longrightarrow> effects Q m) \<Longrightarrow> (\<not> b \<Longrightarrow> effects Q n) \<Longrightarrow> effects Q (if b then m else n)"
  by simp

lemma counts_if [count_rules]:
  "(b \<Longrightarrow> costs c k m) \<Longrightarrow> (\<not> b \<Longrightarrow> costs c k n) \<Longrightarrow> costs c k (if b then m else n)"
  by simp

lemma effects_option [effect_rules]:
  "effects Q m \<Longrightarrow> (\<And>t. effects Q (f t)) \<Longrightarrow> effects Q (case v of None \<Rightarrow> m | Some t \<Rightarrow> f t)"
  by (cases v) simp_all

lemma counts_option [count_rules]:
  "costs c k m \<Longrightarrow> (\<And>t. costs c k (f t)) \<Longrightarrow> costs c k (case v of None \<Rightarrow> m | Some t \<Rightarrow> f t)"
  by (cases v) simp_all

lemma effects_Let [effect_rules]: "(\<And>x. effects Q (f x)) \<Longrightarrow> effects Q (let x = v in f x)"
  by simp

lemma effects_sum [effect_rules]:
  "(\<And>e. effects Q (f e)) \<Longrightarrow> (\<And>x. effects Q (g x)) \<Longrightarrow> effects Q (case v of Inl e \<Rightarrow> f e | Inr x \<Rightarrow> g x)"
  by (cases v) simp_all

lemma effects_prod [effect_rules]: "(\<And>a b. effects Q (f a b)) \<Longrightarrow> effects Q (case v of (a, b) \<Rightarrow> f a b)"
  by (cases v) simp

lemma log_extension:
  assumes "effects Q m" "counts R n m" "counts R' n' m" "m s = (r, s')"
  shows "\<exists>new. sv_log s' = sv_log s @ new \<and> (\<forall>e \<in> set new. Q e) \<and>
    length (filter R new) \<le> n \<and> length (filter R' new) \<le> n'"
  using effectsD [OF assms(1,4)] countsD [OF assms(2,4)] countsD [OF assms(3,4)] by auto

lemma effects_conj: "effects Q m \<Longrightarrow> effects R m \<Longrightarrow> effects (\<lambda>e. Q e \<and> R e) m"
  unfolding effects_def by (metis same_append_eq)

subsection \<open>Traces\<close>

text \<open>\<open>traces P m\<close>: the result of a run of \<open>m\<close> and the effects it adds are in relation \<open>P\<close>.\<close>

definition traces :: "(exn + 'a \<Rightarrow> 'x list \<Rightarrow> bool) \<Rightarrow> (('w, 'x) logged, 'a) prog \<Rightarrow> bool" where
  "traces P m \<longleftrightarrow> (\<forall>s r s'. m s = (r, s') \<longrightarrow> (\<exists>new. sv_log s' = sv_log s @ new \<and> P r new))"

lemma tracesD: "traces P m \<Longrightarrow> m s = (r, s') \<Longrightarrow> \<exists>new. sv_log s' = sv_log s @ new \<and> P r new"
  by (simp add: traces_def)

lemma traces_effects: "effects Q m \<Longrightarrow> traces (\<lambda>r new. \<forall>e \<in> set new. Q e) m"
  by (simp add: traces_def effects_def)

lemma traces_ret: "P (Inr x) [] \<Longrightarrow> traces P (ret x)"
  by (simp add: traces_def prog_simps)

lemma traces_weaken: "traces P m \<Longrightarrow> (\<And>r new. P r new \<Longrightarrow> R r new) \<Longrightarrow> traces R m"
  unfolding traces_def by meson

lemma traces_conj: "traces P m \<Longrightarrow> traces R m \<Longrightarrow> traces (\<lambda>r new. P r new \<and> R r new) m"
  unfolding traces_def by (metis same_append_eq)

lemma traces_if: "(b \<Longrightarrow> traces P m) \<Longrightarrow> (\<not> b \<Longrightarrow> traces P n) \<Longrightarrow> traces P (if b then m else n)"
  by simp

lemma traces_bindp:
  assumes m: "traces P m" and f: "\<And>x. traces (Q x) (f x)"
    and err: "\<And>e new. P (Inl e) new \<Longrightarrow> R (Inl e) new"
    and seq: "\<And>x new1 r new2. P (Inr x) new1 \<Longrightarrow> Q x r new2 \<Longrightarrow> R r (new1 @ new2)"
  shows "traces R (bindp m f)"
  unfolding traces_def
proof (intro allI impI)
  fix s r s'
  assume run: "bindp m f s = (r, s')"
  obtain r1 s1 where m1: "m s = (r1, s1)" by fastforce
  obtain new1 where n1: "sv_log s1 = sv_log s @ new1" "P r1 new1" using tracesD [OF m m1] by blast
  show "\<exists>new. sv_log s' = sv_log s @ new \<and> R r new"
  proof (cases r1)
    case (Inl e)
    with run m1 have "r = Inl e" "s' = s1" by (simp_all add: bindp_run)
    with n1 err Inl show ?thesis by auto
  next
    case (Inr x)
    with run m1 have "f x s1 = (r, s')" by (simp add: bindp_run)
    from tracesD [OF f this] obtain new2 where "sv_log s' = sv_log s1 @ new2" "Q x r new2" by blast
    with n1 Inr seq show ?thesis by (intro exI [of _ "new1 @ new2"]) auto
  qed
qed

end
