(* ===== verification/Js_Text.thy ===== *)
theory Js_Text
  imports Js_Prelude
begin

section \<open>Literals outside ASCII\<close>

text \<open>
  The string literals of the sources that hold characters outside ASCII, as their UTF-16 code
  units, grouped by the file they stand in. The comment after each gives the text in Latin
  letters.
\<close>

subsection \<open>web/lib/routing-profiles.ts\<close>

definition ru_no_rules :: jsstr where
  "ru_no_rules =
    [1055, 1088, 1072, 1074, 1080, 1083, 32, 1085, 1077, 1090]" \<comment> \<open>Pravil net\<close>

definition ru_domain_one :: jsstr where
  "ru_domain_one =
    [1076, 1086, 1084, 1077, 1085]" \<comment> \<open>domen\<close>

definition ru_domain_few :: jsstr where
  "ru_domain_few =
    [1076, 1086, 1084, 1077, 1085, 1072]" \<comment> \<open>domena\<close>

definition ru_domain_many :: jsstr where
  "ru_domain_many =
    [1076, 1086, 1084, 1077, 1085, 1086, 1074]" \<comment> \<open>domenov\<close>

definition ru_zone_one :: jsstr where
  "ru_zone_one =
    [1079, 1086, 1085, 1072]" \<comment> \<open>zona\<close>

definition ru_zone_few :: jsstr where
  "ru_zone_few =
    [1079, 1086, 1085, 1099]" \<comment> \<open>zony\<close>

definition ru_zone_many :: jsstr where
  "ru_zone_many =
    [1079, 1086, 1085]" \<comment> \<open>zon\<close>

definition ru_dot_sep :: jsstr where
  "ru_dot_sep =
    [32, 183, 32]" \<comment> \<open> . \<close>

subsection \<open>web/lib/server-api.ts\<close>

definition ru_bad_server_answer :: jsstr where
  "ru_bad_server_answer =
    [1053, 1077, 1074, 1077, 1088, 1085, 1099, 1081, 32, 1086, 1090, 1074, 1077, 1090, 32, 1089,
     1077, 1088, 1074, 1077, 1088, 1072]" \<comment> \<open>Nevernyy otvet servera\<close>

subsection \<open>web/lib/site-config.ts\<close>

definition ru_premium_description :: jsstr where
  "ru_premium_description =
    [1041, 1099, 1089, 1090, 1088, 1099, 1081, 32, 1079, 1072, 1097, 1080, 1097, 1077, 1085,
     1085, 1099, 1081, 32, 1076, 1086, 1089, 1090, 1091, 1087, 32, 1076, 1083, 1103, 32, 1077,
     1078, 1077, 1076, 1085, 1077, 1074, 1085, 1086, 1081, 32, 1088, 1072, 1073, 1086, 1090,
     1099, 46]" \<comment> \<open>Bystryy zaschischennyy dostup dlya ezhednevnoy raboty.\<close>

definition ru_one_month :: jsstr where
  "ru_one_month =
    [49, 32, 1084, 1077, 1089, 1103, 1094]" \<comment> \<open>1 mesyats\<close>

definition ru_three_months :: jsstr where
  "ru_three_months =
    [51, 32, 1084, 1077, 1089, 1103, 1094, 1072]" \<comment> \<open>3 mesyatsa\<close>

definition ru_unlimited :: jsstr where
  "ru_unlimited =
    [1041, 1077, 1079, 1083, 1080, 1084, 1080, 1090, 1085, 1099, 1081, 32, 1090, 1088, 1072,
     1092, 1080, 1082]" \<comment> \<open>Bezlimitnyy trafik\<close>

definition ru_all_platforms :: jsstr where
  "ru_all_platforms =
    [1042, 1089, 1077, 32, 1086, 1089, 1085, 1086, 1074, 1085, 1099, 1077, 32, 1087, 1083, 1072,
     1090, 1092, 1086, 1088, 1084, 1099]" \<comment> \<open>Vse osnovnye platformy\<close>

definition ru_quick_connect :: jsstr where
  "ru_quick_connect =
    [1041, 1099, 1089, 1090, 1088, 1086, 1077, 32, 1087, 1086, 1076, 1082, 1083, 1102, 1095,
     1077, 1085, 1080, 1077]" \<comment> \<open>Bystroe podklyuchenie\<close>

definition ru_vip_description :: jsstr where
  "ru_vip_description =
    [1055, 1088, 1080, 1086, 1088, 1080, 1090, 1077, 1090, 1085, 1072, 1103, 32, 1089, 1077,
     1090, 1100, 44, 32, 88, 114, 97, 121, 32, 1080, 32, 1088, 1072, 1089, 1096, 1080, 1088,
     1077, 1085, 1085, 1099, 1077, 32, 1092, 1091, 1085, 1082, 1094, 1080, 1080, 32, 1087, 1088,
     1080, 1074, 1072, 1090, 1085, 1086, 1089, 1090, 1080, 46]" \<comment> \<open>Prioritetnaya set, Xray i rasshirennye funktsii privatnosti.\<close>

definition ru_vip_servers :: jsstr where
  "ru_vip_servers =
    [86, 73, 80, 45, 1089, 1077, 1088, 1074, 1077, 1088, 1099]" \<comment> \<open>VIP-servery\<close>

definition ru_quick_chat :: jsstr where
  "ru_quick_chat =
    [1041, 1099, 1089, 1090, 1088, 1099, 1081, 32, 1095, 1072, 1090]" \<comment> \<open>Bystryy chat\<close>

definition ru_messenger_support :: jsstr where
  "ru_messenger_support =
    [1055, 1086, 1076, 1076, 1077, 1088, 1078, 1082, 1072, 32, 1074, 32, 1084, 1077, 1089, 1089,
     1077, 1085, 1076, 1078, 1077, 1088, 1077]" \<comment> \<open>Podderzhka v messendzhere\<close>

definition ru_russian_messenger :: jsstr where
  "ru_russian_messenger =
    [1056, 1086, 1089, 1089, 1080, 1081, 1089, 1082, 1080, 1081, 32, 1084, 1077, 1089, 1089,
     1077, 1085, 1076, 1078, 1077, 1088]" \<comment> \<open>Rossiyskiy messendzher\<close>

subsection \<open>web/components/AuthForm.tsx\<close>

definition ru_login_title :: jsstr where
  "ru_login_title =
    [1057, 32, 1074, 1086, 1079, 1074, 1088, 1072, 1097, 1077, 1085, 1080, 1077, 1084]" \<comment> \<open>S vozvrascheniem\<close>

definition ru_login_subtitle :: jsstr where
  "ru_login_subtitle =
    [1042, 1086, 1081, 1076, 1080, 1090, 1077, 44, 32, 1095, 1090, 1086, 1073, 1099, 32, 1087,
     1088, 1086, 1076, 1083, 1080, 1090, 1100, 32, 1087, 1086, 1076, 1087, 1080, 1089, 1082,
     1091, 32, 1080, 1083, 1080, 32, 1089, 1082, 1072, 1095, 1072, 1090, 1100, 32, 1087, 1088,
     1080, 1083, 1086, 1078, 1077, 1085, 1080, 1077, 46]" \<comment> \<open>Voydite, chtoby prodlit podpisku ili skachat prilozhenie.\<close>

definition ru_login_cta :: jsstr where
  "ru_login_cta =
    [1042, 1086, 1081, 1090, 1080]" \<comment> \<open>Voyti\<close>

definition ru_register_title :: jsstr where
  "ru_register_title =
    [1057, 1086, 1079, 1076, 1072, 1085, 1080, 1077, 32, 1072, 1082, 1082, 1072, 1091, 1085,
     1090, 1072]" \<comment> \<open>Sozdanie akkaunta\<close>

definition ru_register_subtitle :: jsstr where
  "ru_register_subtitle =
    [69, 109, 97, 105, 108, 32, 1089, 1090, 1072, 1085, 1077, 1090, 32, 1074, 1072, 1096, 1080,
     1084, 32, 1083, 1086, 1075, 1080, 1085, 1086, 1084, 32, 1085, 1072, 32, 1074, 1089, 1077,
     1093, 32, 1091, 1089, 1090, 1088, 1086, 1081, 1089, 1090, 1074, 1072, 1093, 46, 32, 1055,
     1072, 1088, 1086, 1083, 1100, 32, 1086, 1090, 32, 56, 32, 1089, 1080, 1084, 1074, 1086,
     1083, 1086, 1074, 46]" \<comment> \<open>Email stanet vashim loginom na vseh ustroystvah. Parol ot 8 simvolov.\<close>

definition ru_register_cta :: jsstr where
  "ru_register_cta =
    [1057, 1086, 1079, 1076, 1072, 1090, 1100, 32, 1072, 1082, 1082, 1072, 1091, 1085, 1090]" \<comment> \<open>Sozdat akkaunt\<close>

definition ru_reset_title :: jsstr where
  "ru_reset_title =
    [1042, 1086, 1089, 1089, 1090, 1072, 1085, 1086, 1074, 1083, 1077, 1085, 1080, 1077, 32,
     1087, 1072, 1088, 1086, 1083, 1103]" \<comment> \<open>Vosstanovlenie parolya\<close>

definition ru_reset_subtitle :: jsstr where
  "ru_reset_subtitle =
    [1042, 1074, 1077, 1076, 1080, 1090, 1077, 32, 101, 109, 97, 105, 108, 32, 8212, 32, 1087,
     1088, 1080, 1096, 1083, 1077, 1084, 32, 1082, 1086, 1076, 32, 1076, 1083, 1103, 32, 1089,
     1073, 1088, 1086, 1089, 1072, 32, 1087, 1072, 1088, 1086, 1083, 1103, 46]" \<comment> \<open>Vvedite email - prishlem kod dlya sbrosa parolya.\<close>

definition ru_reset_cta :: jsstr where
  "ru_reset_cta =
    [1054, 1090, 1087, 1088, 1072, 1074, 1080, 1090, 1100, 32, 1082, 1086, 1076]" \<comment> \<open>Otpravit kod\<close>

definition ru_request_failed :: jsstr where
  "ru_request_failed =
    [1053, 1077, 32, 1091, 1076, 1072, 1083, 1086, 1089, 1100, 32, 1074, 1099, 1087, 1086, 1083,
     1085, 1080, 1090, 1100, 32, 1079, 1072, 1087, 1088, 1086, 1089]" \<comment> \<open>Ne udalos vypolnit zapros\<close>

definition ru_code_sent :: jsstr where
  "ru_code_sent =
    [1050, 1086, 1076, 32, 1087, 1086, 1076, 1090, 1074, 1077, 1088, 1078, 1076, 1077, 1085,
     1080, 1103, 32, 1086, 1090, 1087, 1088, 1072, 1074, 1083, 1077, 1085, 32, 1085, 1072, 32,
     101, 109, 97, 105, 108, 46]" \<comment> \<open>Kod podtverzhdeniya otpravlen na email.\<close>

definition ru_code_maybe_sent :: jsstr where
  "ru_code_maybe_sent =
    [1045, 1089, 1083, 1080, 32, 101, 109, 97, 105, 108, 32, 1079, 1072, 1088, 1077, 1075, 1080,
     1089, 1090, 1088, 1080, 1088, 1086, 1074, 1072, 1085, 44, 32, 1082, 1086, 1076, 32, 1091,
     1078, 1077, 32, 1086, 1090, 1087, 1088, 1072, 1074, 1083, 1077, 1085, 46]" \<comment> \<open>Esli email zaregistrirovan, kod uzhe otpravlen.\<close>

definition ru_password_updated :: jsstr where
  "ru_password_updated =
    [1055, 1072, 1088, 1086, 1083, 1100, 32, 1086, 1073, 1085, 1086, 1074, 1083, 1077, 1085, 46,
     32, 1042, 1086, 1081, 1076, 1080, 1090, 1077, 32, 1089, 32, 1085, 1086, 1074, 1099, 1084,
     32, 1087, 1072, 1088, 1086, 1083, 1077, 1084, 46]" \<comment> \<open>Parol obnovlen. Voydite s novym parolem.\<close>

definition ru_please_wait :: jsstr where
  "ru_please_wait =
    [1055, 1086, 1076, 1086, 1078, 1076, 1080, 1090, 1077, 46, 46, 46]" \<comment> \<open>Podozhdite...\<close>

definition ru_confirm :: jsstr where
  "ru_confirm =
    [1055, 1086, 1076, 1090, 1074, 1077, 1088, 1076, 1080, 1090, 1100]" \<comment> \<open>Podtverdit\<close>

definition ru_encryption_eyebrow :: jsstr where
  "ru_encryption_eyebrow =
    [1064, 1080, 1092, 1088, 1086, 1074, 1072, 1085, 1080, 1077, 32, 65, 109, 110, 101, 122,
     105, 97, 87, 71, 32, 183, 32, 1041, 1077, 1079, 32, 1083, 1086, 1075, 1086, 1074]" \<comment> \<open>Shifrovanie AmneziaWG . Bez logov\<close>

definition ru_new_password :: jsstr where
  "ru_new_password =
    [1053, 1086, 1074, 1099, 1081, 32, 1087, 1072, 1088, 1086, 1083, 1100]" \<comment> \<open>Novyy parol\<close>

definition ru_password :: jsstr where
  "ru_password =
    [1055, 1072, 1088, 1086, 1083, 1100]" \<comment> \<open>Parol\<close>

definition ru_forgot_password :: jsstr where
  "ru_forgot_password =
    [1047, 1072, 1073, 1099, 1083, 1080, 32, 1087, 1072, 1088, 1086, 1083, 1100, 63]" \<comment> \<open>Zabyli parol?\<close>

definition ru_code_from_email :: jsstr where
  "ru_code_from_email =
    [1050, 1086, 1076, 32, 1080, 1079, 32, 101, 109, 97, 105, 108]" \<comment> \<open>Kod iz email\<close>

definition ru_no_account :: jsstr where
  "ru_no_account =
    [1053, 1077, 1090, 32, 1072, 1082, 1082, 1072, 1091, 1085, 1090, 1072, 63]" \<comment> \<open>Net akkaunta?\<close>

definition ru_create :: jsstr where
  "ru_create =
    [1057, 1086, 1079, 1076, 1072, 1090, 1100]" \<comment> \<open>Sozdat\<close>

definition ru_have_account :: jsstr where
  "ru_have_account =
    [1059, 1078, 1077, 32, 1077, 1089, 1090, 1100, 32, 1072, 1082, 1082, 1072, 1091, 1085, 1090,
     63]" \<comment> \<open>Uzhe est akkaunt?\<close>

definition ru_back_to_login :: jsstr where
  "ru_back_to_login =
    [1053, 1072, 1079, 1072, 1076, 32, 1082, 1086, 32, 1074, 1093, 1086, 1076, 1091]" \<comment> \<open>Nazad ko vhodu\<close>

definition ru_fineprint :: jsstr where
  "ru_fineprint =
    [1055, 1088, 1086, 1076, 1086, 1083, 1078, 1072, 1103, 44, 32, 1074, 1099, 32, 1089, 1086,
     1075, 1083, 1072, 1096, 1072, 1077, 1090, 1077, 1089, 1100, 32, 1089, 32, 1091, 1089, 1083,
     1086, 1074, 1080, 1103, 1084, 1080, 32, 1087, 1086, 1076, 1087, 1080, 1089, 1082, 1080, 46]" \<comment> \<open>Prodolzhaya, vy soglashaetes s usloviyami podpiski.\<close>

subsection \<open>web/components/PromoCodeInput.tsx\<close>

definition ru_promo_invalid :: jsstr where
  "ru_promo_invalid =
    [1055, 1088, 1086, 1084, 1086, 1082, 1086, 1076, 32, 1085, 1077, 1076, 1077, 1081, 1089,
     1090, 1074, 1080, 1090, 1077, 1083, 1077, 1085]" \<comment> \<open>Promokod nedeystvitelen\<close>

definition ru_promo_not_applied :: jsstr where
  "ru_promo_not_applied =
    [1055, 1088, 1086, 1084, 1086, 1082, 1086, 1076, 32, 1085, 1077, 32, 1087, 1088, 1080, 1084,
     1077, 1085, 1105, 1085, 32, 1082, 32, 1101, 1090, 1086, 1084, 1091, 32, 1090, 1072, 1088,
     1080, 1092, 1091]" \<comment> \<open>Promokod ne primenyon k etomu tarifu\<close>

definition ru_connection_error :: jsstr where
  "ru_connection_error =
    [1054, 1096, 1080, 1073, 1082, 1072, 32, 1089, 1086, 1077, 1076, 1080, 1085, 1077, 1085,
     1080, 1103]" \<comment> \<open>Oshibka soedineniya\<close>

definition ru_have_promo :: jsstr where
  "ru_have_promo =
    [1045, 1089, 1090, 1100, 32, 1087, 1088, 1086, 1084, 1086, 1082, 1086, 1076, 63]" \<comment> \<open>Est promokod?\<close>

definition ru_apply :: jsstr where
  "ru_apply =
    [1055, 1088, 1080, 1084, 1077, 1085, 1080, 1090, 1100]" \<comment> \<open>Primenit\<close>

definition ru_discount :: jsstr where
  "ru_discount =
    [1057, 1082, 1080, 1076, 1082, 1072, 32]" \<comment> \<open>Skidka \<close>

definition ru_discount_applied :: jsstr where
  "ru_discount_applied =
    [32, 1091, 1089, 1087, 1077, 1096, 1085, 1086, 32, 1087, 1088, 1080, 1084, 1077, 1085, 1077,
     1085, 1072, 33]" \<comment> \<open> uspeshno primenena!\<close>

subsection \<open>web/components/ui/ruixen-pricing-04.tsx\<close>

definition ru_creating_payment :: jsstr where
  "ru_creating_payment =
    [1057, 1086, 1079, 1076, 1072, 1077, 1084, 32, 1087, 1083, 1072, 1090, 1077, 1078, 46, 46, 46]" \<comment> \<open>Sozdaem platezh...\<close>

definition ru_choose :: jsstr where
  "ru_choose =
    [1042, 1099, 1073, 1088, 1072, 1090, 1100]" \<comment> \<open>Vybrat\<close>

definition ru_continue :: jsstr where
  "ru_continue =
    [1055, 1088, 1086, 1076, 1086, 1083, 1078, 1080, 1090, 1100]" \<comment> \<open>Prodolzhit\<close>

definition ru_current_plan :: jsstr where
  "ru_current_plan =
    [1058, 1077, 1082, 1091, 1097, 1080, 1081, 32, 1090, 1072, 1088, 1080, 1092]" \<comment> \<open>Tekuschiy tarif\<close>

definition ru_renew :: jsstr where
  "ru_renew =
    [1055, 1088, 1086, 1076, 1083, 1080, 1090, 1100]" \<comment> \<open>Prodlit\<close>

definition ru_vip_connected :: jsstr where
  "ru_vip_connected =
    [86, 73, 80, 32, 1087, 1086, 1076, 1082, 1083, 1102, 1095, 1077, 1085]" \<comment> \<open>VIP podklyuchen\<close>

definition ru_go_vip :: jsstr where
  "ru_go_vip =
    [1055, 1077, 1088, 1077, 1081, 1090, 1080, 32, 1085, 1072, 32, 86, 73, 80]" \<comment> \<open>Pereyti na VIP\<close>

definition ru_choose_subscription :: jsstr where
  "ru_choose_subscription =
    [1042, 1099, 1073, 1077, 1088, 1080, 1090, 1077, 32, 1087, 1086, 1076, 1087, 1080, 1089,
     1082, 1091]" \<comment> \<open>Vyberite podpisku\<close>

definition ru_pricing_lead :: jsstr where
  "ru_pricing_lead =
    [80, 114, 101, 109, 105, 117, 109, 32, 1076, 1083, 1103, 32, 1077, 1078, 1077, 1076, 1085,
     1077, 1074, 1085, 1086, 1075, 1086, 32, 86, 80, 78, 32, 1080, 1083, 1080, 32, 86, 73, 80,
     32, 1076, 1083, 1103, 32, 1087, 1088, 1080, 1086, 1088, 1080, 1090, 1077, 1090, 1085, 1086,
     1081, 32, 1089, 1077, 1090, 1080, 46, 32, 1044, 1072, 1083, 1100, 1096, 1077, 32, 1086,
     1089, 1090, 1072, 1085, 1077, 1090, 1089, 1103, 32, 1090, 1086, 1083, 1100, 1082, 1086, 32,
     1086, 1087, 1083, 1072, 1090, 1080, 1090, 1100, 32, 1080, 32, 1089, 1082, 1072, 1095, 1072,
     1090, 1100, 32, 1087, 1088, 1080, 1083, 1086, 1078, 1077, 1085, 1080, 1077, 46]" \<comment> \<open>Premium dlya ezhednevnogo VPN ili VIP dlya prioritetnoy seti. Dalshe ostanetsya tolko oplatit i skachat prilozhenie.\<close>

definition ru_minus :: jsstr where
  "ru_minus =
    [8722]" \<comment> \<open>-\<close>

definition ru_checkout :: jsstr where
  "ru_checkout =
    [1054, 1092, 1086, 1088, 1084, 1083, 1077, 1085, 1080, 1077, 32, 1079, 1072, 1082, 1072,
     1079, 1072]" \<comment> \<open>Oformlenie zakaza\<close>

definition ru_plan_bullet :: jsstr where
  "ru_plan_bullet =
    [1058, 1072, 1088, 1080, 1092, 1085, 1099, 1081, 32, 1087, 1083, 1072, 1085, 32, 8226, 32]" \<comment> \<open>Tarifnyy plan * \<close>

definition ru_base_price :: jsstr where
  "ru_base_price =
    [1041, 1072, 1079, 1086, 1074, 1072, 1103, 32, 1094, 1077, 1085, 1072]" \<comment> \<open>Bazovaya tsena\<close>

definition ru_rouble_suffix :: jsstr where
  "ru_rouble_suffix =
    [32, 8381]" \<comment> \<open> RUB\<close>

definition ru_promo_discount_open :: jsstr where
  "ru_promo_discount_open =
    [1057, 1082, 1080, 1076, 1082, 1072, 32, 1087, 1086, 32, 1087, 1088, 1086, 1084, 1086, 1082,
     1086, 1076, 1091, 32, 40]" \<comment> \<open>Skidka po promokodu (\<close>

definition ru_total_due :: jsstr where
  "ru_total_due =
    [1048, 1090, 1086, 1075, 1086, 32, 1082, 32, 1086, 1087, 1083, 1072, 1090, 1077, 58]" \<comment> \<open>Itogo k oplate:\<close>

definition ru_pay :: jsstr where
  "ru_pay =
    [1054, 1087, 1083, 1072, 1090, 1080, 1090, 1100]" \<comment> \<open>Oplatit\<close>

definition ru_active_subscription :: jsstr where
  "ru_active_subscription =
    [1040, 1082, 1090, 1080, 1074, 1085, 1072, 1103, 32, 1087, 1086, 1076, 1087, 1080, 1089,
     1082, 1072]" \<comment> \<open>Aktivnaya podpiska\<close>

definition ru_per_month :: jsstr where
  "ru_per_month =
    [47, 1084, 1077, 1089]" \<comment> \<open>/mes\<close>

definition ru_per_3_months :: jsstr where
  "ru_per_3_months =
    [47, 51, 32, 1084, 1077, 1089]" \<comment> \<open>/3 mes\<close>

definition ru_approx :: jsstr where
  "ru_approx =
    [8776, 32]" \<comment> \<open>~ \<close>

definition ru_rouble_per_month :: jsstr where
  "ru_rouble_per_month =
    [32, 8381, 47, 1084, 1077, 1089]" \<comment> \<open> RUB/mes\<close>

definition ru_selected :: jsstr where
  "ru_selected =
    [1042, 1099, 1073, 1088, 1072, 1085]" \<comment> \<open>Vybran\<close>

definition ru_pay_1_month :: jsstr where
  "ru_pay_1_month =
    [1054, 1087, 1083, 1072, 1090, 1072, 32, 1079, 1072, 32, 49, 32, 1084, 1077, 1089, 1103, 1094]" \<comment> \<open>Oplata za 1 mesyats\<close>

definition ru_pay_3_months_save :: jsstr where
  "ru_pay_3_months_save =
    [1054, 1087, 1083, 1072, 1090, 1072, 32, 1089, 1088, 1072, 1079, 1091, 32, 1079, 1072, 32,
     51, 32, 1084, 1077, 1089, 1103, 1094, 1072, 32, 8212, 32, 8722]" \<comment> \<open>Oplata srazu za 3 mesyatsa - -\<close>

definition ru_pay_3_months :: jsstr where
  "ru_pay_3_months =
    [1054, 1087, 1083, 1072, 1090, 1072, 32, 1089, 1088, 1072, 1079, 1091, 32, 1079, 1072, 32,
     51, 32, 1084, 1077, 1089, 1103, 1094, 1072]" \<comment> \<open>Oplata srazu za 3 mesyatsa\<close>

definition ru_included :: jsstr where
  "ru_included =
    [1042, 1082, 1083, 1102, 1095, 1077, 1085, 1086, 58]" \<comment> \<open>Vklyucheno:\<close>

subsection \<open>web/components/PlanChooser.tsx\<close>

definition ru_total :: jsstr where
  "ru_total =
    [1048, 1090, 1086, 1075, 1086]" \<comment> \<open>Itogo\<close>

subsection \<open>deploy/installer\<close>

definition ru_ready_to_install :: jsstr where
  "ru_ready_to_install =
    [1042, 1089, 1105, 32, 1075, 1086, 1090, 1086, 1074, 1086, 32, 1082, 32, 1091, 1089, 1090,
     1072, 1085, 1086, 1074, 1082, 1077]" \<comment> \<open>Vsyo gotovo k ustanovke\<close>

definition ru_binary_path_name :: jsstr where
  "ru_binary_path_name =
    [1048, 1084, 1103, 95, 1076, 1074, 1086, 1080, 1095, 1085, 1086, 1075, 1086, 95, 1092, 1072,
     1081, 1083, 1072]" \<comment> \<open>Imya_dvoichnogo_fayla\<close>

subsection \<open>web/components/Dashboard.tsx\<close>

definition ru_autorenew_failed :: jsstr where
  "ru_autorenew_failed =
    [1054, 1096, 1080, 1073, 1082, 1072, 32, 1087, 1088, 1080, 32, 1080, 1079, 1084, 1077, 1085,
     1077, 1085, 1080, 1080, 32, 1072, 1074, 1090, 1086, 1089, 1087, 1080, 1089, 1072, 1085,
     1080, 1103]" \<comment> \<open>Oshibka pri izmenenii avtospisaniya\<close>

definition ru_payment_not_created :: jsstr where
  "ru_payment_not_created =
    [1053, 1077, 32, 1091, 1076, 1072, 1083, 1086, 1089, 1100, 32, 1089, 1086, 1079, 1076, 1072,
     1090, 1100, 32, 1087, 1083, 1072, 1090, 1077, 1078]" \<comment> \<open>Ne udalos sozdat platezh\<close>

definition ru_subscription_activated :: jsstr where
  "ru_subscription_activated =
    [1055, 1086, 1076, 1087, 1080, 1089, 1082, 1072, 32, 1072, 1082, 1090, 1080, 1074, 1080,
     1088, 1086, 1074, 1072, 1085, 1072, 46]" \<comment> \<open>Podpiska aktivirovana.\<close>

definition ru_link_not_created :: jsstr where
  "ru_link_not_created =
    [1053, 1077, 32, 1091, 1076, 1072, 1083, 1086, 1089, 1100, 32, 1089, 1086, 1079, 1076, 1072,
     1090, 1100, 32, 1089, 1089, 1099, 1083, 1082, 1091]" \<comment> \<open>Ne udalos sozdat ssylku\<close>

definition ru_link_not_received :: jsstr where
  "ru_link_not_received =
    [1053, 1077, 32, 1091, 1076, 1072, 1083, 1086, 1089, 1100, 32, 1087, 1086, 1083, 1091, 1095,
     1080, 1090, 1100, 32, 1089, 1089, 1099, 1083, 1082, 1091]" \<comment> \<open>Ne udalos poluchit ssylku\<close>

definition ru_loading_dashboard :: jsstr where
  "ru_loading_dashboard =
    [1047, 1072, 1075, 1088, 1091, 1078, 1072, 1077, 1084, 32, 1082, 1072, 1073, 1080, 1085,
     1077, 1090, 46, 46, 46]" \<comment> \<open>Zagruzhaem kabinet...\<close>

definition ru_em_dash :: jsstr where
  "ru_em_dash =
    [8212]" \<comment> \<open>-\<close>

definition ru_support :: jsstr where
  "ru_support =
    [1055, 1086, 1076, 1076, 1077, 1088, 1078, 1082, 1072]" \<comment> \<open>Podderzhka\<close>

definition ru_home :: jsstr where
  "ru_home =
    [1043, 1083, 1072, 1074, 1085, 1072, 1103]" \<comment> \<open>Glavnaya\<close>

definition ru_subscription :: jsstr where
  "ru_subscription =
    [1055, 1086, 1076, 1087, 1080, 1089, 1082, 1072]" \<comment> \<open>Podpiska\<close>

definition ru_download :: jsstr where
  "ru_download =
    [1057, 1082, 1072, 1095, 1072, 1090, 1100]" \<comment> \<open>Skachat\<close>

definition ru_sign_out :: jsstr where
  "ru_sign_out =
    [1042, 1099, 1081, 1090, 1080]" \<comment> \<open>Vyyti\<close>

definition ru_protection_on :: jsstr where
  "ru_protection_on =
    [1047, 1072, 1097, 1080, 1090, 1072, 32, 1074, 1082, 1083, 1102, 1095, 1077, 1085, 1072]" \<comment> \<open>Zaschita vklyuchena\<close>

definition ru_subscription_expired :: jsstr where
  "ru_subscription_expired =
    [1055, 1086, 1076, 1087, 1080, 1089, 1082, 1072, 32, 1080, 1089, 1090, 1077, 1082, 1083, 1072]" \<comment> \<open>Podpiska istekla\<close>

definition ru_free_tariff :: jsstr where
  "ru_free_tariff =
    [1041, 1077, 1089, 1087, 1083, 1072, 1090, 1085, 1099, 1081, 32, 1090, 1072, 1088, 1080, 1092]" \<comment> \<open>Besplatnyy tarif\<close>

definition ru_subscription_active :: jsstr where
  "ru_subscription_active =
    [1055, 1086, 1076, 1087, 1080, 1089, 1082, 1072, 32, 1072, 1082, 1090, 1080, 1074, 1085, 1072]" \<comment> \<open>Podpiska aktivna\<close>

definition ru_renewal_needed :: jsstr where
  "ru_renewal_needed =
    [1058, 1088, 1077, 1073, 1091, 1077, 1090, 1089, 1103, 32, 1087, 1088, 1086, 1076, 1083,
     1077, 1085, 1080, 1077]" \<comment> \<open>Trebuetsya prodlenie\<close>

definition ru_free_plan :: jsstr where
  "ru_free_plan =
    [1041, 1077, 1089, 1087, 1083, 1072, 1090, 1085, 1099, 1081, 32, 1087, 1083, 1072, 1085]" \<comment> \<open>Besplatnyy plan\<close>

definition ru_days_left :: jsstr where
  "ru_days_left =
    [1054, 1089, 1090, 1072, 1083, 1086, 1089, 1100, 32]" \<comment> \<open>Ostalos \<close>

definition ru_free_lead :: jsstr where
  "ru_free_lead =
    [1044, 1086, 1089, 1090, 1091, 1087, 1077, 1085, 32, 1073, 1072, 1079, 1086, 1074, 1099,
     1081, 32, 1092, 1091, 1085, 1082, 1094, 1080, 1086, 1085, 1072, 1083, 46, 32, 1042, 1099,
     1073, 1077, 1088, 1080, 1090, 1077, 32, 1087, 1083, 1072, 1085, 32, 1076, 1083, 1103, 32,
     1087, 1086, 1083, 1085, 1086, 1075, 1086, 32, 1076, 1086, 1089, 1090, 1091, 1087, 1072, 46]" \<comment> \<open>Dostupen bazovyy funktsional. Vyberite plan dlya polnogo dostupa.\<close>

definition ru_valid_until :: jsstr where
  "ru_valid_until =
    [1044, 1077, 1081, 1089, 1090, 1074, 1091, 1077, 1090, 32, 1076, 1086, 32]" \<comment> \<open>Deystvuet do \<close>

definition ru_manage_below :: jsstr where
  "ru_manage_below =
    [46, 32, 1059, 1087, 1088, 1072, 1074, 1083, 1103, 1081, 1090, 1077, 32, 1087, 1086, 1076,
     1087, 1080, 1089, 1082, 1086, 1081, 32, 1085, 1080, 1078, 1077, 46]" \<comment> \<open>. Upravlyayte podpiskoy nizhe.\<close>

definition ru_expired_lead :: jsstr where
  "ru_expired_lead =
    [1042, 1099, 1073, 1077, 1088, 1080, 1090, 1077, 32, 1087, 1083, 1072, 1085, 32, 8212, 32,
     1080, 32, 1087, 1086, 1076, 1082, 1083, 1102, 1095, 1077, 1085, 1080, 1077, 32, 1074, 1086,
     1089, 1089, 1090, 1072, 1085, 1086, 1074, 1080, 1090, 1089, 1103, 32, 1089, 1088, 1072,
     1079, 1091, 32, 1087, 1086, 1089, 1083, 1077, 32, 1086, 1087, 1083, 1072, 1090, 1099, 46]" \<comment> \<open>Vyberite plan - i podklyuchenie vosstanovitsya srazu posle oplaty.\<close>

definition ru_plan_word :: jsstr where
  "ru_plan_word =
    [1055, 1083, 1072, 1085]" \<comment> \<open>Plan\<close>

definition ru_auto_renew :: jsstr where
  "ru_auto_renew =
    [1040, 1074, 1090, 1086, 1087, 1088, 1086, 1076, 1083, 1077, 1085, 1080, 1077]" \<comment> \<open>Avtoprodlenie\<close>

definition ru_enabled :: jsstr where
  "ru_enabled =
    [1042, 1082, 1083, 1102, 1095, 1077, 1085, 1086]" \<comment> \<open>Vklyucheno\<close>

definition ru_switching_off :: jsstr where
  "ru_switching_off =
    [1054, 1090, 1082, 1083, 1102, 1095, 1077, 1085, 1080, 1077, 46, 46, 46]" \<comment> \<open>Otklyuchenie...\<close>

definition ru_switch_off :: jsstr where
  "ru_switch_off =
    [1054, 1090, 1082, 1083, 1102, 1095, 1080, 1090, 1100]" \<comment> \<open>Otklyuchit\<close>

definition ru_plan_chosen :: jsstr where
  "ru_plan_chosen =
    [1058, 1072, 1088, 1080, 1092, 32, 1074, 1099, 1073, 1088, 1072, 1085, 46, 32, 1047, 1072,
     1074, 1077, 1088, 1096, 1080, 1090, 1077, 32, 1086, 1087, 1083, 1072, 1090, 1091, 32, 1085,
     1080, 1078, 1077, 46]" \<comment> \<open>Tarif vybran. Zavershite oplatu nizhe.\<close>

definition ru_renew_or_change :: jsstr where
  "ru_renew_or_change =
    [1055, 1088, 1086, 1076, 1083, 1080, 1090, 1100, 32, 1080, 1083, 1080, 32, 1089, 1084, 1077,
     1085, 1080, 1090, 1100, 32, 1087, 1083, 1072, 1085]" \<comment> \<open>Prodlit ili smenit plan\<close>

definition ru_activate_access :: jsstr where
  "ru_activate_access =
    [1040, 1082, 1090, 1080, 1074, 1080, 1088, 1086, 1074, 1072, 1090, 1100, 32, 1076, 1086,
     1089, 1090, 1091, 1087]" \<comment> \<open>Aktivirovat dostup\<close>

definition ru_apps :: jsstr where
  "ru_apps =
    [1055, 1088, 1080, 1083, 1086, 1078, 1077, 1085, 1080, 1103]" \<comment> \<open>Prilozheniya\<close>

definition ru_download_app :: jsstr where
  "ru_download_app =
    [1057, 1082, 1072, 1095, 1072, 1090, 1100, 32, 70, 66, 76, 105, 110, 107, 32, 86, 80, 78]" \<comment> \<open>Skachat FBLink VPN\<close>

definition ru_download_lead :: jsstr where
  "ru_download_lead =
    [1042, 1099, 1073, 1077, 1088, 1080, 1090, 1077, 32, 1087, 1083, 1072, 1090, 1092, 1086,
     1088, 1084, 1091, 46, 32, 1040, 1074, 1090, 1086, 1088, 1080, 1079, 1072, 1094, 1080, 1103,
     32, 8212, 32, 1090, 1077, 1084, 32, 1078, 1077, 32, 101, 109, 97, 105, 108, 46]" \<comment> \<open>Vyberite platformu. Avtorizatsiya - tem zhe email.\<close>

definition ru_into_happ :: jsstr where
  "ru_into_happ =
    [1042, 32, 72, 97, 112, 112]" \<comment> \<open>V Happ\<close>

definition ru_support_24_7 :: jsstr where
  "ru_support_24_7 =
    [1055, 1086, 1076, 1076, 1077, 1088, 1078, 1082, 1072, 32, 50, 52, 47, 55]" \<comment> \<open>Podderzhka 24/7\<close>

definition ru_support_lead :: jsstr where
  "ru_support_lead =
    [1054, 1090, 1074, 1077, 1095, 1072, 1077, 1084, 32, 1074, 32, 1090, 1077, 1095, 1077, 1085,
     1080, 1077, 32, 1095, 1072, 1089, 1072, 46, 32, 69, 109, 97, 105, 108, 32, 1080, 1083,
     1080, 32, 84, 101, 108, 101, 103, 114, 97, 109, 32, 8212, 32, 1095, 1090, 1086, 32, 1091,
     1076, 1086, 1073, 1085, 1077, 1077, 46]" \<comment> \<open>Otvechaem v techenie chasa. Email ili Telegram - chto udobnee.\<close>

definition ru_account_data :: jsstr where
  "ru_account_data =
    [1044, 1072, 1085, 1085, 1099, 1077, 32, 1072, 1082, 1082, 1072, 1091, 1085, 1090, 1072]" \<comment> \<open>Dannye akkaunta\<close>

definition ru_account_lead :: jsstr where
  "ru_account_lead =
    [1055, 1086, 1076, 1087, 1080, 1089, 1082, 1072, 32, 1087, 1088, 1080, 1074, 1103, 1079,
     1072, 1085, 1072, 32, 1082, 32, 101, 109, 97, 105, 108, 46, 32, 1053, 1072, 32, 1083, 1102,
     1073, 1086, 1084, 32, 1091, 1089, 1090, 1088, 1086, 1081, 1089, 1090, 1074, 1077, 32, 8212,
     32, 1090, 1086, 1090, 32, 1078, 1077, 32, 1083, 1086, 1075, 1080, 1085, 32, 1080, 32, 1087,
     1072, 1088, 1086, 1083, 1100, 46]" \<comment> \<open>Podpiska privyazana k email. Na lyubom ustroystve - tot zhe login i parol.\<close>

definition ru_are_you_sure :: jsstr where
  "ru_are_you_sure =
    [1042, 1099, 32, 1091, 1074, 1077, 1088, 1077, 1085, 1099, 63]" \<comment> \<open>Vy uvereny?\<close>

definition ru_cancel_warning :: jsstr where
  "ru_cancel_warning =
    [1054, 1090, 1082, 1083, 1102, 1095, 1072, 1103, 32, 1072, 1074, 1090, 1086, 1089, 1087,
     1080, 1089, 1072, 1085, 1080, 1077, 44, 32, 1074, 1099, 32, 1088, 1080, 1089, 1082, 1091,
     1077, 1090, 1077, 32, 1086, 1089, 1090, 1072, 1090, 1100, 1089, 1103, 32, 1073, 1077, 1079,
     32, 1079, 1072, 1097, 1080, 1090, 1099, 32, 1074, 32, 1089, 1072, 1084, 1099, 1081, 32,
     1085, 1077, 1087, 1086, 1076, 1093, 1086, 1076, 1103, 1097, 1080, 1081, 32, 1084, 1086,
     1084, 1077, 1085, 1090, 46, 32, 1042, 1072, 1096, 1072, 32, 1087, 1086, 1076, 1087, 1080,
     1089, 1082, 1072, 32, 1085, 1077, 32, 1073, 1091, 1076, 1077, 1090, 32, 1087, 1088, 1086,
     1076, 1083, 1077, 1085, 1072, 32, 1072, 1074, 1090, 1086, 1084, 1072, 1090, 1080, 1095,
     1077, 1089, 1082, 1080, 46]" \<comment> \<open>Otklyuchaya avtospisanie, vy riskuete ostatsya bez zaschity v samyy nepodhodyaschiy moment. Vasha podpiska ne budet prodlena avtomaticheski.\<close>

definition ru_keep_enabled :: jsstr where
  "ru_keep_enabled =
    [1054, 1089, 1090, 1072, 1074, 1080, 1090, 1100, 32, 1074, 1082, 1083, 1102, 1095, 1077,
     1085, 1085, 1099, 1084]" \<comment> \<open>Ostavit vklyuchennym\<close>

definition ru_switch_off_anyway :: jsstr where
  "ru_switch_off_anyway =
    [1042, 1089, 1105, 32, 1088, 1072, 1074, 1085, 1086, 32, 1086, 1090, 1082, 1083, 1102, 1095,
     1080, 1090, 1100]" \<comment> \<open>Vsyo ravno otklyuchit\<close>

definition ru_day :: jsstr where
  "ru_day =
    [1076, 1077, 1085, 1100]" \<comment> \<open>den\<close>

definition ru_days_few :: jsstr where
  "ru_days_few =
    [1076, 1085, 1103]" \<comment> \<open>dnya\<close>

definition ru_days_many :: jsstr where
  "ru_days_many =
    [1076, 1085, 1077, 1081]" \<comment> \<open>dney\<close>

subsection \<open>web/components/VipSection.tsx\<close>

definition ru_adblock_failed :: jsstr where
  "ru_adblock_failed =
    [1054, 1096, 1080, 1073, 1082, 1072, 32, 1080, 1079, 1084, 1077, 1085, 1077, 1085, 1080,
     1103, 32, 65, 100, 66, 108, 111, 99, 107]" \<comment> \<open>Oshibka izmeneniya AdBlock\<close>

definition ru_profile_failed :: jsstr where
  "ru_profile_failed =
    [1054, 1096, 1080, 1073, 1082, 1072, 32, 1080, 1079, 1084, 1077, 1085, 1077, 1085, 1080,
     1103, 32, 1087, 1088, 1086, 1092, 1080, 1083, 1103]" \<comment> \<open>Oshibka izmeneniya profilya\<close>

definition ru_sure_delete_rule :: jsstr where
  "ru_sure_delete_rule =
    [1042, 1099, 32, 1091, 1074, 1077, 1088, 1077, 1085, 1099, 44, 32, 1095, 1090, 1086, 32,
     1093, 1086, 1090, 1080, 1090, 1077, 32, 1091, 1076, 1072, 1083, 1080, 1090, 1100, 32, 1101,
     1090, 1086, 32, 1087, 1088, 1072, 1074, 1080, 1083, 1086, 63]" \<comment> \<open>Vy uvereny, chto hotite udalit eto pravilo?\<close>

definition ru_delete_failed :: jsstr where
  "ru_delete_failed =
    [1054, 1096, 1080, 1073, 1082, 1072, 32, 1091, 1076, 1072, 1083, 1077, 1085, 1080, 1103]" \<comment> \<open>Oshibka udaleniya\<close>

definition ru_create_rule_failed :: jsstr where
  "ru_create_rule_failed =
    [1054, 1096, 1080, 1073, 1082, 1072, 32, 1089, 1086, 1079, 1076, 1072, 1085, 1080, 1103, 32,
     1087, 1088, 1072, 1074, 1080, 1083, 1072]" \<comment> \<open>Oshibka sozdaniya pravila\<close>

definition ru_update_rule_failed :: jsstr where
  "ru_update_rule_failed =
    [1054, 1096, 1080, 1073, 1082, 1072, 32, 1086, 1073, 1085, 1086, 1074, 1083, 1077, 1085,
     1080, 1103, 32, 1087, 1088, 1072, 1074, 1080, 1083, 1072]" \<comment> \<open>Oshibka obnovleniya pravila\<close>

definition ru_preset_failed :: jsstr where
  "ru_preset_failed =
    [1054, 1096, 1080, 1073, 1082, 1072, 32, 1076, 1086, 1073, 1072, 1074, 1083, 1077, 1085,
     1080, 1103, 32, 1089, 1080, 1089, 1090, 1077, 1084, 1085, 1086, 1075, 1086, 32, 1087, 1088,
     1077, 1089, 1077, 1090, 1072]" \<comment> \<open>Oshibka dobavleniya sistemnogo preseta\<close>

definition ru_add_a_rule :: jsstr where
  "ru_add_a_rule =
    [1044, 1086, 1073, 1072, 1074, 1100, 1090, 1077, 32, 1093, 1086, 1090, 1103, 32, 1073, 1099,
     32, 1086, 1076, 1085, 1086, 32, 1087, 1088, 1072, 1074, 1080, 1083, 1086, 32, 1076, 1083,
     1103, 32, 1101, 1082, 1089, 1087, 1086, 1088, 1090, 1072]" \<comment> \<open>Dobavte hotya by odno pravilo dlya eksporta\<close>

definition ru_link_failed :: jsstr where
  "ru_link_failed =
    [1054, 1096, 1080, 1073, 1082, 1072, 32, 1092, 1086, 1088, 1084, 1080, 1088, 1086, 1074,
     1072, 1085, 1080, 1103, 32, 1089, 1089, 1099, 1083, 1082, 1080]" \<comment> \<open>Oshibka formirovaniya ssylki\<close>

definition ru_vip_only :: jsstr where
  "ru_vip_only =
    [1044, 1086, 1089, 1090, 1091, 1087, 1085, 1086, 32, 1090, 1086, 1083, 1100, 1082, 1086, 32,
     1076, 1083, 1103, 32, 86, 73, 80]" \<comment> \<open>Dostupno tolko dlya VIP\<close>

definition ru_vip_only_lead :: jsstr where
  "ru_vip_only_lead =
    [1059, 1084, 1085, 1072, 1103, 32, 1084, 1072, 1088, 1096, 1088, 1091, 1090, 1080, 1079,
     1072, 1094, 1080, 1103, 32, 1080, 32, 1074, 1089, 1090, 1088, 1086, 1077, 1085, 1085, 1099,
     1081, 32, 65, 100, 66, 108, 111, 99, 107, 32, 40, 80, 105, 45, 72, 111, 108, 101, 41, 32,
     1076, 1086, 1089, 1090, 1091, 1087, 1085, 1099, 32, 1090, 1086, 1083, 1100, 1082, 1086, 32,
     1074, 32, 1090, 1072, 1088, 1080, 1092, 1077, 32, 86, 73, 80, 46]" \<comment> \<open>Umnaya marshrutizatsiya i vstroennyy AdBlock (Pi-Hole) dostupny tolko v tarife VIP.\<close>

definition ru_upgrade_vip :: jsstr where
  "ru_upgrade_vip =
    [1054, 1073, 1085, 1086, 1074, 1080, 1090, 1100, 32, 1076, 1086, 32, 86, 73, 80]" \<comment> \<open>Obnovit do VIP\<close>

definition ru_vip_settings :: jsstr where
  "ru_vip_settings =
    [86, 73, 80, 32, 1053, 1072, 1089, 1090, 1088, 1086, 1081, 1082, 1080]" \<comment> \<open>VIP Nastroyki\<close>

definition ru_vip_lead :: jsstr where
  "ru_vip_lead =
    [1059, 1087, 1088, 1072, 1074, 1083, 1103, 1081, 1090, 1077, 32, 1092, 1080, 1083, 1100,
     1090, 1088, 1072, 1094, 1080, 1077, 1081, 32, 1090, 1088, 1072, 1092, 1080, 1082, 1072, 32,
     1080, 32, 1087, 1088, 1072, 1074, 1080, 1083, 1072, 1084, 1080, 32, 1084, 1072, 1088, 1096,
     1088, 1091, 1090, 1080, 1079, 1072, 1094, 1080, 1080, 46]" \<comment> \<open>Upravlyayte filtratsiey trafika i pravilami marshrutizatsii.\<close>

definition ru_ad_filter :: jsstr where
  "ru_ad_filter =
    [1060, 1080, 1083, 1100, 1090, 1088, 1072, 1094, 1080, 1103, 32, 1088, 1077, 1082, 1083,
     1072, 1084, 1099]" \<comment> \<open>Filtratsiya reklamy\<close>

definition ru_adblock_lead :: jsstr where
  "ru_adblock_lead =
    [1041, 1083, 1086, 1082, 1080, 1088, 1086, 1074, 1082, 1072, 32, 1088, 1077, 1082, 1083,
     1072, 1084, 1099, 44, 32, 1090, 1088, 1077, 1082, 1077, 1088, 1086, 1074, 32, 1080, 32,
     1092, 1080, 1096, 1080, 1085, 1075, 1072, 32, 1085, 1072, 32, 1091, 1088, 1086, 1074, 1085,
     1077, 32, 1089, 1077, 1088, 1074, 1077, 1088, 1086, 1074, 46]" \<comment> \<open>Blokirovka reklamy, trekerov i fishinga na urovne serverov.\<close>

definition ru_adblock_on :: jsstr where
  "ru_adblock_on =
    [65, 100, 66, 108, 111, 99, 107, 32, 1074, 1082, 1083, 1102, 1095, 1077, 1085]" \<comment> \<open>AdBlock vklyuchen\<close>

definition ru_smart_routing :: jsstr where
  "ru_smart_routing =
    [1059, 1084, 1085, 1072, 1103, 32, 1084, 1072, 1088, 1096, 1088, 1091, 1090, 1080, 1079,
     1072, 1094, 1080, 1103]" \<comment> \<open>Umnaya marshrutizatsiya\<close>

definition ru_traffic_rules :: jsstr where
  "ru_traffic_rules =
    [1055, 1088, 1072, 1074, 1080, 1083, 1072, 32, 1090, 1088, 1072, 1092, 1080, 1082, 1072]" \<comment> \<open>Pravila trafika\<close>

definition ru_traffic_lead :: jsstr where
  "ru_traffic_lead =
    [1057, 1086, 1073, 1077, 1088, 1080, 1090, 1077, 32, 1089, 1074, 1086, 1081, 32, 1089, 1087,
     1080, 1089, 1086, 1082, 32, 1084, 1072, 1088, 1096, 1088, 1091, 1090, 1086, 1074, 32, 1080,
     32, 1076, 1086, 1073, 1072, 1074, 1100, 1090, 1077, 32, 1080, 1093, 32, 1074, 32, 1087,
     1088, 1080, 1083, 1086, 1078, 1077, 1085, 1080, 1077, 32, 72, 97, 112, 112, 32, 1086, 1076,
     1085, 1080, 1084, 32, 1085, 1072, 1078, 1072, 1090, 1080, 1077, 1084, 46]" \<comment> \<open>Soberite svoy spisok marshrutov i dobavte ih v prilozhenie Happ odnim nazhatiem.\<close>

definition ru_my_routes :: jsstr where
  "ru_my_routes =
    [1052, 1086, 1080, 32, 1084, 1072, 1088, 1096, 1088, 1091, 1090, 1099]" \<comment> \<open>Moi marshruty\<close>

definition ru_presets :: jsstr where
  "ru_presets =
    [1043, 1086, 1090, 1086, 1074, 1099, 1077, 32, 1087, 1088, 1077, 1089, 1077, 1090, 1099]" \<comment> \<open>Gotovye presety\<close>

definition ru_apply_config :: jsstr where
  "ru_apply_config =
    [1055, 1088, 1080, 1084, 1077, 1085, 1080, 1090, 1100, 32, 1082, 1086, 1085, 1092, 1080,
     1075, 1091, 1088, 1072, 1094, 1080, 1102]" \<comment> \<open>Primenit konfiguratsiyu\<close>

definition ru_you_have :: jsstr where
  "ru_you_have =
    [1059, 32, 1074, 1072, 1089, 32]" \<comment> \<open>U vas \<close>

definition ru_rules_send :: jsstr where
  "ru_rules_send =
    [32, 1087, 1088, 1072, 1074, 1080, 1083, 40, 1072, 41, 46, 32, 1054, 1090, 1087, 1088, 1072,
     1074, 1100, 1090, 1077, 32, 1080, 1093, 32, 1074, 32, 1087, 1088, 1080, 1083, 1086, 1078,
     1077, 1085, 1080, 1077, 32, 72, 97, 112, 112, 46]" \<comment> \<open> pravil(a). Otpravte ih v prilozhenie Happ.\<close>

definition ru_add_to_happ :: jsstr where
  "ru_add_to_happ =
    [1044, 1086, 1073, 1072, 1074, 1080, 1090, 1100, 32, 1074, 32, 72, 97, 112, 112]" \<comment> \<open>Dobavit v Happ\<close>

definition ru_create_rule :: jsstr where
  "ru_create_rule =
    [1057, 1086, 1079, 1076, 1072, 1090, 1100, 32, 1089, 1074, 1086, 1077, 32, 1087, 1088, 1072,
     1074, 1080, 1083, 1086]" \<comment> \<open>Sozdat svoe pravilo\<close>

definition ru_new_rule :: jsstr where
  "ru_new_rule =
    [1053, 1086, 1074, 1086, 1077, 32, 1087, 1088, 1072, 1074, 1080, 1083, 1086]" \<comment> \<open>Novoe pravilo\<close>

definition ru_edit_rule :: jsstr where
  "ru_edit_rule =
    [1056, 1077, 1076, 1072, 1082, 1090, 1080, 1088, 1086, 1074, 1072, 1090, 1100, 32, 1087,
     1088, 1072, 1074, 1080, 1083, 1086]" \<comment> \<open>Redaktirovat pravilo\<close>

definition ru_name :: jsstr where
  "ru_name =
    [1053, 1072, 1079, 1074, 1072, 1085, 1080, 1077]" \<comment> \<open>Nazvanie\<close>

definition ru_action :: jsstr where
  "ru_action =
    [1044, 1077, 1081, 1089, 1090, 1074, 1080, 1077]" \<comment> \<open>Deystvie\<close>

definition ru_via_vpn :: jsstr where
  "ru_via_vpn =
    [1063, 1077, 1088, 1077, 1079, 32, 86, 80, 78, 32, 40, 80, 114, 111, 120, 121, 41]" \<comment> \<open>Cherez VPN (Proxy)\<close>

definition ru_directly :: jsstr where
  "ru_directly =
    [1053, 1072, 1087, 1088, 1103, 1084, 1091, 1102, 32, 40, 68, 105, 114, 101, 99, 116, 41]" \<comment> \<open>Napryamuyu (Direct)\<close>

definition ru_domains_label :: jsstr where
  "ru_domains_label =
    [1044, 1086, 1084, 1077, 1085, 1099, 32, 40, 1095, 1077, 1088, 1077, 1079, 32, 1079, 1072,
     1087, 1103, 1090, 1091, 1102, 44, 32, 1087, 1088, 1086, 1073, 1077, 1083, 32, 1080, 1083,
     1080, 32, 1089, 32, 1085, 1086, 1074, 1086, 1081, 32, 1089, 1090, 1088, 1086, 1082, 1080, 41]" \<comment> \<open>Domeny (cherez zapyatuyu, probel ili s novoy stroki)\<close>

definition ru_cancel :: jsstr where
  "ru_cancel =
    [1054, 1090, 1084, 1077, 1085, 1072]" \<comment> \<open>Otmena\<close>

definition ru_save :: jsstr where
  "ru_save =
    [1057, 1086, 1093, 1088, 1072, 1085, 1080, 1090, 1100]" \<comment> \<open>Sohranit\<close>

definition ru_user_rule :: jsstr where
  "ru_user_rule =
    [1055, 1086, 1083, 1100, 1079, 1086, 1074, 1072, 1090, 1077, 1083, 1100, 1089, 1082, 1086,
     1077, 32, 1087, 1088, 1072, 1074, 1080, 1083, 1086]" \<comment> \<open>Polzovatelskoe pravilo\<close>

definition ru_no_rules_yet :: jsstr where
  "ru_no_rules_yet =
    [1059, 32, 1074, 1072, 1089, 32, 1087, 1086, 1082, 1072, 32, 1085, 1077, 1090, 32, 1076,
     1086, 1073, 1072, 1074, 1083, 1077, 1085, 1085, 1099, 1093, 32, 1087, 1088, 1072, 1074,
     1080, 1083, 46]" \<comment> \<open>U vas poka net dobavlennyh pravil.\<close>

definition ru_choose_presets :: jsstr where
  "ru_choose_presets =
    [1042, 1099, 1073, 1088, 1072, 1090, 1100, 32, 1075, 1086, 1090, 1086, 1074, 1099, 1077, 32,
     1087, 1088, 1077, 1089, 1077, 1090, 1099]" \<comment> \<open>Vybrat gotovye presety\<close>

definition ru_system :: jsstr where
  "ru_system =
    [1057, 1080, 1089, 1090, 1077, 1084, 1085, 1086, 1077]" \<comment> \<open>Sistemnoe\<close>

definition ru_added :: jsstr where
  "ru_added =
    [1044, 1086, 1073, 1072, 1074, 1083, 1077, 1085, 1086]" \<comment> \<open>Dobavleno\<close>

definition ru_add :: jsstr where
  "ru_add =
    [1044, 1086, 1073, 1072, 1074, 1080, 1090, 1100]" \<comment> \<open>Dobavit\<close>

subsection \<open>web/components/VipPageClient.tsx\<close>

definition ru_loading_vip :: jsstr where
  "ru_loading_vip =
    [1047, 1072, 1075, 1088, 1091, 1078, 1072, 1077, 1084, 32, 86, 73, 80, 32, 1087, 1072, 1085,
     1077, 1083, 1100, 46, 46, 46]" \<comment> \<open>Zagruzhaem VIP panel...\<close>

definition ru_back_dashboard :: jsstr where
  "ru_back_dashboard =
    [1042, 1077, 1088, 1085, 1091, 1090, 1100, 1089, 1103, 32, 1074, 32, 1044, 1072, 1096, 1073,
     1086, 1088, 1076]" \<comment> \<open>Vernutsya v Dashbord\<close>

subsection \<open>web/components/admin/AdminPanel.tsx\<close>

definition ru_nav_overview :: jsstr where
  "ru_nav_overview =
    [1054, 1073, 1079, 1086, 1088]" \<comment> \<open>Obzor\<close>

definition ru_nav_overview_hint :: jsstr where
  "ru_nav_overview_hint =
    [1057, 1086, 1089, 1090, 1086, 1103, 1085, 1080, 1077, 32, 1087, 1088, 1086, 1076, 1091,
     1082, 1090, 1072]" \<comment> \<open>Sostoyanie produkta\<close>

definition ru_nav_servers_hint :: jsstr where
  "ru_nav_servers_hint =
    [1060, 1083, 1086, 1090, 32, 1080, 32, 1076, 1077, 1081, 1089, 1090, 1074, 1080, 1103]" \<comment> \<open>Flot i deystviya\<close>

definition ru_nav_incidents :: jsstr where
  "ru_nav_incidents =
    [1048, 1085, 1094, 1080, 1076, 1077, 1085, 1090, 1099]" \<comment> \<open>Intsidenty\<close>

definition ru_nav_incidents_hint :: jsstr where
  "ru_nav_incidents_hint =
    [83, 76, 65, 32, 1080, 32, 1072, 1083, 1077, 1088, 1090, 1099]" \<comment> \<open>SLA i alerty\<close>

definition ru_nav_users :: jsstr where
  "ru_nav_users =
    [1055, 1086, 1083, 1100, 1079, 1086, 1074, 1072, 1090, 1077, 1083, 1080]" \<comment> \<open>Polzovateli\<close>

definition ru_nav_users_hint :: jsstr where
  "ru_nav_users_hint =
    [1040, 1091, 1076, 1080, 1090, 1086, 1088, 1080, 1103, 32, 1080, 32, 1082, 1083, 1102, 1095,
     1080]" \<comment> \<open>Auditoriya i klyuchi\<close>

definition ru_nav_payments :: jsstr where
  "ru_nav_payments =
    [1055, 1083, 1072, 1090, 1077, 1078, 1080]" \<comment> \<open>Platezhi\<close>

definition ru_nav_payments_hint :: jsstr where
  "ru_nav_payments_hint =
    [1042, 1099, 1088, 1091, 1095, 1082, 1072, 32, 1080, 32, 1088, 1080, 1089, 1082, 1080]" \<comment> \<open>Vyruchka i riski\<close>

definition ru_nav_agent :: jsstr where
  "ru_nav_agent =
    [1040, 1075, 1077, 1085, 1090]" \<comment> \<open>Agent\<close>

definition ru_nav_settings :: jsstr where
  "ru_nav_settings =
    [1053, 1072, 1089, 1090, 1088, 1086, 1081, 1082, 1080]" \<comment> \<open>Nastroyki\<close>

definition ru_nav_settings_hint :: jsstr where
  "ru_nav_settings_hint =
    [65, 87, 71, 47, 88, 114, 97, 121, 32, 1080, 32, 1072, 1091, 1076, 1080, 1090]" \<comment> \<open>AWG/Xray i audit\<close>

definition ru_new_critical :: jsstr where
  "ru_new_critical =
    [1053, 1086, 1074, 1099, 1081, 32, 1082, 1088, 1080, 1090, 1080, 1095, 1077, 1089, 1082,
     1080, 1081, 32, 1080, 1085, 1094, 1080, 1076, 1077, 1085, 1090]" \<comment> \<open>Novyy kriticheskiy intsident\<close>

definition ru_stream_failed :: jsstr where
  "ru_stream_failed =
    [1053, 1077, 32, 1091, 1076, 1072, 1083, 1086, 1089, 1100, 32, 1086, 1073, 1088, 1072, 1073,
     1086, 1090, 1072, 1090, 1100, 32, 1087, 1086, 1090, 1086, 1082, 32, 1089, 1086, 1073, 1099,
     1090, 1080, 1081]" \<comment> \<open>Ne udalos obrabotat potok sobytiy\<close>

definition ru_overview_unavailable :: jsstr where
  "ru_overview_unavailable =
    [79, 118, 101, 114, 118, 105, 101, 119, 32, 1085, 1077, 1076, 1086, 1089, 1090, 1091, 1087,
     1077, 1085]" \<comment> \<open>Overview nedostupen\<close>

definition ru_overview_failed :: jsstr where
  "ru_overview_failed =
    [1053, 1077, 32, 1091, 1076, 1072, 1083, 1086, 1089, 1100, 32, 1086, 1073, 1085, 1086, 1074,
     1080, 1090, 1100, 32, 1086, 1073, 1079, 1086, 1088]" \<comment> \<open>Ne udalos obnovit obzor\<close>

definition ru_command_not_done :: jsstr where
  "ru_command_not_done =
    [1050, 1086, 1084, 1072, 1085, 1076, 1072, 32, 1085, 1077, 32, 1074, 1099, 1087, 1086, 1083,
     1085, 1077, 1085, 1072]" \<comment> \<open>Komanda ne vypolnena\<close>

definition ru_command_done :: jsstr where
  "ru_command_done =
    [1050, 1086, 1084, 1072, 1085, 1076, 1072, 32, 1074, 1099, 1087, 1086, 1083, 1085, 1077,
     1085, 1072]" \<comment> \<open>Komanda vypolnena\<close>

definition ru_command_failed :: jsstr where
  "ru_command_failed =
    [1054, 1096, 1080, 1073, 1082, 1072, 32, 1082, 1086, 1084, 1072, 1085, 1076, 1099]" \<comment> \<open>Oshibka komandy\<close>

definition ru_health_unavailable :: jsstr where
  "ru_health_unavailable =
    [72, 101, 97, 108, 116, 104, 32, 1085, 1077, 1076, 1086, 1089, 1090, 1091, 1087, 1077, 1085]" \<comment> \<open>Health nedostupen\<close>

definition ru_health_failed :: jsstr where
  "ru_health_failed =
    [1054, 1096, 1080, 1073, 1082, 1072, 32, 104, 101, 97, 108, 116, 104, 32, 114, 101, 102,
     114, 101, 115, 104]" \<comment> \<open>Oshibka health refresh\<close>

definition ru_now :: jsstr where
  "ru_now =
    [1089, 1077, 1081, 1095, 1072, 1089]" \<comment> \<open>seychas\<close>

definition ru_month :: jsstr where
  "ru_month =
    [1084, 1077, 1089, 1103, 1094]" \<comment> \<open>mesyats\<close>

definition ru_go_to_content :: jsstr where
  "ru_go_to_content =
    [1055, 1077, 1088, 1077, 1081, 1090, 1080, 32, 1082, 32, 1089, 1086, 1076, 1077, 1088, 1078,
     1080, 1084, 1086, 1084, 1091]" \<comment> \<open>Pereyti k soderzhimomu\<close>

definition ru_one_vps_down :: jsstr where
  "ru_one_vps_down =
    [49, 32, 86, 80, 83, 32, 1085, 1077, 1076, 1086, 1089, 1090, 1091, 1087, 1077, 1085, 32,
     1080, 1083, 1080, 32, 104, 101, 97, 114, 116, 98, 101, 97, 116, 32, 1091, 1089, 1090, 1072,
     1088, 1077, 1083]" \<comment> \<open>1 VPS nedostupen ili heartbeat ustarel\<close>

definition ru_check_agent :: jsstr where
  "ru_check_agent =
    [1055, 1088, 1086, 1074, 1077, 1088, 1100, 1090, 1077, 32, 97, 103, 101, 110, 116, 32, 115,
     116, 97, 116, 117, 115, 44, 32, 1087, 1086, 1089, 1083, 1077, 1076, 1085, 1080, 1081, 32,
     115, 110, 97, 112, 115, 104, 111, 116, 32, 1080, 32, 1089, 1077, 1090, 1077, 1074, 1091,
     1102, 32, 1076, 1086, 1089, 1090, 1091, 1087, 1085, 1086, 1089, 1090, 1100, 46]" \<comment> \<open>Proverte agent status, posledniy snapshot i setevuyu dostupnost.\<close>

definition ru_accept :: jsstr where
  "ru_accept =
    [1055, 1088, 1080, 1085, 1103, 1090, 1100]" \<comment> \<open>Prinyat\<close>

definition ru_active_vps :: jsstr where
  "ru_active_vps =
    [1072, 1082, 1090, 1080, 1074, 1085, 1099, 1077, 32, 86, 80, 83]" \<comment> \<open>aktivnye VPS\<close>

definition ru_n_incidents :: jsstr where
  "ru_n_incidents =
    [32, 1080, 1085, 1094, 1080, 1076, 1077, 1085, 1090, 1086, 1074]" \<comment> \<open> intsidentov\<close>

definition ru_n_active :: jsstr where
  "ru_n_active =
    [32, 1072, 1082, 1090, 1080, 1074, 1085, 1099, 1093]" \<comment> \<open> aktivnyh\<close>

definition ru_keys :: jsstr where
  "ru_keys =
    [1050, 1083, 1102, 1095, 1080]" \<comment> \<open>Klyuchi\<close>

definition ru_rouble :: jsstr where
  "ru_rouble =
    [32, 8381]" \<comment> \<open> RUB\<close>

definition ru_this_month :: jsstr where
  "ru_this_month =
    [1090, 1077, 1082, 1091, 1097, 1080, 1081, 32, 1084, 1077, 1089, 1103, 1094]" \<comment> \<open>tekuschiy mesyats\<close>

definition ru_vps_health_lead :: jsstr where
  "ru_vps_health_lead =
    [65, 103, 101, 110, 116, 45, 102, 105, 114, 115, 116, 32, 1082, 1086, 1085, 1090, 1088,
     1086, 1083, 1100, 44, 32, 104, 101, 97, 114, 116, 98, 101, 97, 116, 44, 32, 1085, 1072,
     1075, 1088, 1091, 1079, 1082, 1072, 44, 32, 1087, 1088, 1086, 1090, 1086, 1082, 1086, 1083,
     1099, 32, 1080, 32, 1073, 1099, 1089, 1090, 1088, 1099, 1077, 32, 1076, 1077, 1081, 1089,
     1090, 1074, 1080, 1103, 46]" \<comment> \<open>Agent-first kontrol, heartbeat, nagruzka, protokoly i bystrye deystviya.\<close>

definition ru_all :: jsstr where
  "ru_all =
    [1042, 1089, 1077]" \<comment> \<open>Vse\<close>

definition ru_active_many :: jsstr where
  "ru_active_many =
    [1040, 1082, 1090, 1080, 1074, 1085, 1099, 1077]" \<comment> \<open>Aktivnye\<close>

definition ru_switched_off :: jsstr where
  "ru_switched_off =
    [1054, 1090, 1082, 1083, 1102, 1095, 1077, 1085, 1099]" \<comment> \<open>Otklyucheny\<close>

definition ru_all_regions :: jsstr where
  "ru_all_regions =
    [1042, 1089, 1077, 32, 1088, 1077, 1075, 1080, 1086, 1085, 1099]" \<comment> \<open>Vse regiony\<close>

definition ru_refresh :: jsstr where
  "ru_refresh =
    [1054, 1073, 1085, 1086, 1074, 1080, 1090, 1100]" \<comment> \<open>Obnovit\<close>

definition ru_th_server :: jsstr where
  "ru_th_server =
    [1057, 1077, 1088, 1074, 1077, 1088]" \<comment> \<open>Server\<close>

definition ru_th_clients :: jsstr where
  "ru_th_clients =
    [1050, 1083, 1080, 1077, 1085, 1090, 1099]" \<comment> \<open>Klienty\<close>

definition ru_th_load :: jsstr where
  "ru_th_load =
    [1053, 1072, 1075, 1088, 1091, 1079, 1082, 1072]" \<comment> \<open>Nagruzka\<close>

definition ru_th_status :: jsstr where
  "ru_th_status =
    [1057, 1090, 1072, 1090, 1091, 1089]" \<comment> \<open>Status\<close>

definition ru_th_actions :: jsstr where
  "ru_th_actions =
    [1044, 1077, 1081, 1089, 1090, 1074, 1080, 1103]" \<comment> \<open>Deystviya\<close>

definition ru_dot :: jsstr where
  "ru_dot =
    [32, 183, 32]" \<comment> \<open> . \<close>

definition ru_new_users :: jsstr where
  "ru_new_users =
    [1053, 1086, 1074, 1099, 1077, 32, 1087, 1086, 1083, 1100, 1079, 1086, 1074, 1072, 1090,
     1077, 1083, 1080]" \<comment> \<open>Novye polzovateli\<close>

definition ru_revenue :: jsstr where
  "ru_revenue =
    [1042, 1099, 1088, 1091, 1095, 1082, 1072]" \<comment> \<open>Vyruchka\<close>

definition ru_incidents_title :: jsstr where
  "ru_incidents_title =
    [1048, 1085, 1094, 1080, 1076, 1077, 1085, 1090, 1099, 32, 1080, 32, 1091, 1074, 1077, 1076,
     1086, 1084, 1083, 1077, 1085, 1080, 1103]" \<comment> \<open>Intsidenty i uvedomleniya\<close>

definition ru_incidents_text :: jsstr where
  "ru_incidents_text =
    [1054, 1090, 1082, 1088, 1099, 1090, 1099, 1077, 32, 1072, 1083, 1077, 1088, 1090, 1099, 44,
     32, 115, 116, 97, 108, 101, 32, 104, 101, 97, 114, 116, 98, 101, 97, 116, 32, 1080, 32,
     1073, 1099, 1089, 1090, 1088, 1099, 1081, 32, 1087, 1077, 1088, 1077, 1093, 1086, 1076, 32,
     1082, 32, 1087, 1088, 1086, 1073, 1083, 1077, 1084, 1085, 1086, 1081, 32, 86, 80, 83, 46]" \<comment> \<open>Otkrytye alerty, stale heartbeat i bystryy perehod k problemnoy VPS.\<close>

definition ru_reaction_queue :: jsstr where
  "ru_reaction_queue =
    [1054, 1095, 1077, 1088, 1077, 1076, 1100, 32, 1088, 1077, 1072, 1082, 1094, 1080, 1080]" \<comment> \<open>Ochered reaktsii\<close>

definition ru_no_incidents :: jsstr where
  "ru_no_incidents =
    [1048, 1085, 1094, 1080, 1076, 1077, 1085, 1090, 1086, 1074, 32, 1085, 1077, 1090, 46]" \<comment> \<open>Intsidentov net.\<close>

definition ru_audience :: jsstr where
  "ru_audience =
    [1040, 1091, 1076, 1080, 1090, 1086, 1088, 1080, 1103]" \<comment> \<open>Auditoriya\<close>

definition ru_audience_detail :: jsstr where
  "ru_audience_detail =
    [1056, 1077, 1075, 1080, 1089, 1090, 1088, 1072, 1094, 1080, 1080, 32, 1079, 1072, 32, 1074,
     1099, 1073, 1088, 1072, 1085, 1085, 1099, 1081, 32, 1087, 1077, 1088, 1080, 1086, 1076]" \<comment> \<open>Registratsii za vybrannyy period\<close>

definition ru_active_keys :: jsstr where
  "ru_active_keys =
    [1040, 1082, 1090, 1080, 1074, 1085, 1099, 1077, 32, 1082, 1083, 1102, 1095, 1080]" \<comment> \<open>Aktivnye klyuchi\<close>

definition ru_spread_over_vps :: jsstr where
  "ru_spread_over_vps =
    [1056, 1072, 1089, 1087, 1088, 1077, 1076, 1077, 1083, 1077, 1085, 1099, 32, 1087, 1086, 32,
     86, 80, 83]" \<comment> \<open>Raspredeleny po VPS\<close>

definition ru_by_region :: jsstr where
  "ru_by_region =
    [1057, 1088, 1077, 1079, 32, 1087, 1086, 32, 1088, 1077, 1075, 1080, 1086, 1085, 1072, 1084]" \<comment> \<open>Srez po regionam\<close>

definition ru_by_region_text :: jsstr where
  "ru_by_region_text =
    [32, 1088, 1077, 1075, 1080, 1086, 1085, 1086, 1074, 44, 32, 86, 73, 80, 45, 111, 110, 108,
     121, 32, 1084, 1072, 1088, 1096, 1088, 1091, 1090, 1080, 1079, 1072, 1094, 1080, 1103, 32,
     1074, 1080, 1076, 1085, 1072, 32, 1074, 32, 1090, 1072, 1073, 1083, 1080, 1094, 1077, 32,
     1085, 1080, 1078, 1077, 46]" \<comment> \<open> regionov, VIP-only marshrutizatsiya vidna v tablitse nizhe.\<close>

definition ru_revenue_by_day :: jsstr where
  "ru_revenue_by_day =
    [1042, 1099, 1088, 1091, 1095, 1082, 1072, 32, 1087, 1086, 32, 1076, 1085, 1103, 1084]" \<comment> \<open>Vyruchka po dnyam\<close>

definition ru_user_growth :: jsstr where
  "ru_user_growth =
    [1056, 1086, 1089, 1090, 32, 1087, 1086, 1083, 1100, 1079, 1086, 1074, 1072, 1090, 1077,
     1083, 1077, 1081]" \<comment> \<open>Rost polzovateley\<close>

definition ru_finance :: jsstr where
  "ru_finance =
    [1060, 1080, 1085, 1072, 1085, 1089, 1086, 1074, 1099, 1081, 32, 1082, 1086, 1085, 1090,
     1088, 1086, 1083, 1100]" \<comment> \<open>Finansovyy kontrol\<close>

definition ru_finance_text :: jsstr where
  "ru_finance_text =
    [1055, 1083, 1072, 1090, 1077, 1078, 1085, 1099, 1077, 32, 1088, 1080, 1089, 1082, 1080, 32,
     1074, 1099, 1074, 1086, 1076, 1103, 1090, 1089, 1103, 32, 1088, 1103, 1076, 1086, 1084, 32,
     1089, 32, 1080, 1085, 1094, 1080, 1076, 1077, 1085, 1090, 1072, 1084, 1080, 44, 32, 1095,
     1090, 1086, 1073, 1099, 32, 1085, 1077, 32, 1090, 1077, 1088, 1103, 1090, 1100, 32, 1089,
     1074, 1103, 1079, 1100, 32, 1084, 1077, 1078, 1076, 1091, 32, 1074, 1099, 1088, 1091, 1095,
     1082, 1086, 1081, 32, 1080, 32, 1076, 1086, 1089, 1090, 1091, 1087, 1085, 1086, 1089, 1090,
     1100, 1102, 32, 1089, 1077, 1090, 1080, 46]" \<comment> \<open>Platezhnye riski vyvodyatsya ryadom s intsidentami, chtoby ne teryat svyaz mezhdu vyruchkoy i dostupnostyu seti.\<close>

definition ru_need_check :: jsstr where
  "ru_need_check =
    [1058, 1088, 1077, 1073, 1091, 1102, 1090, 32, 1087, 1088, 1086, 1074, 1077, 1088, 1082,
     1080, 32, 1072, 1075, 1077, 1085, 1090, 1072]" \<comment> \<open>Trebuyut proverki agenta\<close>

definition ru_no_docker :: jsstr where
  "ru_no_docker =
    [65, 103, 101, 110, 116, 32, 1085, 1077, 32, 1074, 1080, 1076, 1080, 1090, 32, 68, 111, 99,
     107, 101, 114]" \<comment> \<open>Agent ne vidit Docker\<close>

definition ru_has_hash :: jsstr where
  "ru_has_hash =
    [1045, 1089, 1090, 1100, 32, 1072, 1082, 1090, 1091, 1072, 1083, 1100, 1085, 1099, 1081, 32,
     104, 97, 115, 104]" \<comment> \<open>Est aktualnyy hash\<close>

definition ru_config_settings :: jsstr where
  "ru_config_settings =
    [1053, 1072, 1089, 1090, 1088, 1086, 1081, 1082, 1080, 32, 1082, 1086, 1085, 1092, 1080,
     1075, 1086, 1074]" \<comment> \<open>Nastroyki konfigov\<close>

definition ru_chosen_server :: jsstr where
  "ru_chosen_server =
    [1042, 1099, 1073, 1088, 1072, 1085, 32, 1089, 1077, 1088, 1074, 1077, 1088, 32]" \<comment> \<open>Vybran server \<close>

definition ru_config_tab_open :: jsstr where
  "ru_config_tab_open =
    [46, 32, 1042, 32, 1087, 1088, 1072, 1074, 1086, 1081, 32, 1087, 1072, 1085, 1077, 1083,
     1080, 32, 1086, 1090, 1082, 1088, 1099, 1090, 32, 1090, 1072, 1073, 32, 67, 111, 110, 102,
     105, 103, 32, 1076, 1083, 1103, 32, 1080, 1084, 1087, 1086, 1088, 1090, 1072, 32, 65, 87,
     71, 47, 88, 114, 97, 121, 46]" \<comment> \<open>. V pravoy paneli otkryt tab Config dlya importa AWG/Xray.\<close>

definition ru_choose_vps :: jsstr where
  "ru_choose_vps =
    [1042, 1099, 1073, 1077, 1088, 1080, 1090, 1077, 32, 86, 80, 83, 32, 1074, 32, 1090, 1072,
     1073, 1083, 1080, 1094, 1077, 44, 32, 1095, 1090, 1086, 1073, 1099, 32, 1080, 1084, 1087,
     1086, 1088, 1090, 1080, 1088, 1086, 1074, 1072, 1090, 1100, 32, 65, 87, 71, 47, 88, 114,
     97, 121, 46]" \<comment> \<open>Vyberite VPS v tablitse, chtoby importirovat AWG/Xray.\<close>

definition ru_before_import :: jsstr where
  "ru_before_import =
    [1055, 1077, 1088, 1077, 1076, 32, 1080, 1084, 1087, 1086, 1088, 1090, 1086, 1084, 32, 1087,
     1088, 1086, 1074, 1077, 1088, 1100, 1090, 1077, 32, 104, 101, 97, 114, 116, 98, 101, 97,
     116, 32, 1080, 32, 115, 110, 97, 112, 115, 104, 111, 116, 46]" \<comment> \<open>Pered importom proverte heartbeat i snapshot.\<close>

definition ru_fleet_lead :: jsstr where
  "ru_fleet_lead =
    [1057, 1074, 1086, 1076, 1085, 1099, 1081, 32, 1080, 1085, 1076, 1077, 1082, 1089, 32, 1087,
     1086, 32, 104, 101, 97, 114, 116, 98, 101, 97, 116, 44, 32, 68, 111, 99, 107, 101, 114, 44,
     32, 1072, 1082, 1090, 1080, 1074, 1085, 1086, 1089, 1090, 1080, 32, 86, 80, 83, 32, 1080,
     32, 1086, 1090, 1082, 1088, 1099, 1090, 1099, 1084, 32, 1080, 1085, 1094, 1080, 1076, 1077,
     1085, 1090, 1072, 1084, 46]" \<comment> \<open>Svodnyy indeks po heartbeat, Docker, aktivnosti VPS i otkrytym intsidentam.\<close>

definition ru_open_notifications :: jsstr where
  "ru_open_notifications =
    [1054, 1090, 1082, 1088, 1099, 1090, 1099, 1077, 32, 1091, 1074, 1077, 1076, 1086, 1084,
     1083, 1077, 1085, 1080, 1103]" \<comment> \<open>Otkrytye uvedomleniya\<close>

definition ru_vps_watched :: jsstr where
  "ru_vps_watched =
    [86, 80, 83, 32, 1087, 1086, 1076, 32, 1082, 1086, 1085, 1090, 1088, 1086, 1083, 1077, 1084]" \<comment> \<open>VPS pod kontrolem\<close>

definition ru_notifications :: jsstr where
  "ru_notifications =
    [1059, 1074, 1077, 1076, 1086, 1084, 1083, 1077, 1085, 1080, 1103]" \<comment> \<open>Uvedomleniya\<close>

definition ru_mute_30 :: jsstr where
  "ru_mute_30 =
    [77, 117, 116, 101, 32, 51, 48, 1084]" \<comment> \<open>Mute 30m\<close>

definition ru_no_events :: jsstr where
  "ru_no_events =
    [1057, 1086, 1073, 1099, 1090, 1080, 1081, 32, 1087, 1086, 1082, 1072, 32, 1085, 1077, 1090,
     46]" \<comment> \<open>Sobytiy poka net.\<close>

definition ru_import_note :: jsstr where
  "ru_import_note =
    [1048, 1084, 1087, 1086, 1088, 1090, 32, 1089, 1086, 1093, 1088, 1072, 1085, 1103, 1077,
     1090, 32, 1096, 1072, 1073, 1083, 1086, 1085, 32, 1074, 32, 1073, 1072, 1079, 1077, 32,
     1080, 32, 1085, 1077, 32, 1087, 1080, 1096, 1077, 1090, 32, 1085, 1072, 1087, 1088, 1103,
     1084, 1091, 1102, 32, 1074, 32, 1092, 1072, 1081, 1083, 1099, 32, 86, 80, 83, 46, 32, 1044,
     1083, 1103, 32, 1087, 1088, 1080, 1084, 1077, 1085, 1077, 1085, 1080, 1103, 32, 1085, 1072,
     32, 1085, 1086, 1076, 1077, 32, 1080, 1089, 1087, 1086, 1083, 1100, 1079, 1091, 1081, 1090,
     1077, 32, 115, 110, 97, 112, 115, 104, 111, 116, 47, 97, 103, 101, 110, 116, 32, 1076,
     1077, 1081, 1089, 1090, 1074, 1080, 1103, 32, 1086, 1090, 1076, 1077, 1083, 1100, 1085,
     1086, 46]" \<comment> \<open>Import sohranyaet shablon v baze i ne pishet napryamuyu v fayly VPS. Dlya primeneniya na node ispolzuyte snapshot/agent deystviya otdelno.\<close>

definition ru_importing :: jsstr where
  "ru_importing =
    [1048, 1084, 1087, 1086, 1088, 1090, 46, 46, 46]" \<comment> \<open>Import...\<close>

definition ru_import_configs :: jsstr where
  "ru_import_configs =
    [1048, 1084, 1087, 1086, 1088, 1090, 1080, 1088, 1086, 1074, 1072, 1090, 1100, 32, 1082,
     1086, 1085, 1092, 1080, 1075, 1080]" \<comment> \<open>Importirovat konfigi\<close>

definition ru_s_ago :: jsstr where
  "ru_s_ago =
    [115, 32, 1085, 1072, 1079, 1072, 1076]" \<comment> \<open>s nazad\<close>

definition ru_m_ago :: jsstr where
  "ru_m_ago =
    [1084, 32, 1085, 1072, 1079, 1072, 1076]" \<comment> \<open>m nazad\<close>

definition ru_h_ago :: jsstr where
  "ru_h_ago =
    [1095, 32, 1085, 1072, 1079, 1072, 1076]" \<comment> \<open>ch nazad\<close>

definition ru_d :: jsstr where
  "ru_d =
    [1076, 32]" \<comment> \<open>d \<close>

definition ru_h_space :: jsstr where
  "ru_h_space =
    [1095, 32]" \<comment> \<open>ch \<close>

definition ru_h :: jsstr where
  "ru_h =
    [1095]" \<comment> \<open>ch\<close>

definition ru_m :: jsstr where
  "ru_m =
    [1084]" \<comment> \<open>m\<close>

subsection \<open>web/components/admin/Charts.tsx\<close>

definition ru_vps_load :: jsstr where
  "ru_vps_load =
    [1053, 1072, 1075, 1088, 1091, 1079, 1082, 1072, 32, 86, 80, 83]" \<comment> \<open>Nagruzka VPS\<close>

subsection \<open>web/components/admin/AdminPanel.tsx\<close>

definition ru_region :: jsstr where
  "ru_region =
    [1056, 1077, 1075, 1080, 1086, 1085]" \<comment> \<open>Region\<close>

subsection \<open>web/app/page.tsx\<close>

definition ru_metric_servers :: jsstr where
  "ru_metric_servers =
    [1073, 1099, 1089, 1090, 1088, 1099, 1093, 32, 1089, 1077, 1088, 1074, 1077, 1088, 1086, 1074]" \<comment> \<open>bystryh serverov\<close>

definition ru_metric_logs :: jsstr where
  "ru_metric_logs =
    [1083, 1086, 1075, 1086, 1074, 32, 1080, 32, 1090, 1088, 1077, 1082, 1077, 1088, 1086, 1074]" \<comment> \<open>logov i trekerov\<close>

definition ru_metric_gbit :: jsstr where
  "ru_metric_gbit =
    [49, 32, 1043, 1073, 1080, 1090, 47, 1089]" \<comment> \<open>1 Gbit/s\<close>

definition ru_metric_bandwidth :: jsstr where
  "ru_metric_bandwidth =
    [1087, 1088, 1086, 1087, 1091, 1089, 1082, 1085, 1072, 1103, 32, 1089, 1087, 1086, 1089,
     1086, 1073, 1085, 1086, 1089, 1090, 1100, 32, 1082, 1072, 1085, 1072, 1083, 1072]" \<comment> \<open>propusknaya sposobnost kanala\<close>

definition ru_infinity :: jsstr where
  "ru_infinity =
    [8734]" \<comment> \<open>inf\<close>

definition ru_metric_devices :: jsstr where
  "ru_metric_devices =
    [1091, 1089, 1090, 1088, 1086, 1081, 1089, 1090, 1074, 32, 1085, 1072, 32, 1086, 1076, 1085,
     1086, 1081, 32, 1087, 1086, 1076, 1087, 1080, 1089, 1082, 1077]" \<comment> \<open>ustroystv na odnoy podpiske\<close>

definition ru_feat_nologs :: jsstr where
  "ru_feat_nologs =
    [1041, 1077, 1079, 32, 1083, 1086, 1075, 1086, 1074]" \<comment> \<open>Bez logov\<close>

definition ru_feat_nologs_text :: jsstr where
  "ru_feat_nologs_text =
    [1053, 1077, 32, 1087, 1080, 1096, 1077, 1084, 32, 1078, 1091, 1088, 1085, 1072, 1083, 1099,
     32, 1090, 1088, 1072, 1092, 1080, 1082, 1072, 32, 1080, 32, 68, 78, 83, 45, 1079, 1072,
     1087, 1088, 1086, 1089, 1086, 1074, 46, 32, 1059, 32, 1085, 1072, 1089, 32, 1087, 1088,
     1086, 1089, 1090, 1086, 32, 1085, 1077, 1095, 1077, 1075, 1086, 32, 1086, 1090, 1076, 1072,
     1090, 1100, 32, 1087, 1086, 32, 1079, 1072, 1087, 1088, 1086, 1089, 1091, 32, 8212, 32,
     1090, 1086, 1083, 1100, 1082, 1086, 32, 101, 109, 97, 105, 108, 32, 1080, 32, 1092, 1072,
     1082, 1090, 32, 1087, 1086, 1076, 1087, 1080, 1089, 1082, 1080, 46]" \<comment> \<open>Ne pishem zhurnaly trafika i DNS-zaprosov. U nas prosto nechego otdat po zaprosu - tolko email i fakt podpiski.\<close>

definition ru_feat_fast :: jsstr where
  "ru_feat_fast =
    [1041, 1099, 1089, 1090, 1088, 1086, 1077, 32, 1087, 1086, 1076, 1082, 1083, 1102, 1095,
     1077, 1085, 1080, 1077]" \<comment> \<open>Bystroe podklyuchenie\<close>

definition ru_feat_fast_text :: jsstr where
  "ru_feat_fast_text =
    [65, 109, 110, 101, 122, 105, 97, 87, 71, 32, 1080, 32, 88, 114, 97, 121, 32, 82, 101, 97,
     108, 105, 116, 121, 46, 32, 1057, 1088, 1077, 1076, 1085, 1080, 1081, 32, 1087, 1080, 1085,
     1075, 32, 52, 50, 32, 1084, 1089, 32, 1087, 1086, 32, 1057, 1053, 1043, 32, 1080, 32, 1045,
     1074, 1088, 1086, 1087, 1077, 46]" \<comment> \<open>AmneziaWG i Xray Reality. Sredniy ping 42 ms po SNG i Evrope.\<close>

definition ru_feat_manual :: jsstr where
  "ru_feat_manual =
    [1056, 1091, 1095, 1085, 1086, 1081, 32, 1074, 1099, 1073, 1086, 1088, 32, 1089, 1077, 1088,
     1074, 1077, 1088, 1072]" \<comment> \<open>Ruchnoy vybor servera\<close>

definition ru_feat_manual_text :: jsstr where
  "ru_feat_manual_text =
    [1055, 1103, 1090, 1100, 32, 1083, 1086, 1082, 1072, 1094, 1080, 1081, 32, 1074, 32, 1088,
     1072, 1079, 1085, 1099, 1093, 32, 1088, 1077, 1075, 1080, 1086, 1085, 1072, 1093, 46, 32,
     1042, 1099, 1073, 1077, 1088, 1080, 1090, 1077, 32, 1089, 1074, 1086, 1081, 32, 1074, 32,
     1087, 1088, 1080, 1083, 1086, 1078, 1077, 1085, 1080, 1080, 32, 8212, 32, 1087, 1086, 1076,
     1082, 1083, 1102, 1095, 1077, 1085, 1080, 1077, 32, 1074, 32, 1086, 1076, 1080, 1085, 32,
     1090, 1072, 1087, 46]" \<comment> \<open>Pyat lokatsiy v raznyh regionah. Vyberite svoy v prilozhenii - podklyuchenie v odin tap.\<close>

definition ru_feat_tech_text :: jsstr where
  "ru_feat_tech_text =
    [1057, 1086, 1074, 1088, 1077, 1084, 1077, 1085, 1085, 1099, 1077, 32, 1087, 1088, 1086,
     1090, 1086, 1082, 1086, 1083, 1099, 32, 1089, 32, 68, 80, 73, 45, 1091, 1089, 1090, 1086,
     1081, 1095, 1080, 1074, 1086, 1089, 1090, 1100, 1102, 46, 32, 82, 101, 97, 108, 105, 116,
     121, 32, 1087, 1086, 1074, 1077, 1088, 1093, 32, 84, 76, 83, 44, 32, 1084, 1072, 1089,
     1082, 1080, 1088, 1086, 1074, 1082, 1072, 32, 1087, 1086, 1076, 32, 71, 111, 111, 103, 108,
     101, 47, 67, 108, 111, 117, 100, 102, 108, 97, 114, 101, 46]" \<comment> \<open>Sovremennye protokoly s DPI-ustoychivostyu. Reality poverh TLS, maskirovka pod Google/Cloudflare.\<close>

definition ru_feat_kill_text :: jsstr where
  "ru_feat_kill_text =
    [1045, 1089, 1083, 1080, 32, 1090, 1091, 1085, 1085, 1077, 1083, 1100, 32, 1091, 1087, 1072,
     1083, 32, 8212, 32, 1085, 1080, 1082, 1072, 1082, 1080, 1093, 32, 1091, 1090, 1077, 1095,
     1077, 1082, 46, 32, 70, 105, 114, 101, 119, 97, 108, 108, 32, 1073, 1083, 1086, 1082, 1080,
     1088, 1091, 1077, 1090, 32, 1090, 1088, 1072, 1092, 1080, 1082, 32, 1076, 1086, 32, 1074,
     1086, 1089, 1089, 1090, 1072, 1085, 1086, 1074, 1083, 1077, 1085, 1080, 1103, 32, 1089,
     1086, 1077, 1076, 1080, 1085, 1077, 1085, 1080, 1103, 46]" \<comment> \<open>Esli tunnel upal - nikakih utechek. Firewall blokiruet trafik do vosstanovleniya soedineniya.\<close>

definition ru_feat_split_text :: jsstr where
  "ru_feat_split_text =
    [1042, 1099, 1073, 1080, 1088, 1072, 1081, 1090, 1077, 44, 32, 1082, 1072, 1082, 1080, 1077,
     32, 1087, 1088, 1080, 1083, 1086, 1078, 1077, 1085, 1080, 1103, 32, 1080, 32, 1089, 1072,
     1081, 1090, 1099, 32, 1080, 1076, 1091, 1090, 32, 1095, 1077, 1088, 1077, 1079, 32, 86, 80,
     78, 44, 32, 1072, 32, 1082, 1072, 1082, 1080, 1077, 32, 1085, 1072, 1087, 1088, 1103, 1084,
     1091, 1102, 46]" \<comment> \<open>Vybirayte, kakie prilozheniya i sayty idut cherez VPN, a kakie napryamuyu.\<close>

definition ru_hero_eyebrow :: jsstr where
  "ru_hero_eyebrow =
    [65, 109, 110, 101, 122, 105, 97, 87, 71, 32, 183, 32, 88, 114, 97, 121, 32, 82, 101, 97,
     108, 105, 116, 121, 32, 183, 32, 78, 111, 32, 108, 111, 103, 115]" \<comment> \<open>AmneziaWG . Xray Reality . No logs\<close>

definition ru_hero_title :: jsstr where
  "ru_hero_title =
    [1055, 1088, 1080, 1074, 1072, 1090, 1085, 1099, 1081, 32, 1080, 1085, 1090, 1077, 1088,
     1085, 1077, 1090, 32]" \<comment> \<open>Privatnyy internet \<close>

definition ru_hero_title_gold :: jsstr where
  "ru_hero_title_gold =
    [1079, 1072, 32, 1084, 1080, 1085, 1091, 1090, 1091, 46]" \<comment> \<open>za minutu.\<close>

definition ru_hero_text :: jsstr where
  "ru_hero_text =
    [70, 66, 76, 105, 110, 107, 32, 86, 80, 78, 32, 8212, 32, 1087, 1088, 1077, 1084, 1080,
     1072, 1083, 1100, 1085, 1099, 1081, 32, 1089, 1077, 1088, 1074, 1080, 1089, 32, 1073, 1077,
     1079, 32, 1083, 1086, 1075, 1086, 1074, 46, 32, 1057, 1082, 1072, 1095, 1072, 1081, 1090,
     1077, 32, 1087, 1088, 1080, 1083, 1086, 1078, 1077, 1085, 1080, 1077, 44, 32, 1074, 1099,
     1073, 1077, 1088, 1080, 1090, 1077, 32, 1087, 1086, 1076, 1087, 1080, 1089, 1082, 1091, 32,
     1080, 32, 1087, 1086, 1076, 1082, 1083, 1102, 1095, 1072, 1081, 1090, 1077, 1089, 1100, 32,
     1086, 1076, 1085, 1080, 1084, 32, 1090, 1072, 1087, 1086, 1084, 32, 1085, 1072, 32, 65,
     110, 100, 114, 111, 105, 100, 44, 32, 87, 105, 110, 100, 111, 119, 115, 44, 32, 109, 97,
     99, 79, 83, 44, 32, 76, 105, 110, 117, 120, 32, 1080, 32, 105, 80, 104, 111, 110, 101, 46]" \<comment> \<open>FBLink VPN - premialnyy servis bez logov. Skachayte prilozhenie, vyberite podpisku i podklyuchaytes odnim tapom na Android, Windows, macOS, Linux i iPhone.\<close>

definition ru_hero_choose :: jsstr where
  "ru_hero_choose =
    [1042, 1099, 1073, 1088, 1072, 1090, 1100, 32, 1087, 1086, 1076, 1087, 1080, 1089, 1082, 1091]" \<comment> \<open>Vybrat podpisku\<close>

definition ru_hero_download :: jsstr where
  "ru_hero_download =
    [1057, 1082, 1072, 1095, 1072, 1090, 1100, 32, 1087, 1088, 1080, 1083, 1086, 1078, 1077,
     1085, 1080, 1077]" \<comment> \<open>Skachat prilozhenie\<close>

definition ru_unlimited_devices :: jsstr where
  "ru_unlimited_devices =
    [1041, 1077, 1079, 1083, 1080, 1084, 1080, 1090, 32, 1091, 1089, 1090, 1088, 1086, 1081,
     1089, 1090, 1074]" \<comment> \<open>Bezlimit ustroystv\<close>

definition ru_pay_in_russia :: jsstr where
  "ru_pay_in_russia =
    [1054, 1087, 1083, 1072, 1090, 1072, 32, 1087, 1086, 32, 1056, 1060]" \<comment> \<open>Oplata po RF\<close>

definition ru_server :: jsstr where
  "ru_server =
    [1057, 1077, 1088, 1074, 1077, 1088]" \<comment> \<open>Server\<close>

definition ru_sample_server :: jsstr where
  "ru_sample_server =
    [70, 66, 76, 105, 110, 107, 32, 183, 32, 78, 76]" \<comment> \<open>FBLink . NL\<close>

definition ru_ping :: jsstr where
  "ru_ping =
    [1055, 1080, 1085, 1075]" \<comment> \<open>Ping\<close>

definition ru_features :: jsstr where
  "ru_features =
    [1042, 1086, 1079, 1084, 1086, 1078, 1085, 1086, 1089, 1090, 1080]" \<comment> \<open>Vozmozhnosti\<close>

definition ru_features_title :: jsstr where
  "ru_features_title =
    [1055, 1088, 1077, 1084, 1080, 1091, 1084, 45, 1092, 1091, 1085, 1082, 1094, 1080, 1080, 32,
     1087, 1086, 32, 1094, 1077, 1085, 1077, 32, 1082, 1086, 1092, 1077]" \<comment> \<open>Premium-funktsii po tsene kofe\<close>

definition ru_features_text :: jsstr where
  "ru_features_text =
    [1057, 1086, 1074, 1088, 1077, 1084, 1077, 1085, 1085, 1099, 1077, 32, 1087, 1088, 1086,
     1090, 1086, 1082, 1086, 1083, 1099, 44, 32, 1079, 1072, 1097, 1080, 1090, 1072, 32, 1086,
     1090, 32, 1091, 1090, 1077, 1095, 1077, 1082, 32, 1080, 32, 1087, 1088, 1086, 1076, 1091,
     1084, 1072, 1085, 1085, 1099, 1081, 32, 1082, 1072, 1073, 1080, 1085, 1077, 1090, 46, 32,
     1041, 1077, 1079, 32, 1073, 1072, 1085, 1085, 1077, 1088, 1086, 1074, 44, 32, 1088, 1077,
     1082, 1083, 1072, 1084, 1099, 32, 1080, 32, 1089, 1073, 1086, 1088, 1072, 32, 1090, 1077,
     1083, 1077, 1084, 1077, 1090, 1088, 1080, 1080, 46]" \<comment> \<open>Sovremennye protokoly, zaschita ot utechek i produmannyy kabinet. Bez bannerov, reklamy i sbora telemetrii.\<close>

definition ru_plans_eyebrow :: jsstr where
  "ru_plans_eyebrow =
    [1055, 1086, 1076, 1087, 1080, 1089, 1082, 1072]" \<comment> \<open>Podpiska\<close>

definition ru_plans_title :: jsstr where
  "ru_plans_title =
    [1054, 1076, 1080, 1085, 32, 1090, 1072, 1088, 1080, 1092, 32, 8212, 32, 1086, 1076, 1080,
     1085, 32, 1090, 1072, 1087, 46, 32]" \<comment> \<open>Odin tarif - odin tap. \<close>

definition ru_plans_title_gold :: jsstr where
  "ru_plans_title_gold =
    [1041, 1077, 1079, 32, 1089, 1082, 1088, 1099, 1090, 1099, 1093, 32, 1087, 1083, 1072, 1090,
     1077, 1078, 1077, 1081, 46]" \<comment> \<open>Bez skrytyh platezhey.\<close>

definition ru_plans_text :: jsstr where
  "ru_plans_text =
    [1044, 1074, 1072, 32, 1090, 1072, 1088, 1080, 1092, 1072, 32, 1080, 32, 1076, 1074, 1072,
     32, 1089, 1088, 1086, 1082, 1072, 46, 32, 1042, 1099, 1073, 1080, 1088, 1072, 1077, 1090,
     1077, 32, 1087, 1083, 1072, 1085, 44, 32, 1089, 1088, 1086, 1082, 44, 32, 1086, 1087, 1083,
     1072, 1095, 1080, 1074, 1072, 1077, 1090, 1077, 32, 8212, 32, 1080, 32, 1089, 1088, 1072,
     1079, 1091, 32, 1087, 1086, 1083, 1100, 1079, 1091, 1077, 1090, 1077, 1089, 1100, 46, 32,
     1042, 1089, 1077, 32, 1091, 1089, 1083, 1086, 1074, 1080, 1103, 32, 1087, 1086, 1082, 1072,
     1079, 1072, 1085, 1099, 32, 1076, 1086, 32, 1086, 1087, 1083, 1072, 1090, 1099, 46]" \<comment> \<open>Dva tarifa i dva sroka. Vybiraete plan, srok, oplachivaete - i srazu polzuetes. Vse usloviya pokazany do oplaty.\<close>

definition ru_platforms :: jsstr where
  "ru_platforms =
    [1055, 1083, 1072, 1090, 1092, 1086, 1088, 1084, 1099]" \<comment> \<open>Platformy\<close>

definition ru_platforms_title :: jsstr where
  "ru_platforms_title =
    [1042, 1089, 1077, 32, 1074, 1072, 1096, 1080, 32, 1091, 1089, 1090, 1088, 1086, 1081, 1089,
     1090, 1074, 1072, 32, 8212, 32, 1086, 1076, 1085, 1086, 1081, 32, 1087, 1086, 1076, 1087,
     1080, 1089, 1082, 1086, 1081]" \<comment> \<open>Vse vashi ustroystva - odnoy podpiskoy\<close>

definition ru_faq_title :: jsstr where
  "ru_faq_title =
    [1063, 1072, 1089, 1090, 1099, 1077, 32, 1074, 1086, 1087, 1088, 1086, 1089, 1099]" \<comment> \<open>Chastye voprosy\<close>

definition ru_faq_text :: jsstr where
  "ru_faq_text =
    [1045, 1089, 1083, 1080, 32, 1085, 1077, 32, 1085, 1072, 1096, 1083, 1080, 32, 1086, 1090,
     1074, 1077, 1090, 32, 8212, 32, 1085, 1072, 1087, 1080, 1096, 1080, 1090, 1077, 32, 1085,
     1072, 1084, 32, 1074, 32, 84, 101, 108, 101, 103, 114, 97, 109, 32, 1080, 1083, 1080, 32,
     1085, 1072, 32, 1087, 1086, 1095, 1090, 1091, 44, 32, 1086, 1090, 1074, 1077, 1095, 1072,
     1077, 1084, 32, 1074, 32, 1090, 1077, 1095, 1077, 1085, 1080, 1077, 32, 1095, 1072, 1089,
     1072, 46]" \<comment> \<open>Esli ne nashli otvet - napishite nam v Telegram ili na pochtu, otvechaem v techenie chasa.\<close>

definition ru_cta_title :: jsstr where
  "ru_cta_title =
    [1043, 1086, 1090, 1086, 1074, 1099, 32, 1085, 1072, 1095, 1072, 1090, 1100, 63, 32]" \<comment> \<open>Gotovy nachat? \<close>

definition ru_cta_title_gold :: jsstr where
  "ru_cta_title_gold =
    [1041, 1077, 1079, 32, 1088, 1077, 1082, 1083, 1072, 1084, 1099, 44, 32, 1073, 1077, 1079,
     32, 1090, 1088, 1077, 1082, 1077, 1088, 1086, 1074, 44, 32, 1073, 1077, 1079, 32, 1083,
     1086, 1075, 1086, 1074, 46]" \<comment> \<open>Bez reklamy, bez trekerov, bez logov.\<close>

definition ru_cta_text :: jsstr where
  "ru_cta_text =
    [1057, 1086, 1079, 1076, 1072, 1081, 1090, 1077, 32, 1072, 1082, 1082, 1072, 1091, 1085,
     1090, 32, 1079, 1072, 32, 51, 48, 32, 1089, 1077, 1082, 1091, 1085, 1076, 44, 32, 1074,
     1099, 1073, 1077, 1088, 1080, 1090, 1077, 32, 1090, 1072, 1088, 1080, 1092, 32, 1080, 32,
     1089, 1082, 1072, 1095, 1072, 1081, 1090, 1077, 32, 1087, 1088, 1080, 1083, 1086, 1078,
     1077, 1085, 1080, 1077, 32, 1085, 1072, 32, 1083, 1102, 1073, 1099, 1093, 32, 1091, 1089,
     1090, 1088, 1086, 1081, 1089, 1090, 1074, 1072, 1093, 32, 8212, 32, 1086, 1076, 1085, 1072,
     32, 1087, 1086, 1076, 1087, 1080, 1089, 1082, 1072, 32, 1073, 1077, 1079, 32, 1083, 1080,
     1084, 1080, 1090, 1086, 1074, 46]" \<comment> \<open>Sozdayte akkaunt za 30 sekund, vyberite tarif i skachayte prilozhenie na lyubyh ustroystvah - odna podpiska bez limitov.\<close>

definition ru_create_account_now :: jsstr where
  "ru_create_account_now =
    [1057, 1086, 1079, 1076, 1072, 1090, 1100, 32, 1072, 1082, 1082, 1072, 1091, 1085, 1090]" \<comment> \<open>Sozdat akkaunt\<close>

definition ru_ask_question :: jsstr where
  "ru_ask_question =
    [1047, 1072, 1076, 1072, 1090, 1100, 32, 1074, 1086, 1087, 1088, 1086, 1089]" \<comment> \<open>Zadat vopros\<close>

definition ru_footer_lead :: jsstr where
  "ru_footer_lead =
    [1055, 1088, 1077, 1084, 1080, 1072, 1083, 1100, 1085, 1099, 1081, 32, 86, 80, 78, 32, 1073,
     1077, 1079, 32, 1083, 1086, 1075, 1086, 1074, 46, 32, 1056, 1086, 1089, 1089, 1080, 1103,
     32, 1080, 32, 1057, 1053, 1043, 46]" \<comment> \<open>Premialnyy VPN bez logov. Rossiya i SNG.\<close>

definition ru_tariffs :: jsstr where
  "ru_tariffs =
    [1058, 1072, 1088, 1080, 1092, 1099]" \<comment> \<open>Tarify\<close>

definition ru_terms :: jsstr where
  "ru_terms =
    [1055, 1086, 1083, 1100, 1079, 1086, 1074, 1072, 1090, 1077, 1083, 1100, 1089, 1082, 1086,
     1077, 32, 1089, 1086, 1075, 1083, 1072, 1096, 1077, 1085, 1080, 1077]" \<comment> \<open>Polzovatelskoe soglashenie\<close>

definition ru_policy :: jsstr where
  "ru_policy =
    [1055, 1086, 1083, 1080, 1090, 1080, 1082, 1072]" \<comment> \<open>Politika\<close>

definition ru_copyright :: jsstr where
  "ru_copyright =
    [169, 32]" \<comment> \<open>(c) \<close>

subsection \<open>web/components/Topbar.tsx\<close>

definition ru_sign_in_link :: jsstr where
  "ru_sign_in_link =
    [1042, 1086, 1081, 1090, 1080]" \<comment> \<open>Voyti\<close>

subsection \<open>web/components/Faq.tsx\<close>

definition ru_q_logs :: jsstr where
  "ru_q_logs =
    [1061, 1088, 1072, 1085, 1080, 1090, 32, 1083, 1080, 32, 70, 66, 76, 105, 110, 107, 32, 86,
     80, 78, 32, 1083, 1086, 1075, 1080, 63]" \<comment> \<open>Hranit li FBLink VPN logi?\<close>

definition ru_a_logs :: jsstr where
  "ru_a_logs =
    [1053, 1077, 1090, 46, 32, 1052, 1099, 32, 1085, 1077, 32, 1087, 1080, 1096, 1077, 1084, 32,
     1078, 1091, 1088, 1085, 1072, 1083, 1099, 32, 1087, 1086, 1089, 1077, 1097, 1077, 1085,
     1085, 1099, 1093, 32, 1088, 1077, 1089, 1091, 1088, 1089, 1086, 1074, 44, 32, 73, 80, 45,
     1072, 1076, 1088, 1077, 1089, 1086, 1074, 32, 1080, 32, 1090, 1088, 1072, 1092, 1080, 1082,
     1072, 46, 32, 1061, 1088, 1072, 1085, 1080, 1090, 1089, 1103, 32, 1090, 1086, 1083, 1100,
     1082, 1086, 32, 101, 109, 97, 105, 108, 32, 1080, 32, 1089, 1090, 1072, 1090, 1091, 1089,
     32, 1087, 1086, 1076, 1087, 1080, 1089, 1082, 1080, 46]" \<comment> \<open>Net. My ne pishem zhurnaly poseschennyh resursov, IP-adresov i trafika. Hranitsya tolko email i status podpiski.\<close>

definition ru_q_devices :: jsstr where
  "ru_q_devices =
    [1053, 1072, 32, 1089, 1082, 1086, 1083, 1100, 1082, 1080, 1093, 32, 1091, 1089, 1090, 1088,
     1086, 1081, 1089, 1090, 1074, 1072, 1093, 32, 1084, 1086, 1078, 1085, 1086, 32, 1080, 1089,
     1087, 1086, 1083, 1100, 1079, 1086, 1074, 1072, 1090, 1100, 32, 1086, 1076, 1085, 1091, 32,
     1087, 1086, 1076, 1087, 1080, 1089, 1082, 1091, 63]" \<comment> \<open>Na skolkih ustroystvah mozhno ispolzovat odnu podpisku?\<close>

definition ru_a_devices :: jsstr where
  "ru_a_devices =
    [1041, 1077, 1079, 32, 1083, 1080, 1084, 1080, 1090, 1072, 46, 32, 1048, 1089, 1087, 1086,
     1083, 1100, 1079, 1091, 1081, 1090, 1077, 32, 1086, 1076, 1080, 1085, 32, 101, 109, 97,
     105, 108, 32, 1080, 32, 1087, 1072, 1088, 1086, 1083, 1100, 32, 1085, 1072, 32, 1083, 1102,
     1073, 1086, 1084, 32, 1082, 1086, 1083, 1080, 1095, 1077, 1089, 1090, 1074, 1077, 32, 1091,
     1089, 1090, 1088, 1086, 1081, 1089, 1090, 1074, 32, 8212, 32, 65, 110, 100, 114, 111, 105,
     100, 44, 32, 87, 105, 110, 100, 111, 119, 115, 44, 32, 109, 97, 99, 79, 83, 44, 32, 76,
     105, 110, 117, 120, 32, 1080, 32, 105, 80, 104, 111, 110, 101, 46]" \<comment> \<open>Bez limita. Ispolzuyte odin email i parol na lyubom kolichestve ustroystv - Android, Windows, macOS, Linux i iPhone.\<close>

definition ru_q_vip :: jsstr where
  "ru_q_vip =
    [1063, 1077, 1084, 32, 86, 73, 80, 32, 1086, 1090, 1083, 1080, 1095, 1072, 1077, 1090, 1089,
     1103, 32, 1086, 1090, 32, 80, 114, 101, 109, 105, 117, 109, 63]" \<comment> \<open>Chem VIP otlichaetsya ot Premium?\<close>

definition ru_a_vip :: jsstr where
  "ru_a_vip =
    [86, 73, 80, 32, 1076, 1086, 1073, 1072, 1074, 1083, 1103, 1077, 1090, 32, 1087, 1088, 1080,
     1086, 1088, 1080, 1090, 1077, 1090, 1085, 1099, 1077, 32, 1089, 1077, 1088, 1074, 1077,
     1088, 1099, 44, 32, 88, 114, 97, 121, 32, 82, 101, 97, 108, 105, 116, 121, 32, 1076, 1083,
     1103, 32, 1088, 1077, 1075, 1080, 1086, 1085, 1086, 1074, 32, 1089, 32, 1075, 1083, 1091,
     1073, 1086, 1082, 1086, 1081, 32, 68, 80, 73, 44, 32, 65, 100, 66, 108, 111, 99, 107, 32,
     68, 78, 83, 32, 1080, 32, 1073, 1086, 1083, 1077, 1077, 32, 1074, 1099, 1089, 1086, 1082,
     1091, 1102, 32, 1089, 1082, 1086, 1088, 1086, 1089, 1090, 1100, 32, 1085, 1072, 32, 1087,
     1080, 1082, 1086, 1074, 1086, 1081, 32, 1085, 1072, 1075, 1088, 1091, 1079, 1082, 1077, 46]" \<comment> \<open>VIP dobavlyaet prioritetnye servery, Xray Reality dlya regionov s glubokoy DPI, AdBlock DNS i bolee vysokuyu skorost na pikovoy nagruzke.\<close>

definition ru_q_slow :: jsstr where
  "ru_q_slow =
    [1063, 1090, 1086, 32, 1076, 1077, 1083, 1072, 1090, 1100, 44, 32, 1077, 1089, 1083, 1080,
     32, 1087, 1086, 1076, 1082, 1083, 1102, 1095, 1077, 1085, 1080, 1077, 32, 1084, 1077, 1076,
     1083, 1077, 1085, 1085, 1086, 1077, 63]" \<comment> \<open>Chto delat, esli podklyuchenie medlennoe?\<close>

definition ru_a_slow :: jsstr where
  "ru_a_slow =
    [1042, 32, 1087, 1088, 1080, 1083, 1086, 1078, 1077, 1085, 1080, 1080, 32, 1087, 1077, 1088,
     1077, 1082, 1083, 1102, 1095, 1080, 1090, 1077, 32, 1089, 1077, 1088, 1074, 1077, 1088, 32,
     1085, 1072, 32, 1076, 1088, 1091, 1075, 1091, 1102, 32, 1083, 1086, 1082, 1072, 1094, 1080,
     1102, 32, 1074, 1088, 1091, 1095, 1085, 1091, 1102, 32, 8212, 32, 1087, 1086, 1087, 1088,
     1086, 1073, 1091, 1081, 1090, 1077, 32, 1073, 1083, 1080, 1078, 1072, 1081, 1096, 1091,
     1102, 32, 1082, 32, 1074, 1072, 1084, 32, 1089, 1090, 1088, 1072, 1085, 1091, 46, 32, 1045,
     1089, 1083, 1080, 32, 1087, 1088, 1086, 1073, 1083, 1077, 1084, 1072, 32, 1086, 1089, 1090,
     1072, 1083, 1072, 1089, 1100, 32, 8212, 32, 1085, 1072, 1087, 1080, 1096, 1080, 1090, 1077,
     32, 1074, 32, 1087, 1086, 1076, 1076, 1077, 1088, 1078, 1082, 1091, 44, 32, 1087, 1086,
     1084, 1086, 1078, 1077, 1084, 32, 1087, 1086, 1076, 1086, 1073, 1088, 1072, 1090, 1100, 32,
     1089, 1077, 1088, 1074, 1077, 1088, 46]" \<comment> \<open>V prilozhenii pereklyuchite server na druguyu lokatsiyu vruchnuyu - poprobuyte blizhayshuyu k vam stranu. Esli problema ostalas - napishite v podderzhku, pomozhem podobrat server.\<close>

definition ru_q_cards :: jsstr where
  "ru_q_cards =
    [1057, 32, 1082, 1072, 1082, 1080, 1093, 32, 1082, 1072, 1088, 1090, 32, 1084, 1086, 1078,
     1085, 1086, 32, 1086, 1087, 1083, 1072, 1090, 1080, 1090, 1100, 63]" \<comment> \<open>S kakih kart mozhno oplatit?\<close>

definition ru_a_cards :: jsstr where
  "ru_a_cards =
    [1042, 1089, 1077, 1093, 32, 1088, 1086, 1089, 1089, 1080, 1081, 1089, 1082, 1080, 1093, 32,
     1073, 1072, 1085, 1082, 1086, 1074, 1089, 1082, 1080, 1093, 32, 1082, 1072, 1088, 1090, 46,
     32, 1054, 1087, 1083, 1072, 1090, 1072, 32, 1080, 1076, 1105, 1090, 32, 1095, 1077, 1088,
     1077, 1079, 32, 89, 111, 111, 75, 97, 115, 115, 97, 44, 32, 1087, 1086, 1076, 1087, 1080,
     1089, 1082, 1072, 32, 1072, 1082, 1090, 1080, 1074, 1080, 1088, 1091, 1077, 1090, 1089,
     1103, 32, 1089, 1088, 1072, 1079, 1091, 32, 1087, 1086, 1089, 1083, 1077, 32, 1087, 1083,
     1072, 1090, 1077, 1078, 1072, 46]" \<comment> \<open>Vseh rossiyskih bankovskih kart. Oplata idyot cherez YooKassa, podpiska aktiviruetsya srazu posle platezha.\<close>

definition ru_q_games :: jsstr where
  "ru_q_games =
    [1055, 1086, 1076, 1086, 1081, 1076, 1077, 1090, 32, 1083, 1080, 32, 86, 80, 78, 32, 1076,
     1083, 1103, 32, 1089, 1090, 1088, 1080, 1084, 1080, 1085, 1075, 1072, 32, 1080, 32, 1080,
     1075, 1088, 63]" \<comment> \<open>Podoydet li VPN dlya striminga i igr?\<close>

definition ru_a_games :: jsstr where
  "ru_a_games =
    [1044, 1072, 46, 32, 1057, 1077, 1088, 1074, 1077, 1088, 1099, 32, 1086, 1087, 1090, 1080,
     1084, 1080, 1079, 1080, 1088, 1086, 1074, 1072, 1085, 1099, 32, 1087, 1086, 1076, 32, 1085,
     1080, 1079, 1082, 1080, 1081, 32, 1087, 1080, 1085, 1075, 32, 1080, 32, 1089, 1090, 1072,
     1073, 1080, 1083, 1100, 1085, 1086, 1089, 1090, 1100, 32, 52, 75, 47, 85, 72, 68, 45, 1089,
     1090, 1088, 1080, 1084, 1080, 1085, 1075, 1072, 46, 32, 1044, 1083, 1103, 32, 1086, 1085,
     1083, 1072, 1081, 1085, 45, 1080, 1075, 1088, 32, 1074, 1099, 1073, 1080, 1088, 1072, 1081,
     1090, 1077, 32, 1073, 1083, 1080, 1078, 1072, 1081, 1096, 1091, 1102, 32, 1083, 1086, 1082,
     1072, 1094, 1080, 1102, 46]" \<comment> \<open>Da. Servery optimizirovany pod nizkiy ping i stabilnost 4K/UHD-striminga. Dlya onlayn-igr vybirayte blizhayshuyu lokatsiyu.\<close>

subsection \<open>web/app/policy/page.tsx\<close>

definition ru_policy_title :: jsstr where
  "ru_policy_title =
    [1055, 1086, 1083, 1080, 1090, 1080, 1082, 1072, 32, 1082, 1086, 1085, 1092, 1080, 1076,
     1077, 1085, 1094, 1080, 1072, 1083, 1100, 1085, 1086, 1089, 1090, 1080, 32, 70, 66, 76,
     105, 110, 107, 32, 86, 80, 78]" \<comment> \<open>Politika konfidentsialnosti FBLink VPN\<close>

definition ru_policy_lead :: jsstr where
  "ru_policy_lead =
    [1052, 1099, 32, 1086, 1073, 1088, 1072, 1073, 1072, 1090, 1099, 1074, 1072, 1077, 1084, 32,
     1090, 1086, 1083, 1100, 1082, 1086, 32, 1076, 1072, 1085, 1085, 1099, 1077, 44, 32, 1085,
     1077, 1086, 1073, 1093, 1086, 1076, 1080, 1084, 1099, 1077, 32, 1076, 1083, 1103, 32, 1072,
     1082, 1082, 1072, 1091, 1085, 1090, 1072, 44, 32, 1086, 1087, 1083, 1072, 1090, 1099, 44,
     32, 1087, 1086, 1076, 1076, 1077, 1088, 1078, 1082, 1080, 32, 1080, 32, 1088, 1072, 1073,
     1086, 1090, 1099, 32, 86, 80, 78, 45, 1089, 1077, 1088, 1074, 1080, 1089, 1072, 46, 32,
     1058, 1088, 1072, 1092, 1080, 1082, 44, 32, 68, 78, 83, 45, 1079, 1072, 1087, 1088, 1086,
     1089, 1099, 32, 1080, 32, 1089, 1086, 1076, 1077, 1088, 1078, 1080, 1084, 1086, 1077, 32,
     1089, 1086, 1077, 1076, 1080, 1085, 1077, 1085, 1080, 1081, 32, 1085, 1077, 32, 1083, 1086,
     1075, 1080, 1088, 1091, 1102, 1090, 1089, 1103, 46]" \<comment> \<open>My obrabatyvaem tolko dannye, neobhodimye dlya akkaunta, oplaty, podderzhki i raboty VPN-servisa. Trafik, DNS-zaprosy i soderzhimoe soedineniy ne logiruyutsya.\<close>

definition ru_policy_data :: jsstr where
  "ru_policy_data =
    [1050, 1072, 1082, 1080, 1077, 32, 1076, 1072, 1085, 1085, 1099, 1077, 32, 1080, 1089, 1087,
     1086, 1083, 1100, 1079, 1091, 1102, 1090, 1089, 1103]" \<comment> \<open>Kakie dannye ispolzuyutsya\<close>

definition ru_policy_data_text :: jsstr where
  "ru_policy_data_text =
    [69, 109, 97, 105, 108, 32, 1072, 1082, 1082, 1072, 1091, 1085, 1090, 1072, 44, 32, 1089,
     1090, 1072, 1090, 1091, 1089, 32, 1087, 1086, 1076, 1087, 1080, 1089, 1082, 1080, 44, 32,
     1089, 1074, 1077, 1076, 1077, 1085, 1080, 1103, 32, 1086, 1073, 32, 1086, 1087, 1083, 1072,
     1090, 1077, 32, 1086, 1090, 32, 1087, 1083, 1072, 1090, 1077, 1078, 1085, 1086, 1075, 1086,
     32, 1087, 1088, 1086, 1074, 1072, 1081, 1076, 1077, 1088, 1072, 44, 32, 1090, 1077, 1093,
     1085, 1080, 1095, 1077, 1089, 1082, 1080, 1077, 32, 1076, 1072, 1085, 1085, 1099, 1077, 32,
     1087, 1088, 1080, 1083, 1086, 1078, 1077, 1085, 1080, 1103, 32, 1080, 32, 1089, 1086, 1086,
     1073, 1097, 1077, 1085, 1080, 1103, 44, 32, 1082, 1086, 1090, 1086, 1088, 1099, 1077, 32,
     1087, 1086, 1083, 1100, 1079, 1086, 1074, 1072, 1090, 1077, 1083, 1100, 32, 1089, 1072,
     1084, 32, 1086, 1090, 1087, 1088, 1072, 1074, 1083, 1103, 1077, 1090, 32, 1074, 32, 1087,
     1086, 1076, 1076, 1077, 1088, 1078, 1082, 1091, 46]" \<comment> \<open>Email akkaunta, status podpiski, svedeniya ob oplate ot platezhnogo provaydera, tehnicheskie dannye prilozheniya i soobscheniya, kotorye polzovatel sam otpravlyaet v podderzhku.\<close>

definition ru_policy_why :: jsstr where
  "ru_policy_why =
    [1047, 1072, 1095, 1077, 1084, 32, 1101, 1090, 1086, 32, 1085, 1091, 1078, 1085, 1086]" \<comment> \<open>Zachem eto nuzhno\<close>

definition ru_policy_why_text :: jsstr where
  "ru_policy_why_text =
    [1063, 1090, 1086, 1073, 1099, 32, 1089, 1086, 1079, 1076, 1072, 1090, 1100, 32, 1072, 1082,
     1082, 1072, 1091, 1085, 1090, 44, 32, 1074, 1099, 1076, 1072, 1090, 1100, 32, 1076, 1086,
     1089, 1090, 1091, 1087, 44, 32, 1074, 1086, 1089, 1089, 1090, 1072, 1085, 1086, 1074, 1080,
     1090, 1100, 32, 1087, 1086, 1076, 1087, 1080, 1089, 1082, 1091, 44, 32, 1086, 1090, 1087,
     1088, 1072, 1074, 1080, 1090, 1100, 32, 1095, 1077, 1082, 44, 32, 1086, 1073, 1088, 1072,
     1073, 1086, 1090, 1072, 1090, 1100, 32, 1086, 1073, 1088, 1072, 1097, 1077, 1085, 1080,
     1077, 32, 1080, 32, 1079, 1072, 1097, 1080, 1090, 1080, 1090, 1100, 32, 1089, 1077, 1088,
     1074, 1080, 1089, 32, 1086, 1090, 32, 1079, 1083, 1086, 1091, 1087, 1086, 1090, 1088, 1077,
     1073, 1083, 1077, 1085, 1080, 1081, 46]" \<comment> \<open>Chtoby sozdat akkaunt, vydat dostup, vosstanovit podpisku, otpravit chek, obrabotat obraschenie i zaschitit servis ot zloupotrebleniy.\<close>

definition ru_policy_mail :: jsstr where
  "ru_policy_mail =
    [1054, 1089, 1085, 1086, 1074, 1085, 1072, 1103, 32, 1087, 1086, 1095, 1090, 1072, 32, 1090,
     1077, 1093, 1087, 1086, 1076, 1076, 1077, 1088, 1078, 1082, 1080, 58, 32]" \<comment> \<open>Osnovnaya pochta tehpodderzhki: \<close>

definition ru_policy_requests :: jsstr where
  "ru_policy_requests =
    [1047, 1072, 1087, 1088, 1086, 1089, 1099, 32, 1087, 1086, 1083, 1100, 1079, 1086, 1074,
     1072, 1090, 1077, 1083, 1103]" \<comment> \<open>Zaprosy polzovatelya\<close>

definition ru_policy_requests_text :: jsstr where
  "ru_policy_requests_text =
    [1055, 1086, 32, 1074, 1086, 1087, 1088, 1086, 1089, 1072, 1084, 32, 1076, 1086, 1089, 1090,
     1091, 1087, 1072, 44, 32, 1091, 1076, 1072, 1083, 1077, 1085, 1080, 1103, 32, 1080, 1083,
     1080, 32, 1091, 1090, 1086, 1095, 1085, 1077, 1085, 1080, 1103, 32, 1076, 1072, 1085, 1085,
     1099, 1093, 32, 1085, 1072, 1087, 1080, 1096, 1080, 1090, 1077, 32, 1085, 1072, 32, 1087,
     1086, 1095, 1090, 1091, 32, 1087, 1086, 1076, 1076, 1077, 1088, 1078, 1082, 1080, 46, 32,
     1042, 32, 1086, 1073, 1088, 1072, 1097, 1077, 1085, 1080, 1080, 32, 1084, 1086, 1078, 1085,
     1086, 32, 1091, 1082, 1072, 1079, 1072, 1090, 1100, 32, 115, 117, 112, 112, 111, 114, 116,
     32, 116, 97, 103, 32, 1080, 1079, 32, 1087, 1088, 1080, 1083, 1086, 1078, 1077, 1085, 1080,
     1103, 46]" \<comment> \<open>Po voprosam dostupa, udaleniya ili utochneniya dannyh napishite na pochtu podderzhki. V obraschenii mozhno ukazat support tag iz prilozheniya.\<close>

text \<open>No literal is empty: a message that is set is shown.\<close>

lemmas ru_defs =
  ru_no_rules_def ru_domain_one_def ru_domain_few_def ru_domain_many_def ru_zone_one_def
  ru_zone_few_def ru_zone_many_def ru_dot_sep_def ru_bad_server_answer_def
  ru_premium_description_def ru_one_month_def ru_three_months_def ru_unlimited_def
  ru_all_platforms_def ru_quick_connect_def ru_vip_description_def ru_vip_servers_def
  ru_quick_chat_def ru_messenger_support_def ru_russian_messenger_def ru_login_title_def
  ru_login_subtitle_def ru_login_cta_def ru_register_title_def ru_register_subtitle_def
  ru_register_cta_def ru_reset_title_def ru_reset_subtitle_def ru_reset_cta_def
  ru_request_failed_def ru_code_sent_def ru_code_maybe_sent_def ru_password_updated_def
  ru_please_wait_def ru_confirm_def ru_encryption_eyebrow_def ru_new_password_def ru_password_def
  ru_forgot_password_def ru_code_from_email_def ru_no_account_def ru_create_def ru_have_account_def
  ru_back_to_login_def ru_fineprint_def ru_promo_invalid_def ru_promo_not_applied_def
  ru_connection_error_def ru_have_promo_def ru_apply_def ru_discount_def ru_discount_applied_def
  ru_creating_payment_def ru_choose_def ru_continue_def ru_current_plan_def ru_renew_def
  ru_vip_connected_def ru_go_vip_def ru_choose_subscription_def ru_pricing_lead_def ru_minus_def
  ru_checkout_def ru_plan_bullet_def ru_base_price_def ru_rouble_suffix_def
  ru_promo_discount_open_def ru_total_due_def ru_pay_def ru_active_subscription_def
  ru_per_month_def ru_per_3_months_def ru_approx_def ru_rouble_per_month_def ru_selected_def
  ru_pay_1_month_def ru_pay_3_months_save_def ru_pay_3_months_def ru_included_def ru_total_def
  ru_ready_to_install_def ru_binary_path_name_def ru_autorenew_failed_def
  ru_payment_not_created_def ru_subscription_activated_def ru_link_not_created_def
  ru_link_not_received_def ru_loading_dashboard_def ru_em_dash_def ru_support_def ru_home_def
  ru_subscription_def ru_download_def ru_sign_out_def ru_protection_on_def
  ru_subscription_expired_def ru_free_tariff_def ru_subscription_active_def ru_renewal_needed_def
  ru_free_plan_def ru_days_left_def ru_free_lead_def ru_valid_until_def ru_manage_below_def
  ru_expired_lead_def ru_plan_word_def ru_auto_renew_def ru_enabled_def ru_switching_off_def
  ru_switch_off_def ru_plan_chosen_def ru_renew_or_change_def ru_activate_access_def ru_apps_def
  ru_download_app_def ru_download_lead_def ru_into_happ_def ru_support_24_7_def ru_support_lead_def
  ru_account_data_def ru_account_lead_def ru_are_you_sure_def ru_cancel_warning_def
  ru_keep_enabled_def ru_switch_off_anyway_def ru_day_def ru_days_few_def ru_days_many_def
  ru_adblock_failed_def ru_profile_failed_def ru_sure_delete_rule_def ru_delete_failed_def
  ru_create_rule_failed_def ru_update_rule_failed_def ru_preset_failed_def ru_add_a_rule_def
  ru_link_failed_def ru_vip_only_def ru_vip_only_lead_def ru_upgrade_vip_def ru_vip_settings_def
  ru_vip_lead_def ru_ad_filter_def ru_adblock_lead_def ru_adblock_on_def ru_smart_routing_def
  ru_traffic_rules_def ru_traffic_lead_def ru_my_routes_def ru_presets_def ru_apply_config_def
  ru_you_have_def ru_rules_send_def ru_add_to_happ_def ru_create_rule_def ru_new_rule_def
  ru_edit_rule_def ru_name_def ru_action_def ru_via_vpn_def ru_directly_def ru_domains_label_def
  ru_cancel_def ru_save_def ru_user_rule_def ru_no_rules_yet_def ru_choose_presets_def
  ru_system_def ru_added_def ru_add_def ru_loading_vip_def ru_back_dashboard_def
  ru_nav_overview_def ru_nav_overview_hint_def ru_nav_servers_hint_def ru_nav_incidents_def
  ru_nav_incidents_hint_def ru_nav_users_def ru_nav_users_hint_def ru_nav_payments_def
  ru_nav_payments_hint_def ru_nav_agent_def ru_nav_settings_def ru_nav_settings_hint_def
  ru_new_critical_def ru_stream_failed_def ru_overview_unavailable_def ru_overview_failed_def
  ru_command_not_done_def ru_command_done_def ru_command_failed_def ru_health_unavailable_def
  ru_health_failed_def ru_now_def ru_month_def ru_go_to_content_def ru_one_vps_down_def
  ru_check_agent_def ru_accept_def ru_active_vps_def ru_n_incidents_def ru_n_active_def ru_keys_def
  ru_rouble_def ru_this_month_def ru_vps_health_lead_def ru_all_def ru_active_many_def
  ru_switched_off_def ru_all_regions_def ru_refresh_def ru_th_server_def ru_th_clients_def
  ru_th_load_def ru_th_status_def ru_th_actions_def ru_dot_def ru_new_users_def ru_revenue_def
  ru_incidents_title_def ru_incidents_text_def ru_reaction_queue_def ru_no_incidents_def
  ru_audience_def ru_audience_detail_def ru_active_keys_def ru_spread_over_vps_def ru_by_region_def
  ru_by_region_text_def ru_revenue_by_day_def ru_user_growth_def ru_finance_def ru_finance_text_def
  ru_need_check_def ru_no_docker_def ru_has_hash_def ru_config_settings_def ru_chosen_server_def
  ru_config_tab_open_def ru_choose_vps_def ru_before_import_def ru_fleet_lead_def
  ru_open_notifications_def ru_vps_watched_def ru_notifications_def ru_mute_30_def ru_no_events_def
  ru_import_note_def ru_importing_def ru_import_configs_def ru_s_ago_def ru_m_ago_def ru_h_ago_def
  ru_d_def ru_h_space_def ru_h_def ru_m_def ru_vps_load_def ru_region_def ru_metric_servers_def
  ru_metric_logs_def ru_metric_gbit_def ru_metric_bandwidth_def ru_infinity_def
  ru_metric_devices_def ru_feat_nologs_def ru_feat_nologs_text_def ru_feat_fast_def
  ru_feat_fast_text_def ru_feat_manual_def ru_feat_manual_text_def ru_feat_tech_text_def
  ru_feat_kill_text_def ru_feat_split_text_def ru_hero_eyebrow_def ru_hero_title_def
  ru_hero_title_gold_def ru_hero_text_def ru_hero_choose_def ru_hero_download_def
  ru_unlimited_devices_def ru_pay_in_russia_def ru_server_def ru_sample_server_def ru_ping_def
  ru_features_def ru_features_title_def ru_features_text_def ru_plans_eyebrow_def
  ru_plans_title_def ru_plans_title_gold_def ru_plans_text_def ru_platforms_def
  ru_platforms_title_def ru_faq_title_def ru_faq_text_def ru_cta_title_def ru_cta_title_gold_def
  ru_cta_text_def ru_create_account_now_def ru_ask_question_def ru_footer_lead_def ru_tariffs_def
  ru_terms_def ru_policy_def ru_copyright_def ru_sign_in_link_def ru_q_logs_def ru_a_logs_def
  ru_q_devices_def ru_a_devices_def ru_q_vip_def ru_a_vip_def ru_q_slow_def ru_a_slow_def
  ru_q_cards_def ru_a_cards_def ru_q_games_def ru_a_games_def ru_policy_title_def
  ru_policy_lead_def ru_policy_data_def ru_policy_data_text_def ru_policy_why_def
  ru_policy_why_text_def ru_policy_mail_def ru_policy_requests_def ru_policy_requests_text_def

lemma ru_nonempty [simp]:
  "ru_no_rules \<noteq> []"
  "ru_domain_one \<noteq> []"
  "ru_domain_few \<noteq> []"
  "ru_domain_many \<noteq> []"
  "ru_zone_one \<noteq> []"
  "ru_zone_few \<noteq> []"
  "ru_zone_many \<noteq> []"
  "ru_dot_sep \<noteq> []"
  "ru_bad_server_answer \<noteq> []"
  "ru_premium_description \<noteq> []"
  "ru_one_month \<noteq> []"
  "ru_three_months \<noteq> []"
  "ru_unlimited \<noteq> []"
  "ru_all_platforms \<noteq> []"
  "ru_quick_connect \<noteq> []"
  "ru_vip_description \<noteq> []"
  "ru_vip_servers \<noteq> []"
  "ru_quick_chat \<noteq> []"
  "ru_messenger_support \<noteq> []"
  "ru_russian_messenger \<noteq> []"
  "ru_login_title \<noteq> []"
  "ru_login_subtitle \<noteq> []"
  "ru_login_cta \<noteq> []"
  "ru_register_title \<noteq> []"
  "ru_register_subtitle \<noteq> []"
  "ru_register_cta \<noteq> []"
  "ru_reset_title \<noteq> []"
  "ru_reset_subtitle \<noteq> []"
  "ru_reset_cta \<noteq> []"
  "ru_request_failed \<noteq> []"
  "ru_code_sent \<noteq> []"
  "ru_code_maybe_sent \<noteq> []"
  "ru_password_updated \<noteq> []"
  "ru_please_wait \<noteq> []"
  "ru_confirm \<noteq> []"
  "ru_encryption_eyebrow \<noteq> []"
  "ru_new_password \<noteq> []"
  "ru_password \<noteq> []"
  "ru_forgot_password \<noteq> []"
  "ru_code_from_email \<noteq> []"
  "ru_no_account \<noteq> []"
  "ru_create \<noteq> []"
  "ru_have_account \<noteq> []"
  "ru_back_to_login \<noteq> []"
  "ru_fineprint \<noteq> []"
  "ru_promo_invalid \<noteq> []"
  "ru_promo_not_applied \<noteq> []"
  "ru_connection_error \<noteq> []"
  "ru_have_promo \<noteq> []"
  "ru_apply \<noteq> []"
  "ru_discount \<noteq> []"
  "ru_discount_applied \<noteq> []"
  "ru_creating_payment \<noteq> []"
  "ru_choose \<noteq> []"
  "ru_continue \<noteq> []"
  "ru_current_plan \<noteq> []"
  "ru_renew \<noteq> []"
  "ru_vip_connected \<noteq> []"
  "ru_go_vip \<noteq> []"
  "ru_choose_subscription \<noteq> []"
  "ru_pricing_lead \<noteq> []"
  "ru_minus \<noteq> []"
  "ru_checkout \<noteq> []"
  "ru_plan_bullet \<noteq> []"
  "ru_base_price \<noteq> []"
  "ru_rouble_suffix \<noteq> []"
  "ru_promo_discount_open \<noteq> []"
  "ru_total_due \<noteq> []"
  "ru_pay \<noteq> []"
  "ru_active_subscription \<noteq> []"
  "ru_per_month \<noteq> []"
  "ru_per_3_months \<noteq> []"
  "ru_approx \<noteq> []"
  "ru_rouble_per_month \<noteq> []"
  "ru_selected \<noteq> []"
  "ru_pay_1_month \<noteq> []"
  "ru_pay_3_months_save \<noteq> []"
  "ru_pay_3_months \<noteq> []"
  "ru_included \<noteq> []"
  "ru_total \<noteq> []"
  "ru_ready_to_install \<noteq> []"
  "ru_binary_path_name \<noteq> []"
  "ru_autorenew_failed \<noteq> []"
  "ru_payment_not_created \<noteq> []"
  "ru_subscription_activated \<noteq> []"
  "ru_link_not_created \<noteq> []"
  "ru_link_not_received \<noteq> []"
  "ru_loading_dashboard \<noteq> []"
  "ru_em_dash \<noteq> []"
  "ru_support \<noteq> []"
  "ru_home \<noteq> []"
  "ru_subscription \<noteq> []"
  "ru_download \<noteq> []"
  "ru_sign_out \<noteq> []"
  "ru_protection_on \<noteq> []"
  "ru_subscription_expired \<noteq> []"
  "ru_free_tariff \<noteq> []"
  "ru_subscription_active \<noteq> []"
  "ru_renewal_needed \<noteq> []"
  "ru_free_plan \<noteq> []"
  "ru_days_left \<noteq> []"
  "ru_free_lead \<noteq> []"
  "ru_valid_until \<noteq> []"
  "ru_manage_below \<noteq> []"
  "ru_expired_lead \<noteq> []"
  "ru_plan_word \<noteq> []"
  "ru_auto_renew \<noteq> []"
  "ru_enabled \<noteq> []"
  "ru_switching_off \<noteq> []"
  "ru_switch_off \<noteq> []"
  "ru_plan_chosen \<noteq> []"
  "ru_renew_or_change \<noteq> []"
  "ru_activate_access \<noteq> []"
  "ru_apps \<noteq> []"
  "ru_download_app \<noteq> []"
  "ru_download_lead \<noteq> []"
  "ru_into_happ \<noteq> []"
  "ru_support_24_7 \<noteq> []"
  "ru_support_lead \<noteq> []"
  "ru_account_data \<noteq> []"
  "ru_account_lead \<noteq> []"
  "ru_are_you_sure \<noteq> []"
  "ru_cancel_warning \<noteq> []"
  "ru_keep_enabled \<noteq> []"
  "ru_switch_off_anyway \<noteq> []"
  "ru_day \<noteq> []"
  "ru_days_few \<noteq> []"
  "ru_days_many \<noteq> []"
  "ru_adblock_failed \<noteq> []"
  "ru_profile_failed \<noteq> []"
  "ru_sure_delete_rule \<noteq> []"
  "ru_delete_failed \<noteq> []"
  "ru_create_rule_failed \<noteq> []"
  "ru_update_rule_failed \<noteq> []"
  "ru_preset_failed \<noteq> []"
  "ru_add_a_rule \<noteq> []"
  "ru_link_failed \<noteq> []"
  "ru_vip_only \<noteq> []"
  "ru_vip_only_lead \<noteq> []"
  "ru_upgrade_vip \<noteq> []"
  "ru_vip_settings \<noteq> []"
  "ru_vip_lead \<noteq> []"
  "ru_ad_filter \<noteq> []"
  "ru_adblock_lead \<noteq> []"
  "ru_adblock_on \<noteq> []"
  "ru_smart_routing \<noteq> []"
  "ru_traffic_rules \<noteq> []"
  "ru_traffic_lead \<noteq> []"
  "ru_my_routes \<noteq> []"
  "ru_presets \<noteq> []"
  "ru_apply_config \<noteq> []"
  "ru_you_have \<noteq> []"
  "ru_rules_send \<noteq> []"
  "ru_add_to_happ \<noteq> []"
  "ru_create_rule \<noteq> []"
  "ru_new_rule \<noteq> []"
  "ru_edit_rule \<noteq> []"
  "ru_name \<noteq> []"
  "ru_action \<noteq> []"
  "ru_via_vpn \<noteq> []"
  "ru_directly \<noteq> []"
  "ru_domains_label \<noteq> []"
  "ru_cancel \<noteq> []"
  "ru_save \<noteq> []"
  "ru_user_rule \<noteq> []"
  "ru_no_rules_yet \<noteq> []"
  "ru_choose_presets \<noteq> []"
  "ru_system \<noteq> []"
  "ru_added \<noteq> []"
  "ru_add \<noteq> []"
  "ru_loading_vip \<noteq> []"
  "ru_back_dashboard \<noteq> []"
  "ru_nav_overview \<noteq> []"
  "ru_nav_overview_hint \<noteq> []"
  "ru_nav_servers_hint \<noteq> []"
  "ru_nav_incidents \<noteq> []"
  "ru_nav_incidents_hint \<noteq> []"
  "ru_nav_users \<noteq> []"
  "ru_nav_users_hint \<noteq> []"
  "ru_nav_payments \<noteq> []"
  "ru_nav_payments_hint \<noteq> []"
  "ru_nav_agent \<noteq> []"
  "ru_nav_settings \<noteq> []"
  "ru_nav_settings_hint \<noteq> []"
  "ru_new_critical \<noteq> []"
  "ru_stream_failed \<noteq> []"
  "ru_overview_unavailable \<noteq> []"
  "ru_overview_failed \<noteq> []"
  "ru_command_not_done \<noteq> []"
  "ru_command_done \<noteq> []"
  "ru_command_failed \<noteq> []"
  "ru_health_unavailable \<noteq> []"
  "ru_health_failed \<noteq> []"
  "ru_now \<noteq> []"
  "ru_month \<noteq> []"
  "ru_go_to_content \<noteq> []"
  "ru_one_vps_down \<noteq> []"
  "ru_check_agent \<noteq> []"
  "ru_accept \<noteq> []"
  "ru_active_vps \<noteq> []"
  "ru_n_incidents \<noteq> []"
  "ru_n_active \<noteq> []"
  "ru_keys \<noteq> []"
  "ru_rouble \<noteq> []"
  "ru_this_month \<noteq> []"
  "ru_vps_health_lead \<noteq> []"
  "ru_all \<noteq> []"
  "ru_active_many \<noteq> []"
  "ru_switched_off \<noteq> []"
  "ru_all_regions \<noteq> []"
  "ru_refresh \<noteq> []"
  "ru_th_server \<noteq> []"
  "ru_th_clients \<noteq> []"
  "ru_th_load \<noteq> []"
  "ru_th_status \<noteq> []"
  "ru_th_actions \<noteq> []"
  "ru_dot \<noteq> []"
  "ru_new_users \<noteq> []"
  "ru_revenue \<noteq> []"
  "ru_incidents_title \<noteq> []"
  "ru_incidents_text \<noteq> []"
  "ru_reaction_queue \<noteq> []"
  "ru_no_incidents \<noteq> []"
  "ru_audience \<noteq> []"
  "ru_audience_detail \<noteq> []"
  "ru_active_keys \<noteq> []"
  "ru_spread_over_vps \<noteq> []"
  "ru_by_region \<noteq> []"
  "ru_by_region_text \<noteq> []"
  "ru_revenue_by_day \<noteq> []"
  "ru_user_growth \<noteq> []"
  "ru_finance \<noteq> []"
  "ru_finance_text \<noteq> []"
  "ru_need_check \<noteq> []"
  "ru_no_docker \<noteq> []"
  "ru_has_hash \<noteq> []"
  "ru_config_settings \<noteq> []"
  "ru_chosen_server \<noteq> []"
  "ru_config_tab_open \<noteq> []"
  "ru_choose_vps \<noteq> []"
  "ru_before_import \<noteq> []"
  "ru_fleet_lead \<noteq> []"
  "ru_open_notifications \<noteq> []"
  "ru_vps_watched \<noteq> []"
  "ru_notifications \<noteq> []"
  "ru_mute_30 \<noteq> []"
  "ru_no_events \<noteq> []"
  "ru_import_note \<noteq> []"
  "ru_importing \<noteq> []"
  "ru_import_configs \<noteq> []"
  "ru_s_ago \<noteq> []"
  "ru_m_ago \<noteq> []"
  "ru_h_ago \<noteq> []"
  "ru_d \<noteq> []"
  "ru_h_space \<noteq> []"
  "ru_h \<noteq> []"
  "ru_m \<noteq> []"
  "ru_vps_load \<noteq> []"
  "ru_region \<noteq> []"
  "ru_metric_servers \<noteq> []"
  "ru_metric_logs \<noteq> []"
  "ru_metric_gbit \<noteq> []"
  "ru_metric_bandwidth \<noteq> []"
  "ru_infinity \<noteq> []"
  "ru_metric_devices \<noteq> []"
  "ru_feat_nologs \<noteq> []"
  "ru_feat_nologs_text \<noteq> []"
  "ru_feat_fast \<noteq> []"
  "ru_feat_fast_text \<noteq> []"
  "ru_feat_manual \<noteq> []"
  "ru_feat_manual_text \<noteq> []"
  "ru_feat_tech_text \<noteq> []"
  "ru_feat_kill_text \<noteq> []"
  "ru_feat_split_text \<noteq> []"
  "ru_hero_eyebrow \<noteq> []"
  "ru_hero_title \<noteq> []"
  "ru_hero_title_gold \<noteq> []"
  "ru_hero_text \<noteq> []"
  "ru_hero_choose \<noteq> []"
  "ru_hero_download \<noteq> []"
  "ru_unlimited_devices \<noteq> []"
  "ru_pay_in_russia \<noteq> []"
  "ru_server \<noteq> []"
  "ru_sample_server \<noteq> []"
  "ru_ping \<noteq> []"
  "ru_features \<noteq> []"
  "ru_features_title \<noteq> []"
  "ru_features_text \<noteq> []"
  "ru_plans_eyebrow \<noteq> []"
  "ru_plans_title \<noteq> []"
  "ru_plans_title_gold \<noteq> []"
  "ru_plans_text \<noteq> []"
  "ru_platforms \<noteq> []"
  "ru_platforms_title \<noteq> []"
  "ru_faq_title \<noteq> []"
  "ru_faq_text \<noteq> []"
  "ru_cta_title \<noteq> []"
  "ru_cta_title_gold \<noteq> []"
  "ru_cta_text \<noteq> []"
  "ru_create_account_now \<noteq> []"
  "ru_ask_question \<noteq> []"
  "ru_footer_lead \<noteq> []"
  "ru_tariffs \<noteq> []"
  "ru_terms \<noteq> []"
  "ru_policy \<noteq> []"
  "ru_copyright \<noteq> []"
  "ru_sign_in_link \<noteq> []"
  "ru_q_logs \<noteq> []"
  "ru_a_logs \<noteq> []"
  "ru_q_devices \<noteq> []"
  "ru_a_devices \<noteq> []"
  "ru_q_vip \<noteq> []"
  "ru_a_vip \<noteq> []"
  "ru_q_slow \<noteq> []"
  "ru_a_slow \<noteq> []"
  "ru_q_cards \<noteq> []"
  "ru_a_cards \<noteq> []"
  "ru_q_games \<noteq> []"
  "ru_a_games \<noteq> []"
  "ru_policy_title \<noteq> []"
  "ru_policy_lead \<noteq> []"
  "ru_policy_data \<noteq> []"
  "ru_policy_data_text \<noteq> []"
  "ru_policy_why \<noteq> []"
  "ru_policy_why_text \<noteq> []"
  "ru_policy_mail \<noteq> []"
  "ru_policy_requests \<noteq> []"
  "ru_policy_requests_text \<noteq> []"
  by (simp_all only: ru_defs list.distinct not_False_eq_True)

end
