(* ===== verification/Server_Api.thy ===== *)
theory Server_Api
  imports Js_Effects Js_Text
begin

section \<open>The server side of the web front end (web/lib/server-api.ts)\<close>

text \<open>
  Requests to the backend on behalf of the browser: the two authentication cookies, the
  \<^verbatim>\<open>Authorization\<close> header, and the retry of a request after the access token was refreshed.

  The network and the cookie store of the framework are not part of the sources. They are the
  fields of an environment \<open>'w env\<close>, functions over an opaque world \<open>'w\<close>: \<^verbatim>\<open>fetch\<close>, and
  \<^verbatim>\<open>get\<close>, \<^verbatim>\<open>set\<close> and \<^verbatim>\<open>delete\<close> of the store, which throw where the framework does not allow a
  write. The state of a program is that world with the list of the effects so far, in order.
  What a theorem needs of the store is the hypothesis \<open>cookie_laws\<close>, the documented behaviour of
  a writable store.
\<close>

record cookie_options =
  co_httpOnly :: bool
  co_secure :: bool
  co_sameSite :: jsstr
  co_path :: jsstr
  co_maxAge :: nat

record 'w env =
  env_BACKEND_API_URL :: "jsstr option"
  env_NEXT_PUBLIC_API_BASE_URL :: "jsstr option"
  env_NODE_ENV :: "jsstr option"
  env_number_string :: "rat \<Rightarrow> jsstr"
  env_fetch :: "request \<Rightarrow> 'w \<Rightarrow> (exn + response) \<times> 'w"
  env_cookie_get :: "'w \<Rightarrow> jsstr \<Rightarrow> jsstr option"
  env_cookie_set :: "jsstr \<Rightarrow> jval \<Rightarrow> cookie_options \<Rightarrow> 'w \<Rightarrow> (exn + unit) \<times> 'w"
  env_cookie_delete :: "jsstr \<Rightarrow> 'w \<Rightarrow> (exn + unit) \<times> 'w"

datatype effect =
    Sent request
  | CookieSet jsstr jval cookie_options
  | CookieDeleted jsstr

type_synonym 'w sv = "('w, effect) logged"

subsection \<open>Primitive effects\<close>

definition do_fetch :: "'w env \<Rightarrow> request \<Rightarrow> ('w sv, response) prog" where
  "do_fetch E rq = (\<lambda>s. case env_fetch E rq (sv_world s) of (r, w') \<Rightarrow>
     (r, \<lparr>sv_world = w', sv_log = sv_log s @ [Sent rq]\<rparr>))"

definition cookie_get :: "'w env \<Rightarrow> jsstr \<Rightarrow> ('w sv, jsstr option) prog" where
  "cookie_get E n = (\<lambda>s. (Inr (env_cookie_get E (sv_world s) n), s))"

definition cookie_set :: "'w env \<Rightarrow> jsstr \<Rightarrow> jval \<Rightarrow> cookie_options \<Rightarrow> ('w sv, unit) prog" where
  "cookie_set E n v opts = (\<lambda>s. case env_cookie_set E n v opts (sv_world s) of
     (Inl e, w') \<Rightarrow> (Inl e, s\<lparr>sv_world := w'\<rparr>)
   | (Inr u, w') \<Rightarrow> (Inr (), \<lparr>sv_world = w', sv_log = sv_log s @ [CookieSet n v opts]\<rparr>))"

definition cookie_delete :: "'w env \<Rightarrow> jsstr \<Rightarrow> ('w sv, unit) prog" where
  "cookie_delete E n = (\<lambda>s. case env_cookie_delete E n (sv_world s) of
     (Inl e, w') \<Rightarrow> (Inl e, s\<lparr>sv_world := w'\<rparr>)
   | (Inr u, w') \<Rightarrow> (Inr (), \<lparr>sv_world = w', sv_log = sv_log s @ [CookieDeleted n]\<rparr>))"

subsection \<open>The operations\<close>

definition accessCookieName :: jsstr where
  "accessCookieName = lit ''fblink_access_token''"

definition refreshCookieName :: jsstr where
  "refreshCookieName = lit ''fblink_refresh_token''"

text \<open>\<^verbatim>\<open>s.replace(/\/$/, "")\<close>\<close>

definition strip_slash :: "jsstr \<Rightarrow> jsstr" where
  "strip_slash s = (if s \<noteq> [] \<and> last s = 47 then butlast s else s)"

definition backendBaseURL :: "'w env \<Rightarrow> jsstr" where
  "backendBaseURL E = strip_slash (nullish (env_BACKEND_API_URL E) (lit ''http://backend:8081''))"

record request_init =
  ri_method :: "jsstr option"
  ri_headers :: "(jsstr \<times> jsstr) list"
  ri_body :: body

definition backendFetch :: "'w env \<Rightarrow> jsstr \<Rightarrow> request_init \<Rightarrow> ('w sv, response) prog" where
  "backendFetch E path init =
     (let headers = new_headers (ri_headers init);
          headers' = (if \<not> header_has headers (lit ''Content-Type'')
                      then header_set headers (lit ''Content-Type'') (lit ''application/json'')
                      else headers)
      in do_fetch E
           \<lparr>rq_url = backendBaseURL E @ path, rq_method = nullish (ri_method init) (lit ''GET''),
            rq_headers = headers', rq_body = ri_body init, rq_no_store = True\<rparr>)"

definition currentAccessToken :: "'w env \<Rightarrow> ('w sv, jsstr option) prog" where
  "currentAccessToken E = cookie_get E accessCookieName"

definition currentRefreshToken :: "'w env \<Rightarrow> ('w sv, jsstr option) prog" where
  "currentRefreshToken E = cookie_get E refreshCookieName"

definition auth_cookie_options :: "'w env \<Rightarrow> cookie_options" where
  "auth_cookie_options E =
     \<lparr>co_httpOnly = True, co_secure = (env_NODE_ENV E = Some (lit ''production'')),
      co_sameSite = lit ''lax'', co_path = lit ''/'', co_maxAge = 60 * 60 * 24 * 30\<rparr>"

definition setAuthCookies :: "'w env \<Rightarrow> jval \<Rightarrow> jval \<Rightarrow> ('w sv, unit) prog" where
  "setAuthCookies E access_token refresh_token =
     thenp (cookie_set E accessCookieName access_token (auth_cookie_options E))
           (cookie_set E refreshCookieName refresh_token (auth_cookie_options E))"

definition clearAuthCookies :: "'w env \<Rightarrow> ('w sv, unit) prog" where
  "clearAuthCookies E =
     thenp (cookie_delete E accessCookieName) (cookie_delete E refreshCookieName)"

definition backendJSON :: "response \<Rightarrow> json" where
  "backendJSON response = (case json_of response of
     Inr j \<Rightarrow> j | Inl _ \<Rightarrow> JObj [(lit ''error'', JStr ru_bad_server_answer)])"

definition bearer :: "'w env \<Rightarrow> json \<Rightarrow> (jsstr \<times> jsstr) list" where
  "bearer E token =
     [(lit ''Authorization'', lit ''Bearer '' @ template (env_number_string E) token)]"

text \<open>The result is the new access token, as the backend sent it; \<open>None\<close> is \<^verbatim>\<open>null\<close>.\<close>

definition refreshAccessToken :: "'w env \<Rightarrow> ('w sv, json option) prog" where
  "refreshAccessToken E =
     bindp (currentRefreshToken E) (\<lambda>refresh.
       if \<not> truthy_opt refresh then ret None
       else bindp (backendFetch E (lit ''/api/v1/auth/refresh'')
              \<lparr>ri_method = Some (lit ''POST''), ri_headers = [],
               ri_body = JsonBody (JObj [(lit ''refresh_token'', JStr (the refresh))])\<rparr>) (\<lambda>response.
         if \<not> rs_ok response then thenp (clearAuthCookies E) (ret None)
         else catchp
           (bindp (lift (json_of response)) (\<lambda>tokens.
              if \<not> jtruthy (jget_safe tokens (lit ''access_token''))
                 \<or> \<not> jtruthy (jget_safe tokens (lit ''refresh_token''))
              then thenp (clearAuthCookies E) (ret None)
              else thenp (setAuthCookies E (jget_safe tokens (lit ''access_token''))
                            (jget_safe tokens (lit ''refresh_token'')))
                     (ret (jget_safe tokens (lit ''access_token'')))))
           (\<lambda>_. thenp (clearAuthCookies E) (ret None))))"

definition unauthorized_response :: response where
  "unauthorized_response =
     \<lparr>rs_status = 401, rs_headers = [(lit ''content-type'', lit ''application/json'')],
      rs_body = JsonBody (JObj [(lit ''error'', JStr (lit ''unauthorized''))])\<rparr>"

definition authorizedFetch ::
    "'w env \<Rightarrow> (json \<Rightarrow> ('w sv, response) prog) \<Rightarrow> ('w sv, response) prog" where
  "authorizedFetch E build =
     bindp (currentAccessToken E) (\<lambda>access.
       if \<not> truthy_opt access
       then bindp (refreshAccessToken E) (\<lambda>refreshed.
              case refreshed of None \<Rightarrow> ret unauthorized_response | Some t \<Rightarrow> build t)
       else bindp (build (JStr (the access))) (\<lambda>response.
              if rs_status response \<noteq> 401 then ret response
              else bindp (refreshAccessToken E) (\<lambda>refreshed.
                     case refreshed of None \<Rightarrow> ret response | Some t \<Rightarrow> build t)))"

subsection \<open>What the framework promises of a writable store\<close>

definition cookie_laws :: "'w env \<Rightarrow> bool" where
  "cookie_laws E \<longleftrightarrow>
     (\<forall>n v opts w. \<exists>w'. env_cookie_set E n v opts w = (Inr (), w') \<and>
        (\<forall>s. v = Some (JStr s) \<longrightarrow> env_cookie_get E w' n = Some s) \<and>
        (\<forall>m. m \<noteq> n \<longrightarrow> env_cookie_get E w' m = env_cookie_get E w m)) \<and>
     (\<forall>n w. \<exists>w'. env_cookie_delete E n w = (Inr (), w') \<and>
        \<not> truthy_opt (env_cookie_get E w' n) \<and>
        (\<forall>m. m \<noteq> n \<longrightarrow> env_cookie_get E w' m = env_cookie_get E w m)) \<and>
     (\<forall>rq w n. env_cookie_get E (snd (env_fetch E rq w)) n = env_cookie_get E w n)"

subsection \<open>Primitive effects, counted\<close>

lemma effects_cookie_get [effect_rules]: "effects Q (cookie_get E n)"
  by (auto simp: effects_def cookie_get_def)

lemma counts_cookie_get [count_rules]: "counts Q n (cookie_get E k)"
  by (auto simp: costs_def cookie_get_def)

lemma effects_do_fetch [effect_rules]: "Q (Sent rq) \<Longrightarrow> effects Q (do_fetch E rq)"
  by (auto simp: effects_def do_fetch_def split: prod.splits)

lemma effects_cookie_set [effect_rules]:
  "Q (CookieSet n v opts) \<Longrightarrow> effects Q (cookie_set E n v opts)"
  by (auto simp: effects_def cookie_set_def split: prod.splits sum.splits)

lemma effects_cookie_delete [effect_rules]: "Q (CookieDeleted n) \<Longrightarrow> effects Q (cookie_delete E n)"
  by (auto simp: effects_def cookie_delete_def split: prod.splits sum.splits)

lemma counts_do_fetch [count_rules]: "counts Q 1 (do_fetch E rq)"
  by (auto simp: costs_def do_fetch_def split: prod.splits)

subsection \<open>Where a request goes and what a cookie holds\<close>

definition request_of :: "'w env \<Rightarrow> jsstr \<Rightarrow> request_init \<Rightarrow> request" where
  "request_of E path init =
     (let headers = new_headers (ri_headers init) in
      \<lparr>rq_url = backendBaseURL E @ path, rq_method = nullish (ri_method init) (lit ''GET''),
       rq_headers = (if \<not> header_has headers (lit ''Content-Type'')
                     then header_set headers (lit ''Content-Type'') (lit ''application/json'')
                     else headers),
       rq_body = ri_body init, rq_no_store = True\<rparr>)"

lemma backendFetch_request: "backendFetch E path init = do_fetch E (request_of E path init)"
  by (simp add: backendFetch_def request_of_def Let_def)

definition refresh_path :: jsstr where
  "refresh_path = lit ''/api/v1/auth/refresh''"

definition is_refresh :: "'w env \<Rightarrow> effect \<Rightarrow> bool" where
  "is_refresh E e = (case e of Sent rq \<Rightarrow> rq_url rq = backendBaseURL E @ refresh_path | _ \<Rightarrow> False)"

definition is_sent :: "effect \<Rightarrow> bool" where
  "is_sent e = (case e of Sent _ \<Rightarrow> True | _ \<Rightarrow> False)"

text \<open>The only cookies the site writes: the two authentication cookies, never readable by scripts
  of the page, for the whole site, for thirty days; and the only ones it deletes.\<close>

definition cookie_discipline :: "'w env \<Rightarrow> effect \<Rightarrow> bool" where
  "cookie_discipline E e = (case e of
     Sent _ \<Rightarrow> True
   | CookieSet n _ opts \<Rightarrow> (n = accessCookieName \<or> n = refreshCookieName) \<and>
       co_httpOnly opts \<and> co_sameSite opts = lit ''lax'' \<and> co_path opts = lit ''/'' \<and>
       co_maxAge opts = 2592000 \<and> (env_NODE_ENV E = Some (lit ''production'') \<longrightarrow> co_secure opts)
   | CookieDeleted n \<Rightarrow> n = accessCookieName \<or> n = refreshCookieName)"

text \<open>The backend is the only host that is contacted, never through the cache.\<close>

definition backend_only :: "'w env \<Rightarrow> effect \<Rightarrow> bool" where
  "backend_only E e = (case e of
     Sent rq \<Rightarrow> rq_no_store rq \<and> (\<exists>path. rq_url rq = backendBaseURL E @ path) | _ \<Rightarrow> True)"

lemma effects_backendFetch [effect_rules]:
  "Q (Sent (request_of E path init)) \<Longrightarrow> effects Q (backendFetch E path init)"
  by (simp add: backendFetch_request effects_do_fetch)

lemma counts_backendFetch [count_rules]: "counts Q 1 (backendFetch E path init)"
  unfolding backendFetch_request by (rule counts_do_fetch)

lemma request_of_sel [simp]:
  "rq_url (request_of E path init) = backendBaseURL E @ path"
  "rq_method (request_of E path init) = nullish (ri_method init) (lit ''GET'')"
  "rq_body (request_of E path init) = ri_body init"
  "rq_no_store (request_of E path init)"
  by (simp_all add: request_of_def Let_def)

lemma cookie_discipline_simps [simp]:
  "cookie_discipline E (Sent rq)"
  "cookie_discipline E (CookieSet accessCookieName v (auth_cookie_options E))"
  "cookie_discipline E (CookieSet refreshCookieName v (auth_cookie_options E))"
  "cookie_discipline E (CookieDeleted accessCookieName)"
  "cookie_discipline E (CookieDeleted refreshCookieName)"
  by (simp_all add: cookie_discipline_def auth_cookie_options_def)

lemma backend_only_simps [simp]:
  "backend_only E (Sent (request_of E path init))"
  "backend_only E (CookieSet n v opts)" "backend_only E (CookieDeleted n)"
  by (auto simp: backend_only_def)

lemma is_sent_simps [simp]:
  "is_sent (Sent rq)" "\<not> is_sent (CookieSet n v opts)" "\<not> is_sent (CookieDeleted n)"
  by (simp_all add: is_sent_def)

lemma is_refresh_simps [simp]:
  "is_refresh E (Sent (request_of E path init)) \<longleftrightarrow> path = refresh_path"
  "\<not> is_refresh E (CookieSet n v opts)" "\<not> is_refresh E (CookieDeleted n)"
  by (simp_all add: is_refresh_def)

subsection \<open>The effects of the operations\<close>

text \<open>What a predicate on effects has to accept so that the session handling satisfies it.\<close>

definition cookie_effects :: "'w env \<Rightarrow> (effect \<Rightarrow> bool) \<Rightarrow> bool" where
  "cookie_effects E Q \<longleftrightarrow>
     (\<forall>v. Q (CookieSet accessCookieName v (auth_cookie_options E))) \<and>
     (\<forall>v. Q (CookieSet refreshCookieName v (auth_cookie_options E))) \<and>
     Q (CookieDeleted accessCookieName) \<and> Q (CookieDeleted refreshCookieName)"

definition session_effects :: "'w env \<Rightarrow> (effect \<Rightarrow> bool) \<Rightarrow> bool" where
  "session_effects E Q \<longleftrightarrow> cookie_effects E Q \<and>
     (\<forall>token. Q (Sent (request_of E refresh_path
        \<lparr>ri_method = Some (lit ''POST''), ri_headers = [],
         ri_body = JsonBody (JObj [(lit ''refresh_token'', JStr token)])\<rparr>)))"

lemma cookie_effects_instances [simp]:
  "cookie_effects E (cookie_discipline E)" "cookie_effects E (backend_only E)"
  "cookie_effects E (\<lambda>e. \<not> is_sent e)" "cookie_effects E (\<lambda>e. \<not> is_refresh E' e)"
  by (simp_all add: cookie_effects_def)

lemma session_effects_instances [simp]:
  "session_effects E (cookie_discipline E)" "session_effects E (backend_only E)"
  by (simp_all add: session_effects_def)

lemma session_cookie_effects [intro]: "session_effects E Q \<Longrightarrow> cookie_effects E Q"
  by (simp add: session_effects_def)

lemma effects_setAuthCookies [effect_rules]:
  "cookie_effects E Q \<Longrightarrow> effects Q (setAuthCookies E a r)"
  by (simp add: setAuthCookies_def cookie_effects_def effect_rules)

lemma effects_clearAuthCookies [effect_rules]:
  "cookie_effects E Q \<Longrightarrow> effects Q (clearAuthCookies E)"
  by (simp add: clearAuthCookies_def cookie_effects_def effect_rules)

lemma effects_refreshAccessToken [effect_rules]:
  assumes Q: "session_effects E Q"
  shows "effects Q (refreshAccessToken E)"
proof -
  have "Q (Sent (request_of E (lit ''/api/v1/auth/refresh'')
        \<lparr>ri_method = Some (lit ''POST''), ri_headers = [],
         ri_body = JsonBody (JObj [(lit ''refresh_token'', JStr token)])\<rparr>))" for token
    using Q by (simp add: session_effects_def refresh_path_def)
  then show ?thesis
    unfolding refreshAccessToken_def currentRefreshToken_def
    by (intro effect_rules) (use session_cookie_effects [OF Q] in simp_all)
qed

lemma effects_authorizedFetch [effect_rules]:
  assumes Q: "session_effects E Q" and build: "\<And>t. effects Q (build t)"
  shows "effects Q (authorizedFetch E build)"
  unfolding authorizedFetch_def currentAccessToken_def
  by (intro effect_rules build) (use Q in simp_all)

lemma counts_cookies [count_rules]:
  assumes "cookie_effects E (\<lambda>e. \<not> Q e)"
  shows "counts Q n (setAuthCookies E a r)" "counts Q n (clearAuthCookies E)"
  using assms by (auto intro: counts_weaken [OF counts_none] effect_rules)

lemmas counts_seq0 = counts_bindp [where a = 0, simplified] counts_thenp [where a = 0, simplified]
  counts_catchp [where a = 0, simplified]

lemma counts_refreshAccessToken:
  assumes Q: "cookie_effects E (\<lambda>e. \<not> Q e)"
  shows "counts Q 1 (refreshAccessToken E)"
proof -
  have "counts Q (0 + (1 + 0)) (refreshAccessToken E)"
    unfolding refreshAccessToken_def currentRefreshToken_def
    by (intro counts_bindp counts_if counts_pure counts_cookie_get counts_backendFetch counts_seq0 counts_cookies Q)
  then show ?thesis by simp
qed

lemma counts_authorizedFetch:
  assumes Q: "cookie_effects E (\<lambda>e. \<not> Q e)" and r: "counts Q r (refreshAccessToken E)"
    and build: "\<And>t. counts Q k (build t)"
  shows "counts Q (2 * k + r) (authorizedFetch E build)"
proof -
  have "counts Q (k + (r + k)) (authorizedFetch E build)"
    unfolding authorizedFetch_def currentAccessToken_def
    by (intro counts_seq0 counts_pure counts_cookie_get counts_if counts_bindp counts_option r build
          counts_weaken [where a = "r + k" and b = "k + (r + k)"]) simp_all
  moreover have "k + (r + k) = 2 * k + r" by simp
  ultimately show ?thesis by (simp only:)
qed

subsection \<open>Runs of the session handling\<close>

lemma cookie_set_run:
  assumes "cookie_laws E"
  shows "\<exists>w'. cookie_set E n v opts s = (Inr (), \<lparr>sv_world = w', sv_log = sv_log s @ [CookieSet n v opts]\<rparr>) \<and>
    (\<forall>t. v = Some (JStr t) \<longrightarrow> env_cookie_get E w' n = Some t) \<and>
    (\<forall>m. m \<noteq> n \<longrightarrow> env_cookie_get E w' m = env_cookie_get E (sv_world s) m)"
proof -
  obtain w' where "env_cookie_set E n v opts (sv_world s) = (Inr (), w')"
      "\<forall>t. v = Some (JStr t) \<longrightarrow> env_cookie_get E w' n = Some t"
      "\<forall>m. m \<noteq> n \<longrightarrow> env_cookie_get E w' m = env_cookie_get E (sv_world s) m"
    using conjunct1 [OF assms [unfolded cookie_laws_def]] by (metis (no_types))
  then show ?thesis by (intro exI [of _ w']) (simp add: cookie_set_def)
qed

lemma cookie_delete_run:
  assumes "cookie_laws E"
  shows "\<exists>w'. cookie_delete E n s = (Inr (), \<lparr>sv_world = w', sv_log = sv_log s @ [CookieDeleted n]\<rparr>) \<and>
    \<not> truthy_opt (env_cookie_get E w' n) \<and>
    (\<forall>m. m \<noteq> n \<longrightarrow> env_cookie_get E w' m = env_cookie_get E (sv_world s) m)"
proof -
  obtain w' where "env_cookie_delete E n (sv_world s) = (Inr (), w')"
      "\<not> truthy_opt (env_cookie_get E w' n)"
      "\<forall>m. m \<noteq> n \<longrightarrow> env_cookie_get E w' m = env_cookie_get E (sv_world s) m"
    using conjunct1 [OF conjunct2 [OF assms [unfolded cookie_laws_def]]] by (metis (no_types))
  then show ?thesis by (intro exI [of _ w']) (simp add: cookie_delete_def)
qed

lemma cookie_names_distinct [simp]:
  "accessCookieName \<noteq> refreshCookieName" "refreshCookieName \<noteq> accessCookieName"
  by (simp_all add: accessCookieName_def refreshCookieName_def lit_def)

text \<open>The two cookies as the next request of the browser presents them.\<close>

definition holds_tokens :: "'w env \<Rightarrow> jsstr \<Rightarrow> jsstr \<Rightarrow> 'w sv \<Rightarrow> bool" where
  "holds_tokens E a r s \<longleftrightarrow> env_cookie_get E (sv_world s) accessCookieName = Some a \<and>
     env_cookie_get E (sv_world s) refreshCookieName = Some r"

definition signed_out :: "'w env \<Rightarrow> 'w sv \<Rightarrow> bool" where
  "signed_out E s \<longleftrightarrow> \<not> truthy_opt (env_cookie_get E (sv_world s) accessCookieName) \<and>
     \<not> truthy_opt (env_cookie_get E (sv_world s) refreshCookieName)"

lemma setAuthCookies_run:
  assumes laws: "cookie_laws E"
  shows "\<exists>s'. setAuthCookies E (Some (JStr a)) (Some (JStr r)) s = (Inr (), s') \<and> holds_tokens E a r s' \<and>
     sv_log s' = sv_log s @ [CookieSet accessCookieName (Some (JStr a)) (auth_cookie_options E),
                             CookieSet refreshCookieName (Some (JStr r)) (auth_cookie_options E)]"
proof -
  define s1 where "s1 = snd (cookie_set E accessCookieName (Some (JStr a)) (auth_cookie_options E) s)"
  obtain w1 where 1: "cookie_set E accessCookieName (Some (JStr a)) (auth_cookie_options E) s =
        (Inr (), \<lparr>sv_world = w1, sv_log = sv_log s @ [CookieSet accessCookieName (Some (JStr a)) (auth_cookie_options E)]\<rparr>)"
      "env_cookie_get E w1 accessCookieName = Some a"
    using cookie_set_run [OF laws, of accessCookieName "Some (JStr a)" "auth_cookie_options E" s]
    by (elim exE conjE) simp
  obtain w2 where "cookie_set E refreshCookieName (Some (JStr r)) (auth_cookie_options E) s1 =
        (Inr (), \<lparr>sv_world = w2, sv_log = sv_log s1 @ [CookieSet refreshCookieName (Some (JStr r)) (auth_cookie_options E)]\<rparr>)"
      "env_cookie_get E w2 refreshCookieName = Some r"
      "\<forall>m. m \<noteq> refreshCookieName \<longrightarrow> env_cookie_get E w2 m = env_cookie_get E (sv_world s1) m"
    using cookie_set_run [OF laws, of refreshCookieName "Some (JStr r)" "auth_cookie_options E" s1]
    by (elim exE conjE) simp
  with 1 show ?thesis by (simp add: setAuthCookies_def prog_simps holds_tokens_def s1_def)
qed

lemma clearAuthCookies_run:
  assumes laws: "cookie_laws E"
  shows "\<exists>s'. clearAuthCookies E s = (Inr (), s') \<and> signed_out E s' \<and>
     sv_log s' = sv_log s @ [CookieDeleted accessCookieName, CookieDeleted refreshCookieName]"
proof -
  define s1 where "s1 = snd (cookie_delete E accessCookieName s)"
  obtain w1 where 1: "cookie_delete E accessCookieName s =
        (Inr (), \<lparr>sv_world = w1, sv_log = sv_log s @ [CookieDeleted accessCookieName]\<rparr>)"
      "\<not> truthy_opt (env_cookie_get E w1 accessCookieName)"
    using cookie_delete_run [OF laws, of accessCookieName s]
    by (elim exE conjE) simp
  obtain w2 where "cookie_delete E refreshCookieName s1 =
        (Inr (), \<lparr>sv_world = w2, sv_log = sv_log s1 @ [CookieDeleted refreshCookieName]\<rparr>)"
      "\<not> truthy_opt (env_cookie_get E w2 refreshCookieName)"
      "\<forall>m. m \<noteq> refreshCookieName \<longrightarrow> env_cookie_get E w2 m = env_cookie_get E (sv_world s1) m"
    using cookie_delete_run [OF laws, of refreshCookieName s1]
    by (elim exE conjE) simp
  with 1 show ?thesis by (simp add: clearAuthCookies_def prog_simps signed_out_def s1_def)
qed

definition refresh_request :: "'w env \<Rightarrow> jsstr \<Rightarrow> request" where
  "refresh_request E token = request_of E refresh_path
     \<lparr>ri_method = Some (lit ''POST''), ri_headers = [],
      ri_body = JsonBody (JObj [(lit ''refresh_token'', JStr token)])\<rparr>"

text \<open>The answers to a refresh: a pair of new tokens, or a refusal, which is an error status, a body
  that is not JSON or a body that lacks a token.\<close>

definition grants :: "response \<Rightarrow> jsstr \<Rightarrow> jsstr \<Rightarrow> bool" where
  "grants resp a r \<longleftrightarrow> rs_ok resp \<and> a \<noteq> [] \<and> r \<noteq> [] \<and>
     (case json_of resp of Inl _ \<Rightarrow> False | Inr tokens \<Rightarrow>
        jget_safe tokens (lit ''access_token'') = Some (JStr a) \<and>
        jget_safe tokens (lit ''refresh_token'') = Some (JStr r))"

definition refuses :: "response \<Rightarrow> bool" where
  "refuses resp \<longleftrightarrow> \<not> rs_ok resp \<or>
     (case json_of resp of Inl _ \<Rightarrow> True | Inr tokens \<Rightarrow>
        \<not> jtruthy (jget_safe tokens (lit ''access_token'')) \<or>
        \<not> jtruthy (jget_safe tokens (lit ''refresh_token'')))"

lemma refreshAccessToken_without_cookie:
  "\<not> truthy_opt (env_cookie_get E (sv_world s) refreshCookieName) \<Longrightarrow> refreshAccessToken E s = (Inr None, s)"
  by (simp add: refreshAccessToken_def currentRefreshToken_def cookie_get_def prog_simps)

lemma refreshAccessToken_fetch:
  assumes "env_cookie_get E (sv_world s) refreshCookieName = Some r" "r \<noteq> []"
    "env_fetch E (refresh_request E r) (sv_world s) = (Inr resp, w)"
  shows "refreshAccessToken E s =
    (if \<not> rs_ok resp then thenp (clearAuthCookies E) (ret None)
     else catchp
       (bindp (lift (json_of resp)) (\<lambda>tokens.
          if \<not> jtruthy (jget_safe tokens (lit ''access_token''))
             \<or> \<not> jtruthy (jget_safe tokens (lit ''refresh_token''))
          then thenp (clearAuthCookies E) (ret None)
          else thenp (setAuthCookies E (jget_safe tokens (lit ''access_token''))
                        (jget_safe tokens (lit ''refresh_token'')))
                 (ret (jget_safe tokens (lit ''access_token'')))))
       (\<lambda>_. thenp (clearAuthCookies E) (ret None)))
    \<lparr>sv_world = w, sv_log = sv_log s @ [Sent (refresh_request E r)]\<rparr>"
  using assms
  by (simp add: refreshAccessToken_def currentRefreshToken_def cookie_get_def bindp_run
      backendFetch_request do_fetch_def refresh_request_def refresh_path_def)

lemma refreshAccessToken_granted:
  assumes laws: "cookie_laws E"
    and cookie: "env_cookie_get E (sv_world s) refreshCookieName = Some r" "r \<noteq> []"
    and answer: "env_fetch E (refresh_request E r) (sv_world s) = (Inr resp, w)" "grants resp a' r'"
  shows "\<exists>s'. refreshAccessToken E s = (Inr (Some (JStr a')), s') \<and> holds_tokens E a' r' s' \<and>
     sv_log s' = sv_log s @ [Sent (refresh_request E r),
        CookieSet accessCookieName (Some (JStr a')) (auth_cookie_options E),
        CookieSet refreshCookieName (Some (JStr r')) (auth_cookie_options E)]"
proof -
  from answer(2) obtain tokens where
    t: "json_of resp = Inr tokens" "rs_ok resp" "a' \<noteq> []" "r' \<noteq> []"
      "jget_safe tokens (lit ''access_token'') = Some (JStr a')"
      "jget_safe tokens (lit ''refresh_token'') = Some (JStr r')"
    by (auto simp: grants_def split: sum.splits)
  show ?thesis
    using setAuthCookies_run [OF laws, of a' r' "\<lparr>sv_world = w, sv_log = sv_log s @ [Sent (refresh_request E r)]\<rparr>"]
    by (elim exE conjE) (simp add: refreshAccessToken_fetch [OF cookie answer(1)] t prog_simps)
qed

lemma clear_then_null_run:
  assumes "cookie_laws E"
  shows "\<exists>s'. thenp (clearAuthCookies E) (ret (None :: jval)) s = (Inr None, s') \<and> signed_out E s' \<and>
     sv_log s' = sv_log s @ [CookieDeleted accessCookieName, CookieDeleted refreshCookieName]"
  using clearAuthCookies_run [OF assms, of s] by (elim exE conjE) (simp add: prog_simps)

lemma refreshAccessToken_refused:
  assumes laws: "cookie_laws E"
    and cookie: "env_cookie_get E (sv_world s) refreshCookieName = Some r" "r \<noteq> []"
    and answer: "env_fetch E (refresh_request E r) (sv_world s) = (Inr resp, w)" "refuses resp"
  shows "\<exists>s'. refreshAccessToken E s = (Inr None, s') \<and> signed_out E s' \<and>
     sv_log s' = sv_log s @ [Sent (refresh_request E r),
        CookieDeleted accessCookieName, CookieDeleted refreshCookieName]"
proof -
  let ?s = "\<lparr>sv_world = w, sv_log = sv_log s @ [Sent (refresh_request E r)]\<rparr>"
  have "refreshAccessToken E s = thenp (clearAuthCookies E) (ret None) ?s"
    using clear_then_null_run [OF laws, of ?s] answer(2)
    by (auto simp: refreshAccessToken_fetch [OF cookie answer(1)] refuses_def catchp_run bindp_run lift_run
        split: sum.splits)
  with clear_then_null_run [OF laws, of ?s] show ?thesis by simp
qed

subsection \<open>A concrete environment\<close>

text \<open>Cookies as a list of pairs, and a script of the answers of the backend: each \<^verbatim>\<open>fetch\<close> takes
  the next one. It satisfies the laws of the store, so the theorems below apply to it.\<close>

record sim =
  sim_cookies :: "(jsstr \<times> jsstr) list"
  sim_script :: "response list"

definition sim_fetch :: "request \<Rightarrow> sim \<Rightarrow> (exn + response) \<times> sim" where
  "sim_fetch rq w = (case sim_script w of
     [] \<Rightarrow> (Inl NetworkError, w) | r # rs \<Rightarrow> (Inr r, w\<lparr>sim_script := rs\<rparr>))"

definition sim_set :: "jsstr \<Rightarrow> jval \<Rightarrow> cookie_options \<Rightarrow> sim \<Rightarrow> (exn + unit) \<times> sim" where
  "sim_set n v opts w =
     (Inr (), w\<lparr>sim_cookies := (n, case v of Some (JStr s) \<Rightarrow> s | _ \<Rightarrow> []) # sim_cookies w\<rparr>)"

definition sim_delete :: "jsstr \<Rightarrow> sim \<Rightarrow> (exn + unit) \<times> sim" where
  "sim_delete n w = (Inr (), w\<lparr>sim_cookies := filter (\<lambda>(k, _). k \<noteq> n) (sim_cookies w)\<rparr>)"

definition sim_env :: "sim env" where
  "sim_env = \<lparr>env_BACKEND_API_URL = Some (lit ''http://b/''),
     env_NEXT_PUBLIC_API_BASE_URL = None, env_NODE_ENV = Some (lit ''production''),
     env_number_string = (\<lambda>_. lit ''0''), env_fetch = sim_fetch,
     env_cookie_get = (\<lambda>w. map_of (sim_cookies w)), env_cookie_set = sim_set,
     env_cookie_delete = sim_delete\<rparr>"

definition sim_start :: "(jsstr \<times> jsstr) list \<Rightarrow> response list \<Rightarrow> sim sv" where
  "sim_start cs script = \<lparr>sv_world = \<lparr>sim_cookies = cs, sim_script = script\<rparr>, sv_log = []\<rparr>"

definition json_response :: "nat \<Rightarrow> json \<Rightarrow> response" where
  "json_response status j = \<lparr>rs_status = status,
     rs_headers = [(lit ''content-type'', lit ''application/json'')], rs_body = JsonBody j\<rparr>"

lemma sim_env_sel [simp]:
  "env_fetch sim_env = sim_fetch" "env_cookie_get sim_env w = map_of (sim_cookies w)"
  "env_cookie_set sim_env = sim_set" "env_cookie_delete sim_env = sim_delete"
  by (simp_all add: sim_env_def)

lemma map_of_filter_key:
  "map_of (filter (\<lambda>(k, _). k \<noteq> n) kvs) m = (if m = n then None else map_of kvs m)"
  by (induction kvs) auto

lemma cookie_laws_sim [simp]: "cookie_laws sim_env"
  by (auto simp: cookie_laws_def sim_set_def sim_delete_def sim_fetch_def map_of_filter_key
      split: list.splits json.splits option.splits)

lemma sim_fetch_simps [simp]:
  "sim_fetch rq \<lparr>sim_cookies = cs, sim_script = r # rs\<rparr> = (Inr r, \<lparr>sim_cookies = cs, sim_script = rs\<rparr>)"
  by (simp add: sim_fetch_def)

lemma sim_start_sel [simp]:
  "sv_world (sim_start cs script) = \<lparr>sim_cookies = cs, sim_script = script\<rparr>"
  "sv_log (sim_start cs script) = []"
  by (simp_all add: sim_start_def)

lemma json_response_sel [simp]:
  "rs_status (json_response n j) = n" "json_of (json_response n j) = Inr j"
  "rs_ok (json_response n j) \<longleftrightarrow> 200 \<le> n \<and> n \<le> 299"
  by (simp_all add: json_response_def rs_ok_def)

definition sim_cookies2 :: "(jsstr \<times> jsstr) list" where
  "sim_cookies2 = [(accessCookieName, lit ''old''), (refreshCookieName, lit ''ref'')]"

definition sim_401 :: response where
  "sim_401 = json_response 401 (JObj [])"

definition sim_tokens :: response where
  "sim_tokens = json_response 200
     (JObj [(lit ''access_token'', JStr (lit ''new'')), (lit ''refresh_token'', JStr (lit ''ref2''))])"

definition sim_get :: "json \<Rightarrow> request_init" where
  "sim_get t = \<lparr>ri_method = None, ri_headers = bearer sim_env t, ri_body = NoBody\<rparr>"

lemma sim_cookies2_get [simp]:
  "map_of sim_cookies2 accessCookieName = Some (lit ''old'')"
  "map_of sim_cookies2 refreshCookieName = Some (lit ''ref'')"
  by (simp_all add: sim_cookies2_def)

lemma sim_answers [simp]:
  "rs_status sim_401 = 401" "refuses sim_401" "grants sim_tokens (lit ''new'') (lit ''ref2'')"
  by (simp_all add: sim_401_def sim_tokens_def refuses_def grants_def lit_def)

subsection \<open>Properties\<close>

text \<open>C1: Whatever the backend answers, one authorized call sends at most three requests, at most one
  of them to the refresh endpoint, all of them to the backend and past the cache. The only cookies
  it writes are the two tokens, \<^verbatim>\<open>HttpOnly\<close>, \<^verbatim>\<open>SameSite=Lax\<close>, for the whole site and thirty days,
  \<^verbatim>\<open>Secure\<close> in production, and the only ones it deletes are these two.\<close>

theorem authorizedFetch_traffic:
  assumes "path \<noteq> refresh_path"
    and "authorizedFetch E (\<lambda>t. backendFetch E path (init t)) s = (r, s')"
  shows "\<exists>new. sv_log s' = sv_log s @ new \<and>
    (\<forall>e \<in> set new. cookie_discipline E e \<and> backend_only E e) \<and>
    length (filter is_sent new) \<le> 3 \<and> length (filter (is_refresh E) new) \<le> 1"
proof -
  let ?m = "authorizedFetch E (\<lambda>t. backendFetch E path (init t))"
  have "effects (\<lambda>e. cookie_discipline E e \<and> backend_only E e) ?m"
    by (intro effects_conj effect_rules) simp_all
  moreover have "counts is_sent (2 * 1 + 1) ?m"
    by (intro counts_authorizedFetch counts_refreshAccessToken counts_backendFetch) simp_all
  moreover have "counts (is_refresh E) (2 * 0 + 1) ?m"
    by (intro counts_authorizedFetch counts_refreshAccessToken counts_none effect_rules) (simp_all add: assms)
  ultimately show ?thesis using log_extension assms(2) by fastforce
qed

lemmas sim_run_simps = authorizedFetch_def currentAccessToken_def cookie_get_def prog_simps
  backendFetch_request do_fetch_def refreshAccessToken_def currentRefreshToken_def setAuthCookies_def
  clearAuthCookies_def cookie_set_def cookie_delete_def sim_set_def sim_delete_def

theorem authorizedFetch_traffic_witness:
  "\<exists>s'. authorizedFetch sim_env (\<lambda>t. backendFetch sim_env (lit ''/api/v1/me'') (sim_get t))
       (sim_start sim_cookies2 [sim_401, sim_tokens, sim_401]) = (Inr sim_401, s') \<and>
     length (filter is_sent (sv_log s')) = 3 \<and> length (filter (is_refresh sim_env) (sv_log s')) \<le> 1"
proof -
  let ?m = "authorizedFetch sim_env (\<lambda>t. backendFetch sim_env (lit ''/api/v1/me'') (sim_get t))"
  let ?s = "sim_start sim_cookies2 [sim_401, sim_tokens, sim_401]"
  have "fst (?m ?s) = Inr sim_401" "length (filter is_sent (sv_log (snd (?m ?s)))) = 3"
    by (simp_all add: sim_run_simps, simp_all add: sim_tokens_def sim_run_simps)
  then obtain s' where run: "?m ?s = (Inr sim_401, s')" and three: "length (filter is_sent (sv_log s')) = 3"
    by (metis prod.collapse)
  have "lit ''/api/v1/me'' \<noteq> refresh_path" by (simp add: refresh_path_def)
  from authorizedFetch_traffic [OF this run] run three show ?thesis by auto
qed

text \<open>A call on behalf of a visitor without credentials contacts nobody, changes nothing and
  answers 401.\<close>

lemma authorizedFetch_signed_out:
  assumes "signed_out E s"
  shows "authorizedFetch E build s = (Inr unauthorized_response, s) \<and> rs_status unauthorized_response = 401"
  using assms
  by (simp add: authorizedFetch_def currentAccessToken_def cookie_get_def prog_simps signed_out_def
      refreshAccessToken_without_cookie unauthorized_response_def)

lemma authorizedFetch_first_try:
  assumes "env_cookie_get E (sv_world s) accessCookieName = Some a" "a \<noteq> []"
    "env_fetch E (request_of E path (init (JStr a))) (sv_world s) = (Inr resp, w)"
  shows "authorizedFetch E (\<lambda>t. backendFetch E path (init t)) s =
    (if rs_status resp \<noteq> 401 then ret resp
     else bindp (refreshAccessToken E) (\<lambda>refreshed.
            case refreshed of None \<Rightarrow> ret resp | Some t \<Rightarrow> backendFetch E path (init t)))
    \<lparr>sv_world = w, sv_log = sv_log s @ [Sent (request_of E path (init (JStr a)))]\<rparr>"
proof -
  have "backendFetch E path (init (JStr a)) s =
      (Inr resp, \<lparr>sv_world = w, sv_log = sv_log s @ [Sent (request_of E path (init (JStr a)))]\<rparr>)"
    using assms(3) by (simp add: backendFetch_request do_fetch_def)
  then show ?thesis
    using assms(1,2) by (simp add: authorizedFetch_def currentAccessToken_def cookie_get_def bindp_run)
qed

lemma cookie_laws_fetch:
  "cookie_laws E \<Longrightarrow> env_fetch E rq w = (r, w') \<Longrightarrow> env_cookie_get E w' n = env_cookie_get E w n"
  unfolding cookie_laws_def by (metis snd_conv)

text \<open>C2: When the backend answers 401 and grants new tokens for the refresh token, both cookies hold
  the new tokens before the call is repeated, and it is repeated once, with the new access token; its
  second answer is the result.\<close>

theorem authorizedFetch_retry:
  assumes laws: "cookie_laws E" and cookies: "holds_tokens E a r s" "a \<noteq> []" "r \<noteq> []"
    and first: "env_fetch E (request_of E path (init (JStr a))) (sv_world s) = (Inr resp, w)" "rs_status resp = 401"
    and refresh: "env_fetch E (refresh_request E r) w = (Inr granted, w')" "grants granted a' r'"
  shows "\<exists>s2. holds_tokens E a' r' s2 \<and>
    sv_log s2 = sv_log s @ [Sent (request_of E path (init (JStr a))), Sent (refresh_request E r),
      CookieSet accessCookieName (Some (JStr a')) (auth_cookie_options E),
      CookieSet refreshCookieName (Some (JStr r')) (auth_cookie_options E)] \<and>
    authorizedFetch E (\<lambda>t. backendFetch E path (init t)) s = backendFetch E path (init (JStr a')) s2"
proof -
  let ?s = "\<lparr>sv_world = w, sv_log = sv_log s @ [Sent (request_of E path (init (JStr a)))]\<rparr>"
  have "env_cookie_get E (sv_world ?s) refreshCookieName = Some r"
    using cookies(1) cookie_laws_fetch [OF laws first(1)] by (simp add: holds_tokens_def)
  from refreshAccessToken_granted [OF laws this cookies(3) _ refresh(2), of w'] refresh(1)
  obtain s2 where s2: "refreshAccessToken E ?s = (Inr (Some (JStr a')), s2)" "holds_tokens E a' r' s2"
    "sv_log s2 = sv_log s @ [Sent (request_of E path (init (JStr a))), Sent (refresh_request E r),
       CookieSet accessCookieName (Some (JStr a')) (auth_cookie_options E),
       CookieSet refreshCookieName (Some (JStr r')) (auth_cookie_options E)]"
    by auto
  moreover have "env_cookie_get E (sv_world s) accessCookieName = Some a"
    using cookies(1) by (simp add: holds_tokens_def)
  ultimately show ?thesis
    using first(2)
    by (intro exI [of _ s2])
       (simp add: authorizedFetch_first_try [of E s a path init, OF _ cookies(2) first(1)] bindp_run)
qed

theorem authorizedFetch_retry_witness:
  "\<exists>s2. holds_tokens sim_env (lit ''new'') (lit ''ref2'') s2 \<and>
    authorizedFetch sim_env (\<lambda>t. backendFetch sim_env (lit ''/api/v1/me'') (sim_get t))
      (sim_start sim_cookies2 [sim_401, sim_tokens, sim_401]) =
    backendFetch sim_env (lit ''/api/v1/me'') (sim_get (JStr (lit ''new''))) s2"
proof -
  have "holds_tokens sim_env (lit ''old'') (lit ''ref'') (sim_start sim_cookies2 [sim_401, sim_tokens, sim_401])"
    by (simp add: holds_tokens_def)
  from authorizedFetch_retry [OF cookie_laws_sim this _ _ _ sim_answers(1) _ sim_answers(3),
      of "lit ''/api/v1/me''" sim_get "\<lparr>sim_cookies = sim_cookies2, sim_script = [sim_tokens, sim_401]\<rparr>"
      "\<lparr>sim_cookies = sim_cookies2, sim_script = [sim_401]\<rparr>"]
  show ?thesis by auto
qed

text \<open>When the backend answers 401 and refuses the refresh token, the visitor is signed out (both
  cookies are gone) and the first answer is the result; nothing is sent again.\<close>

lemma authorizedFetch_refused:
  assumes laws: "cookie_laws E" and cookies: "holds_tokens E a r s" "a \<noteq> []" "r \<noteq> []"
    and first: "env_fetch E (request_of E path (init (JStr a))) (sv_world s) = (Inr resp, w)" "rs_status resp = 401"
    and refresh: "env_fetch E (refresh_request E r) w = (Inr refused, w')" "refuses refused"
  shows "\<exists>s'. authorizedFetch E (\<lambda>t. backendFetch E path (init t)) s = (Inr resp, s') \<and> signed_out E s' \<and>
    sv_log s' = sv_log s @ [Sent (request_of E path (init (JStr a))), Sent (refresh_request E r),
      CookieDeleted accessCookieName, CookieDeleted refreshCookieName]"
proof -
  let ?s = "\<lparr>sv_world = w, sv_log = sv_log s @ [Sent (request_of E path (init (JStr a)))]\<rparr>"
  have "env_cookie_get E (sv_world ?s) refreshCookieName = Some r"
    using cookies(1) cookie_laws_fetch [OF laws first(1)] by (simp add: holds_tokens_def)
  from refreshAccessToken_refused [OF laws this cookies(3) _ refresh(2), of w'] refresh(1)
  obtain s' where "refreshAccessToken E ?s = (Inr None, s')" "signed_out E s'"
    "sv_log s' = sv_log s @ [Sent (request_of E path (init (JStr a))), Sent (refresh_request E r),
       CookieDeleted accessCookieName, CookieDeleted refreshCookieName]"
    by auto
  moreover have "env_cookie_get E (sv_world s) accessCookieName = Some a"
    using cookies(1) by (simp add: holds_tokens_def)
  ultimately show ?thesis
    using first(2)
    by (simp add: authorizedFetch_first_try [of E s a path init, OF _ cookies(2) first(1)] prog_simps)
qed

end
