(* ===== verification/Site_Config.thy ===== *)
theory Site_Config
  imports Server_Api "HOL-Library.Monad_Syntax"
begin

section \<open>The configuration of the site (web/lib/site-config.ts)\<close>

text \<open>
  The plans, download links and support channels the pages show. The configuration of the backend
  is JSON of unknown shape; \<open>normalizeSiteConfig\<close> lays it over the built-in one, with object spread
  as the language has it. The typed configuration is a record; \<open>config_json\<close> is its JSON form and
  \<open>site_config_of\<close> reads a JSON value back when every field has its declared type.
\<close>

subsection \<open>Types\<close>

datatype plan_id = Basic | Basic_3m | Vip | Vip_3m

fun plan_id_string :: "plan_id \<Rightarrow> jsstr" where
  "plan_id_string Basic = lit ''basic''"
| "plan_id_string Basic_3m = lit ''basic_3m''"
| "plan_id_string Vip = lit ''vip''"
| "plan_id_string Vip_3m = lit ''vip_3m''"

datatype plan_code = Premium_Plan | Vip_Plan

fun plan_code_string :: "plan_code \<Rightarrow> jsstr" where
  "plan_code_string Premium_Plan = lit ''premium''"
| "plan_code_string Vip_Plan = lit ''vip''"

record plan_period =
  pp_id :: plan_id
  pp_label :: jsstr
  pp_duration_days :: rat
  pp_amount :: rat
  pp_currency :: jsstr

record plan =
  pl_code :: plan_code
  pl_title :: jsstr
  pl_description :: jsstr
  pl_periods :: "plan_period list"
  pl_features :: "jsstr list"

record downloads =
  dl_android :: jsstr
  dl_windows :: jsstr
  dl_macos :: jsstr
  dl_linux :: jsstr
  dl_happ :: jsstr
  dl_androidtv :: jsstr

record support =
  su_email :: jsstr
  su_telegram :: jsstr
  su_whatsapp :: jsstr
  su_max :: jsstr

record site_config =
  sc_brand :: jsstr
  sc_plans :: "plan list"
  sc_downloads :: downloads
  sc_support :: support

datatype channel_id = Telegram | Whatsapp | Max

record support_channel =
  ch_id :: channel_id
  ch_label :: jsstr
  ch_href :: jsstr
  ch_description :: jsstr

subsection \<open>The built-in configuration\<close>

definition default_premium :: plan where
  "default_premium = \<lparr>pl_code = Premium_Plan, pl_title = lit ''Premium'',
     pl_description = ru_premium_description,
     pl_periods = [\<lparr>pp_id = Basic, pp_label = ru_one_month, pp_duration_days = 30, pp_amount = 199, pp_currency = lit ''RUB''\<rparr>,
                   \<lparr>pp_id = Basic_3m, pp_label = ru_three_months, pp_duration_days = 90, pp_amount = 505, pp_currency = lit ''RUB''\<rparr>],
     pl_features = [ru_unlimited, ru_all_platforms, ru_quick_connect]\<rparr>"

definition default_vip :: plan where
  "default_vip = \<lparr>pl_code = Vip_Plan, pl_title = lit ''VIP'',
     pl_description = ru_vip_description,
     pl_periods = [\<lparr>pp_id = Vip, pp_label = ru_one_month, pp_duration_days = 30, pp_amount = 399, pp_currency = lit ''RUB''\<rparr>,
                   \<lparr>pp_id = Vip_3m, pp_label = ru_three_months, pp_duration_days = 90, pp_amount = 1015, pp_currency = lit ''RUB''\<rparr>],
     pl_features = [lit ''VLESS/Xray Reality'', ru_vip_servers, lit ''AdBlock DNS'']\<rparr>"

definition defaultSiteConfig :: site_config where
  "defaultSiteConfig = \<lparr>sc_brand = lit ''FBLink VPN'', sc_plans = [default_premium, default_vip],
     sc_downloads = \<lparr>dl_android = lit ''https://fblink-sc.com/download/android'',
       dl_windows = lit ''https://fblink-sc.com/download/windows'',
       dl_macos = lit ''https://fblink-sc.com/download/macos'',
       dl_linux = lit ''https://fblink-sc.com/download/linux'',
       dl_happ = lit ''https://apps.apple.com/search?term=happ%20proxy'',
       dl_androidtv = lit ''https://fblink-sc.com/download/androidtv''\<rparr>,
     sc_support = \<lparr>su_email = lit ''fbapps.help@yandex.ru'',
       su_telegram = lit ''https://t.me/+79966732628'', su_whatsapp = lit ''https://wa.me/79966732628'',
       su_max = lit ''https://max.ru/fblinkvpn''\<rparr>\<rparr>"

subsection \<open>Reading the configuration\<close>

definition supportChannels :: "site_config \<Rightarrow> support_channel list" where
  "supportChannels config = filter (\<lambda>channel. trim (ch_href channel) \<noteq> [])
     [\<lparr>ch_id = Telegram, ch_label = lit ''Telegram'', ch_href = su_telegram (sc_support config), ch_description = ru_quick_chat\<rparr>,
      \<lparr>ch_id = Whatsapp, ch_label = lit ''WhatsApp'', ch_href = su_whatsapp (sc_support config), ch_description = ru_messenger_support\<rparr>,
      \<lparr>ch_id = Max, ch_label = lit ''MAX'', ch_href = su_max (sc_support config), ch_description = ru_russian_messenger\<rparr>]"

definition visiblePlanIds :: "site_config \<Rightarrow> plan_id list" where
  "visiblePlanIds config = concat (map (\<lambda>plan. map pp_id (pl_periods plan)) (sc_plans config))"

subsection \<open>JSON form\<close>

definition period_json :: "plan_period \<Rightarrow> json" where
  "period_json p = JObj [(lit ''id'', JStr (plan_id_string (pp_id p))), (lit ''label'', JStr (pp_label p)),
     (lit ''duration_days'', JNum (pp_duration_days p)), (lit ''amount'', JNum (pp_amount p)),
     (lit ''currency'', JStr (pp_currency p))]"

definition plan_props :: "plan \<Rightarrow> (jsstr \<times> json) list" where
  "plan_props p = [(lit ''code'', JStr (plan_code_string (pl_code p))), (lit ''title'', JStr (pl_title p)),
     (lit ''description'', JStr (pl_description p)), (lit ''periods'', JArr (map period_json (pl_periods p))),
     (lit ''features'', JArr (map JStr (pl_features p)))]"

definition downloads_props :: "downloads \<Rightarrow> (jsstr \<times> json) list" where
  "downloads_props d = [(lit ''android'', JStr (dl_android d)), (lit ''windows'', JStr (dl_windows d)),
     (lit ''macos'', JStr (dl_macos d)), (lit ''linux'', JStr (dl_linux d)), (lit ''happ'', JStr (dl_happ d)),
     (lit ''androidtv'', JStr (dl_androidtv d))]"

definition support_props :: "support \<Rightarrow> (jsstr \<times> json) list" where
  "support_props s = [(lit ''email'', JStr (su_email s)), (lit ''telegram'', JStr (su_telegram s)),
     (lit ''whatsapp'', JStr (su_whatsapp s)), (lit ''max'', JStr (su_max s))]"

definition config_props :: "site_config \<Rightarrow> (jsstr \<times> json) list" where
  "config_props c = [(lit ''brand'', JStr (sc_brand c)),
     (lit ''plans'', JArr (map (\<lambda>p. JObj (plan_props p)) (sc_plans c))),
     (lit ''downloads'', JObj (downloads_props (sc_downloads c))),
     (lit ''support'', JObj (support_props (sc_support c)))]"

definition config_json :: "site_config \<Rightarrow> json" where
  "config_json c = JObj (config_props c)"

subsection \<open>Laying the backend's configuration over the built-in one\<close>

definition has_prop :: "jsstr \<Rightarrow> jsstr \<Rightarrow> json \<Rightarrow> bool" where
  "has_prop k v j \<longleftrightarrow> jget_safe j k = Some (JStr v)"

definition normalize_period :: "json list \<Rightarrow> plan_period \<Rightarrow> json" where
  "normalize_period incomingPeriods fallbackPeriod =
     JObj (spread (own_props (Some (period_json fallbackPeriod)))
             (own_props (find (has_prop (lit ''id'') (plan_id_string (pp_id fallbackPeriod))) incomingPeriods)))"

definition normalize_plan :: "json list \<Rightarrow> plan \<Rightarrow> json" where
  "normalize_plan incomingPlans fallbackPlan =
     (let incomingPlan = find (has_prop (lit ''code'') (plan_code_string (pl_code fallbackPlan))) incomingPlans;
          incomingPeriods = jarray (jopt incomingPlan (lit ''periods''))
      in JObj (spread (spread (plan_props fallbackPlan) (own_props incomingPlan))
           [(lit ''description'', jor (jopt incomingPlan (lit ''description'')) (JStr (pl_description fallbackPlan))),
            (lit ''features'',
              if jarray (jopt incomingPlan (lit ''features'')) \<noteq> []
              then JArr (jarray (jopt incomingPlan (lit ''features'')))
              else JArr (map JStr (pl_features fallbackPlan))),
            (lit ''periods'', JArr (map (normalize_period incomingPeriods) (pl_periods fallbackPlan)))]))"

definition normalizeSiteConfig :: "jval \<Rightarrow> json" where
  "normalizeSiteConfig data =
     (let incomingPlans = jarray (jopt data (lit ''plans''));
          plans = map (normalize_plan incomingPlans) (sc_plans defaultSiteConfig)
      in JObj (spread (spread (config_props defaultSiteConfig) (own_props data))
           [(lit ''brand'', JStr (lit ''FBLink VPN'')),
            (lit ''plans'', JArr plans),
            (lit ''downloads'', JObj (spread (downloads_props (sc_downloads defaultSiteConfig))
                                        (own_props (jopt data (lit ''downloads''))))),
            (lit ''support'', JObj (spread (support_props (sc_support defaultSiteConfig))
                                      (own_props (jopt data (lit ''support'')))))]))"

definition loadSiteConfig :: "'w env \<Rightarrow> ('w sv, json) prog" where
  "loadSiteConfig E =
     (let base = (case env_NEXT_PUBLIC_API_BASE_URL E of None \<Rightarrow> env_BACKEND_API_URL E | Some b \<Rightarrow> Some b)
      in if \<not> truthy_opt base then ret (config_json defaultSiteConfig)
         else catchp
           (bindp (do_fetch E \<lparr>rq_url = strip_slash (the base) @ lit ''/api/v1/web/config'',
                rq_method = lit ''GET'', rq_headers = [], rq_body = NoBody, rq_no_store = False\<rparr>) (\<lambda>response.
              if \<not> rs_ok response then ret (config_json defaultSiteConfig)
              else bindp (lift (json_of response)) (\<lambda>data. ret (normalizeSiteConfig (Some data)))))
           (\<lambda>_. ret (config_json defaultSiteConfig)))"

subsection \<open>Prices\<close>

text \<open>\<^verbatim>\<open>Intl.NumberFormat("ru-RU", currency RUB, maximumFractionDigits 0)\<close>: rounded to whole roubles,
  half away from zero, digits in groups of three with no-break spaces, a no-break space and the
  rouble sign.\<close>

fun group3 :: "nat list \<Rightarrow> nat list" where
  "group3 (a # b # c # d # ds) = a # b # c # 160 # group3 (d # ds)"
| "group3 ds = ds"

definition formatRub :: "rat \<Rightarrow> jsstr" where
  "formatRub amount = (if amount < 0 then [45] else []) @
     rev (group3 (rev (show_nat (nat \<lfloor>\<bar>amount\<bar> + 1 / 2\<rfloor>)))) @ [160, 8381]"

subsection \<open>Properties of the normalised configuration\<close>

lemma plan_id_string_inject [simp]: "plan_id_string a = plan_id_string b \<longleftrightarrow> a = b"
  by (cases a; cases b) simp_all

lemma plan_code_string_inject [simp]: "plan_code_string a = plan_code_string b \<longleftrightarrow> a = b"
  by (cases a; cases b) simp_all

text \<open>The plan identifiers of a configuration in JSON form, as the pages read them.\<close>

definition json_plan_ids :: "json \<Rightarrow> jval list" where
  "json_plan_ids c = concat (map (\<lambda>p. map (\<lambda>q. jget_safe q (lit ''id'')) (jarray (jget_safe p (lit ''periods''))))
     (jarray (jget_safe c (lit ''plans''))))"

lemma find_has_prop:
  "find (has_prop k v) js = Some j \<Longrightarrow> jget_safe j k = Some (JStr v)"
  by (auto simp: find_Some_iff has_prop_def)

lemma own_props_find:
  "find (has_prop k v) js = Some j \<Longrightarrow> map_of (own_props (Some j)) k = Some (JStr v)"
  using find_has_prop [of k v js j] by (cases j) (auto simp: jget_safe_def own_props_def)

lemma normalize_period_id:
  "jget_safe (normalize_period ps p) (lit ''id'') = Some (JStr (plan_id_string (pp_id p)))"
proof (cases "find (has_prop (lit ''id'') (plan_id_string (pp_id p))) ps")
  case None
  then show ?thesis by (simp add: normalize_period_def own_props_def period_json_def)
next
  case (Some j)
  with own_props_find [OF Some] show ?thesis by (simp add: normalize_period_def)
qed

lemma normalize_plan_periods:
  "jget_safe (normalize_plan ps p) (lit ''periods'') =
     Some (JArr (map (normalize_period (jarray (jopt (find (has_prop (lit ''code'') (plan_code_string (pl_code p))) ps)
       (lit ''periods'')))) (pl_periods p)))"
  by (simp add: normalize_plan_def Let_def)

lemma normalizeSiteConfig_plans:
  "jget_safe (normalizeSiteConfig data) (lit ''plans'') =
     Some (JArr (map (normalize_plan (jarray (jopt data (lit ''plans'')))) (sc_plans defaultSiteConfig)))"
  by (simp add: normalizeSiteConfig_def Let_def)

lemma json_plan_ids_normalize:
  "json_plan_ids (normalizeSiteConfig data) = map (\<lambda>i. Some (JStr (plan_id_string i))) [Basic, Basic_3m, Vip, Vip_3m]"
  by (simp add: json_plan_ids_def normalizeSiteConfig_plans normalize_plan_periods normalize_period_id
      defaultSiteConfig_def default_premium_def default_vip_def)

lemma json_plan_ids_default:
  "json_plan_ids (config_json defaultSiteConfig) = map (\<lambda>i. Some (JStr (plan_id_string i))) [Basic, Basic_3m, Vip, Vip_3m]"
  by (simp add: json_plan_ids_def config_json_def config_props_def plan_props_def period_json_def
      defaultSiteConfig_def default_premium_def default_vip_def)

lemma never_throws_loadSiteConfig: "never_throws (loadSiteConfig E)"
  unfolding loadSiteConfig_def Let_def by (auto intro!: never_throws_catchp)

text \<open>C26: Loading the configuration never fails: whatever the network does and whatever JSON the
  backend sends, the result has the brand and exactly the four plan identifiers the site sells, in
  their order.\<close>

theorem loadSiteConfig_total:
  "\<exists>c s'. loadSiteConfig E s = (Inr c, s') \<and> jget_safe c (lit ''brand'') = Some (JStr (lit ''FBLink VPN'')) \<and>
     json_plan_ids c = map (\<lambda>i. Some (JStr (plan_id_string i))) [Basic, Basic_3m, Vip, Vip_3m]"
proof -
  define good where "good c \<longleftrightarrow> jget_safe c (lit ''brand'') = Some (JStr (lit ''FBLink VPN'')) \<and>
     json_plan_ids c = map (\<lambda>i. Some (JStr (plan_id_string i))) [Basic, Basic_3m, Vip, Vip_3m]" for c
  have "good (config_json defaultSiteConfig)"
    unfolding good_def by (simp add: json_plan_ids_default, simp add: config_json_def config_props_def defaultSiteConfig_def)
  moreover have "good (normalizeSiteConfig data)" for data
    unfolding good_def by (simp add: json_plan_ids_normalize, simp add: normalizeSiteConfig_def Let_def)
  ultimately have "\<exists>c s'. loadSiteConfig E s = (Inr c, s') \<and> good c"
    by (simp add: loadSiteConfig_def Let_def prog_simps split: prod.split sum.split)
  then show ?thesis by (simp add: good_def)
qed

text \<open>A configuration the backend may publish: the brand, both plans with their periods, and for
  each plan a description and at least one feature.\<close>

definition wf_plan :: "plan \<Rightarrow> plan \<Rightarrow> bool" where
  "wf_plan fallback p \<longleftrightarrow> pl_code p = pl_code fallback \<and>
     map pp_id (pl_periods p) = map pp_id (pl_periods fallback) \<and> pl_description p \<noteq> [] \<and> pl_features p \<noteq> []"

definition wf_config :: "site_config \<Rightarrow> bool" where
  "wf_config c \<longleftrightarrow> sc_brand c = lit ''FBLink VPN'' \<and> list_all2 wf_plan (sc_plans defaultSiteConfig) (sc_plans c)"

lemma update_same: "map_of m k = Some v \<Longrightarrow> AList.update k v m = m"
  by (induction m) auto

lemma spread_same:
  assumes "\<And>k v. map_of over k = Some v \<Longrightarrow> map_of m k = Some v"
  shows "spread m over = m"
proof -
  have "foldl (\<lambda>m k. case map_of over k of Some v \<Rightarrow> AList.update k v m | None \<Rightarrow> m) m ks = m" for ks
    by (induction ks) (simp_all add: assms update_same split: option.split)
  then show ?thesis by (simp add: spread_def)
qed

lemma keys_update: "k \<in> set (map fst m) \<Longrightarrow> map fst (AList.update k v m) = map fst m"
  by (induction m) auto

lemma keys_spread:
  assumes "set (map fst over) \<subseteq> set (map fst base)"
  shows "map fst (spread base over) = map fst base"
proof -
  have "map fst (foldl (\<lambda>m k. case f k of Some v \<Rightarrow> AList.update k v m | None \<Rightarrow> m) base ks) = map fst base"
    if "set ks \<subseteq> set (map fst base)" for f :: "jsstr \<Rightarrow> 'a option" and ks
    using that
  proof (induction ks rule: rev_induct)
    case (snoc k ks)
    then show ?case by (simp add: keys_update split: option.split)
  qed simp
  then show ?thesis unfolding spread_def using assms by blast
qed

lemma alist_eqI:
  assumes keys: "map fst xs = map fst ys" and dist: "distinct (map fst ys)" and eq: "map_of xs = map_of ys"
  shows "xs = ys"
proof (rule nth_equalityI)
  show len: "length xs = length ys" using keys by (metis length_map)
  fix i
  assume i: "i < length xs"
  have k: "fst (xs ! i) = fst (ys ! i)" using keys i len by (metis nth_map)
  have "map_of xs (fst (xs ! i)) = Some (snd (xs ! i))"
    using i keys dist by (intro map_of_is_SomeI) simp_all
  moreover have "map_of ys (fst (ys ! i)) = Some (snd (ys ! i))"
    using i len dist by (intro map_of_is_SomeI) simp_all
  ultimately have "snd (xs ! i) = snd (ys ! i)" by (simp add: eq k)
  with k show "xs ! i = ys ! i" by (rule prod_eqI)
qed

lemma spread_same_keys:
  assumes keys: "map fst base = map fst over" and dist: "distinct (map fst over)"
  shows "spread base over = over"
proof (rule alist_eqI [OF _ dist])
  show "map fst (spread base over) = map fst over" using keys_spread [of over base] keys by simp
  show "map_of (spread base over) = map_of over"
  proof (rule ext)
    fix k
    have "map_of over k = None \<Longrightarrow> map_of base k = None" using keys by (metis map_of_eq_None_iff set_map)
    then show "map_of (spread base over) k = map_of over k" by (simp split: option.split)
  qed
qed

lemma map_fst_props:
  "map fst (plan_props p) = map fst (plan_props q)" "map fst (downloads_props d) = map fst (downloads_props d')"
  "map fst (support_props s) = map fst (support_props s')" "map fst (config_props c) = map fst (config_props c')"
  by (simp_all add: plan_props_def downloads_props_def support_props_def config_props_def)

lemma distinct_props:
  "distinct (map fst (plan_props p))" "distinct (map fst (downloads_props d))"
  "distinct (map fst (support_props s))" "distinct (map fst (config_props c))"
  by (simp_all add: plan_props_def downloads_props_def support_props_def config_props_def)

lemma period_props:
  "own_props (Some (period_json p)) = [(lit ''id'', JStr (plan_id_string (pp_id p))), (lit ''label'', JStr (pp_label p)),
     (lit ''duration_days'', JNum (pp_duration_days p)), (lit ''amount'', JNum (pp_amount p)),
     (lit ''currency'', JStr (pp_currency p))]"
  by (simp add: own_props_def period_json_def)

lemma has_prop_period: "has_prop (lit ''id'') (plan_id_string i) (period_json p) \<longleftrightarrow> pp_id p = i"
  by (simp add: has_prop_def period_json_def)

lemma has_prop_plan: "has_prop (lit ''code'') (plan_code_string i) (JObj (plan_props p)) \<longleftrightarrow> pl_code p = i"
  by (simp add: has_prop_def plan_props_def)

lemma find_unique:
  assumes "x \<in> set xs" "P x" "\<And>y. y \<in> set xs \<Longrightarrow> P y \<Longrightarrow> y = x"
  shows "find P xs = Some x"
proof (cases "find P xs")
  case None
  with assms(1,2) show ?thesis by (simp add: find_None_iff)
next
  case (Some y)
  then have "y \<in> set xs" "P y" by (auto simp: find_Some_iff)
  with assms(3) Some show ?thesis by blast
qed

lemma normalize_period_own:
  assumes q: "q \<in> set qs" "pp_id q = pp_id p" and dist: "distinct (map pp_id qs)"
  shows "normalize_period (map period_json qs) p = period_json q"
proof -
  have "find (has_prop (lit ''id'') (plan_id_string (pp_id p))) (map period_json qs) = Some (period_json q)"
  proof (rule find_unique)
    fix y
    assume "y \<in> set (map period_json qs)" "has_prop (lit ''id'') (plan_id_string (pp_id p)) y"
    then obtain q' where "q' \<in> set qs" "y = period_json q'" "pp_id q' = pp_id q"
      using q(2) by (auto simp: has_prop_period)
    with dist q(1) show "y = period_json q" by (metis distinct_map inj_onD)
  qed (use q in \<open>simp_all add: has_prop_period\<close>)
  then show ?thesis
    by (simp add: normalize_period_def period_props spread_same_keys, simp add: period_json_def)
qed

lemma normalize_plan_own:
  assumes p: "p \<in> set ps" "wf_plan fallback p" and dist: "distinct (map pl_code ps)" "distinct (map pp_id (pl_periods p))"
  shows "normalize_plan (map (\<lambda>p. JObj (plan_props p)) ps) fallback = JObj (plan_props p)"
proof -
  have "find (has_prop (lit ''code'') (plan_code_string (pl_code fallback))) (map (\<lambda>p. JObj (plan_props p)) ps)
      = Some (JObj (plan_props p))"
  proof (rule find_unique)
    fix y
    assume "y \<in> set (map (\<lambda>p. JObj (plan_props p)) ps)" "has_prop (lit ''code'') (plan_code_string (pl_code fallback)) y"
    then obtain q where "q \<in> set ps" "y = JObj (plan_props q)" "pl_code q = pl_code p"
      using p(2) by (auto simp: has_prop_plan wf_plan_def)
    with dist(1) p(1) show "y = JObj (plan_props p)" by (metis distinct_map inj_onD)
  qed (use p in \<open>simp_all add: has_prop_plan wf_plan_def\<close>)
  moreover have "map (normalize_period (map period_json (pl_periods p))) (pl_periods fallback)
      = map period_json (pl_periods p)"
  proof (rule nth_equalityI)
    show "length (map (normalize_period (map period_json (pl_periods p))) (pl_periods fallback))
        = length (map period_json (pl_periods p))"
      using p(2) unfolding wf_plan_def by (metis length_map)
    fix i
    assume "i < length (map (normalize_period (map period_json (pl_periods p))) (pl_periods fallback))"
    then have i: "i < length (pl_periods fallback)" "i < length (pl_periods p)"
      using p(2) unfolding wf_plan_def by (metis length_map)+
    have "pp_id (pl_periods p ! i) = pp_id (pl_periods fallback ! i)"
      using p(2) i unfolding wf_plan_def by (metis nth_map)
    then show "map (normalize_period (map period_json (pl_periods p))) (pl_periods fallback) ! i
        = map period_json (pl_periods p) ! i"
      using i normalize_period_own [of "pl_periods p ! i" "pl_periods p" "pl_periods fallback ! i"] dist(2) by simp
  qed
  moreover have "spread (plan_props fallback) (plan_props p) = plan_props p"
    by (rule spread_same_keys [OF map_fst_props(1) distinct_props(1)])
  moreover have "map_of (plan_props p) (lit ''description'') = Some (JStr (pl_description p))"
      "map_of (plan_props p) (lit ''features'') = Some (JArr (map JStr (pl_features p)))"
      "map_of (plan_props p) (lit ''periods'') = Some (JArr (map period_json (pl_periods p)))"
    by (simp_all add: plan_props_def)
  ultimately show ?thesis
    using p(2) by (simp add: normalize_plan_def own_props_def wf_plan_def jor_def)
      (rule spread_same, auto split: if_splits)
qed

text \<open>C27: A configuration with both plans, each with its own periods, a description and a feature, is
  taken over as it is: every price, label, link and contact of the backend reaches the pages.\<close>

theorem normalizeSiteConfig_keeps:
  assumes "wf_config c"
  shows "normalizeSiteConfig (Some (config_json c)) = config_json c"
proof -
  obtain p v where plans: "sc_plans c = [p, v]" and wf: "wf_plan default_premium p" "wf_plan default_vip v"
    using assms by (auto simp: wf_config_def defaultSiteConfig_def list_all2_Cons1)
  have codes: "distinct (map pl_code [p, v])"
    using wf by (simp add: wf_plan_def default_premium_def default_vip_def)
  have ids: "distinct (map pp_id (pl_periods p))" "distinct (map pp_id (pl_periods v))"
    using wf by (auto simp: wf_plan_def default_premium_def default_vip_def)
  have plans': "map (normalize_plan (map (\<lambda>p. JObj (plan_props p)) [p, v])) [default_premium, default_vip] =
      map (\<lambda>p. JObj (plan_props p)) [p, v]"
    using normalize_plan_own [of p "[p, v]" default_premium] normalize_plan_own [of v "[p, v]" default_vip]
      wf codes ids by simp
  have "sc_plans defaultSiteConfig = [default_premium, default_vip]" by (simp add: defaultSiteConfig_def)
  moreover have "spread (config_props defaultSiteConfig) (config_props c) = config_props c"
    by (rule spread_same_keys [OF map_fst_props(4) distinct_props(4)])
  moreover have "spread (downloads_props d) (downloads_props d') = downloads_props d'" for d d'
    by (rule spread_same_keys [OF map_fst_props(2) distinct_props(2)])
  moreover have "spread (support_props t) (support_props t') = support_props t'" for t t'
    by (rule spread_same_keys [OF map_fst_props(3) distinct_props(3)])
  moreover have "map_of (config_props c) (lit ''brand'') = Some (JStr (lit ''FBLink VPN''))"
      "map_of (config_props c) (lit ''plans'') = Some (JArr (map (\<lambda>p. JObj (plan_props p)) [p, v]))"
      "map_of (config_props c) (lit ''downloads'') = Some (JObj (downloads_props (sc_downloads c)))"
      "map_of (config_props c) (lit ''support'') = Some (JObj (support_props (sc_support c)))"
    using assms plans by (simp_all add: config_props_def wf_config_def)
  ultimately show ?thesis
    using plans' by (simp add: normalizeSiteConfig_def config_json_def own_props_def)
      (rule spread_same, auto split: if_splits)
qed

definition sample_config :: site_config where
  "sample_config = defaultSiteConfig\<lparr>sc_plans := [default_premium\<lparr>pl_description := lit ''fast'', pl_features := [lit ''x'']\<rparr>,
     default_vip\<lparr>pl_title := lit ''V''\<rparr>]\<rparr>"

theorem normalizeSiteConfig_keeps_witness:
  "wf_config sample_config \<and> normalizeSiteConfig (Some (config_json sample_config)) = config_json sample_config"
proof -
  have "wf_config sample_config"
    by (simp add: wf_config_def sample_config_def defaultSiteConfig_def wf_plan_def default_vip_def ru_nonempty)
  with normalizeSiteConfig_keeps [OF this] show ?thesis by simp
qed

lemma filter_group3: "filter (\<lambda>c. c \<noteq> 160) (group3 ds) = filter (\<lambda>c. c \<noteq> 160) ds"
  by (induction ds rule: group3.induct) auto

lemma group3_separators:
  "160 \<notin> set ds \<Longrightarrow> i < length (group3 ds) \<Longrightarrow> group3 ds ! i = 160 \<longleftrightarrow> i mod 4 = 3"
proof (induction ds arbitrary: i rule: group3.induct [case_names four nil one two three])
  case (four a b c d ds)
  show ?case
  proof (cases "i < 4")
    case True
    then have "i = 0 \<or> i = 1 \<or> i = 2 \<or> i = 3" by linarith
    with four show ?thesis by (elim disjE) simp_all
  next
    case False
    then obtain j where "i = j + 4" using nat_le_iff_add [of 4 i] by (auto simp: add.commute)
    with four show ?thesis by simp
  qed
next
  case (three a b c)
  then have "i = 0 \<or> i = 1 \<or> i = 2" by auto
  with three show ?case by auto
next
  case (two a b)
  then have "i = 0 \<or> i = 1" by auto
  with two show ?case by auto
qed auto

text \<open>A price in whole roubles is shown with all its digits and no others, in groups of three from
  the right: reading from the right after the currency, every fourth character and no other is the
  separator.\<close>

lemma formatRub_groups:
  "\<exists>body. formatRub (of_nat n) = body @ [160, 8381] \<and> filter (\<lambda>c. c \<noteq> 160) body = show_nat n \<and>
     list_all (\<lambda>i. (rev body ! i = 160) = (i mod 4 = 3)) [0..<length body]"
proof -
  let ?body = "rev (group3 (rev (show_nat n)))"
  have no_sep: "160 \<notin> set (show_nat n)" using show_nat_digits [of 160 n] by auto
  have "\<lfloor>of_nat n + 1 / 2 :: rat\<rfloor> = int n" by linarith
  then have "formatRub (of_nat n) = ?body @ [160, 8381]" by (simp add: formatRub_def)
  moreover have "filter (\<lambda>c. c \<noteq> 160) ?body = rev (filter (\<lambda>c. c \<noteq> 160) (rev (show_nat n)))"
    by (simp only: rev_filter [symmetric] filter_group3)
  moreover have "filter (\<lambda>c. c \<noteq> 160) (show_nat n) = show_nat n"
    by (rule filter_True) (use no_sep in blast)
  moreover have "list_all (\<lambda>i. (rev ?body ! i = 160) = (i mod 4 = 3)) [0..<length ?body]"
    using no_sep by (simp add: list_all_iff group3_separators)
  ultimately show ?thesis by (intro exI [of _ ?body]) (simp add: rev_filter)
qed

end
