(* ===== verification/Admin_Lib.thy ===== *)
theory Admin_Lib
  imports Js_Program
begin

section \<open>The data of the administration panel (web/lib/admin.ts)\<close>

text \<open>
  Notifications, servers and the pure operations on them. \<^verbatim>\<open>Date.parse\<close>, whose result on most
  texts is left to the implementation, is the argument \<open>parse\<close> (\<open>None\<close> is \<^verbatim>\<open>NaN\<close>), and the
  clock the argument \<open>now\<close>, in milliseconds. An optional field that is absent or \<^verbatim>\<open>null\<close> is \<open>None\<close>.
\<close>

subsection \<open>Types\<close>

datatype admin_severity = Info | Warning | Critical

datatype admin_notification_status = Open | Resolved

record notification_server =
  ns_id :: int
  ns_name :: jsstr
  ns_region :: "jsstr option"
  ns_endpoint :: "jsstr option"
  ns_country_code :: "jsstr option"

record admin_notification =
  an_id :: int
  an_fingerprint :: "jsstr option"
  an_severity :: admin_severity
  an_status :: admin_notification_status
  an_title :: jsstr
  an_message :: jsstr
  an_server_id :: "int option"
  an_server :: "notification_server option"
  an_metadata_json :: "jsstr option"
  an_last_seen_at :: jsstr
  an_acknowledged_at :: "jsstr option"
  an_acknowledged_by_id :: "int option"
  an_muted_until :: "jsstr option"
  an_resolved_at :: "jsstr option"
  an_created_at :: jsstr

record awg_summary =
  awg_listen_port :: "int option"
  awg_interface :: "jsstr option"
  awg_container :: "jsstr option"
  awg_jc :: "jsstr option"
  awg_jmin :: "jsstr option"
  awg_jmax :: "jsstr option"
  awg_s1 :: "jsstr option"
  awg_s2 :: "jsstr option"
  awg_s3 :: "jsstr option"
  awg_s4 :: "jsstr option"
  awg_h1 :: "jsstr option"
  awg_h2 :: "jsstr option"
  awg_h3 :: "jsstr option"
  awg_h4 :: "jsstr option"

record xray_summary =
  xr_address :: "jsstr option"
  xr_port :: "int option"
  xr_server_name :: "jsstr option"
  xr_public_key :: "jsstr option"
  xr_short_id :: "jsstr option"
  xr_network :: "jsstr option"
  xr_security :: "jsstr option"
  xr_grpc_service_name :: "jsstr option"
  xr_container_name :: "jsstr option"

record config_summary =
  cs_awg :: "awg_summary option"
  cs_xray :: "xray_summary option"

record admin_server =
  as_id :: int
  as_name :: jsstr
  as_host :: "jsstr option"
  as_endpoint :: "jsstr option"
  as_region :: "jsstr option"
  as_country_code :: "jsstr option"
  as_active :: bool
  as_is_vip_only :: "bool option"
  as_max_peers :: "int option"
  as_active_keys :: "int option"
  as_active_awg :: "int option"
  as_active_vless :: "int option"
  as_utilization :: "rat option"
  as_agent_mode :: "jsstr option"
  as_agent_node_id :: "jsstr option"
  as_agent_last_heartbeat_at :: "jsstr option"
  as_agent_heartbeat_stale :: "bool option"
  as_agent_docker_available :: "bool option"
  as_agent_uptime_seconds :: "rat option"
  as_agent_last_health_status :: "jsstr option"
  as_agent_last_version :: "jsstr option"
  as_agent_last_commit :: "jsstr option"
  as_agent_active_digest :: "jsstr option"
  as_agent_previous_digest :: "jsstr option"
  as_agent_last_update_status :: "jsstr option"
  as_agent_last_update_error :: "jsstr option"
  as_agent_last_snapshot_hash :: "jsstr option"
  as_agent_last_snapshot_at :: "jsstr option"
  as_agent_last_snapshot_status :: "jsstr option"
  as_agent_bootstrap_status :: "jsstr option"
  as_agent_bootstrap_error :: "jsstr option"
  as_agent_bootstrap_at :: "jsstr option"
  as_pihole_enabled :: "bool option"
  as_pihole_last_sync_at :: "jsstr option"
  as_pihole_last_sync_error :: "jsstr option"
  as_config_summary :: "config_summary option"

record admin_kpis =
  k_total_users :: int
  k_active_subscriptions :: int
  k_active_vpn_keys :: int
  k_total_servers :: int
  k_active_servers :: int
  k_open_incidents :: int
  k_monthly_revenue :: rat

record admin_overview =
  ov_kpis :: admin_kpis
  ov_notifications :: "admin_notification list"
  ov_servers :: "admin_server list"

record admin_audit_log =
  al_id :: int
  al_actor_user_id :: "int option"
  al_action :: jsstr
  al_entity :: jsstr
  al_entity_id :: jsstr
  al_result :: jsstr
  al_message :: jsstr
  al_ip :: jsstr
  al_created_at :: jsstr

datatype status_filter = All_Status | Active_Status | Inactive_Status | Stale_Status

datatype vip_filter = All_Tiers | Vip_Tier | Standard_Tier

record server_filters =
  sf_query :: jsstr
  sf_status :: status_filter
  sf_region :: jsstr
  sf_vipOnly :: vip_filter

text \<open>A truthy optional boolean.\<close>

abbreviation on :: "bool option \<Rightarrow> bool" where
  "on b \<equiv> b = Some True"

subsection \<open>Operations\<close>

definition is_blocking :: "(jsstr \<Rightarrow> int option) \<Rightarrow> int \<Rightarrow> admin_notification \<Rightarrow> bool" where
  "is_blocking parse now notification =
     (let mutedUntil = (if truthy_opt (an_muted_until notification)
                        then parse (the (an_muted_until notification)) else Some 0)
      in an_severity notification = Critical \<and> an_status notification = Open \<and>
         \<not> truthy_opt (an_acknowledged_at notification) \<and>
         (case mutedUntil of None \<Rightarrow> True | Some m \<Rightarrow> m = 0 \<or> m \<le> now))"

definition hasUnacknowledgedCriticalIncident ::
    "(jsstr \<Rightarrow> int option) \<Rightarrow> int \<Rightarrow> admin_notification list \<Rightarrow> bool" where
  "hasUnacknowledgedCriticalIncident parse now notifications \<longleftrightarrow> list_ex (is_blocking parse now) notifications"

definition stamp :: "admin_notification \<Rightarrow> jsstr" where
  "stamp n = or_str (Some (an_created_at n)) (an_last_seen_at n)"

text \<open>The comparator \<^verbatim>\<open>Date.parse(b) - Date.parse(a)\<close> leaves \<open>a\<close> before \<open>b\<close> unless it is positive;
  \<^verbatim>\<open>NaN\<close> counts as zero.\<close>

definition newest_first :: "(jsstr \<Rightarrow> int option) \<Rightarrow> admin_notification \<Rightarrow> admin_notification \<Rightarrow> bool" where
  "newest_first parse a b = (case (parse (stamp b), parse (stamp a)) of
     (Some tb, Some ta) \<Rightarrow> tb - ta \<le> 0 | _ \<Rightarrow> True)"

definition put_notification :: "(int \<times> admin_notification) list \<Rightarrow> admin_notification \<Rightarrow> (int \<times> admin_notification) list" where
  "put_notification byID n = AList.update (an_id n) n byID"

definition mergeNotificationEvent :: "(jsstr \<Rightarrow> int option) \<Rightarrow> admin_notification list \<Rightarrow>
    admin_notification list \<Rightarrow> admin_notification list" where
  "mergeNotificationEvent parse current incoming =
     (let byID = foldl put_notification (foldl put_notification [] current) incoming
      in js_sort (newest_first parse) (map snd byID))"

definition server_haystack :: "admin_server \<Rightarrow> jsstr" where
  "server_haystack server = toLowerCase (join (lit '' '')
     (map the (filter truthy_opt [Some (as_name server), as_region server, as_endpoint server,
        as_host server, as_country_code server])))"

definition server_visible :: "server_filters \<Rightarrow> admin_server \<Rightarrow> bool" where
  "server_visible filters server =
     (let query = toLowerCase (trim (sf_query filters)) in
      if truthy query \<and> \<not> includes_str (server_haystack server) query then False
      else if sf_status filters = Active_Status \<and> \<not> as_active server then False
      else if sf_status filters = Inactive_Status \<and> as_active server then False
      else if sf_status filters = Stale_Status \<and> \<not> on (as_agent_heartbeat_stale server) then False
      else if truthy (sf_region filters) \<and> as_region server \<noteq> Some (sf_region filters) then False
      else if sf_vipOnly filters = Vip_Tier \<and> \<not> on (as_is_vip_only server) then False
      else if sf_vipOnly filters = Standard_Tier \<and> on (as_is_vip_only server) then False
      else True)"

definition applyServerFilters :: "admin_server list \<Rightarrow> server_filters \<Rightarrow> admin_server list" where
  "applyServerFilters servers filters = filter (server_visible filters) servers"

definition preserveSelectedServer :: "int option \<Rightarrow> admin_server list \<Rightarrow> int option" where
  "preserveSelectedServer selectedID visibleServers = (case visibleServers of
     [] \<Rightarrow> None
   | first # _ \<Rightarrow>
       if selectedID \<noteq> None \<and> selectedID \<noteq> Some 0 \<and> list_ex (\<lambda>server. Some (as_id server) = selectedID) visibleServers
       then selectedID else Some (as_id first))"

subsection \<open>Merging notifications\<close>

lemma insort_by_cong:
  "(\<And>y. y \<in> set xs \<Longrightarrow> le x y = le' x y) \<Longrightarrow> insort_by le x xs = insort_by le' x xs"
  by (induction xs) auto

lemma js_sort_cong:
  "(\<And>x y. x \<in> set xs \<Longrightarrow> y \<in> set xs \<Longrightarrow> le x y = le' x y) \<Longrightarrow> js_sort le xs = js_sort le' xs"
proof (induction xs)
  case (Cons x xs)
  then have "js_sort le xs = js_sort le' xs" by simp
  moreover have "insort_by le x (js_sort le' xs) = insort_by le' x (js_sort le' xs)"
    by (rule insort_by_cong) (use Cons.prems in simp)
  ultimately show ?case by simp
qed simp

definition by_id :: "admin_notification list \<Rightarrow> int \<Rightarrow> admin_notification option" where
  "by_id ns i = map_of (map (\<lambda>n. (an_id n, n)) (rev ns)) i"

lemma foldl_put:
  "distinct (map fst m) \<Longrightarrow> (\<forall>(k, n) \<in> set m. k = an_id n) \<Longrightarrow>
   distinct (map fst (foldl put_notification m ns)) \<and>
   (\<forall>(k, n) \<in> set (foldl put_notification m ns). k = an_id n) \<and>
   map_of (foldl put_notification m ns) = map_of m ++ by_id ns"
proof (induction ns arbitrary: m)
  case Nil
  then show ?case by (simp add: by_id_def empty_def [symmetric] fun_eq_iff map_add_def)
next
  case (Cons n ns)
  have "distinct (map fst (put_notification m n))"
    using Cons.prems(1) by (simp add: put_notification_def distinct_update)
  moreover have "\<forall>(k, n) \<in> set (put_notification m n). k = an_id n"
    using Cons.prems(2) unfolding put_notification_def by (induction m) auto
  moreover have "map_of (put_notification m n) ++ by_id ns = map_of m ++ by_id (n # ns)"
    by (auto simp: fun_eq_iff put_notification_def by_id_def map_add_def split: option.split)
  ultimately show ?case using Cons.IH [of "put_notification m n"] by simp
qed
definition dated :: "(jsstr \<Rightarrow> int option) \<Rightarrow> admin_notification list \<Rightarrow> bool" where
  "dated parse ns \<longleftrightarrow> (\<forall>n \<in> set ns. parse (stamp n) \<noteq> None)"

definition newer :: "(jsstr \<Rightarrow> int option) \<Rightarrow> admin_notification \<Rightarrow> admin_notification \<Rightarrow> bool" where
  "newer parse a b \<longleftrightarrow> the (parse (stamp b)) \<le> the (parse (stamp a))"

lemma newest_first_dated:
  "parse (stamp a) \<noteq> None \<Longrightarrow> parse (stamp b) \<noteq> None \<Longrightarrow> newest_first parse a b = newer parse a b"
  by (auto simp: newest_first_def newer_def)

lemma js_sort_dated: "dated parse ns \<Longrightarrow> js_sort (newest_first parse) ns = js_sort (newer parse) ns"
  by (rule js_sort_cong) (simp add: dated_def newest_first_dated)

lemma sorted_newer: "sorted_wrt (newer parse) (js_sort (newer parse) ns)"
  by (rule sorted_js_sort) (auto simp: newer_def)

lemma merged_map:
  "distinct (map fst (foldl put_notification (foldl put_notification [] c) i)) \<and>
   (\<forall>(k, n) \<in> set (foldl put_notification (foldl put_notification [] c) i). k = an_id n) \<and>
   map_of (foldl put_notification (foldl put_notification [] c) i) = by_id (c @ i)"
  using foldl_put [of "[]" "c @ i"] by simp

lemma map_an_id_snd: "\<forall>(k, n) \<in> set m. k = an_id n \<Longrightarrow> map an_id (map snd m) = map fst m"
  by (induction m) auto

lemma merge_distinct: "distinct (map an_id (mergeNotificationEvent parse c i))"
  using merged_map [of c i] map_an_id_snd [of "foldl put_notification (foldl put_notification [] c) i"]
  by (simp add: mergeNotificationEvent_def Let_def distinct_map_js_sort del: map_map)

lemma merge_set: "n \<in> set (mergeNotificationEvent parse c i) \<longleftrightarrow> by_id (c @ i) (an_id n) = Some n"
proof -
  let ?m = "foldl put_notification (foldl put_notification [] c) i"
  note merged = merged_map [of c i]
  have "n \<in> snd ` set ?m \<longleftrightarrow> (an_id n, n) \<in> set ?m"
    using conjunct1 [OF conjunct2 [OF merged]] by (auto intro: rev_image_eqI)
  also have "\<dots> \<longleftrightarrow> map_of ?m (an_id n) = Some n"
    using map_of_eq_Some_iff [OF conjunct1 [OF merged]] by simp
  also have "\<dots> \<longleftrightarrow> by_id (c @ i) (an_id n) = Some n"
    using conjunct2 [OF conjunct2 [OF merged]] by simp
  finally show ?thesis by (simp add: mergeNotificationEvent_def Let_def)
qed

lemma by_id_some: "by_id ns i = Some n \<Longrightarrow> n \<in> set ns \<and> an_id n = i"
  unfolding by_id_def by (drule map_of_SomeD) auto

lemma by_id_distinct:
  assumes "distinct (map an_id ns)"
  shows "by_id ns k = Some n \<longleftrightarrow> n \<in> set ns \<and> an_id n = k"
proof -
  have "distinct (map fst (map (\<lambda>n. (an_id n, n)) (rev ns)))" using assms by (simp add: comp_def rev_map [symmetric])
  from map_of_eq_Some_iff [OF this] show ?thesis unfolding by_id_def by auto
qed

lemma by_id_merge: "by_id (mergeNotificationEvent parse c i) k = by_id (c @ i) k"
proof (cases "by_id (c @ i) k")
  case (Some n)
  then have "an_id n = k" using by_id_some by simp
  with Some merge_set [of n parse c i] by_id_distinct [OF merge_distinct, of parse c i k n] show ?thesis by simp
next
  case None
  then have "by_id (mergeNotificationEvent parse c i) k \<noteq> Some n" for n
    using by_id_distinct [OF merge_distinct, of parse c i k n] merge_set [of n parse c i] by auto
  with None show ?thesis by (cases "by_id (mergeNotificationEvent parse c i) k") auto
qed

lemma merge_dated:
  assumes "dated parse (c @ i)"
  shows "dated parse (mergeNotificationEvent parse c i)"
  unfolding dated_def
proof
  fix n
  assume "n \<in> set (mergeNotificationEvent parse c i)"
  then have "by_id (c @ i) (an_id n) = Some n" by (simp only: merge_set)
  from by_id_some [OF this] have "n \<in> set (c @ i)" ..
  with assms show "parse (stamp n) \<noteq> None" unfolding dated_def by simp
qed

lemma merge_sorted:
  assumes "dated parse (c @ i)"
  shows "sorted_wrt (newer parse) (mergeNotificationEvent parse c i)"
proof -
  have "dated parse (map snd (foldl put_notification (foldl put_notification [] c) i))"
    using merge_dated [OF assms] by (simp add: mergeNotificationEvent_def Let_def dated_def)
  then show ?thesis by (simp add: mergeNotificationEvent_def Let_def js_sort_dated sorted_newer)
qed

text \<open>C24: Merging an event into the list of notifications loses none, keeps one notification per id,
  the latest version of each (the event wins over the list), and orders them with the newest first
  when every date can be read.\<close>

theorem mergeNotificationEvent_correct:
  assumes "dated parse (current @ incoming)"
  shows "distinct (map an_id (mergeNotificationEvent parse current incoming)) \<and>
    by_id (mergeNotificationEvent parse current incoming) = by_id (current @ incoming) \<and>
    sorted_wrt (newer parse) (mergeNotificationEvent parse current incoming)"
  using merge_distinct merge_sorted [OF assms] by_id_merge by (simp add: fun_eq_iff)

definition sample_notification :: "int \<Rightarrow> jsstr \<Rightarrow> jsstr \<Rightarrow> admin_notification" where
  "sample_notification i title date = \<lparr>an_id = i, an_fingerprint = None, an_severity = Critical, an_status = Open,
     an_title = title, an_message = [], an_server_id = None, an_server = None, an_metadata_json = None,
     an_last_seen_at = date, an_acknowledged_at = None, an_acknowledged_by_id = None, an_muted_until = None,
     an_resolved_at = None, an_created_at = date\<rparr>"

text \<open>A reading of dates for examples: the length of the text.\<close>

definition length_date :: "jsstr \<Rightarrow> int option" where
  "length_date s = Some (int (length s))"

theorem mergeNotificationEvent_correct_witness:
  "map (\<lambda>n. (an_id n, an_title n)) (mergeNotificationEvent length_date
      [sample_notification 1 (lit ''a'') [0], sample_notification 2 (lit ''b'') [0, 0]]
      [sample_notification 1 (lit ''c'') [0, 0, 0]]) = [(1, lit ''c''), (2, lit ''b'')] \<and>
   distinct (map an_id (mergeNotificationEvent length_date
      [sample_notification 1 (lit ''a'') [0], sample_notification 2 (lit ''b'') [0, 0]]
      [sample_notification 1 (lit ''c'') [0, 0, 0]]))"
proof -
  have "dated length_date ([sample_notification 1 (lit ''a'') [0], sample_notification 2 (lit ''b'') [0, 0]] @
      [sample_notification 1 (lit ''c'') [0, 0, 0]])"
    by (simp add: dated_def length_date_def)
  from mergeNotificationEvent_correct [OF this] show ?thesis
    by (simp add: mergeNotificationEvent_def put_notification_def sample_notification_def newest_first_def
        length_date_def stamp_def or_str_def)
qed

lemma put_present: "distinct (map fst m) \<Longrightarrow> \<forall>(k, n) \<in> set m. k = an_id n \<Longrightarrow> n \<in> snd ` set m \<Longrightarrow>
    put_notification m n = m"
  unfolding put_notification_def by (induction m) (auto intro: rev_image_eqI)

lemma foldl_put_present:
  "distinct (map fst m) \<Longrightarrow> \<forall>(k, n) \<in> set m. k = an_id n \<Longrightarrow> set ns \<subseteq> snd ` set m \<Longrightarrow>
    foldl put_notification m ns = m"
  by (induction ns) (simp_all add: put_present)

lemma foldl_put_fresh:
  "distinct (map an_id (map snd m @ ns)) \<Longrightarrow> \<forall>(k, n) \<in> set m. k = an_id n \<Longrightarrow>
    foldl put_notification m ns = m @ map (\<lambda>n. (an_id n, n)) ns"
proof (induction ns arbitrary: m)
  case (Cons n ns)
  have "an_id n \<notin> fst ` set m" using Cons.prems by force
  then have "put_notification m n = m @ [(an_id n, n)]"
    unfolding put_notification_def by (induction m) auto
  with Cons show ?case by simp
qed simp

text \<open>Delivering an event a second time changes nothing, when its notifications have different
  ids and every date can be read.\<close>

lemma mergeNotificationEvent_redelivery:
  assumes "dated parse (current @ incoming)" "distinct (map an_id incoming)"
  shows "mergeNotificationEvent parse (mergeNotificationEvent parse current incoming) incoming =
    mergeNotificationEvent parse current incoming"
proof -
  let ?r = "mergeNotificationEvent parse current incoming"
  have r: "foldl put_notification [] ?r = map (\<lambda>n. (an_id n, n)) ?r"
    using foldl_put_fresh [of "[]" ?r] merge_distinct by simp
  have "n \<in> set ?r" if n: "n \<in> set incoming" for n
  proof -
    have "by_id incoming (an_id n) = Some n" using by_id_distinct [OF assms(2)] n by simp
    then have "by_id (current @ incoming) (an_id n) = Some n" by (simp add: by_id_def map_add_def)
    then show ?thesis by (simp only: merge_set)
  qed
  then have "foldl put_notification (foldl put_notification [] ?r) incoming = map (\<lambda>n. (an_id n, n)) ?r"
    unfolding r using merge_distinct by (intro foldl_put_present) (auto simp: comp_def image_image)
  then have "mergeNotificationEvent parse ?r incoming = js_sort (newest_first parse) ?r"
    by (simp add: mergeNotificationEvent_def [of parse ?r] comp_def)
  also have "\<dots> = js_sort (newer parse) ?r" by (rule js_sort_dated [OF merge_dated [OF assms(1)]])
  also have "\<dots> = ?r" by (rule js_sort_id [OF merge_sorted [OF assms(1)]])
  finally show ?thesis .
qed

subsection \<open>The server list\<close>

lemma server_visible_status:
  "server_visible (f\<lparr>sf_status := Active_Status\<rparr>) = (\<lambda>s. server_visible (f\<lparr>sf_status := All_Status\<rparr>) s \<and> as_active s)"
  "server_visible (f\<lparr>sf_status := Inactive_Status\<rparr>) = (\<lambda>s. server_visible (f\<lparr>sf_status := All_Status\<rparr>) s \<and> \<not> as_active s)"
  by (auto simp: fun_eq_iff server_visible_def Let_def)

lemma server_visible_tier:
  "server_visible (f\<lparr>sf_vipOnly := Vip_Tier\<rparr>) = (\<lambda>s. server_visible (f\<lparr>sf_vipOnly := All_Tiers\<rparr>) s \<and> on (as_is_vip_only s))"
  "server_visible (f\<lparr>sf_vipOnly := Standard_Tier\<rparr>) = (\<lambda>s. server_visible (f\<lparr>sf_vipOnly := All_Tiers\<rparr>) s \<and> \<not> on (as_is_vip_only s))"
  by (auto simp: fun_eq_iff server_visible_def Let_def)

lemma mset_filter_split:
  "mset (filter (\<lambda>x. P x \<and> Q x) xs) + mset (filter (\<lambda>x. P x \<and> \<not> Q x) xs) = mset (filter P xs)"
  by (induction xs) auto

text \<open>Whatever the other filters are, the active and the inactive servers together are all
  servers, and so are the VIP and the standard ones: every server is in one list of each pair, once.\<close>

lemma applyServerFilters_partition:
  "mset (applyServerFilters servers (f\<lparr>sf_status := Active_Status\<rparr>)) +
     mset (applyServerFilters servers (f\<lparr>sf_status := Inactive_Status\<rparr>)) =
     mset (applyServerFilters servers (f\<lparr>sf_status := All_Status\<rparr>)) \<and>
   mset (applyServerFilters servers (f\<lparr>sf_vipOnly := Vip_Tier\<rparr>)) +
     mset (applyServerFilters servers (f\<lparr>sf_vipOnly := Standard_Tier\<rparr>)) =
     mset (applyServerFilters servers (f\<lparr>sf_vipOnly := All_Tiers\<rparr>))"
  by (simp only: applyServerFilters_def server_visible_status server_visible_tier mset_filter_split simp_thms)

text \<open>A server is selected exactly when one is visible; the selected server is always a visible
  one; a selection that is still visible is kept; choosing again changes nothing.\<close>

lemma preserveSelectedServer_spec:
  "(preserveSelectedServer sel vs = None \<longleftrightarrow> vs = []) \<and>
   (\<forall>i. preserveSelectedServer sel vs = Some i \<longrightarrow> i \<in> as_id ` set vs) \<and>
   (\<forall>i. sel = Some i \<and> i \<noteq> 0 \<and> i \<in> as_id ` set vs \<longrightarrow> preserveSelectedServer sel vs = Some i) \<and>
   preserveSelectedServer (preserveSelectedServer sel vs) vs = preserveSelectedServer sel vs"
  by (cases vs) (auto simp: preserveSelectedServer_def list_ex_iff)

end
