(* ===== verification/Js_Uri.thy ===== *)
theory Js_Uri
  imports Js_Program
begin

section \<open>URI components\<close>

text \<open>\<^verbatim>\<open>encodeURIComponent\<close>: letters, digits and \<^verbatim>\<open>-_.!~*'()\<close> stay, every other character becomes
  the escaped bytes of its UTF-8 encoding; a surrogate without its partner throws.\<close>

definition unreserved :: "nat \<Rightarrow> bool" where
  "unreserved c \<longleftrightarrow> 48 \<le> c \<and> c \<le> 57 \<or> 65 \<le> c \<and> c \<le> 90 \<or> 97 \<le> c \<and> c \<le> 122 \<or>
     c \<in> {45, 95, 46, 33, 126, 42, 39, 40, 41}"

definition hex_digit :: "nat \<Rightarrow> nat" where
  "hex_digit n = (if n < 10 then 48 + n else 55 + n)"

definition escape_byte :: "nat \<Rightarrow> jsstr" where
  "escape_byte b = [37, hex_digit (b div 16 mod 16), hex_digit (b mod 16)]"

definition utf8 :: "nat \<Rightarrow> nat list" where
  "utf8 c = (if c < 128 then [c]
     else if c < 2048 then [192 + c div 64, 128 + c mod 64]
     else if c < 65536 then [224 + c div 4096, 128 + c div 64 mod 64, 128 + c mod 64]
     else [240 + c div 262144, 128 + c div 4096 mod 64, 128 + c div 64 mod 64, 128 + c mod 64])"

definition encode_char :: "nat \<Rightarrow> jsstr" where
  "encode_char c = (if unreserved c then [c] else concat (map escape_byte (utf8 c)))"

fun code_points :: "jsstr \<Rightarrow> nat list option" where
  "code_points [] = Some []"
| "code_points (c # s) =
     (if 56320 \<le> c \<and> c \<le> 57343 then None
      else if 55296 \<le> c \<and> c \<le> 56319 then
        (case s of [] \<Rightarrow> None
         | d # t \<Rightarrow> if 56320 \<le> d \<and> d \<le> 57343
             then map_option (\<lambda>ps. (65536 + (c - 55296) * 1024 + (d - 56320)) # ps) (code_points t)
             else None)
      else map_option (\<lambda>ps. c # ps) (code_points s))"

definition encodeURIComponent :: "jsstr \<Rightarrow> exn + jsstr" where
  "encodeURIComponent s = (case code_points s of
     None \<Rightarrow> Inl URIError | Some ps \<Rightarrow> Inr (concat (map encode_char ps)))"

lemma hex_digit_unreserved: "n < 16 \<Longrightarrow> unreserved (hex_digit n)"
  by (auto simp: hex_digit_def unreserved_def)

lemma encode_char_safe: "c \<in> set (encode_char p) \<Longrightarrow> unreserved c \<or> c = 37"
  by (auto simp: encode_char_def escape_byte_def hex_digit_unreserved split: if_splits)

lemma unreserved_not_separator: "unreserved c \<Longrightarrow> c \<noteq> 47 \<and> c \<noteq> 63 \<and> c \<noteq> 35"
  by (auto simp: unreserved_def)

lemma encodeURIComponent_safe:
  "encodeURIComponent s = Inr t \<Longrightarrow> c \<in> set t \<Longrightarrow> unreserved c \<or> c = 37"
  by (auto simp: encodeURIComponent_def split: option.splits dest!: encode_char_safe)

subsection \<open>The path of an address\<close>

text \<open>What \<^verbatim>\<open>fetch\<close> makes of the text behind the origin of an address, by the URL standard: tabs and line breaks are dropped,
  the path ends at a question mark or a number sign, a backslash counts as a slash, and the dot segments are resolved, also
  when a dot is written \<^verbatim>\<open>%2e\<close>. Other characters would be escaped within their segments, which is left out.\<close>

fun segs :: "jsstr \<Rightarrow> jsstr list" where
  "segs [] = [[]]"
| "segs (c # s) = (if c = 47 then [] # segs s else (case segs s of x # xs \<Rightarrow> (c # x) # xs | [] \<Rightarrow> [[c]]))"

definition path_part :: "jsstr \<Rightarrow> jsstr" where
  "path_part t = map (\<lambda>c. if c = 92 then 47 else c)
     (takeWhile (\<lambda>c. c \<noteq> 63 \<and> c \<noteq> 35) (filter (\<lambda>c. c \<noteq> 9 \<and> c \<noteq> 10 \<and> c \<noteq> 13) t))"

definition single_dot :: "jsstr \<Rightarrow> bool" where
  "single_dot s \<longleftrightarrow> toLowerCase s = lit ''.'' \<or> toLowerCase s = lit ''%2e''"

definition double_dot :: "jsstr \<Rightarrow> bool" where
  "double_dot s \<longleftrightarrow> toLowerCase s = lit ''..'' \<or> toLowerCase s = lit ''.%2e'' \<or> toLowerCase s = lit ''%2e.'' \<or>
     toLowerCase s = lit ''%2e%2e''"

text \<open>The segments so far are kept with the last one first; a dot segment at the end leaves an empty segment.\<close>

fun resolve :: "jsstr list \<Rightarrow> jsstr list \<Rightarrow> jsstr list" where
  "resolve st [] = rev st"
| "resolve st (s # ss) =
     (if double_dot s then resolve (if ss = [] then [] # tl st else tl st) ss
      else if single_dot s then resolve (if ss = [] then [] # st else st) ss
      else resolve (s # st) ss)"

definition url_path :: "jsstr \<Rightarrow> jsstr list" where
  "url_path t = resolve [] (tl (segs (path_part t)))"

text \<open>Segments that never climb above the \<open>n\<close>-th directory below the place where they start.\<close>

fun stays :: "nat \<Rightarrow> jsstr list \<Rightarrow> bool" where
  "stays n [] \<longleftrightarrow> True"
| "stays n (s # ss) \<longleftrightarrow>
     (if double_dot s then 0 < n \<and> stays (n - 1) ss else if single_dot s then stays n ss else stays (Suc n) ss)"

lemma segs_not_Nil: "segs s \<noteq> []"
  by (induction s) (auto split: list.split)

lemma segs_slash: "segs (xs @ 47 # ys) = segs xs @ segs ys"
  by (induction xs) (auto split: list.split simp: segs_not_Nil)

lemma segs_plain: "47 \<notin> set xs \<Longrightarrow> segs xs = [xs]"
  by (induction xs) auto

lemma segs_hd: "c \<noteq> 47 \<Longrightarrow> \<exists>x xs. segs (c # s) = (c # x) # xs"
  by (auto split: list.split simp: segs_not_Nil)

lemma resolve_stays: "stays (length st) ss \<Longrightarrow> resolve (st @ dirs) ss = rev dirs @ resolve st ss"
proof (induction ss arbitrary: st)
  case (Cons s ss)
  show ?case
  proof (cases "double_dot s")
    case True
    with Cons.prems obtain x st' where "st = x # st'" by (cases st) auto
    with True Cons.prems Cons.IH [of st'] show ?thesis by auto
  next
    case False
    with Cons.prems Cons.IH [of st] Cons.IH [of "s # st"] show ?thesis by auto
  qed
qed simp

lemma path_part_append:
  "list_all (\<lambda>c. c \<notin> {9, 10, 13, 35, 63, 92}) s \<Longrightarrow> path_part (s @ t) = s @ path_part t"
  by (induction s) (simp_all add: path_part_def)

end
