(* ===== verification/Api_Routes.thy ===== *)
theory Api_Routes
  imports Site_Config Admin_Lib Js_Uri
begin

section \<open>The route handlers and the admin page (web/app/api, web/app/admin/page.tsx)\<close>

text \<open>
  One program per handler, over the environment of \<^theory_text>\<open>Server_Api\<close>. A handler answers with a
  response, or throws, which the framework turns into an error page. \<^verbatim>\<open>console.error\<close> is left out.
  A status the platform does not allow for a body makes the constructor of the response throw.
\<close>

record incoming =
  in_method :: jsstr
  in_search :: jsstr
  in_headers :: headers
  in_body :: body

definition request_json :: "incoming \<Rightarrow> exn + json" where
  "request_json rq = (case in_body rq of JsonBody j \<Rightarrow> Inr j | _ \<Rightarrow> Inl SyntaxError)"

text \<open>\<^verbatim>\<open>await request.text()\<close>: a request without a body has the empty text.\<close>

definition request_text :: "incoming \<Rightarrow> body" where
  "request_text rq = (case in_body rq of NoBody \<Rightarrow> TextBody [] | b \<Rightarrow> b)"

definition null_body_status :: "nat \<Rightarrow> bool" where
  "null_body_status n \<longleftrightarrow> n = 101 \<or> n = 103 \<or> n = 204 \<or> n = 205 \<or> n = 304"

text \<open>\<^verbatim>\<open>new Response(body, { status, headers })\<close> and \<^verbatim>\<open>NextResponse.json(data, { status })\<close>.\<close>

definition new_response :: "body \<Rightarrow> nat \<Rightarrow> headers \<Rightarrow> exn + response" where
  "new_response body status headers =
     (if status < 200 \<or> 599 < status then Inl RangeError
      else if body \<noteq> NoBody \<and> null_body_status status then Inl TypeError
      else Inr \<lparr>rs_status = status, rs_headers = headers, rs_body = body\<rparr>)"

definition next_json :: "json \<Rightarrow> nat \<Rightarrow> exn + response" where
  "next_json data status =
     new_response (JsonBody data) status [(lit ''content-type'', lit ''application/json'')]"

subsection \<open>Signing in and out\<close>

definition post_init :: "json \<Rightarrow> request_init" where
  "post_init body = \<lparr>ri_method = Some (lit ''POST''), ri_headers = [], ri_body = JsonBody body\<rparr>"

definition POST_auth_register :: "'w env \<Rightarrow> incoming \<Rightarrow> ('w sv, response) prog" where
  "POST_auth_register E rq =
     bindp (lift (request_json rq)) (\<lambda>body.
     bindp (backendFetch E (lit ''/api/v1/auth/register'') (post_init body)) (\<lambda>response.
     lift (next_json (backendJSON response) (rs_status response))))"

definition POST_auth_forgot :: "'w env \<Rightarrow> incoming \<Rightarrow> ('w sv, response) prog" where
  "POST_auth_forgot E rq =
     bindp (lift (request_json rq)) (\<lambda>body.
     bindp (backendFetch E (lit ''/api/v1/auth/forgot-password'') (post_init body)) (\<lambda>response.
     lift (next_json (backendJSON response) (rs_status response))))"

definition POST_auth_reset :: "'w env \<Rightarrow> incoming \<Rightarrow> ('w sv, response) prog" where
  "POST_auth_reset E rq =
     bindp (lift (request_json rq)) (\<lambda>body.
     bindp (backendFetch E (lit ''/api/v1/auth/reset-password'') (post_init body)) (\<lambda>response.
     lift (next_json (backendJSON response) (rs_status response))))"

definition POST_auth_login :: "'w env \<Rightarrow> incoming \<Rightarrow> ('w sv, response) prog" where
  "POST_auth_login E rq =
     bindp (lift (request_json rq)) (\<lambda>body.
     bindp (backendFetch E (lit ''/api/v1/auth/login'') (post_init body)) (\<lambda>response.
     let data = backendJSON response in
     bindp (if \<not> rs_ok response then ret False else lift (jhas data (lit ''access_token''))) (\<lambda>granted.
     if \<not> granted then lift (next_json data (rs_status response))
     else thenp (setAuthCookies E (jget_safe data (lit ''access_token'')) (jget_safe data (lit ''refresh_token'')))
            (lift (next_json (JObj [(lit ''ok'', JBool True)]) 200)))))"

definition POST_auth_verify :: "'w env \<Rightarrow> incoming \<Rightarrow> ('w sv, response) prog" where
  "POST_auth_verify E rq =
     bindp (lift (request_json rq)) (\<lambda>body.
     bindp (backendFetch E (lit ''/api/v1/auth/verify'') (post_init body)) (\<lambda>response.
     let data = backendJSON response in
     bindp (if \<not> rs_ok response then ret False else lift (jhas data (lit ''access_token''))) (\<lambda>granted.
     if \<not> granted then lift (next_json data (rs_status response))
     else thenp (setAuthCookies E (jget_safe data (lit ''access_token'')) (jget_safe data (lit ''refresh_token'')))
            (lift (next_json (JObj [(lit ''ok'', JBool True)]) 200)))))"

definition POST_auth_logout :: "'w env \<Rightarrow> ('w sv, response) prog" where
  "POST_auth_logout E = thenp (clearAuthCookies E) (lift (next_json (JObj [(lit ''ok'', JBool True)]) 200))"

subsection \<open>Calls on behalf of the user\<close>

text \<open>\<^verbatim>\<open>{ ...bearer(token), "Content-Type": "application/json" }\<close>\<close>

definition bearer_json :: "'w env \<Rightarrow> json \<Rightarrow> (jsstr \<times> jsstr) list" where
  "bearer_json E token = spread (bearer E token) [(lit ''Content-Type'', lit ''application/json'')]"

definition GET_session :: "'w env \<Rightarrow> ('w sv, response) prog" where
  "GET_session E =
     bindp (authorizedFetch E (\<lambda>token. backendFetch E (lit ''/api/v1/me'')
       \<lparr>ri_method = None, ri_headers = bearer E token, ri_body = NoBody\<rparr>)) (\<lambda>meResponse.
     if rs_status meResponse = 401 then lift (next_json (JObj [(lit ''authenticated'', JBool False)]) 401)
     else if \<not> rs_ok meResponse then lift (next_json (backendJSON meResponse) (rs_status meResponse))
     else
     bindp (authorizedFetch E (\<lambda>token. backendFetch E (lit ''/api/v1/me/subscription'')
       \<lparr>ri_method = None, ri_headers = bearer E token, ri_body = NoBody\<rparr>)) (\<lambda>subscriptionResponse.
     if \<not> rs_ok subscriptionResponse
     then lift (next_json (backendJSON subscriptionResponse) (rs_status subscriptionResponse))
     else
     bindp (lift (json_of meResponse)) (\<lambda>user.
     bindp (lift (json_of subscriptionResponse)) (\<lambda>subscription.
     lift (next_json (JObj [(lit ''authenticated'', JBool True), (lit ''user'', user),
       (lit ''subscription'', subscription)]) 200)))))"

definition POST_happ_link :: "'w env \<Rightarrow> ('w sv, response) prog" where
  "POST_happ_link E =
     bindp (authorizedFetch E (\<lambda>token. backendFetch E (lit ''/api/v1/me/happ-link'')
       \<lparr>ri_method = Some (lit ''POST''), ri_headers = bearer E token, ri_body = NoBody\<rparr>)) (\<lambda>response.
     lift (next_json (backendJSON response) (rs_status response)))"

definition POST_payments_create :: "'w env \<Rightarrow> incoming \<Rightarrow> ('w sv, response) prog" where
  "POST_payments_create E rq =
     bindp (lift (request_json rq)) (\<lambda>body.
     bindp (authorizedFetch E (\<lambda>token. backendFetch E (lit ''/api/v1/payments/create'')
       \<lparr>ri_method = Some (lit ''POST''), ri_headers = bearer E token, ri_body = JsonBody body\<rparr>)) (\<lambda>response.
     lift (next_json (backendJSON response) (rs_status response))))"

definition POST_payments_preview :: "'w env \<Rightarrow> incoming \<Rightarrow> ('w sv, response) prog" where
  "POST_payments_preview E rq =
     bindp (lift (request_json rq)) (\<lambda>body.
     bindp (authorizedFetch E (\<lambda>token. backendFetch E (lit ''/api/v1/payments/preview'')
       \<lparr>ri_method = Some (lit ''POST''), ri_headers = bearer E token, ri_body = JsonBody body\<rparr>)) (\<lambda>response.
     lift (next_json (backendJSON response) (rs_status response))))"

definition GET_routing_profiles :: "'w env \<Rightarrow> ('w sv, response) prog" where
  "GET_routing_profiles E =
     bindp (authorizedFetch E (\<lambda>token. backendFetch E (lit ''/api/v1/me/routing-profiles'')
       \<lparr>ri_method = Some (lit ''GET''), ri_headers = bearer E token, ri_body = NoBody\<rparr>)) (\<lambda>response.
     lift (next_json (backendJSON response) (rs_status response)))"

definition POST_routing_profiles :: "'w env \<Rightarrow> incoming \<Rightarrow> ('w sv, response) prog" where
  "POST_routing_profiles E rq =
     bindp (lift (request_json rq)) (\<lambda>body.
     bindp (authorizedFetch E (\<lambda>token. backendFetch E (lit ''/api/v1/me/routing-profiles'')
       \<lparr>ri_method = Some (lit ''POST''), ri_headers = bearer_json E token, ri_body = JsonBody body\<rparr>)) (\<lambda>response.
     lift (next_json (backendJSON response) (rs_status response))))"

definition PUT_routing_profile :: "'w env \<Rightarrow> jsstr \<Rightarrow> incoming \<Rightarrow> ('w sv, response) prog" where
  "PUT_routing_profile E params_id rq =
     bindp (lift (request_json rq)) (\<lambda>body.
     bindp (authorizedFetch E (\<lambda>token. backendFetch E (lit ''/api/v1/me/routing-profiles/'' @ params_id)
       \<lparr>ri_method = Some (lit ''PUT''), ri_headers = bearer_json E token, ri_body = JsonBody body\<rparr>)) (\<lambda>response.
     lift (next_json (backendJSON response) (rs_status response))))"

definition DELETE_routing_profile :: "'w env \<Rightarrow> jsstr \<Rightarrow> ('w sv, response) prog" where
  "DELETE_routing_profile E params_id =
     bindp (authorizedFetch E (\<lambda>token. backendFetch E (lit ''/api/v1/me/routing-profiles/'' @ params_id)
       \<lparr>ri_method = Some (lit ''DELETE''), ri_headers = bearer E token, ri_body = NoBody\<rparr>)) (\<lambda>response.
     lift (next_json (backendJSON response) (rs_status response)))"

definition POST_routing_profile_copy :: "'w env \<Rightarrow> jsstr \<Rightarrow> ('w sv, response) prog" where
  "POST_routing_profile_copy E params_code =
     bindp (authorizedFetch E (\<lambda>token.
       bindp (lift (encodeURIComponent params_code)) (\<lambda>code.
       backendFetch E (lit ''/api/v1/me/routing-profiles/system/'' @ code @ lit ''/copy'')
         \<lparr>ri_method = Some (lit ''POST''), ri_headers = bearer E token, ri_body = JsonBody (JObj [])\<rparr>))) (\<lambda>response.
     lift (next_json (backendJSON response) (rs_status response)))"

definition PATCH_ad_block :: "'w env \<Rightarrow> incoming \<Rightarrow> ('w sv, response) prog" where
  "PATCH_ad_block E rq =
     bindp (lift (request_json rq)) (\<lambda>body.
     bindp (authorizedFetch E (\<lambda>token. backendFetch E (lit ''/api/v1/me/subscription/ad-block'')
       \<lparr>ri_method = Some (lit ''PATCH''), ri_headers = bearer_json E token, ri_body = JsonBody body\<rparr>)) (\<lambda>response.
     lift (next_json (backendJSON response) (rs_status response))))"

definition PATCH_auto_renew :: "'w env \<Rightarrow> incoming \<Rightarrow> ('w sv, response) prog" where
  "PATCH_auto_renew E rq =
     bindp (lift (request_json rq)) (\<lambda>body.
     bindp (authorizedFetch E (\<lambda>token. backendFetch E (lit ''/api/v1/me/subscription/auto-renew'')
       \<lparr>ri_method = Some (lit ''PATCH''), ri_headers = bearer E token, ri_body = JsonBody body\<rparr>)) (\<lambda>response.
     if \<not> rs_ok response then lift (next_json (backendJSON response) (rs_status response))
     else bindp (lift (json_of response)) (\<lambda>data. lift (next_json data 200))))"

definition GET_site_config :: "'w env \<Rightarrow> ('w sv, response) prog" where
  "GET_site_config E = bindp (loadSiteConfig E) (\<lambda>config. lift (next_json config 200))"

subsection \<open>The administration proxy and page\<close>

definition admin_headers :: "'w env \<Rightarrow> incoming \<Rightarrow> json \<Rightarrow> (jsstr \<times> jsstr) list" where
  "admin_headers E rq token =
     header_set (header_set [] (lit ''Authorization'') (lit ''Bearer '' @ template (env_number_string E) token))
       (lit ''Content-Type'') (nullish (header_get (in_headers rq) (lit ''Content-Type'')) (lit ''application/json''))"

definition proxied_headers :: "headers \<Rightarrow> headers" where
  "proxied_headers h =
     (let contentType = header_get h (lit ''Content-Type'');
          contentDisposition = header_get h (lit ''Content-Disposition'');
          headers = (if truthy_opt contentType then header_set [] (lit ''Content-Type'') (the contentType) else [])
      in if truthy_opt contentDisposition
         then header_set headers (lit ''Content-Disposition'') (the contentDisposition) else headers)"

definition proxyAdmin :: "'w env \<Rightarrow> jsstr list \<Rightarrow> incoming \<Rightarrow> ('w sv, response) prog" where
  "proxyAdmin E path rq = catchp
     (let backendPath = lit ''/api/v1/admin/'' @ join (lit ''/'') path @ in_search rq;
          body = (if in_method rq = lit ''GET'' \<or> in_method rq = lit ''HEAD'' then NoBody else request_text rq)
      in bindp (authorizedFetch E (\<lambda>token. backendFetch E backendPath
           \<lparr>ri_method = Some (in_method rq), ri_headers = admin_headers E rq token, ri_body = body\<rparr>)) (\<lambda>response.
         lift (new_response (rs_body response) (rs_status response) (proxied_headers (rs_headers response)))))
     (\<lambda>_. lift (next_json (JObj [(lit ''error'', JStr (lit ''admin_backend_unavailable''))]) 502))"

datatype page =
    Redirect jsstr
  | Admin_Panel_Page jval "json + admin_overview"

definition emptyOverview :: admin_overview where
  "emptyOverview = \<lparr>ov_kpis = \<lparr>k_total_users = 0, k_active_subscriptions = 0, k_active_vpn_keys = 0,
     k_total_servers = 0, k_active_servers = 0, k_open_incidents = 0, k_monthly_revenue = 0\<rparr>,
     ov_notifications = [], ov_servers = []\<rparr>"

definition fetch_me :: "'w env \<Rightarrow> ('w sv, response option) prog" where
  "fetch_me E = catchp
     (bindp (authorizedFetch E (\<lambda>token. backendFetch E (lit ''/api/v1/me'')
       \<lparr>ri_method = None, ri_headers = bearer E token, ri_body = NoBody\<rparr>)) (\<lambda>r. ret (Some r)))
     (\<lambda>_. ret None)"

definition fetch_overview :: "'w env \<Rightarrow> ('w sv, json + admin_overview) prog" where
  "fetch_overview E = catchp
     (bindp (authorizedFetch E (\<lambda>token. backendFetch E (lit ''/api/v1/admin/overview'')
       \<lparr>ri_method = None, ri_headers = bearer E token, ri_body = NoBody\<rparr>)) (\<lambda>overviewResponse.
      if rs_ok overviewResponse
      then bindp (lift (json_of overviewResponse)) (\<lambda>overview. ret (Inl overview))
      else ret (Inr emptyOverview)))
     (\<lambda>_. ret (Inr emptyOverview))"

definition AdminPage :: "'w env \<Rightarrow> ('w sv, page) prog" where
  "AdminPage E =
     bindp (fetch_me E) (\<lambda>me_response. case me_response of
       None \<Rightarrow> ret (Redirect (lit ''/auth''))
     | Some meResponse \<Rightarrow>
         if rs_status meResponse = 401 then ret (Redirect (lit ''/auth''))
         else if \<not> rs_ok meResponse then ret (Redirect (lit ''/dashboard''))
         else (case json_of meResponse of
           Inl _ \<Rightarrow> ret (Redirect (lit ''/auth''))
         | Inr me \<Rightarrow>
             bindp (lift (jget me (lit ''role''))) (\<lambda>role.
             if role \<noteq> Some (JStr (lit ''admin'')) then ret (Redirect (lit ''/dashboard''))
             else bindp (fetch_overview E) (\<lambda>overview.
               ret (Admin_Panel_Page (jget_safe me (lit ''email'')) overview)))))"

subsection \<open>Effects of the handlers\<close>

lemma effects_jhas [effect_rules]: "effects Q (if b then ret x else lift r)"
  by (simp add: effect_rules)

text \<open>Every cookie is one of the two tokens, and a request goes to a path of the backend's host.\<close>

definition disciplined :: "'w env \<Rightarrow> effect \<Rightarrow> bool" where
  "disciplined E e \<longleftrightarrow> cookie_discipline E e \<and> backend_only E e \<and>
     (\<forall>rq. e = Sent rq \<longrightarrow> (\<exists>path. rq_url rq = backendBaseURL E @ lit ''/'' @ path))"

lemma disciplined_request: "take 1 path = lit ''/'' \<Longrightarrow> disciplined E (Sent (request_of E path init))"
  by (cases path) (simp_all add: disciplined_def request_of_def Let_def backend_only_def lit_Cons)

lemma disciplined_session [simp]: "cookie_effects E (disciplined E)" "session_effects E (disciplined E)"
  by (simp_all add: session_effects_def cookie_effects_def disciplined_request)
    (simp_all add: disciplined_def refresh_path_def lit_Cons)

text \<open>The request for the configuration, which goes to the public address of the backend if there is one.\<close>

definition config_request :: "'w env \<Rightarrow> request" where
  "config_request E =
     (let base = (case env_NEXT_PUBLIC_API_BASE_URL E of None \<Rightarrow> env_BACKEND_API_URL E | Some b \<Rightarrow> Some b)
      in \<lparr>rq_url = strip_slash (the base) @ lit ''/api/v1/web/config'', rq_method = lit ''GET'', rq_headers = [],
          rq_body = NoBody, rq_no_store = False\<rparr>)"

lemma effects_GET_site_config: "effects (\<lambda>e. e = Sent (config_request E)) (GET_site_config E)"
  unfolding GET_site_config_def loadSiteConfig_def Let_def
  by (intro effect_rules) (simp add: config_request_def Let_def)

lemma counts_GET_site_config: "counts is_sent 1 (GET_site_config E)"
proof -
  have "counts is_sent (1 + 0 + 0 + 0) (GET_site_config E)"
    unfolding GET_site_config_def loadSiteConfig_def Let_def
    by (intro counts_bindp counts_if counts_catchp count_rules counts_none effect_rules)
  then show ?thesis by simp
qed

text \<open>C20: Every handler of the site but one, and the admin page, whatever the backend answers and whatever the
  browser sends, contacts no host but the backend and writes no cookie but the two tokens, with their
  protective attributes. The handler of the site configuration has no other effect than at most one request, without a
  token, for the configuration, to the public address of the backend or else to the backend.\<close>

theorem handlers_disciplined:
  "list_all (effects (disciplined E))
     [POST_auth_register E rq, POST_auth_forgot E rq, POST_auth_reset E rq, POST_auth_login E rq,
      POST_auth_verify E rq, POST_auth_logout E, GET_session E, POST_happ_link E, POST_payments_create E rq,
      POST_payments_preview E rq, GET_routing_profiles E, POST_routing_profiles E rq,
      PUT_routing_profile E i rq, DELETE_routing_profile E i, POST_routing_profile_copy E i,
      PATCH_ad_block E rq, PATCH_auto_renew E rq, proxyAdmin E path rq] \<and>
   effects (disciplined E) (AdminPage E) \<and>
   effects (\<lambda>e. e = Sent (config_request E)) (GET_site_config E) \<and> counts is_sent 1 (GET_site_config E)"
  unfolding list.pred_inject(2)
  unfolding POST_auth_register_def POST_auth_forgot_def POST_auth_reset_def POST_auth_login_def
    POST_auth_verify_def POST_auth_logout_def GET_session_def POST_happ_link_def POST_payments_create_def
    POST_payments_preview_def GET_routing_profiles_def POST_routing_profiles_def PUT_routing_profile_def
    DELETE_routing_profile_def POST_routing_profile_copy_def PATCH_ad_block_def PATCH_auto_renew_def
    proxyAdmin_def Let_def AdminPage_def fetch_me_def fetch_overview_def
  by (intro conjI list.pred_inject(1) effect_rules disciplined_session disciplined_request effects_GET_site_config
      counts_GET_site_config) (simp_all add: lit_Cons)

subsection \<open>Signing in and out\<close>

lemma next_json_ok [simp]:
  "200 \<le> n \<Longrightarrow> n \<le> 599 \<Longrightarrow> \<not> null_body_status n \<Longrightarrow> next_json j n = Inr (json_response n j)"
  by (simp add: next_json_def new_response_def json_response_def)

lemma not_null_body [simp]: "\<not> null_body_status 200" "\<not> null_body_status 401" "\<not> null_body_status 502"
  by (simp_all add: null_body_status_def)

lemma grantsD:
  "grants resp a r \<Longrightarrow> rs_ok resp \<and> jhas (backendJSON resp) (lit ''access_token'') = Inr True \<and>
     jget_safe (backendJSON resp) (lit ''access_token'') = Some (JStr a) \<and>
     jget_safe (backendJSON resp) (lit ''refresh_token'') = Some (JStr r)"
  by (auto simp: grants_def backendJSON_def jget_safe_def jhas_def split: sum.splits json.splits)

text \<open>C21: A sign-in or an email confirmation the backend accepts leaves both tokens in the cookies and
  answers \<^verbatim>\<open>{ ok: true }\<close>: the tokens do not reach the scripts of the page.\<close>

theorem sign_in_sets_cookies:
  assumes laws: "cookie_laws E" and body: "request_json rq = Inr body"
    and answer: "env_fetch E (request_of E path (post_init body)) (sv_world s) = (Inr resp, w)" "grants resp a r"
  shows "(path = lit ''/api/v1/auth/login'' \<longrightarrow>
      (\<exists>s'. POST_auth_login E rq s = (Inr (json_response 200 (JObj [(lit ''ok'', JBool True)])), s') \<and> holds_tokens E a r s')) \<and>
    (path = lit ''/api/v1/auth/verify'' \<longrightarrow>
      (\<exists>s'. POST_auth_verify E rq s = (Inr (json_response 200 (JObj [(lit ''ok'', JBool True)])), s') \<and> holds_tokens E a r s'))"
proof -
  let ?s = "\<lparr>sv_world = w, sv_log = sv_log s @ [Sent (request_of E path (post_init body))]\<rparr>"
  obtain s' where s': "setAuthCookies E (Some (JStr a)) (Some (JStr r)) ?s = (Inr (), s')" "holds_tokens E a r s'"
    using setAuthCookies_run [OF laws, of a r ?s] by blast
  have run: "backendFetch E path (post_init body) s = (Inr resp, ?s)"
    using answer(1) by (simp add: backendFetch_request do_fetch_def)
  note facts = body run s' grantsD [OF answer(2)]
  have "\<exists>s'. POST_auth_login E rq s = (Inr (json_response 200 (JObj [(lit ''ok'', JBool True)])), s') \<and> holds_tokens E a r s'"
    if "path = lit ''/api/v1/auth/login''"
    using facts unfolding that by (simp add: POST_auth_login_def Let_def prog_simps)
  moreover have "\<exists>s'. POST_auth_verify E rq s = (Inr (json_response 200 (JObj [(lit ''ok'', JBool True)])), s') \<and> holds_tokens E a r s'"
    if "path = lit ''/api/v1/auth/verify''"
    using facts unfolding that by (simp add: POST_auth_verify_def Let_def prog_simps)
  ultimately show ?thesis by blast
qed

definition sim_credentials :: incoming where
  "sim_credentials = \<lparr>in_method = lit ''POST'', in_search = [], in_headers = [],
     in_body = JsonBody (JObj [(lit ''email'', JStr (lit ''a@b.c'')), (lit ''password'', JStr (lit ''secret12''))])\<rparr>"

theorem sign_in_sets_cookies_witness:
  "\<exists>s'. POST_auth_login sim_env sim_credentials (sim_start [] [sim_tokens]) =
     (Inr (json_response 200 (JObj [(lit ''ok'', JBool True)])), s') \<and> holds_tokens sim_env (lit ''new'') (lit ''ref2'') s'"
proof -
  let ?body = "JObj [(lit ''email'', JStr (lit ''a@b.c'')), (lit ''password'', JStr (lit ''secret12''))]"
  have "request_json sim_credentials = Inr ?body" by (simp add: request_json_def sim_credentials_def)
  moreover have "env_fetch sim_env (request_of sim_env (lit ''/api/v1/auth/login'') (post_init ?body))
      (sv_world (sim_start [] [sim_tokens])) = (Inr sim_tokens, \<lparr>sim_cookies = [], sim_script = []\<rparr>)" by simp
  ultimately show ?thesis
    using sign_in_sets_cookies [OF cookie_laws_sim _ _ sim_answers(3), where path = "lit ''/api/v1/auth/login''"] by blast
qed

lemma GET_session_signed_out:
  assumes "signed_out E s"
  shows "GET_session E s = (Inr (json_response 401 (JObj [(lit ''authenticated'', JBool False)])), s)"
  using assms
  by (simp add: GET_session_def authorizedFetch_def currentAccessToken_def cookie_get_def prog_simps
      signed_out_def refreshAccessToken_without_cookie unauthorized_response_def)

text \<open>C22: After signing out, the session request answers 401 without a word to the backend.\<close>

theorem logout_ends_session:
  assumes "cookie_laws E"
  shows "\<exists>s'. POST_auth_logout E s = (Inr (json_response 200 (JObj [(lit ''ok'', JBool True)])), s') \<and>
    GET_session E s' = (Inr (json_response 401 (JObj [(lit ''authenticated'', JBool False)])), s') \<and>
    filter is_sent (sv_log s') = filter is_sent (sv_log s)"
proof -
  obtain s' where "clearAuthCookies E s = (Inr (), s')" "signed_out E s'"
    "sv_log s' = sv_log s @ [CookieDeleted accessCookieName, CookieDeleted refreshCookieName]"
    using clearAuthCookies_run [OF assms, of s] by blast
  then show ?thesis by (simp add: POST_auth_logout_def prog_simps GET_session_signed_out)
qed

theorem logout_ends_session_witness:
  "\<exists>s'. POST_auth_logout sim_env (sim_start sim_cookies2 []) = (Inr (json_response 200 (JObj [(lit ''ok'', JBool True)])), s') \<and>
    GET_session sim_env s' = (Inr (json_response 401 (JObj [(lit ''authenticated'', JBool False)])), s')"
  using logout_ends_session [OF cookie_laws_sim, of "sim_start sim_cookies2 []"] by blast

subsection \<open>The session\<close>

lemma next_json_status: "next_json j n = Inr r \<Longrightarrow> rs_status r = n \<and> rs_body r = JsonBody j"
  by (auto simp: next_json_def new_response_def split: if_splits)

text \<open>A session answer that is fine has exactly the fields \<^verbatim>\<open>authenticated\<close>, \<^verbatim>\<open>user\<close> and
  \<^verbatim>\<open>subscription\<close>; in particular it carries no token.\<close>

lemma GET_session_fields:
  assumes "GET_session E s = (Inr r, s')" "rs_ok r"
  shows "\<exists>user subscription. rs_body r = JsonBody (JObj [(lit ''authenticated'', JBool True),
    (lit ''user'', user), (lit ''subscription'', subscription)])"
  using assms unfolding GET_session_def
  by (auto simp: prog_simps rs_ok_def json_response_def split: prod.splits sum.splits if_splits dest!: next_json_status)

lemma GET_session_sample:
  "\<exists>s'. GET_session sim_env (sim_start sim_cookies2 [json_response 200 JNull, json_response 200 JNull]) =
    (Inr (json_response 200 (JObj [(lit ''authenticated'', JBool True), (lit ''user'', JNull), (lit ''subscription'', JNull)])), s')"
  by (simp add: GET_session_def sim_run_simps)

subsection \<open>The administration proxy\<close>


text \<open>Where the text behind the administration prefix leads: a text whose segments do not climb stays below it.\<close>

definition admin_dir :: "jsstr list" where
  "admin_dir = [lit ''api'', lit ''v1'', lit ''admin'']"


lemma admin_path: "url_path (lit ''/api/v1/admin/'' @ t) = resolve (rev admin_dir) (segs (path_part t))"
proof -
  have "path_part (lit ''/api/v1/admin/'' @ t) = lit ''/api/v1/admin/'' @ path_part t"
    by (rule path_part_append) (simp add: lit_Cons)
  then show ?thesis
    by (simp add: url_path_def admin_dir_def lit_Cons single_dot_def double_dot_def toLowerCase_def lower_cu_def)
qed


definition proxied :: "jsstr list \<Rightarrow> incoming \<Rightarrow> jsstr" where
  "proxied path rq = join (lit ''/'') path @ in_search rq"






definition passed_headers :: "jsstr set" where
  "passed_headers = {toLowerCase (lit ''Content-Type''), toLowerCase (lit ''Content-Disposition'')}"


lemma passed_names [simp]:
  "toLowerCase (lit ''Content-Type'') \<in> passed_headers" "toLowerCase (lit ''Content-Disposition'') \<in> passed_headers"
  "lit ''content-type'' \<in> passed_headers"
proof -
  have "lit ''content-type'' = toLowerCase (lit ''Content-Type'')" by code_simp
  then show "toLowerCase (lit ''Content-Type'') \<in> passed_headers" "toLowerCase (lit ''Content-Disposition'') \<in> passed_headers"
    "lit ''content-type'' \<in> passed_headers"
    by (simp_all add: passed_headers_def)
qed




definition sim_status :: incoming where
  "sim_status = \<lparr>in_method = lit ''GET'', in_search = lit ''?days=7'', in_headers = [], in_body = NoBody\<rparr>"




text \<open>Without the proviso the request can leave the administration part: the segments are joined as they are, and with
  \<^verbatim>\<open>..\<close> among them the token of the visitor goes to another endpoint of the backend.\<close>

lemma proxyAdmin_escapes:
  "url_path (lit ''/api/v1/admin/'' @ proxied [lit ''..'', lit ''me''] (sim_status\<lparr>in_search := []\<rparr>)) = [lit ''api'', lit ''v1'', lit ''me'']"
  unfolding admin_path
  by (simp add: admin_dir_def proxied_def sim_status_def path_part_def lit_Cons single_dot_def double_dot_def toLowerCase_def lower_cu_def)

subsection \<open>The admin page\<close>

text \<open>C3: The panel is rendered only for a visitor whose current session the backend answered with the
  role \<^verbatim>\<open>admin\<close>; nobody else causes a request for the overview.\<close>

theorem AdminPage_guard:
  assumes "AdminPage E s = (Inr (Admin_Panel_Page email overview), s')"
  shows "\<exists>r s1 me. fetch_me E s = (Inr (Some r), s1) \<and> rs_ok r \<and> json_of r = Inr me \<and>
    jget_safe me (lit ''role'') = Some (JStr (lit ''admin'')) \<and> email = jget_safe me (lit ''email'') \<and>
    fetch_overview E s1 = (Inr overview, s')"
  using assms unfolding AdminPage_def
  by (auto simp: prog_simps split: prod.splits sum.splits option.splits if_splits dest: jget_safe_jget)

definition sim_admin :: response where
  "sim_admin = json_response 200 (JObj [(lit ''role'', JStr (lit ''admin'')), (lit ''email'', JStr (lit ''a@b.c''))])"

theorem AdminPage_guard_witness:
  "\<exists>r s1 me s'. AdminPage sim_env (sim_start sim_cookies2 [sim_admin, sim_401]) =
       (Inr (Admin_Panel_Page (Some (JStr (lit ''a@b.c''))) (Inr emptyOverview)), s') \<and>
     fetch_me sim_env (sim_start sim_cookies2 [sim_admin, sim_401]) = (Inr (Some r), s1) \<and> json_of r = Inr me \<and>
     jget_safe me (lit ''role'') = Some (JStr (lit ''admin''))"
proof -
  have "\<exists>s'. AdminPage sim_env (sim_start sim_cookies2 [sim_admin, sim_401]) =
       (Inr (Admin_Panel_Page (Some (JStr (lit ''a@b.c''))) (Inr emptyOverview)), s')"
    by (simp add: AdminPage_def fetch_me_def fetch_overview_def sim_run_simps sim_admin_def,
        simp add: sim_fetch_def sim_run_simps)
  then show ?thesis using AdminPage_guard by blast
qed

text \<open>The store that a server component gets from the framework: it can be read, every write throws.\<close>

definition readonly_cookies :: "'w env \<Rightarrow> bool" where
  "readonly_cookies E \<longleftrightarrow>
     (\<forall>n v opts w. env_cookie_set E n v opts w = (Inl CookieError, w)) \<and>
     (\<forall>n w. env_cookie_delete E n w = (Inl CookieError, w)) \<and>
     (\<forall>rq w n. env_cookie_get E (snd (env_fetch E rq w)) n = env_cookie_get E w n)"

lemma readonly_setAuthCookies: "readonly_cookies E \<Longrightarrow> setAuthCookies E a r s = (Inl CookieError, s)"
  by (simp add: readonly_cookies_def setAuthCookies_def cookie_set_def prog_simps)

lemma readonly_clearAuthCookies: "readonly_cookies E \<Longrightarrow> clearAuthCookies E s = (Inl CookieError, s)"
  by (simp add: readonly_cookies_def clearAuthCookies_def cookie_delete_def prog_simps)

lemma readonly_fetch:
  "readonly_cookies E \<Longrightarrow> env_fetch E rq w = (r, w') \<Longrightarrow> env_cookie_get E w' n = env_cookie_get E w n"
  unfolding readonly_cookies_def by (metis snd_conv)

text \<open>C36: In the admin page the cookies cannot be written. An administrator whose access token has
  expired is therefore sent to the sign-in page although the backend grants new tokens: the refreshed
  tokens are thrown away and the request is not repeated.\<close>

theorem AdminPage_expired_access:
  assumes ro: "readonly_cookies E" and cookies: "holds_tokens E a r s" "a \<noteq> []" "r \<noteq> []"
    and first: "env_fetch E (request_of E (lit ''/api/v1/me'')
        \<lparr>ri_method = None, ri_headers = bearer E (JStr a), ri_body = NoBody\<rparr>) (sv_world s) = (Inr resp, w)"
      "rs_status resp = 401"
    and refresh: "env_fetch E (refresh_request E r) w = (Inr granted, w')" "grants granted a' r'"
  shows "\<exists>s'. AdminPage E s = (Inr (Redirect (lit ''/auth'')), s')"
proof -
  let ?init = "\<lambda>t. \<lparr>ri_method = None, ri_headers = bearer E t, ri_body = NoBody\<rparr>"
  let ?s = "\<lparr>sv_world = w, sv_log = sv_log s @ [Sent (request_of E (lit ''/api/v1/me'') (?init (JStr a)))]\<rparr>"
  have access: "env_cookie_get E (sv_world s) accessCookieName = Some a"
    using cookies(1) by (simp add: holds_tokens_def)
  have "env_cookie_get E (sv_world ?s) refreshCookieName = Some r"
    using cookies(1) readonly_fetch [OF ro first(1)] by (simp add: holds_tokens_def)
  from refreshAccessToken_fetch [OF this cookies(3), of granted w'] refresh(1) grantsD [OF refresh(2)]
  have "\<exists>s'. refreshAccessToken E ?s = (Inl CookieError, s')"
    by (simp add: prog_simps readonly_setAuthCookies [OF ro] readonly_clearAuthCookies [OF ro] split: sum.split)
  then obtain s' where "refreshAccessToken E ?s = (Inl CookieError, s')" by blast
  then have "authorizedFetch E (\<lambda>t. backendFetch E (lit ''/api/v1/me'') (?init t)) s = (Inl CookieError, s')"
    using authorizedFetch_first_try [of E s a "lit ''/api/v1/me''" ?init, OF access cookies(2) first(1)] first(2)
    by (simp add: prog_simps)
  then show ?thesis by (simp add: AdminPage_def fetch_me_def prog_simps)
qed

definition sim_readonly :: "sim env" where
  "sim_readonly = sim_env\<lparr>env_cookie_set := (\<lambda>n v opts w. (Inl CookieError, w)),
     env_cookie_delete := (\<lambda>n w. (Inl CookieError, w))\<rparr>"

lemma readonly_sim: "readonly_cookies sim_readonly"
  by (auto simp: readonly_cookies_def sim_readonly_def sim_fetch_def split: list.split)

theorem AdminPage_expired_access_witness:
  "\<exists>s'. AdminPage sim_readonly (sim_start sim_cookies2 [sim_401, sim_tokens, sim_admin]) =
     (Inr (Redirect (lit ''/auth'')), s')"
proof -
  let ?s = "sim_start sim_cookies2 [sim_401, sim_tokens, sim_admin]"
  have "holds_tokens sim_readonly (lit ''old'') (lit ''ref'') ?s"
    by (simp add: holds_tokens_def sim_readonly_def)
  from AdminPage_expired_access [OF readonly_sim this _ _ _ sim_answers(1) _ sim_answers(3),
      of "\<lparr>sim_cookies = sim_cookies2, sim_script = [sim_tokens, sim_admin]\<rparr>"
      "\<lparr>sim_cookies = sim_cookies2, sim_script = [sim_admin]\<rparr>"]
  show ?thesis by (simp add: sim_readonly_def)
qed

subsection \<open>Path segments\<close>

text \<open>The code of a system profile stays one segment of the path the site asks the backend for:
  no slash, question mark or hash of the request can leave it. A code that is a dot segment is not excluded.\<close>

lemma copy_route_single_segment:
  assumes "encodeURIComponent code = Inr t"
  shows "47 \<notin> set t \<and> 63 \<notin> set t \<and> 35 \<notin> set t \<and>
    effects (\<lambda>e. \<forall>rq. e = Sent rq \<longrightarrow>
        rq_url rq = backendBaseURL E @ lit ''/api/v1/me/routing-profiles/system/'' @ t @ lit ''/copy'' \<or>
        rq_url rq = backendBaseURL E @ refresh_path)
      (POST_routing_profile_copy E code)"
proof (intro conjI)
  show "47 \<notin> set t" "63 \<notin> set t" "35 \<notin> set t"
    using encodeURIComponent_safe [OF assms] unreserved_not_separator by fastforce+
  show "effects (\<lambda>e. \<forall>rq. e = Sent rq \<longrightarrow>
        rq_url rq = backendBaseURL E @ lit ''/api/v1/me/routing-profiles/system/'' @ t @ lit ''/copy'' \<or>
        rq_url rq = backendBaseURL E @ refresh_path) (POST_routing_profile_copy E code)"
    unfolding POST_routing_profile_copy_def assms bindp_lift_Inr
    by (intro effect_rules) (simp_all add: session_effects_def cookie_effects_def)
qed

end
