(* ===== verification/Js_Base64.thy ===== *)
theory Js_Base64
  imports Js_Uri
begin

section \<open>JSON texts and Base64\<close>

text \<open>
  \<^verbatim>\<open>JSON.stringify\<close>, \<^verbatim>\<open>unescape\<close> and \<^verbatim>\<open>btoa\<close> as the language and the browser have them, with the decoder
  \<open>atob\<close>. The idiom \<^verbatim>\<open>btoa(unescape(encodeURIComponent(text)))\<close> of the pages is the Base64 form of the
  UTF-8 bytes of the text.
\<close>

subsection \<open>JSON texts\<close>

definition hex_lower :: "nat \<Rightarrow> nat" where
  "hex_lower n = (if n < 10 then 48 + n else 87 + n)"

definition unicode_escape :: "nat \<Rightarrow> jsstr" where
  "unicode_escape c = [92, 117, hex_lower (c div 4096 mod 16), hex_lower (c div 256 mod 16),
     hex_lower (c div 16 mod 16), hex_lower (c mod 16)]"

definition is_high :: "nat \<Rightarrow> bool" where
  "is_high c \<longleftrightarrow> 55296 \<le> c \<and> c \<le> 56319"

definition is_low :: "nat \<Rightarrow> bool" where
  "is_low c \<longleftrightarrow> 56320 \<le> c \<and> c \<le> 57343"

definition quote_unit :: "nat \<Rightarrow> jsstr" where
  "quote_unit c = (
     if c = 34 then [92, 34] else if c = 92 then [92, 92] else if c = 8 then [92, 98] else if c = 12 then [92, 102]
     else if c = 10 then [92, 110] else if c = 13 then [92, 114] else if c = 9 then [92, 116]
     else if c < 32 then unicode_escape c else [c])"

fun quote_units :: "jsstr \<Rightarrow> jsstr" where
  "quote_units [] = []"
| "quote_units [c] = (if is_high c \<or> is_low c then unicode_escape c else quote_unit c)"
| "quote_units (c # d # s) = (
     if is_high c \<and> is_low d then c # d # quote_units s
     else if is_high c \<or> is_low c then unicode_escape c @ quote_units (d # s)
     else quote_unit c @ quote_units (d # s))"

definition json_quote :: "jsstr \<Rightarrow> jsstr" where
  "json_quote s = [34] @ quote_units s @ [34]"

fun stringify :: "(rat \<Rightarrow> jsstr) \<Rightarrow> json \<Rightarrow> jsstr" where
  "stringify N JNull = lit ''null''"
| "stringify N (JBool b) = (if b then lit ''true'' else lit ''false'')"
| "stringify N (JNum n) = N n"
| "stringify N (JStr s) = json_quote s"
| "stringify N (JArr xs) = lit ''['' @ join (lit '','') (map (stringify N) xs) @ lit '']''"
| "stringify N (JObj kvs) = lit ''{'' @ join (lit '','') (map (\<lambda>(k, v). json_quote k @ lit '':'' @ stringify N v) kvs) @ lit ''}''"

subsection \<open>Escapes\<close>

definition hex_value :: "nat \<Rightarrow> nat option" where
  "hex_value c = (if 48 \<le> c \<and> c \<le> 57 then Some (c - 48) else if 65 \<le> c \<and> c \<le> 70 then Some (c - 55)
     else if 97 \<le> c \<and> c \<le> 102 then Some (c - 87) else None)"

fun hex_number :: "nat \<Rightarrow> jsstr \<Rightarrow> nat option" where
  "hex_number acc [] = Some acc"
| "hex_number acc (c # s) = (case hex_value c of None \<Rightarrow> None | Some d \<Rightarrow> hex_number (16 * acc + d) s)"

function unescape :: "jsstr \<Rightarrow> jsstr" where
  "unescape s = (case s of
     [] \<Rightarrow> []
   | c # t \<Rightarrow>
       if c = 37 \<and> length t \<ge> 5 \<and> hd t = 117 \<and> hex_number 0 (take 4 (tl t)) \<noteq> None
       then the (hex_number 0 (take 4 (tl t))) # unescape (drop 5 t)
       else if c = 37 \<and> length t \<ge> 2 \<and> hex_number 0 (take 2 t) \<noteq> None
       then the (hex_number 0 (take 2 t)) # unescape (drop 2 t)
       else c # unescape t)"
  by pat_completeness auto
termination by (relation "measure length") auto

declare unescape.simps [simp del]

lemma unescape_Nil [simp]: "unescape [] = []"
  by (simp add: unescape.simps)

lemma unescape_plain: "c \<noteq> 37 \<Longrightarrow> unescape (c # s) = c # unescape s"
  by (subst unescape.simps) simp

lemma hex_value_digit: "n < 16 \<Longrightarrow> hex_value (hex_digit n) = Some n"
  by (auto simp: hex_value_def hex_digit_def)

lemma unescape_byte: "b < 256 \<Longrightarrow> unescape (escape_byte b @ s) = b # unescape s"
proof -
  assume b: "b < 256"
  have d: "b div 16 mod 16 < 16" "b mod 16 < 16" "b div 16 < 16" using b by auto
  then have "hex_number 0 [hex_digit (b div 16 mod 16), hex_digit (b mod 16)] = Some b"
    by (simp add: hex_value_digit)
  moreover have "hex_digit (b div 16 mod 16) \<noteq> 117" using d by (auto simp: hex_digit_def)
  ultimately show ?thesis by (subst unescape.simps) (simp add: escape_byte_def)
qed

lemma unescape_bytes: "\<forall>b \<in> set bs. b < 256 \<Longrightarrow> unescape (concat (map escape_byte bs) @ s) = bs @ unescape s"
  by (induction bs) (simp_all add: unescape_byte)

lemma utf8_bytes: "p < 1114112 \<Longrightarrow> \<forall>b \<in> set (utf8 p). b < 256"
  by (auto simp: utf8_def)

lemma unreserved_ascii: "unreserved p \<Longrightarrow> p < 128 \<and> p \<noteq> 37"
  by (auto simp: unreserved_def)

lemma unescape_char: "p < 1114112 \<Longrightarrow> unescape (encode_char p @ s) = utf8 p @ unescape s"
proof (cases "unreserved p")
  case True
  with unreserved_ascii [OF True] show ?thesis by (simp add: encode_char_def unescape_plain utf8_def)
next
  case False
  moreover assume "p < 1114112"
  ultimately show ?thesis by (simp add: encode_char_def unescape_bytes utf8_bytes)
qed

lemma code_points_range: "code_points s = Some ps \<Longrightarrow> \<forall>c \<in> set s. c < 65536 \<Longrightarrow> \<forall>p \<in> set ps. p < 1114112"
  by (induction s arbitrary: ps rule: code_points.induct) (auto split: if_splits list.splits)

definition utf8_text :: "jsstr \<Rightarrow> nat list option" where
  "utf8_text s = map_option (\<lambda>ps. concat (map utf8 ps)) (code_points s)"

lemma unescape_encode:
  assumes "\<forall>c \<in> set s. c < 65536" "encodeURIComponent s = Inr t"
  shows "utf8_text s = Some (unescape t)"
proof -
  obtain ps where ps: "code_points s = Some ps" "t = concat (map encode_char ps)"
    using assms(2) by (auto simp: encodeURIComponent_def split: option.splits)
  have "\<forall>p \<in> set ps. p < 1114112 \<Longrightarrow> unescape (concat (map encode_char ps)) = concat (map utf8 ps)"
    by (induction ps) (simp_all add: unescape_char)
  with ps code_points_range [OF ps(1) assms(1)] show ?thesis by (simp add: utf8_text_def)
qed

subsection \<open>Texts without lone surrogates\<close>

text \<open>A text of which \<^verbatim>\<open>encodeURIComponent\<close> makes UTF-8.\<close>

definition wf_text :: "jsstr \<Rightarrow> bool" where
  "wf_text s \<longleftrightarrow> code_points s \<noteq> None \<and> (\<forall>c \<in> set s. c < 65536)"

lemma code_points_append: "code_points s = Some ps \<Longrightarrow> code_points (s @ t) = map_option ((@) ps) (code_points t)"
proof (induction s arbitrary: ps rule: code_points.induct)
  case 1
  then show ?case by (cases "code_points t") simp_all
next
  case (2 c s)
  from "2.prems" have low: "\<not> (56320 \<le> c \<and> c \<le> 57343)" by (auto split: if_splits)
  show ?case
  proof (cases "55296 \<le> c \<and> c \<le> 56319")
    case True
    with "2.prems" low obtain d s' qs where s: "s = d # s'" "56320 \<le> d \<and> d \<le> 57343" "code_points s' = Some qs"
      "ps = (65536 + (c - 55296) * 1024 + (d - 56320)) # qs"
      by (auto split: if_splits list.splits)
    from "2.IH"(1) [OF low True s(1,2,3)] low True s show ?thesis by (cases "code_points t") simp_all
  next
    case False
    with "2.prems" low obtain qs where s: "code_points s = Some qs" "ps = c # qs" by auto
    from "2.IH"(2) [OF low False s(1)] low False s show ?thesis
      by (cases "code_points t") (simp_all only: append_Cons code_points.simps if_False option.map option.case)
  qed
qed

lemma wf_text_append [intro]: "wf_text s \<Longrightarrow> wf_text t \<Longrightarrow> wf_text (s @ t)"
  by (auto simp: wf_text_def code_points_append)

lemma wf_text_plain: "\<forall>c \<in> set s. c < 55296 \<Longrightarrow> wf_text s"
  by (induction s) (auto simp: wf_text_def)

lemma wf_text_join: "\<forall>s \<in> set ss. wf_text s \<Longrightarrow> wf_text sep \<Longrightarrow> wf_text (join sep ss)"
proof (induction sep ss rule: join.induct)
  case (1 sep)
  show ?case by (simp add: wf_text_def)
qed (simp_all add: wf_text_append)

lemma hex_lower_plain: "n < 16 \<Longrightarrow> hex_lower n < 55296"
  by (simp add: hex_lower_def)

lemma wf_unicode_escape: "wf_text (unicode_escape c)"
  by (rule wf_text_plain) (simp add: unicode_escape_def hex_lower_plain)

lemma wf_unit: "c < 65536 \<Longrightarrow> \<not> is_high c \<Longrightarrow> \<not> is_low c \<Longrightarrow> wf_text [c]"
  by (simp add: wf_text_def is_high_def is_low_def)

lemma wf_quote_unit: "c < 65536 \<Longrightarrow> \<not> is_high c \<Longrightarrow> \<not> is_low c \<Longrightarrow> wf_text (quote_unit c)"
  by (simp add: quote_unit_def wf_text_plain wf_unicode_escape wf_unit)

lemma wf_surrogates: "is_high c \<Longrightarrow> is_low d \<Longrightarrow> wf_text s \<Longrightarrow> wf_text (c # d # s)"
  by (auto simp: wf_text_def is_high_def is_low_def)

lemma wf_quote_units: "\<forall>c \<in> set s. c < 65536 \<Longrightarrow> wf_text (quote_units s)"
proof (induction s rule: quote_units.induct)
  case (3 c d s)
  then show ?case
    by (cases "is_high c"; cases "is_low d"; cases "is_low c")
      (simp_all add: wf_surrogates wf_text_append wf_quote_unit wf_unicode_escape)
qed (simp_all add: wf_text_plain wf_quote_unit wf_unicode_escape)

lemma wf_json_quote: "\<forall>c \<in> set s. c < 65536 \<Longrightarrow> wf_text (json_quote s)"
  unfolding json_quote_def by (intro wf_text_append wf_quote_units) (auto simp: wf_text_plain)

lemma wf_lit: "wf_text (lit s)" "wf_text (json_quote (lit s))"
proof -
  have "c < 256" if "c \<in> set (lit s)" for c using that nat_of_char_less_256 by (auto simp: lit_def)
  then show "wf_text (lit s)" "wf_text (json_quote (lit s))" by (fastforce intro: wf_text_plain wf_json_quote)+
qed

lemma wf_encode: "wf_text s \<Longrightarrow> \<exists>t. encodeURIComponent s = Inr t"
  by (auto simp: wf_text_def encodeURIComponent_def)

lemma utf8_text_bytes: "wf_text s \<Longrightarrow> utf8_text s = Some bs \<Longrightarrow> \<forall>b \<in> set bs. b < 256"
proof -
  assume "wf_text s" "utf8_text s = Some bs"
  then obtain ps where ps: "code_points s = Some ps" "bs = concat (map utf8 ps)" "\<forall>c \<in> set s. c < 65536"
    by (auto simp: wf_text_def utf8_text_def)
  from code_points_range [OF ps(1,3)] utf8_bytes show ?thesis unfolding ps(2) by auto
qed

subsection \<open>Base64\<close>

definition b64 :: "nat \<Rightarrow> nat" where
  "b64 n = (if n < 26 then 65 + n else if n < 52 then 71 + n else if n < 62 then n - 4 else if n = 62 then 43 else 47)"

definition unb64 :: "nat \<Rightarrow> nat" where
  "unb64 c = (if 65 \<le> c \<and> c \<le> 90 then c - 65 else if 97 \<le> c \<and> c \<le> 122 then c - 71
     else if 48 \<le> c \<and> c \<le> 57 then c + 4 else if c = 43 then 62 else 63)"

fun b64_groups :: "nat list \<Rightarrow> jsstr" where
  "b64_groups [] = []"
| "b64_groups [a] = [b64 (a div 4), b64 (a mod 4 * 16), 61, 61]"
| "b64_groups [a, b] = [b64 (a div 4), b64 (a mod 4 * 16 + b div 16), b64 (b mod 16 * 4), 61]"
| "b64_groups (a # b # c # s) =
     [b64 (a div 4), b64 (a mod 4 * 16 + b div 16), b64 (b mod 16 * 4 + c div 64), b64 (c mod 64)] @ b64_groups s"

text \<open>\<^verbatim>\<open>btoa\<close> takes a string of bytes; another character throws.\<close>

definition btoa :: "jsstr \<Rightarrow> exn + jsstr" where
  "btoa s = (if \<forall>c \<in> set s. c < 256 then Inr (b64_groups s) else Inl (Error (lit ''InvalidCharacterError'')))"

fun atob :: "jsstr \<Rightarrow> nat list" where
  "atob (w # x # y # z # s) =
     (if z = 61 then (if y = 61 then [unb64 w * 4 + unb64 x div 16]
                      else [unb64 w * 4 + unb64 x div 16, unb64 x mod 16 * 16 + unb64 y div 4])
      else [unb64 w * 4 + unb64 x div 16, unb64 x mod 16 * 16 + unb64 y div 4, unb64 y mod 4 * 64 + unb64 z] @ atob s)"
| "atob _ = []"

lemma unb64_b64 [simp]: "n < 64 \<Longrightarrow> unb64 (b64 n) = n"
  by (auto simp: b64_def unb64_def)

lemma b64_not_pad [simp]: "n < 64 \<Longrightarrow> b64 n \<noteq> 61"
  by (auto simp: b64_def)

lemma atob_b64: "\<forall>b \<in> set bs. b < 256 \<Longrightarrow> atob (b64_groups bs) = bs"
proof (induction bs rule: b64_groups.induct)
  case (2 a)
  then have "a div 4 < 64" "a mod 4 * 16 < 64" by auto
  then show ?case by simp
next
  case (3 a b)
  then have "a div 4 < 64" "a mod 4 * 16 + b div 16 < 64" "b mod 16 * 4 < 64" by auto
  moreover have "(a mod 4 * 16 + b div 16) div 16 = a mod 4" "(a mod 4 * 16 + b div 16) mod 16 = b div 16"
    using 3 by auto
  moreover have "a div 4 * 4 + a mod 4 = a" "b div 16 * 16 + b mod 16 = b" by simp_all
  ultimately show ?case by simp
next
  case (4 a b c s)
  then have lt: "a div 4 < 64" "a mod 4 * 16 + b div 16 < 64" "b mod 16 * 4 + c div 64 < 64" "c mod 64 < 64" by auto
  have "(a mod 4 * 16 + b div 16) div 16 = a mod 4" "(a mod 4 * 16 + b div 16) mod 16 = b div 16"
    "(b mod 16 * 4 + c div 64) div 4 = b mod 16" "(b mod 16 * 4 + c div 64) mod 4 = c div 64"
    using 4 by auto
  moreover have "a div 4 * 4 + a mod 4 = a" "b div 16 * 16 + b mod 16 = b" "c div 64 * 64 + c mod 64 = c" by simp_all
  ultimately show ?case using lt 4 by simp
qed simp

lemma btoa_atob: "btoa s = Inr t \<Longrightarrow> atob t = s"
  by (auto simp: btoa_def atob_b64 split: if_splits)

text \<open>\<^verbatim>\<open>btoa(unescape(encodeURIComponent(text)))\<close> succeeds on a text without lone surrogates, and decodes to its
  UTF-8 bytes.\<close>

lemma base64_text:
  assumes "wf_text s"
  obtains t b where "encodeURIComponent s = Inr t" "btoa (unescape t) = Inr b" "utf8_text s = Some (atob b)"
proof -
  obtain t where t: "encodeURIComponent s = Inr t" using wf_encode [OF assms] by blast
  then have u: "utf8_text s = Some (unescape t)" using unescape_encode assms by (simp add: wf_text_def)
  with utf8_text_bytes [OF assms] have "btoa (unescape t) = Inr (b64_groups (unescape t))"
    by (simp add: btoa_def)
  from that [OF t this] btoa_atob [OF this] u show thesis by simp
qed

end
