(* ===== verification/Ui_Machine.thy ===== *)
theory Ui_Machine
  imports Js_Program
begin

section \<open>Components of the pages as machines\<close>

text \<open>
  A component of the pages has a state (its \<^verbatim>\<open>useState\<close> cells), a view that depends on the state and
  names the events its controls raise, and handlers. A handler runs up to its first \<^verbatim>\<open>await\<close> in
  one step: it gives the next state, the commands it issues, and the continuations that wait
  for an answer, with the values their closures captured. A continuation runs when its answer
  arrives, in any order and at any time, and may wait again.

  What the user can do is what the view offers: a button that is rendered and not disabled, a
  field that is rendered. Presentation (class names, icons, animation) is left out of the views;
  a fetched body is delivered together with its response.
\<close>

subsection \<open>Views\<close>

datatype 'e view =
    Text jsstr
  | El jsstr "'e view list"
  | Btn bool 'e "'e view list"
  | Input bool jsstr jsstr "jsstr \<Rightarrow> 'e"
  | Select jsstr "(jsstr \<times> jsstr) list" "jsstr \<Rightarrow> 'e"
  | Link jsstr "'e view list"
  | Part jsstr "'e view list"
  | Key bool 'e

text \<open>\<open>Btn disabled e kids\<close> raises \<open>e\<close>; \<open>Input disabled type value f\<close> raises \<open>f x\<close> when its text becomes
  \<open>x\<close>; \<open>Select value options f\<close> raises \<open>f v\<close> for the value \<open>v\<close> of an option; \<open>Key disabled e\<close> is a
  key that raises \<open>e\<close> in the field before it; \<open>Part i kids\<close> is an element with the identifier \<open>i\<close>, to
  which the link \<^verbatim>\<open>#i\<close> of the page leads.\<close>

inductive offers :: "'e view \<Rightarrow> 'e \<Rightarrow> bool" where
  offers_El: "v \<in> set vs \<Longrightarrow> offers v e \<Longrightarrow> offers (El t vs) e"
| offers_Part: "v \<in> set vs \<Longrightarrow> offers v e \<Longrightarrow> offers (Part i vs) e"
| offers_Btn: "offers (Btn False e vs) e"
| offers_Input: "offers (Input False ty x f) (f y)"
| offers_Key: "offers (Key False e) e"
| offers_Select: "(y, l) \<in> set opts \<Longrightarrow> offers (Select x opts f) (f y)"

inductive_simps offers_simps [simp]:
  "offers (Text t) e"
  "offers (Btn d e' vs) e"
  "offers (Input d ty x f) e"
  "offers (Select x opts f) e"
  "offers (Link h vs) e"
  "offers (Key d e') e"

lemma offers_El_iff [simp]: "offers (El t vs) e \<longleftrightarrow> (\<exists>v \<in> set vs. offers v e)"
  by (auto elim: offers.cases intro: offers_El)

lemma offers_Part_iff [simp]: "offers (Part i vs) e \<longleftrightarrow> (\<exists>v \<in> set vs. offers v e)"
  by (auto elim: offers.cases intro: offers_Part)

text \<open>\<^verbatim>\<open>{cond && <.../>}\<close>\<close>

definition show_if :: "bool \<Rightarrow> 'e view \<Rightarrow> 'e view list" where
  "show_if b v = (if b then [v] else [])"

lemma set_show_if [simp]: "set (show_if b v) = (if b then {v} else {})"
  by (simp add: show_if_def)

text \<open>The texts a view shows, in order.\<close>

fun texts :: "'e view \<Rightarrow> jsstr list" where
  "texts (Text t) = [t]"
| "texts (El t vs) = concat (map texts vs)"
| "texts (Btn d e vs) = concat (map texts vs)"
| "texts (Input d ty x f) = []"
| "texts (Select x opts f) = map snd opts"
| "texts (Link h vs) = concat (map texts vs)"
| "texts (Part i vs) = concat (map texts vs)"
| "texts (Key d e) = []"

text \<open>The targets of its links, and the identifiers of its parts.\<close>

fun links :: "'e view \<Rightarrow> jsstr list" where
  "links (El t vs) = concat (map links vs)"
| "links (Btn d e vs) = concat (map links vs)"
| "links (Link h vs) = h # concat (map links vs)"
| "links (Part i vs) = concat (map links vs)"
| "links _ = []"

fun anchors :: "'e view \<Rightarrow> jsstr list" where
  "anchors (El t vs) = concat (map anchors vs)"
| "anchors (Btn d e vs) = concat (map anchors vs)"
| "anchors (Link h vs) = concat (map anchors vs)"
| "anchors (Part i vs) = i # concat (map anchors vs)"
| "anchors _ = []"

text \<open>A link within the page has its target there.\<close>

definition anchored :: "'e view \<Rightarrow> bool" where
  "anchored v \<longleftrightarrow> list_all (\<lambda>h. h \<noteq> [] \<and> hd h = 35 \<longrightarrow> tl h \<in> set (anchors v)) (links v)"

lemma links_map_view [simp]: "links (map_view f v) = links v"
  by (induction v) (auto simp: comp_def cong: map_cong)

lemma anchors_map_view [simp]: "anchors (map_view f v) = anchors v"
  by (induction v) (auto simp: comp_def cong: map_cong)

subsection \<open>Commands\<close>

text \<open>What a handler asks of the browser, in order; \<open>Call x\<close> is a call of a function the component was
  given, or another effect of its own.\<close>

datatype 'x cmd =
    Fetch request
  | Push jsstr
  | Assign jsstr
  | Call 'x

type_synonym answer = "exn + response"

text \<open>What the platform decides: the text of a number, the number a text reads as, and the messages of
  the exceptions it raises.\<close>

record platform =
  pf_number :: "rat \<Rightarrow> jsstr"
  pf_to_number :: "jsstr \<Rightarrow> rat option"
  pf_message :: "exn \<Rightarrow> jsstr"

text \<open>\<^verbatim>\<open>err instanceof Error ? err.message : fallback\<close>: every exception of the model is an \<^verbatim>\<open>Error\<close>.\<close>

fun message_of :: "platform \<Rightarrow> exn \<Rightarrow> jsstr" where
  "message_of P (Error m) = m"
| "message_of P e = pf_message P e"

definition fetch_json :: "jsstr \<Rightarrow> jsstr \<Rightarrow> json \<Rightarrow> request" where
  "fetch_json method path body =
     \<lparr>rq_url = path, rq_method = method, rq_headers = new_headers [(lit ''Content-Type'', lit ''application/json'')],
      rq_body = JsonBody body, rq_no_store = False\<rparr>"

definition fetch_plain :: "jsstr \<Rightarrow> jsstr \<Rightarrow> request" where
  "fetch_plain method path =
     \<lparr>rq_url = path, rq_method = method, rq_headers = [], rq_body = NoBody, rq_no_store = False\<rparr>"

subsection \<open>Runs\<close>

record ('c, 'x, 'p) ui =
  ui_comp :: 'c
  ui_wait :: "'p list"
  ui_out :: "'x cmd list"

type_synonym ('c, 'x, 'p) reaction = "'c \<times> 'x cmd list \<times> 'p list"

record ('c, 'e, 'x, 'p) component =
  cp_view :: "'c \<Rightarrow> 'e view"
  cp_ext :: "'c \<Rightarrow> 'e \<Rightarrow> bool"
  cp_handle :: "'e \<Rightarrow> 'c \<Rightarrow> ('c, 'x, 'p) reaction"
  cp_resume :: "'p \<Rightarrow> answer \<Rightarrow> 'c \<Rightarrow> ('c, 'x, 'p) reaction"

text \<open>\<open>cp_ext\<close> are the events that do not come from the view: the effects that run after a render,
  timers, messages of the server.\<close>

definition apply_reaction :: "('c, 'x, 'p) reaction \<Rightarrow> 'p list \<Rightarrow> 'x cmd list \<Rightarrow> ('c, 'x, 'p) ui" where
  "apply_reaction r ws out = (case r of (c, cmds, ps) \<Rightarrow> \<lparr>ui_comp = c, ui_wait = ws @ ps, ui_out = out @ cmds\<rparr>)"

datatype ('e, 'p) label = User 'e | Ext 'e | Arrive 'p answer

inductive ui_step :: "('c, 'e, 'x, 'p) component \<Rightarrow> ('c, 'x, 'p) ui \<Rightarrow> ('e, 'p) label \<Rightarrow> ('c, 'x, 'p) ui \<Rightarrow> bool"
  for C :: "('c, 'e, 'x, 'p) component" where
  step_user: "offers (cp_view C c) e \<Longrightarrow>
     ui_step C \<lparr>ui_comp = c, ui_wait = ws, ui_out = out\<rparr> (User e) (apply_reaction (cp_handle C e c) ws out)"
| step_ext: "cp_ext C c e \<Longrightarrow>
     ui_step C \<lparr>ui_comp = c, ui_wait = ws, ui_out = out\<rparr> (Ext e) (apply_reaction (cp_handle C e c) ws out)"
| step_arrive: "ui_step C \<lparr>ui_comp = c, ui_wait = ws @ p # ws', ui_out = out\<rparr> (Arrive p a)
     (apply_reaction (cp_resume C p a c) (ws @ ws') out)"

inductive_cases ui_stepE: "ui_step C s l s'"

text \<open>The states a component reaches from a first one by steps whose labels \<open>L\<close> admits. A component
  that is mounted has run the effects of its first render.\<close>

abbreviation idle_with :: "'c \<Rightarrow> ('c, 'x, 'p) ui" where
  "idle_with c \<equiv> \<lparr>ui_comp = c, ui_wait = [], ui_out = []\<rparr>"


inductive ui_reach :: "('c, 'e, 'x, 'p) component \<Rightarrow> (('c, 'x, 'p) ui \<Rightarrow> ('e, 'p) label \<Rightarrow> bool) \<Rightarrow> ('c, 'x, 'p) ui \<Rightarrow> ('c, 'x, 'p) ui \<Rightarrow> bool"
  for C L s0 where
  reach_init: "ui_reach C L s0 s0"
| reach_step: "ui_reach C L s0 s \<Longrightarrow> L s l \<Longrightarrow> ui_step C s l s' \<Longrightarrow> ui_reach C L s0 s'"

abbreviation any :: "('c, 'x, 'p) ui \<Rightarrow> ('e, 'p) label \<Rightarrow> bool" where
  "any \<equiv> \<lambda>_ _. True"

text \<open>An invariant: the handlers and the continuations keep it. Every component below is an
  interpretation.\<close>

locale ui_invariant =
  fixes C :: "('c, 'e, 'x, 'p) component" and L :: "('c, 'x, 'p) ui \<Rightarrow> ('e, 'p) label \<Rightarrow> bool"
    and s0 :: "('c, 'x, 'p) ui" and I :: "('c, 'x, 'p) ui \<Rightarrow> bool"
  assumes init: "I s0"
    and user: "I \<lparr>ui_comp = c, ui_wait = ws, ui_out = out\<rparr> \<Longrightarrow> offers (cp_view C c) e \<Longrightarrow>
      L \<lparr>ui_comp = c, ui_wait = ws, ui_out = out\<rparr> (User e) \<Longrightarrow> I (apply_reaction (cp_handle C e c) ws out)"
    and ext: "I \<lparr>ui_comp = c, ui_wait = ws, ui_out = out\<rparr> \<Longrightarrow> cp_ext C c e \<Longrightarrow>
      L \<lparr>ui_comp = c, ui_wait = ws, ui_out = out\<rparr> (Ext e) \<Longrightarrow> I (apply_reaction (cp_handle C e c) ws out)"
    and arrive: "I \<lparr>ui_comp = c, ui_wait = ws @ p # ws', ui_out = out\<rparr> \<Longrightarrow>
      L \<lparr>ui_comp = c, ui_wait = ws @ p # ws', ui_out = out\<rparr> (Arrive p a) \<Longrightarrow> I (apply_reaction (cp_resume C p a c) (ws @ ws') out)"
begin

lemma step_keeps: "ui_step C s l s' \<Longrightarrow> I s \<Longrightarrow> L s l \<Longrightarrow> I s'"
  by (elim ui_stepE) (auto intro: user ext arrive)

lemma reach_keeps: "ui_reach C L s0 s \<Longrightarrow> I s"
  by (induction rule: ui_reach.induct) (auto intro: init step_keeps)

end

text \<open>What a component issues: a contract of the handlers and the continuations alone.\<close>

locale ui_outputs =
  fixes C :: "('c, 'e, 'x, 'p) component" and s0 :: "('c, 'x, 'p) ui" and Q :: "'x cmd \<Rightarrow> bool"
  assumes start: "list_all Q (ui_out s0)"
    and handled: "list_all Q (fst (snd (cp_handle C e c)))"
    and resumed: "list_all Q (fst (snd (cp_resume C p a c)))"

sublocale ui_outputs \<subseteq> kept: ui_invariant C any s0 "\<lambda>s. list_all Q (ui_out s)"
proof (unfold_locales, goal_cases)
  case 1
  show ?case by (rule start)
next
  case (2 c ws out e)
  then show ?case using handled [of e c] by (cases "cp_handle C e c") (simp add: apply_reaction_def)
next
  case (3 c ws out e)
  then show ?case using handled [of e c] by (cases "cp_handle C e c") (simp add: apply_reaction_def)
next
  case (4 c ws p ws' out a)
  then show ?case using resumed [of p a c] by (cases "cp_resume C p a c") (simp add: apply_reaction_def)
qed

text \<open>A run with its labels, and a refinement: an abstraction of the state follows a function of the labels.\<close>

inductive ui_run :: "('c, 'e, 'x, 'p) component \<Rightarrow> ('c, 'x, 'p) ui \<Rightarrow> ('e, 'p) label list \<Rightarrow> ('c, 'x, 'p) ui \<Rightarrow> bool"
  for C s0 where
  run_nil: "ui_run C s0 [] s0"
| run_snoc: "ui_run C s0 ls s \<Longrightarrow> ui_step C s l s' \<Longrightarrow> ui_run C s0 (ls @ [l]) s'"

locale ui_refinement =
  fixes C :: "('c, 'e, 'x, 'p) component" and abst :: "'c \<Rightarrow> 'a" and spec :: "('e, 'p) label \<Rightarrow> 'a \<Rightarrow> 'a"
  assumes user: "offers (cp_view C c) e \<Longrightarrow> abst (fst (cp_handle C e c)) = spec (User e) (abst c)"
    and ext: "cp_ext C c e \<Longrightarrow> abst (fst (cp_handle C e c)) = spec (Ext e) (abst c)"
    and arrive: "abst (fst (cp_resume C p a c)) = spec (Arrive p a) (abst c)"
begin

lemma step_refines: "ui_step C s l s' \<Longrightarrow> abst (ui_comp s') = spec l (abst (ui_comp s))"
  by (elim ui_stepE) (auto simp: apply_reaction_def user [symmetric] ext [symmetric] arrive [symmetric] split: prod.splits)

lemma run_refines: "ui_run C s0 ls s \<Longrightarrow> abst (ui_comp s) = fold spec ls (abst (ui_comp s0))"
  by (induction rule: ui_run.induct) (simp_all add: step_refines)

end

lemma reach_weaken:
  "ui_reach C L s0 s \<Longrightarrow> (\<And>s l. L s l \<Longrightarrow> L' s l) \<Longrightarrow> ui_reach C L' s0 s"
  by (induction rule: ui_reach.induct) (auto intro: reach_init reach_step)

lemma reach_user:
  "ui_reach C L s0 \<lparr>ui_comp = c, ui_wait = ws, ui_out = out\<rparr> \<Longrightarrow> offers (cp_view C c) e \<Longrightarrow>
   L \<lparr>ui_comp = c, ui_wait = ws, ui_out = out\<rparr> (User e) \<Longrightarrow>
   ui_reach C L s0 (apply_reaction (cp_handle C e c) ws out)"
  by (rule reach_step [OF _ _ step_user])

lemma reach_ext:
  "ui_reach C L s0 \<lparr>ui_comp = c, ui_wait = ws, ui_out = out\<rparr> \<Longrightarrow> cp_ext C c e \<Longrightarrow>
   L \<lparr>ui_comp = c, ui_wait = ws, ui_out = out\<rparr> (Ext e) \<Longrightarrow>
   ui_reach C L s0 (apply_reaction (cp_handle C e c) ws out)"
  by (rule reach_step [OF _ _ step_ext])

lemma reach_arrive:
  "ui_reach C L s0 \<lparr>ui_comp = c, ui_wait = ws @ p # ws', ui_out = out\<rparr> \<Longrightarrow>
   L \<lparr>ui_comp = c, ui_wait = ws @ p # ws', ui_out = out\<rparr> (Arrive p a) \<Longrightarrow>
   ui_reach C L s0 (apply_reaction (cp_resume C p a c) (ws @ ws') out)"
  by (rule reach_step [OF _ _ step_arrive])

subsection \<open>What was sent\<close>

definition fetches :: "jsstr \<Rightarrow> 'x cmd \<Rightarrow> bool" where
  "fetches path k = (case k of Fetch rq \<Rightarrow> rq_url rq = path | _ \<Rightarrow> False)"

definition asked :: "jsstr \<Rightarrow> 'x cmd list \<Rightarrow> bool" where
  "asked path out \<longleftrightarrow> list_ex (fetches path) out"

lemma asked_append [simp]: "asked path (xs @ ys) \<longleftrightarrow> asked path xs \<or> asked path ys"
  by (simp add: asked_def)

lemma asked_simps [simp]:
  "\<not> asked path []" "asked path (Fetch (fetch_json m q j) # ks) \<longleftrightarrow> q = path \<or> asked path ks"
  "asked path (Fetch (fetch_plain m q) # ks) \<longleftrightarrow> q = path \<or> asked path ks"
  "asked path (Push u # ks) \<longleftrightarrow> asked path ks" "asked path (Assign u # ks) \<longleftrightarrow> asked path ks"
  "asked path (Call x # ks) \<longleftrightarrow> asked path ks"
  by (simp_all add: asked_def fetches_def fetch_json_def fetch_plain_def)

definition pushes :: "'x cmd list \<Rightarrow> jsstr list" where
  "pushes out = concat (map (\<lambda>k. case k of Push u \<Rightarrow> [u] | _ \<Rightarrow> []) out)"

lemma pushes_simps [simp]:
  "pushes [] = []" "pushes (xs @ ys) = pushes xs @ pushes ys"
  "pushes (Push u # ks) = u # pushes ks" "pushes (Fetch rq # ks) = pushes ks"
  "pushes (Assign u # ks) = pushes ks" "pushes (Call x # ks) = pushes ks"
  by (simp_all add: pushes_def)

definition calls :: "'x cmd list \<Rightarrow> 'x list" where
  "calls out = concat (map (\<lambda>k. case k of Call x \<Rightarrow> [x] | _ \<Rightarrow> []) out)"

lemma calls_simps [simp]:
  "calls [] = []" "calls (xs @ ys) = calls xs @ calls ys"
  "calls (Call x # ks) = x # calls ks" "calls (Fetch rq # ks) = calls ks"
  "calls (Assign u # ks) = calls ks" "calls (Push u # ks) = calls ks"
  by (simp_all add: calls_def)

lemma apply_reaction_simps [simp]:
  "apply_reaction (c, cmds, ps) ws out = \<lparr>ui_comp = c, ui_wait = ws @ ps, ui_out = out @ cmds\<rparr>"
  by (simp add: apply_reaction_def)

text \<open>How many continuations of a kind wait.\<close>

definition in_flight :: "('p \<Rightarrow> bool) \<Rightarrow> 'p list \<Rightarrow> nat" where
  "in_flight Q ws = length (filter Q ws)"

lemma in_flight_simps [simp]:
  "in_flight Q [] = 0" "in_flight Q (w # ws) = (if Q w then 1 else 0) + in_flight Q ws"
  "in_flight Q (xs @ ys) = in_flight Q xs + in_flight Q ys"
  by (simp_all add: in_flight_def)

text \<open>A platform, for the witnesses of the components.\<close>

definition sample_platform :: platform where
  "sample_platform = \<lparr>pf_number = (\<lambda>_. lit ''0''), pf_to_number = (\<lambda>_. None), pf_message = (\<lambda>_. lit ''failed'')\<rparr>"

end
