(* ===== verification/Promo_Code.thy ===== *)
theory Promo_Code
  imports Ui_Machine Js_Text
begin

section \<open>The promo code field (web/components/PromoCodeInput.tsx)\<close>

text \<open>
  The field in which a promo code is typed, checked against the backend and confirmed to the page
  that holds it. \<open>apply\<close> is split at its \<^verbatim>\<open>await\<close> into \<open>apply_code\<close> and \<open>apply_done\<close>; a call of the
  property \<^verbatim>\<open>onConfirm\<close> is a command. The effect of the first render applies the code of the address
  (\<open>promo_mount\<close>); a change of the property \<^verbatim>\<open>previewPlan\<close> is an event from outside. Moving the focus
  is left out, and so is the limit of 32 characters of the field.
\<close>

record promo_details =
  pd_discountPercent :: jval
  pd_originalAmount :: jval
  pd_finalAmount :: jval
  pd_discountAmount :: jval

datatype promo_state =
    Idle
  | Loading
  | Success promo_details
  | Failed json

datatype confirm = Confirm jsstr "promo_details option"

record promo =
  pc_open :: bool
  pc_input :: jsstr
  pc_promo :: promo_state
  pc_didAutoApply :: bool
  pc_previewPlan :: jsstr
  pc_lastPlan :: jsstr

definition promo_init :: "jsstr \<Rightarrow> jsstr \<Rightarrow> promo" where
  "promo_init previewPlan initialCode =
     \<lparr>pc_open = truthy initialCode, pc_input = initialCode, pc_promo = Idle, pc_didAutoApply = False,
      pc_previewPlan = previewPlan, pc_lastPlan = previewPlan\<rparr>"

definition preview_request :: "jsstr \<Rightarrow> jsstr \<Rightarrow> request" where
  "preview_request plan code = fetch_json (lit ''POST'') (lit ''/api/payments/preview'')
     (JObj [(lit ''plan'', JStr plan), (lit ''promo_code'', JStr code)])"

text \<open>The continuation of \<^verbatim>\<open>apply\<close> remembers the code it resolved.\<close>

definition apply_code :: "jsstr option \<Rightarrow> promo \<Rightarrow> (promo, confirm, jsstr) reaction" where
  "apply_code code s =
     (let resolved = toUpperCase (trim (nullish code (pc_input s))) in
      if \<not> truthy resolved then (s, [], [])
      else (s\<lparr>pc_promo := Loading\<rparr>, [Fetch (preview_request (pc_previewPlan s) resolved)], [resolved]))"

definition apply_failed :: "json \<Rightarrow> promo \<Rightarrow> (promo, confirm, jsstr) reaction" where
  "apply_failed message s = (s\<lparr>pc_promo := Failed message\<rparr>, [Call (Confirm [] None)], [])"

definition details_of :: "json \<Rightarrow> promo_details" where
  "details_of data = \<lparr>pd_discountPercent = jget_safe data (lit ''discount_percent''),
     pd_originalAmount = jget_safe data (lit ''original_amount''), pd_finalAmount = jget_safe data (lit ''amount''),
     pd_discountAmount = jget_safe data (lit ''discount_amount'')\<rparr>"

definition apply_done :: "jsstr \<Rightarrow> answer \<Rightarrow> promo \<Rightarrow> (promo, confirm, jsstr) reaction" where
  "apply_done resolved a s = (case a of
     Inl _ \<Rightarrow> apply_failed (JStr ru_connection_error) s
   | Inr res \<Rightarrow> (case json_of res of
       Inl _ \<Rightarrow> apply_failed (JStr ru_connection_error) s
     | Inr data \<Rightarrow>
         if data = JNull then apply_failed (JStr ru_connection_error) s
         else if \<not> rs_ok res then apply_failed (jnullish (jget_safe data (lit ''error'')) (JStr ru_promo_invalid)) s
         else if \<not> jtruthy (jget_safe data (lit ''promo_applied'')) then apply_failed (JStr ru_promo_not_applied) s
         else (s\<lparr>pc_promo := Success (details_of data)\<rparr>, [Call (Confirm resolved (Some (details_of data)))], [])))"

definition clear_code :: "promo \<Rightarrow> (promo, confirm, jsstr) reaction" where
  "clear_code s = (s\<lparr>pc_input := [], pc_promo := Idle\<rparr>, [Call (Confirm [] None)], [])"

definition promo_mount :: "jsstr \<Rightarrow> promo \<Rightarrow> (promo, confirm, jsstr) reaction" where
  "promo_mount initialCode s =
     (if truthy initialCode \<and> \<not> pc_didAutoApply s
      then apply_code (Some initialCode) (s\<lparr>pc_didAutoApply := True\<rparr>) else (s, [], []))"

definition plan_changed :: "jsstr \<Rightarrow> promo \<Rightarrow> (promo, confirm, jsstr) reaction" where
  "plan_changed plan s =
     (let s1 = s\<lparr>pc_previewPlan := plan\<rparr> in
      if pc_lastPlan s1 \<noteq> plan then
        (let s2 = s1\<lparr>pc_lastPlan := plan\<rparr> in
         if truthy (trim (pc_input s2)) \<and> (case pc_promo s2 of Success _ \<Rightarrow> True | _ \<Rightarrow> False)
         then apply_code (Some (pc_input s2)) s2 else (s2, [], []))
      else (s1, [], []))"

definition type_code :: "jsstr \<Rightarrow> promo \<Rightarrow> (promo, confirm, jsstr) reaction" where
  "type_code x s =
     (s\<lparr>pc_input := toUpperCase x, pc_promo := Idle\<rparr>,
      (case pc_promo s of Success _ \<Rightarrow> [Call (Confirm [] None)] | _ \<Rightarrow> []), [])"

datatype promo_event =
    Open_Promo
  | Type_Code jsstr
  | Press_Enter
  | Press_Escape
  | Apply_Code
  | Clear_Code
  | Plan_Changed jsstr

definition isSuccess :: "promo \<Rightarrow> bool" where
  "isSuccess s \<longleftrightarrow> (case pc_promo s of Success _ \<Rightarrow> True | _ \<Rightarrow> False)"

definition isLoading :: "promo \<Rightarrow> bool" where
  "isLoading s \<longleftrightarrow> pc_promo s = Loading"

definition jtext :: "platform \<Rightarrow> jval \<Rightarrow> jsstr" where
  "jtext P v = (case v of None \<Rightarrow> [] | Some JNull \<Rightarrow> [] | Some (JBool _) \<Rightarrow> [] | Some j \<Rightarrow> template (pf_number P) j)"

definition promo_view :: "platform \<Rightarrow> promo \<Rightarrow> promo_event view" where
  "promo_view P s = El (lit ''div'')
     (if \<not> pc_open s then [Btn False Open_Promo [Text ru_have_promo]]
      else [El (lit ''div'') (
        [El (lit ''div'')
           [Input (isLoading s \<or> isSuccess s) (lit ''text'') (pc_input s) Type_Code,
            Key (isLoading s \<or> isSuccess s) Press_Enter,
            Key (isLoading s \<or> isSuccess s) Press_Escape,
            if isSuccess s then Btn False Clear_Code []
            else Btn (\<not> truthy (trim (pc_input s)) \<or> isLoading s) Apply_Code
                   [Text (if isLoading s then [] else ru_apply)]]]
        @ (case pc_promo s of
             Success d \<Rightarrow> [El (lit ''div'') [Text ru_discount, Text (jtext P (pd_discountPercent d) @ lit ''%''), Text ru_discount_applied]]
           | Failed m \<Rightarrow> [El (lit ''div'') [Text (jtext P (Some m))]]
           | _ \<Rightarrow> []))])"

fun promo_handle :: "promo_event \<Rightarrow> promo \<Rightarrow> (promo, confirm, jsstr) reaction" where
  "promo_handle Open_Promo s = (s\<lparr>pc_open := True\<rparr>, [], [])"
| "promo_handle (Type_Code x) s = type_code x s"
| "promo_handle Press_Enter s = apply_code None s"
| "promo_handle Press_Escape s = (case clear_code s of (s', out, ps) \<Rightarrow> (s'\<lparr>pc_open := False\<rparr>, out, ps))"
| "promo_handle Apply_Code s = apply_code None s"
| "promo_handle Clear_Code s = clear_code s"
| "promo_handle (Plan_Changed plan) s = plan_changed plan s"

definition PromoCodeInput :: "platform \<Rightarrow> (promo, promo_event, confirm, jsstr) component" where
  "PromoCodeInput P = \<lparr>cp_view = promo_view P, cp_ext = (\<lambda>_ e. \<exists>plan. e = Plan_Changed plan),
     cp_handle = promo_handle, cp_resume = apply_done\<rparr>"

definition promo_start :: "jsstr \<Rightarrow> jsstr \<Rightarrow> (promo, confirm, jsstr) ui" where
  "promo_start previewPlan initialCode =
     apply_reaction (promo_mount initialCode (promo_init previewPlan initialCode)) [] []"

lemma PromoCodeInput_sel [simp]:
  "cp_view (PromoCodeInput P) = promo_view P" "cp_ext (PromoCodeInput P) s e \<longleftrightarrow> (\<exists>plan. e = Plan_Changed plan)"
  "cp_handle (PromoCodeInput P) = promo_handle" "cp_resume (PromoCodeInput P) = apply_done"
  by (simp_all add: PromoCodeInput_def)

subsection \<open>What is confirmed\<close>

text \<open>A code in the form in which it is sent: upper case, no surrounding blanks, not empty.\<close>

definition is_code :: "jsstr \<Rightarrow> bool" where
  "is_code c \<longleftrightarrow> c \<noteq> [] \<and> toUpperCase c = c \<and> trim c = c"

lemma is_code_resolved: "toUpperCase (trim x) \<noteq> [] \<Longrightarrow> is_code (toUpperCase (trim x))"
  by (simp add: is_code_def trim_toUpperCase [symmetric])

text \<open>The runs in which the page asks for the plans of a set only.\<close>

definition plans_in :: "jsstr set \<Rightarrow> (promo, confirm, jsstr) ui \<Rightarrow> (promo_event, jsstr) label \<Rightarrow> bool" where
  "plans_in plans s l \<longleftrightarrow> (case l of Ext (Plan_Changed plan) \<Rightarrow> plan \<in> plans | _ \<Rightarrow> True)"

definition request_good :: "jsstr set \<Rightarrow> confirm cmd \<Rightarrow> bool" where
  "request_good plans k = (case k of Fetch rq \<Rightarrow> (\<exists>plan \<in> plans. \<exists>c. is_code c \<and> rq = preview_request plan c) | _ \<Rightarrow> True)"

definition confirm_good :: "jsstr set \<Rightarrow> confirm cmd list \<Rightarrow> confirm \<Rightarrow> bool" where
  "confirm_good plans out k = (case k of
     Confirm c (Some d) \<Rightarrow> is_code c \<and> (\<exists>plan \<in> plans. Fetch (preview_request plan c) \<in> set out) | Confirm c None \<Rightarrow> c = [])"

definition confirmed :: "confirm cmd list \<Rightarrow> promo_details option" where
  "confirmed out = (case calls out of [] \<Rightarrow> None | ks \<Rightarrow> (case last ks of Confirm _ d \<Rightarrow> d))"

text \<open>The invariant, with the requests and confirmations for some plan of the set. A check that starts from a shown
  discount, as it does when the plan changes, leaves the old confirmation standing; with one plan this does not happen.\<close>

definition confirms_shown :: "jsstr set \<Rightarrow> promo_state \<Rightarrow> promo_details option \<Rightarrow> bool" where
  "confirms_shown plans p d = (case p of Success d' \<Rightarrow> d = Some d' | Loading \<Rightarrow> (\<exists>plan. plans = {plan}) \<longrightarrow> d = None | _ \<Rightarrow> d = None)"

definition asked_for :: "jsstr set \<Rightarrow> confirm cmd list \<Rightarrow> jsstr \<Rightarrow> bool" where
  "asked_for plans out c \<longleftrightarrow> is_code c \<and> (\<exists>plan \<in> plans. Fetch (preview_request plan c) \<in> set out)"

definition promo_inv :: "jsstr set \<Rightarrow> (promo, confirm, jsstr) ui \<Rightarrow> bool" where
  "promo_inv plans s \<longleftrightarrow> pc_previewPlan (ui_comp s) \<in> plans \<and> pc_lastPlan (ui_comp s) = pc_previewPlan (ui_comp s) \<and>
     length (ui_wait s) = (if isLoading (ui_comp s) then 1 else 0) \<and> list_all (asked_for plans (ui_out s)) (ui_wait s) \<and>
     list_all (request_good plans) (ui_out s) \<and> list_all (confirm_good plans (ui_out s)) (calls (ui_out s)) \<and>
     confirms_shown plans (pc_promo (ui_comp s)) (confirmed (ui_out s))"

lemma asked_mono: "asked_for plans out c \<Longrightarrow> asked_for plans (out @ ks) c"
  by (auto simp: asked_for_def)

lemma confirmed_simps [simp]:
  "confirmed (out @ [Call (Confirm c d)]) = d" "confirmed (out @ [Fetch rq]) = confirmed out" "confirmed [] = None"
  "confirmed [Fetch rq] = None"
proof -
  show "confirmed (out @ [Call (Confirm c d)]) = d"
    by (cases "calls out") (simp_all add: confirmed_def)
qed (simp_all add: confirmed_def)

lemma confirm_good_mono: "confirm_good plans out k \<Longrightarrow> confirm_good plans (out @ ks) k"
  by (auto simp: confirm_good_def split: confirm.splits option.splits)

lemma list_all_confirm_good_mono:
  "list_all (confirm_good plans out) xs \<Longrightarrow> list_all (confirm_good plans (out @ ks)) xs"
  by (auto simp: list_all_iff confirm_good_mono)

lemma request_good_simps [simp]:
  "plan \<in> plans \<Longrightarrow> is_code c \<Longrightarrow> request_good plans (Fetch (preview_request plan c))"
  "request_good plans (Call k)"
  by (auto simp: request_good_def)

lemma confirm_good_simps [simp]:
  "confirm_good plans out (Confirm c None) \<longleftrightarrow> c = []"
  "confirm_good plans out (Confirm c (Some d)) \<longleftrightarrow> asked_for plans out c"
  by (simp_all add: confirm_good_def asked_for_def)

lemma confirms_shown_simps [simp]:
  "confirms_shown plans (Success d') d \<longleftrightarrow> d = Some d'" "confirms_shown plans Idle d \<longleftrightarrow> d = None" "confirms_shown plans (Failed m) d \<longleftrightarrow> d = None"
  by (simp_all add: confirms_shown_def)

text \<open>A check starts where none is in flight, with one plan only where no discount is shown.\<close>

lemma promo_inv_apply_code:
  assumes inv: "promo_inv plans \<lparr>ui_comp = c, ui_wait = [], ui_out = out\<rparr>"
    and one: "(\<exists>plan. plans = {plan}) \<Longrightarrow> \<not> isSuccess c"
  shows "promo_inv plans (apply_reaction (apply_code x c) [] out)"
proof -
  let ?r = "toUpperCase (trim (nullish x (pc_input c)))"
  have "\<not> isLoading c" using inv by (simp add: promo_inv_def split: if_splits)
  then have none: "confirms_shown plans Loading (confirmed out)"
    using inv one by (auto simp: promo_inv_def isSuccess_def isLoading_def confirms_shown_def split: promo_state.splits)
  have "is_code ?r" if "?r \<noteq> []" by (rule is_code_resolved [OF that])
  with none inv show ?thesis
    by (auto simp: apply_code_def Let_def promo_inv_def isLoading_def list_all_confirm_good_mono asked_for_def)
qed

lemma promo_inv_apply_done:
  assumes "promo_inv plans \<lparr>ui_comp = c, ui_wait = [p], ui_out = out\<rparr>"
  shows "promo_inv plans (apply_reaction (apply_done p a c) [] out)"
proof -
  have "promo_inv plans (apply_reaction (apply_failed m c) [] out)" for m
    using assms by (auto simp: promo_inv_def apply_failed_def isLoading_def list_all_confirm_good_mono split: if_splits)
  moreover have "promo_inv plans (apply_reaction (c\<lparr>pc_promo := Success d\<rparr>, [Call (Confirm p (Some d))], []) [] out)" for d
    using assms by (auto simp: promo_inv_def isLoading_def list_all_confirm_good_mono asked_mono split: if_splits)
  ultimately show ?thesis by (simp add: apply_done_def split: sum.split)
qed

lemma promo_inv_clear:
  assumes "promo_inv plans \<lparr>ui_comp = c, ui_wait = [], ui_out = out\<rparr>"
  shows "promo_inv plans (apply_reaction (clear_code c) [] out)"
  using assms by (auto simp: promo_inv_def clear_code_def isLoading_def list_all_confirm_good_mono)

lemma promo_offers:
  "offers (promo_view P c) e \<Longrightarrow> e = Open_Promo \<or> (e = Clear_Code \<and> \<not> isLoading c) \<or>
     (\<not> isLoading c \<and> \<not> isSuccess c \<and> ((\<exists>x. e = Type_Code x) \<or> e = Press_Enter \<or> e = Press_Escape \<or> e = Apply_Code))"
  by (auto simp: promo_view_def isLoading_def isSuccess_def split: if_splits promo_state.splits)

lemma promo_inv_handle:
  assumes inv: "promo_inv plans \<lparr>ui_comp = c, ui_wait = ws, ui_out = out\<rparr>" and offered: "offers (promo_view P c) e"
  shows "promo_inv plans (apply_reaction (promo_handle e c) ws out)"
proof -
  have idle: "ws = []" if "\<not> isLoading c" using inv that by (simp add: promo_inv_def)
  from promo_offers [OF offered]
  consider "e = Open_Promo" | "e = Clear_Code" "\<not> isLoading c"
    | x where "e = Type_Code x" "\<not> isLoading c" "\<not> isSuccess c"
    | "e = Press_Enter \<or> e = Apply_Code" "\<not> isLoading c" "\<not> isSuccess c"
    | "e = Press_Escape" "\<not> isLoading c"
    by blast
  then show ?thesis
  proof cases
    case 1
    with inv show ?thesis by (auto simp: promo_inv_def isLoading_def)
  next
    case 2
    with inv idle promo_inv_clear [of plans c out] show ?thesis by simp
  next
    case 3
    with inv idle show ?thesis
      by (auto simp: promo_inv_def type_code_def isLoading_def isSuccess_def split: promo_state.splits)
  next
    case 4
    with inv idle promo_inv_apply_code [of plans c out] show ?thesis by auto
  next
    case 5
    with inv idle promo_inv_clear [of plans c out] show ?thesis
      by (auto simp: promo_inv_def clear_code_def isLoading_def)
  qed
qed

text \<open>A change of the plan checks a shown code again, for the new plan.\<close>

lemma promo_inv_plan_changed:
  assumes inv: "promo_inv plans \<lparr>ui_comp = c, ui_wait = ws, ui_out = out\<rparr>" and plan: "plan \<in> plans"
  shows "promo_inv plans (apply_reaction (plan_changed plan c) ws out)"
proof (cases "pc_lastPlan c = plan")
  case True
  with inv show ?thesis by (simp add: plan_changed_def promo_inv_def isLoading_def)
next
  case False
  let ?c = "c\<lparr>pc_previewPlan := plan, pc_lastPlan := plan\<rparr>"
  have inv': "promo_inv plans \<lparr>ui_comp = ?c, ui_wait = ws, ui_out = out\<rparr>"
    using inv plan by (simp add: promo_inv_def isLoading_def)
  have two: "\<not> (\<exists>q. plans = {q})" using False inv plan by (auto simp: promo_inv_def)
  show ?thesis
  proof (cases "truthy (trim (pc_input c)) \<and> isSuccess c")
    case True
    then have "ws = []" using inv by (auto simp: promo_inv_def isSuccess_def isLoading_def split: promo_state.splits)
    with True False promo_inv_apply_code [of plans ?c out "Some (pc_input c)"] inv' two show ?thesis
      by (auto simp: plan_changed_def Let_def isSuccess_def split: promo_state.splits)
  next
    case no: False
    then have "plan_changed plan c = (?c, [], [])"
      using False by (auto simp: plan_changed_def Let_def isSuccess_def split: promo_state.splits)
    with inv' show ?thesis by simp
  qed
qed

lemma promo_inv_start: "plan \<in> plans \<Longrightarrow> promo_inv plans (promo_start plan code)"
proof -
  assume plan: "plan \<in> plans"
  then have "promo_inv plans (idle_with (promo_init plan code))"
    by (simp add: promo_inv_def promo_init_def isLoading_def)
  moreover have "promo_inv plans (idle_with ((promo_init plan code)\<lparr>pc_didAutoApply := True\<rparr>))"
    using plan by (simp add: promo_inv_def promo_init_def isLoading_def)
  then have "promo_inv plans (apply_reaction (apply_code (Some code) ((promo_init plan code)\<lparr>pc_didAutoApply := True\<rparr>)) [] [])"
    by (rule promo_inv_apply_code) (simp add: promo_init_def isSuccess_def)
  ultimately show ?thesis by (simp add: promo_start_def promo_mount_def)
qed

lemma promo_inv_keeps: "ui_invariant (PromoCodeInput P) (plans_in plans) (promo_start plan code) (promo_inv (insert plan plans))"
proof (unfold_locales, goal_cases)
  case 1
  show ?case by (rule promo_inv_start) simp
next
  case (2 c ws out e)
  with promo_inv_handle [of "insert plan plans" c ws out P e] show ?case by simp
next
  case (3 c ws out e)
  then show ?case by (auto simp: plans_in_def intro: promo_inv_plan_changed)
next
  case (4 c ws p ws' out a)
  then have "ws = []" "ws' = []" by (auto simp: promo_inv_def split: if_splits)
  with 4 promo_inv_apply_done [of "insert plan plans" c p out a] show ?case by simp
qed

interpretation promo: ui_invariant "PromoCodeInput P" "plans_in plans" "promo_start plan code" "promo_inv (insert plan plans)"
  by (rule promo_inv_keeps)

text \<open>C16: In every run, whatever plans the page asks for meanwhile, the field has at most one check in flight and shows so;
  it asks only for codes in upper case without surrounding blanks, and only for plans of the page; it confirms only codes
  it has asked about for one of these plans; and what it last confirmed to the page is what it shows: the details of the
  discount while it reports success, and nothing while it is empty or reports an error. While it waits, nothing is
  confirmed as long as the plan stays the same; after a change of the plan the old discount may still stand.\<close>

theorem PromoCodeInput_confirms:
  assumes "ui_reach (PromoCodeInput P) (plans_in plans) (promo_start plan code) s"
  shows "length (ui_wait s) = (if isLoading (ui_comp s) then 1 else 0) \<and>
    list_all (request_good (insert plan plans)) (ui_out s) \<and>
    list_all (confirm_good (insert plan plans) (ui_out s)) (calls (ui_out s)) \<and>
    (case pc_promo (ui_comp s) of
       Success d \<Rightarrow> confirmed (ui_out s) = Some d
     | Loading \<Rightarrow> plans \<subseteq> {plan} \<longrightarrow> confirmed (ui_out s) = None
     | _ \<Rightarrow> confirmed (ui_out s) = None)"
proof -
  have one: "\<exists>q. insert plan plans = {q}" if "plans \<subseteq> {plan}" using that by (intro exI [of _ plan]) auto
  show ?thesis using promo.reach_keeps [OF assms] one
    by (auto simp: promo_inv_def confirms_shown_def split: promo_state.splits)
qed

definition discount_answer :: answer where
  "discount_answer = Inr \<lparr>rs_status = 200, rs_headers = [], rs_body = JsonBody (JObj [(lit ''promo_applied'', JBool True),
     (lit ''discount_percent'', JNum 20), (lit ''original_amount'', JNum 199), (lit ''amount'', JNum 159),
     (lit ''discount_amount'', JNum 40)])\<rparr>"

definition discount_details :: promo_details where
  "discount_details = \<lparr>pd_discountPercent = Some (JNum 20), pd_originalAmount = Some (JNum 199),
     pd_finalAmount = Some (JNum 159), pd_discountAmount = Some (JNum 40)\<rparr>"

lemma apply_done_discount [simp]:
  "apply_done c discount_answer s = (s\<lparr>pc_promo := Success discount_details\<rparr>, [Call (Confirm c (Some discount_details))], [])"
  by (simp add: apply_done_def discount_answer_def json_of_def rs_ok_def details_of_def discount_details_def)

definition promo_platform :: platform where
  "promo_platform = \<lparr>pf_number = (\<lambda>_. lit ''0''), pf_to_number = (\<lambda>_. None), pf_message = (\<lambda>_. lit ''failed'')\<rparr>"

theorem PromoCodeInput_confirms_witness:
  "\<exists>s. ui_reach (PromoCodeInput promo_platform) (plans_in {lit ''vip''}) (promo_start (lit ''basic'') (lit ''sale'')) s \<and>
     pc_previewPlan (ui_comp s) = lit ''vip'' \<and> pc_promo (ui_comp s) = Loading \<and>
     length (ui_wait s) = 1 \<and> confirmed (ui_out s) = Some discount_details \<and>
     list_all (request_good {lit ''basic'', lit ''vip''}) (ui_out s)"
proof -
  let ?C = "PromoCodeInput promo_platform" and ?L = "plans_in {lit ''vip''}"
  let ?s0 = "promo_start (lit ''basic'') (lit ''sale'')" and ?r = "toUpperCase (trim (lit ''sale''))"
  have r: "?r \<noteq> []" "trim (lit ''sale'') \<noteq> []"
    by (simp_all add: js_simps toUpperCase_def upper_cu_def trim_def trim_start_def trim_end_def is_ws_def)
  obtain c out where start: "?s0 = \<lparr>ui_comp = c, ui_wait = [] @ ?r # [], ui_out = out\<rparr>"
    and c: "pc_input c = lit ''sale''" "pc_lastPlan c = lit ''basic''"
    using r by (simp add: promo_start_def promo_mount_def promo_init_def apply_code_def Let_def)
  have "ui_reach ?C ?L ?s0 \<lparr>ui_comp = c, ui_wait = [] @ ?r # [], ui_out = out\<rparr>"
    unfolding start [symmetric] by (rule reach_init)
  from reach_arrive [OF this, of discount_answer]
  have "ui_reach ?C ?L ?s0 \<lparr>ui_comp = c\<lparr>pc_promo := Success discount_details\<rparr>, ui_wait = [],
      ui_out = out @ [Call (Confirm ?r (Some discount_details))]\<rparr>"
    by (simp add: plans_in_def)
  from reach_ext [OF this, of "Plan_Changed (lit ''vip'')"]
  have reach: "ui_reach ?C ?L ?s0 \<lparr>ui_comp = c\<lparr>pc_previewPlan := lit ''vip'', pc_lastPlan := lit ''vip'', pc_promo := Loading\<rparr>,
      ui_wait = [?r], ui_out = (out @ [Call (Confirm ?r (Some discount_details))]) @ [Fetch (preview_request (lit ''vip'') ?r)]\<rparr>"
      (is "ui_reach _ _ _ ?s")
    using c r by (simp add: plans_in_def plan_changed_def apply_code_def Let_def lit_Cons)
  have "confirmed (ui_out ?s) = Some discount_details" by (simp add: confirmed_simps(1) [of out] confirmed_simps(2) [of "out @ _"] del: append_assoc)
  with PromoCodeInput_confirms [OF reach] reach show ?thesis by (intro exI [of _ ?s]) (simp add: isLoading_def)
qed

end
