(* ===== verification/Js_Number.thy ===== *)
theory Js_Number
  imports Complex_Main "HOL-Library.Log_Nat"
begin

section \<open>Numbers\<close>

text \<open>
  The numbers of the language are doubles. A double is a rational here, and an operation whose
  exact result need not be a double is followed by \<open>fl64\<close>: rounding to 53 significant bits, to
  even in a tie. The range of the exponent is not modelled; the numbers of the sources (prices,
  counts, percentages, milliseconds) stay far inside it. \<open>Math_round\<close> is \<^verbatim>\<open>Math.round\<close>, to the
  nearest integer, upwards in a tie.
\<close>

definition round_half_even :: "rat \<Rightarrow> int" where
  "round_half_even y = (let f = \<lfloor>y\<rfloor>; r = y - of_int f in
     if r < 1 / 2 then f else if 1 / 2 < r then f + 1 else if even f then f else f + 1)"

text \<open>The exponent of the leading bit of a positive number.\<close>

definition binade :: "rat \<Rightarrow> int" where
  "binade x = (case quotient_of x of (n, d) \<Rightarrow>
     let e = int (floorlog 2 (nat n)) - int (floorlog 2 (nat d)) in
     if x < 2 powi e then e - 1 else e)"

definition fl64 :: "rat \<Rightarrow> rat" where
  "fl64 x = (if x = 0 then 0
     else let u = 2 powi (binade \<bar>x\<bar> - 52) in of_int (round_half_even (x / u)) * u)"

definition Math_round :: "rat \<Rightarrow> int" where
  "Math_round x = \<lfloor>x + 1 / 2\<rfloor>"

lemma round_half_even_le: "y \<le> of_int m \<Longrightarrow> round_half_even y \<le> m"
proof -
  assume y: "y \<le> of_int m"
  have f: "of_int \<lfloor>y\<rfloor> \<le> y" by simp
  then have "of_int \<lfloor>y\<rfloor> \<le> (of_int m :: rat)" using y by linarith
  then have "\<lfloor>y\<rfloor> \<le> m" by simp
  moreover have "\<lfloor>y\<rfloor> < m" if "1 / 2 \<le> y - of_int \<lfloor>y\<rfloor>"
  proof -
    have "of_int \<lfloor>y\<rfloor> < (of_int m :: rat)" using that y f by linarith
    then show ?thesis by simp
  qed
  ultimately show ?thesis unfolding round_half_even_def Let_def by auto
qed

lemma round_half_even_ge: "of_int m \<le> y \<Longrightarrow> m \<le> round_half_even y"
proof -
  assume "of_int m \<le> y"
  then have "m \<le> \<lfloor>y\<rfloor>" by (simp add: le_floor_iff)
  then show ?thesis unfolding round_half_even_def Let_def by auto
qed

lemma powi_diff_nat: "2 powi (int a - int b) = (2 ^ a / 2 ^ b :: rat)"
  by (subst power_int_diff) simp_all

lemma binade_bounds:
  assumes "0 < x"
  shows "2 powi binade x \<le> x" "x < 2 powi (binade x + 1)"
proof -
  obtain n d where q: "quotient_of x = (n, d)" by fastforce
  have d: "0 < d" using quotient_of_denom_pos [OF q] .
  have x: "x = of_int n / of_int d" using quotient_of_div [OF q] .
  have n: "0 < n" using assms d unfolding x by (simp add: zero_less_divide_iff)
  define a b where "a = floorlog 2 (nat n)" and "b = floorlog 2 (nat d)"
  have bounds: "2 ^ (floorlog 2 (nat k) - 1) \<le> nat k \<and> nat k < 2 ^ floorlog 2 (nat k)" if "0 < k" for k
    using floorlog_bounds [of "nat k" 2] that by simp
  have pos: "0 < a" "0 < b" using n d floorlog_eq_zero_iff [of 2 "nat n"] floorlog_eq_zero_iff [of 2 "nat d"]
    unfolding a_def b_def by simp_all
  have r: "(of_nat (nat k) :: rat) = of_int k" if "0 < k" for k using that by simp
  have na: "2 ^ (a - 1) \<le> (of_int n :: rat)" "(of_int n :: rat) < 2 ^ a"
    using bounds [OF n] r [OF n] unfolding a_def
    by (metis of_nat_le_iff of_nat_numeral of_nat_power, metis of_nat_less_iff of_nat_numeral of_nat_power)
  have db: "2 ^ (b - 1) \<le> (of_int d :: rat)" "(of_int d :: rat) < 2 ^ b"
    using bounds [OF d] r [OF d] unfolding b_def
    by (metis of_nat_le_iff of_nat_numeral of_nat_power, metis of_nat_less_iff of_nat_numeral of_nat_power)
  have lo: "2 powi (int a - int b - 1) < x"
  proof -
    have "2 powi (int a - int b - 1) = (2 powi (int (a - 1) - int b) :: rat)"
      by (rule arg_cong [of _ _ "(powi) 2"]) (use pos in linarith)
    also have "2 powi (int (a - 1) - int b) = (2 ^ (a - 1) / 2 ^ b :: rat)" by (rule powi_diff_nat)
    finally have "2 powi (int a - int b - 1) = (2 ^ (a - 1) / 2 ^ b :: rat)" .
    also have "\<dots> \<le> of_int n / 2 ^ b" using na(1) by (simp add: divide_right_mono)
    also have "\<dots> < of_int n / of_int d" using db(2) n d by (simp add: divide_strict_left_mono)
    finally show ?thesis by (simp add: x)
  qed
  have hi: "x < 2 powi (int a - int b + 1)"
  proof -
    have "x < 2 ^ a / of_int d" using na(2) d by (simp add: x divide_strict_right_mono)
    also have "\<dots> \<le> 2 ^ a / 2 ^ (b - 1)" using db(1) d by (simp add: divide_left_mono)
    also have "\<dots> = 2 powi (int a - int (b - 1))" by (rule powi_diff_nat [symmetric])
    also have "int a - int (b - 1) = int a - int b + 1" using pos by linarith
    finally show ?thesis .
  qed
  have e: "binade x = (if x < 2 powi (int a - int b) then int a - int b - 1 else int a - int b)"
    by (simp add: binade_def q Let_def a_def b_def)
  show "2 powi binade x \<le> x" "x < 2 powi (binade x + 1)"
    using lo hi e by (auto split: if_splits)
qed

subsection \<open>Bounds that survive rounding\<close>

definition is_double :: "rat \<Rightarrow> bool" where
  "is_double n \<longleftrightarrow> (\<exists>k e. n = of_int k * 2 powi e \<and> \<bar>k\<bar> \<le> 2 ^ 53)"

lemma is_double_int [simp]: "\<bar>k\<bar> \<le> 2 ^ 53 \<Longrightarrow> is_double (of_int k)"
  unfolding is_double_def by (intro exI [of _ k] exI [of _ 0]) simp

lemma is_double_0 [simp]: "is_double 0" and is_double_1 [simp]: "is_double 1" and
  is_double_numeral [simp]: "numeral m \<le> (2 ^ 53 :: int) \<Longrightarrow> is_double (numeral m)"
  using is_double_int [of 0] is_double_int [of 1] is_double_int [of "numeral m"] by simp_all

lemma powi_split: "2 powi e = (2 powi (e - 52) * 2 ^ 52 :: rat)" "2 powi (e + 1) = (2 powi (e - 52) * 2 ^ 53 :: rat)"
proof -
  have "2 powi (e - 52 + 52) = (2 powi (e - 52) * 2 powi 52 :: rat)" by (rule power_int_add) simp
  then show "2 powi e = (2 powi (e - 52) * 2 ^ 52 :: rat)" by simp
  have "2 powi (e - 52 + 53) = (2 powi (e - 52) * 2 powi 53 :: rat)" by (rule power_int_add) simp
  then show "2 powi (e + 1) = (2 powi (e - 52) * 2 ^ 53 :: rat)" by (simp add: add.commute)
qed

lemma scaled_bounds:
  assumes "0 < x"
  defines "u \<equiv> 2 powi (binade x - 52)"
  shows "2 ^ 52 \<le> x / u" "x / u < 2 ^ 53" "0 < u"
proof -
  show u: "0 < u" by (simp add: u_def)
  show "2 ^ 52 \<le> x / u" "x / u < 2 ^ 53"
    using binade_bounds [OF assms(1)] u powi_split [of "binade x"] unfolding u_def [symmetric]
    by (simp_all add: le_divide_eq divide_less_eq mult.commute)
qed

lemma fl64_pos_eq: "0 < x \<Longrightarrow> fl64 x = of_int (round_half_even (x / 2 powi (binade x - 52))) * 2 powi (binade x - 52)"
  by (simp add: fl64_def Let_def)

lemma fl64_0 [simp]: "fl64 0 = 0"
  by (simp add: fl64_def)

lemma round_scaled:
  assumes "0 < x"
  shows "2 ^ 52 \<le> round_half_even (x / 2 powi (binade x - 52))" "round_half_even (x / 2 powi (binade x - 52)) \<le> 2 ^ 53"
  using scaled_bounds [OF assms]
  by (auto intro!: round_half_even_ge round_half_even_le)

lemma fl64_pos: "0 < x \<Longrightarrow> 0 < fl64 x"
  using round_scaled(1) [of x] scaled_bounds(3) [of x] by (simp add: fl64_pos_eq)

lemma fl64_nonneg: "0 \<le> x \<Longrightarrow> 0 \<le> fl64 x"
  using fl64_pos [of x] by (cases "x = 0") simp_all

lemma is_double_fl64: "0 \<le> x \<Longrightarrow> is_double (fl64 x)"
proof (cases "x = 0")
  case False
  assume "0 \<le> x"
  with False have x: "0 < x" by simp
  show ?thesis unfolding is_double_def
    by (intro exI [of _ "round_half_even (x / 2 powi (binade x - 52))"] exI [of _ "binade x - 52"])
       (use round_scaled [OF x] in \<open>simp add: fl64_pos_eq [OF x]\<close>)
qed simp

lemma of_int_le_2_53: "k \<le> 2 ^ 53 \<Longrightarrow> (of_int k :: rat) \<le> 2 ^ 53"
  by (metis of_int_le_iff of_int_numeral of_int_power)

lemma grid_multiple:
  assumes n: "n = of_int k * 2 powi j" "0 < k" "k \<le> 2 ^ 53" and range: "2 powi e \<le> n" "n < (2 powi (e + 1) :: rat)"
  shows "\<exists>m. n = of_int m * 2 powi (e - 52)"
proof (cases "e - 52 \<le> j")
  case True
  then have "2 powi j = (2 ^ nat (j - (e - 52)) * 2 powi (e - 52) :: rat)"
    using power_int_add [of "2 :: rat" "j - (e - 52)" "e - 52"] by (simp add: power_int_def)
  then show ?thesis by (intro exI [of _ "k * 2 ^ nat (j - (e - 52))"]) (simp add: n(1))
next
  case False
  then have e: "e = j + int (53 + nat (e - j - 53))" by linarith
  have "2 powi (j + int (53 + nat (e - j - 53))) = (2 powi j * 2 powi int (53 + nat (e - j - 53)) :: rat)"
    by (rule power_int_add) simp
  then have "2 powi e = (2 powi j * 2 powi int (53 + nat (e - j - 53)) :: rat)" by (simp only: e [symmetric])
  then have "2 powi e = (2 powi j * 2 ^ 53 * 2 ^ nat (e - j - 53) :: rat)"
    by (simp only: power_int_of_nat power_add mult.assoc)
  moreover have "n \<le> 2 powi j * 2 ^ 53"
    using of_int_le_2_53 [OF n(3)] by (simp add: n(1) mult.commute)
  moreover have "2 powi j * 2 ^ 53 \<le> (2 powi j * 2 ^ 53 * 2 ^ nat (e - j - 53) :: rat)" by simp
  ultimately have "n = 2 powi e" using range(1) by linarith
  then show ?thesis using powi_split(1) [of e] by (intro exI [of _ "2 ^ 52"]) (simp add: mult.commute)
qed

lemma double_posE:
  assumes "is_double n" "0 < n"
  obtains k j where "n = of_int k * 2 powi j" "0 < k" "k \<le> 2 ^ 53"
proof -
  obtain k j where n: "n = of_int k * 2 powi j" "\<bar>k\<bar> \<le> 2 ^ 53" using assms(1) by (auto simp: is_double_def)
  have "0 < (2 powi j :: rat)" by simp
  with n(1) assms(2) have "0 < k" by (metis of_int_0_less_iff zero_less_mult_pos2)
  with n that show thesis by simp
qed

lemma fl64_le:
  assumes "0 \<le> x" "x \<le> n" "is_double n"
  shows "fl64 x \<le> n"
proof (cases "x = 0")
  case False
  with assms have x: "0 < x" by simp
  let ?u = "2 powi (binade x - 52) :: rat"
  have u: "0 < ?u" by simp
  have fl: "fl64 x = of_int (round_half_even (x / ?u)) * ?u" by (rule fl64_pos_eq [OF x])
  show ?thesis
  proof (cases "2 powi (binade x + 1) \<le> n")
    case True
    have "of_int (round_half_even (x / ?u)) * ?u \<le> 2 ^ 53 * ?u"
      using of_int_le_2_53 [OF round_scaled(2) [OF x]] u by (intro mult_right_mono) simp_all
    also have "\<dots> = 2 powi (binade x + 1)" by (simp add: powi_split(2) mult.commute)
    finally show ?thesis using True fl by simp
  next
    case False
    have "0 < n" using x assms(2) by simp
    from double_posE [OF assms(3) this]
    obtain k j where n: "n = of_int k * 2 powi j" "0 < k" "k \<le> 2 ^ 53" by blast
    moreover have "2 powi binade x \<le> n" using binade_bounds(1) [OF x] assms(2) by simp
    ultimately obtain m where m: "n = of_int m * ?u"
      using grid_multiple [OF n, of "binade x"] False by auto
    then have "x / ?u \<le> of_int m" using assms(2) u by (simp add: divide_le_eq)
    then have "round_half_even (x / ?u) \<le> m" by (rule round_half_even_le)
    then show ?thesis using m u fl by simp
  qed
qed (use assms in simp)

lemma fl64_ge:
  assumes "0 \<le> n" "n \<le> x" "is_double n"
  shows "n \<le> fl64 x"
proof (cases "n = 0")
  case True
  with assms show ?thesis by (simp add: fl64_nonneg)
next
  case False
  with assms have x: "0 < x" and n0: "0 < n" by simp_all
  let ?u = "2 powi (binade x - 52) :: rat"
  have u: "0 < ?u" by simp
  have fl: "fl64 x = of_int (round_half_even (x / ?u)) * ?u" by (rule fl64_pos_eq [OF x])
  show ?thesis
  proof (cases "n < 2 powi binade x")
    case True
    have "(2 ^ 52 :: rat) \<le> of_int (round_half_even (x / ?u))"
      using round_scaled(1) [OF x] by (metis of_int_le_iff of_int_numeral of_int_power)
    then have "2 ^ 52 * ?u \<le> of_int (round_half_even (x / ?u)) * ?u" using u by (intro mult_right_mono) simp_all
    moreover have "2 ^ 52 * ?u = 2 powi binade x" by (simp only: powi_split(1) [of "binade x"] mult.commute)
    ultimately show ?thesis using True unfolding fl by linarith
  next
    case False
    obtain k j where n: "n = of_int k * 2 powi j" "0 < k" "k \<le> 2 ^ 53" by (rule double_posE [OF assms(3) n0])
    moreover have "n < 2 powi (binade x + 1)" using binade_bounds(2) [OF x] assms(2) by simp
    ultimately obtain m where m: "n = of_int m * ?u"
      using grid_multiple [OF n(1), of "binade x"] False by auto
    then have "of_int m \<le> x / ?u" using assms(2) u by (simp add: le_divide_eq)
    then have "m \<le> round_half_even (x / ?u)" by (rule round_half_even_ge)
    then show ?thesis using m u fl by simp
  qed
qed

lemma fl64_double: "0 \<le> x \<Longrightarrow> is_double x \<Longrightarrow> fl64 x = x"
  using fl64_le [of x x] fl64_ge [of x x] by simp

lemma Math_round_bounds: "of_int a \<le> x \<Longrightarrow> x \<le> of_int b \<Longrightarrow> a \<le> Math_round x \<and> Math_round x \<le> b"
  unfolding Math_round_def by linarith

text \<open>Flooring the quotient of two integers, computed in doubles, is integer division in a wide range.\<close>

lemma floor_fl64_div:
  assumes "0 \<le> n" "0 < d" "d \<le> 131072" "n < 68719476736 * d"
  shows "\<lfloor>fl64 (of_int n / of_int d)\<rfloor> = n div d"
proof -
  define q where "q = n div d"
  have n: "n = q * d + n mod d" "0 \<le> n mod d" "n mod d < d" using assms(2) by (simp_all add: q_def)
  then have "q * d < 68719476736 * d" using assms(4) by linarith
  then have q: "0 \<le> q" "q < 68719476736" using assms(1,2) by (simp_all add: q_def pos_imp_zdiv_nonneg_iff mult_less_cancel_right)
  define x y :: rat where "x = of_int n / of_int d" and "y = of_int q + 1 - 1 / 131072"
  have "(2 :: rat) powi (- 17) = 1 / 131072" by (simp add: power_int_minus)
  then have "y = of_int ((q + 1) * 131072 - 1) * 2 powi (- 17)" by (simp add: y_def field_simps)
  moreover have "\<bar>(q + 1) * 131072 - 1\<bar> \<le> 2 ^ 53" using q by simp
  ultimately have dbl: "is_double y" unfolding is_double_def by blast
  have d: "0 < (of_int d :: rat)" "(of_int d :: rat) \<le> 131072" using assms(2,3) by simp_all
  have nr: "(of_int n :: rat) = of_int q * of_int d + of_int (n mod d)"
    using n(1) by (metis of_int_add of_int_mult)
  have m: "0 \<le> (of_int (n mod d) :: rat)" "(of_int (n mod d) :: rat) \<le> of_int d - 1"
    using n(2,3) by (simp, metis of_int_1 of_int_diff of_int_le_iff zle_diff1_eq)
  have x: "x = of_int q + of_int (n mod d) / of_int d" using d unfolding x_def nr by (simp add: add_divide_distrib)
  define m where "m = (of_int (n mod d) :: rat)"
  define e where "e = (of_int d :: rat)"
  have "m / e \<le> (e - 1) / e" using m d(1) unfolding m_def e_def by (intro divide_right_mono) simp_all
  moreover have "(e - 1) / e = 1 - 1 / e" using d(1) unfolding e_def by (simp add: diff_divide_distrib)
  moreover have "1 / 131072 \<le> 1 / e" using d unfolding e_def by (intro divide_left_mono) simp_all
  ultimately have "m / e \<le> 1 - 1 / 131072" by linarith
  then have "x \<le> y" unfolding x y_def m_def e_def by linarith
  moreover have "0 \<le> x" using assms(1,2) by (simp add: x_def)
  ultimately have hi: "fl64 x \<le> y" using fl64_le dbl by blast
  have "of_int q \<le> x" using m(1) d(1) unfolding x by simp
  moreover have "is_double (of_int q)" using q by (intro is_double_int) simp
  ultimately have lo: "of_int q \<le> fl64 x" using fl64_ge [of "of_int q" x] q(1) by simp
  have "\<lfloor>fl64 x\<rfloor> = q" using hi lo unfolding y_def floor_eq_iff by simp
  then show ?thesis by (simp add: x_def q_def)
qed

end
