(* ===== verification/Pricing.thy ===== *)
theory Pricing
  imports Site_Config Promo_Code Js_Number Js_Uri
begin

section \<open>Choosing a plan (web/components/ui/ruixen-pricing-04.tsx, web/components/PlanChooser.tsx)\<close>

text \<open>
  The price list with its cards, the choice of the billing period, the order with its promo code, and
  the smaller plan chooser. The price list contains the promo code field of \<^theory_text>\<open>Promo_Code\<close>, which
  the framework mounts afresh whenever its key, the selected plan, changes. A field that is gone no
  longer has a state, but the continuation of its last check still calls \<^verbatim>\<open>onConfirm\<close> of the price
  list when its answer arrives. \<open>None\<close> stands for the empty \<^verbatim>\<open>loadingPlan\<close>.
\<close>

datatype billing_period = Monthly | Quarterly

datatype pricing_mode = Link_Mode | Payment_Mode

record current_subscription =
  su_plan :: jsstr
  su_status :: jsstr

definition findPlan :: "plan list \<Rightarrow> plan_id option \<Rightarrow> plan option" where
  "findPlan plans planId = find (\<lambda>plan. list_ex (\<lambda>period. Some (pp_id period) = planId) (pl_periods plan)) plans"

definition at_index :: "'a list \<Rightarrow> nat \<Rightarrow> 'a option" where
  "at_index xs i = (if i < length xs then Some (xs ! i) else None)"

definition billingPeriodForPlan :: "plan option \<Rightarrow> plan_id option \<Rightarrow> billing_period" where
  "billingPeriodForPlan plan planId = (case (planId, plan) of
     (Some i, Some p) \<Rightarrow> if map_option pp_id (at_index (pl_periods p) 1) = Some i then Quarterly else Monthly
   | _ \<Rightarrow> Monthly)"

definition planCodeOf :: "jsstr \<Rightarrow> plan_code option" where
  "planCodeOf periodId =
     (if periodId = lit ''basic'' \<or> periodId = lit ''basic_3m'' then Some Premium_Plan
      else if periodId = lit ''vip'' \<or> periodId = lit ''vip_3m'' then Some Vip_Plan
      else None)"

record savings =
  sv_percent :: int
  sv_absolute :: rat
  sv_monthly :: int

definition quarterlySavings :: "plan \<Rightarrow> savings option" where
  "quarterlySavings plan = (case (at_index (pl_periods plan) 0, at_index (pl_periods plan) 1) of
     (Some monthly, Some quarterly) \<Rightarrow>
       (let baseline = fl64 (pp_amount monthly * 3);
            absolute = max 0 (fl64 (baseline - pp_amount quarterly))
        in if absolute \<le> 0 then None
           else Some \<lparr>sv_percent = Math_round (fl64 (fl64 (absolute / baseline) * 100)), sv_absolute = absolute,
                      sv_monthly = Math_round (fl64 (pp_amount quarterly / 3))\<rparr>)
   | _ \<Rightarrow> None)"

definition maxQuarterlyDiscountPercent :: "plan list \<Rightarrow> int" where
  "maxQuarterlyDiscountPercent plans = foldl (\<lambda>m plan. case quarterlySavings plan of
     Some savings \<Rightarrow> if m < sv_percent savings then sv_percent savings else m | None \<Rightarrow> m) 0 plans"

datatype reason = Current_Plan | Downgrade

record button_state =
  bs_label :: jsstr
  bs_disabled :: bool
  bs_reason :: "reason option"

definition resolveButtonState :: "plan_id \<Rightarrow> plan \<Rightarrow> plan_id option \<Rightarrow> pricing_mode \<Rightarrow>
    current_subscription option \<Rightarrow> button_state" where
  "resolveButtonState period_id plan loadingPlan mode currentSubscription =
     (if loadingPlan = Some period_id then \<lparr>bs_label = ru_creating_payment, bs_disabled = True, bs_reason = None\<rparr>
      else
      let defaultLabel = (if mode = Payment_Mode then ru_choose else ru_continue);
          busy = (loadingPlan \<noteq> None);
          default_state = \<lparr>bs_label = defaultLabel, bs_disabled = busy, bs_reason = None\<rparr>;
          activeSub = (case currentSubscription of
             Some sub \<Rightarrow> if su_status sub = lit ''active'' then Some sub else None | None \<Rightarrow> None)
      in case activeSub of None \<Rightarrow> default_state
       | Some sub \<Rightarrow> (case planCodeOf (su_plan sub) of None \<Rightarrow> default_state
         | Some currentCode \<Rightarrow>
             if su_plan sub = plan_id_string period_id
             then \<lparr>bs_label = ru_current_plan, bs_disabled = True, bs_reason = Some Current_Plan\<rparr>
             else if pl_code plan = currentCode then \<lparr>bs_label = ru_renew, bs_disabled = busy, bs_reason = None\<rparr>
             else if currentCode = Vip_Plan \<and> pl_code plan = Premium_Plan
             then \<lparr>bs_label = ru_vip_connected, bs_disabled = True, bs_reason = Some Downgrade\<rparr>
             else if currentCode = Premium_Plan \<and> pl_code plan = Vip_Plan
             then \<lparr>bs_label = ru_go_vip, bs_disabled = busy, bs_reason = None\<rparr>
             else default_state))"

subsection \<open>The price list\<close>

record pricing_props =
  px_plans :: "plan list"
  px_initialPlan :: "plan_id option"
  px_initialPromoCode :: jsstr
  px_loadingPlan :: "plan_id option"
  px_mode :: pricing_mode
  px_currentSubscription :: "current_subscription option"

text \<open>A mounted promo code field: its number, its key and its state.\<close>

record promo_child =
  ch_number :: nat
  ch_key :: plan_id
  ch_state :: promo

record pricing =
  pr_billingPeriod :: billing_period
  pr_selectedPlanId :: "plan_id option"
  pr_promoCode :: jsstr
  pr_promoDetails :: "promo_details option"
  pr_child :: "promo_child option"
  pr_mounts :: nat

definition safePlans :: "plan list \<Rightarrow> plan list" where
  "safePlans plans = filter (\<lambda>plan. pl_periods plan \<noteq> []) plans"

definition pricing_init :: "pricing_props \<Rightarrow> pricing" where
  "pricing_init X =
     (let plans = safePlans (px_plans X);
          initial = (case findPlan plans (px_initialPlan X) of Some p \<Rightarrow> Some p | None \<Rightarrow> at_index plans 0)
      in \<lparr>pr_billingPeriod = billingPeriodForPlan initial (px_initialPlan X), pr_selectedPlanId = px_initialPlan X,
          pr_promoCode = px_initialPromoCode X, pr_promoDetails = None, pr_child = None, pr_mounts = 0\<rparr>)"

fun selected_in :: "plan_id \<Rightarrow> plan list \<Rightarrow> (plan \<times> plan_period) option" where
  "selected_in i [] = None"
| "selected_in i (plan # plans) = (case find (\<lambda>p. pp_id p = i) (pl_periods plan) of
     Some period \<Rightarrow> Some (plan, period) | None \<Rightarrow> selected_in i plans)"

definition selectedPeriodAndPlan :: "pricing_props \<Rightarrow> pricing \<Rightarrow> (plan \<times> plan_period) option" where
  "selectedPeriodAndPlan X s = (case pr_selectedPlanId s of
     None \<Rightarrow> None | Some i \<Rightarrow> selected_in i (safePlans (px_plans X)))"

datatype pricing_call = Select_Plan plan_id jsstr

type_synonym pricing_reaction = "(pricing, pricing_call, nat \<times> jsstr) reaction"

text \<open>The property \<^verbatim>\<open>onConfirm\<close> of the promo code field.\<close>

fun on_confirm :: "pricing \<Rightarrow> confirm cmd \<Rightarrow> pricing" where
  "on_confirm s (Call (Confirm code details)) = s\<lparr>pr_promoCode := code, pr_promoDetails := details\<rparr>"
| "on_confirm s _ = s"

fun child_fetch :: "confirm cmd \<Rightarrow> pricing_call cmd list" where
  "child_fetch (Fetch rq) = [Fetch rq]"
| "child_fetch _ = []"

definition lift_child :: "nat \<Rightarrow> plan_id \<Rightarrow> (promo, confirm, jsstr) reaction \<Rightarrow> pricing \<Rightarrow> pricing_reaction" where
  "lift_child n k r s = (case r of (c, cmds, ps) \<Rightarrow>
     (foldl on_confirm (s\<lparr>pr_child := Some \<lparr>ch_number = n, ch_key = k, ch_state = c\<rparr>\<rparr>) cmds,
      concat (map child_fetch cmds), map (Pair n) ps))"

text \<open>Rendering the order: the field is there while a plan is selected for payment; another key is
  another field.\<close>

definition render_child :: "pricing_props \<Rightarrow> pricing \<Rightarrow> pricing_reaction" where
  "render_child X s =
     (case (if px_mode X = Payment_Mode \<and> selectedPeriodAndPlan X s \<noteq> None then pr_selectedPlanId s else None) of
        None \<Rightarrow> (s\<lparr>pr_child := None\<rparr>, [], [])
      | Some k \<Rightarrow>
          if map_option ch_key (pr_child s) = Some k then (s, [], [])
          else lift_child (pr_mounts s) k (promo_mount (pr_promoCode s) (promo_init (plan_id_string k) (pr_promoCode s)))
                 (s\<lparr>pr_mounts := pr_mounts s + 1\<rparr>))"

definition handleSwitch :: "pricing_props \<Rightarrow> pricing \<Rightarrow> pricing" where
  "handleSwitch X s =
     (let nextPeriod = (if pr_billingPeriod s = Monthly then Quarterly else Monthly);
          s1 = s\<lparr>pr_billingPeriod := nextPeriod\<rparr>
      in case selectedPeriodAndPlan X s of
           None \<Rightarrow> s1
         | Some (currentPlan, _) \<Rightarrow>
             (let targetPeriodIndex = (if nextPeriod = Quarterly then 1 else 0);
                  targetPeriod = (case at_index (pl_periods currentPlan) targetPeriodIndex of
                     Some p \<Rightarrow> p | None \<Rightarrow> hd (pl_periods currentPlan))
              in s1\<lparr>pr_selectedPlanId := Some (pp_id targetPeriod)\<rparr>))"

definition onSelectPlanId :: "pricing_props \<Rightarrow> plan_id \<Rightarrow> pricing \<Rightarrow> pricing" where
  "onSelectPlanId X i s = (if px_mode X = Payment_Mode then s\<lparr>pr_selectedPlanId := Some i\<rparr> else s)"

datatype pricing_event =
    Switch_Billing
  | Select_Card plan_id
  | In_Promo promo_event
  | Pay

fun pricing_handle :: "pricing_props \<Rightarrow> pricing_event \<Rightarrow> pricing \<Rightarrow> pricing_reaction" where
  "pricing_handle X Switch_Billing s = render_child X (handleSwitch X s)"
| "pricing_handle X (Select_Card i) s = render_child X (onSelectPlanId X i s)"
| "pricing_handle X (In_Promo e) s = (case pr_child s of
     None \<Rightarrow> (s, [], [])
   | Some ch \<Rightarrow> lift_child (ch_number ch) (ch_key ch) (promo_handle e (ch_state ch)) s)"
| "pricing_handle X Pay s = (case pr_selectedPlanId s of
     None \<Rightarrow> (s, [], []) | Some i \<Rightarrow> (s, [Call (Select_Plan i (pr_promoCode s))], []))"

text \<open>The answer to a check: its field takes it if it is still mounted; the calls of \<^verbatim>\<open>onConfirm\<close> happen
  in any case.\<close>

definition pricing_resume :: "nat \<times> jsstr \<Rightarrow> answer \<Rightarrow> pricing \<Rightarrow> pricing_reaction" where
  "pricing_resume w a s = (case w of (n, resolved) \<Rightarrow>
     (case pr_child s of
        Some ch \<Rightarrow>
          if ch_number ch = n then lift_child n (ch_key ch) (apply_done resolved a (ch_state ch)) s
          else (foldl on_confirm s (fst (snd (apply_done resolved a (ch_state ch)))), [], [])
      | None \<Rightarrow> (foldl on_confirm s (fst (snd (apply_done resolved a (promo_init [] [])))), [], [])))"

subsection \<open>What the price list shows\<close>

definition card_period :: "billing_period \<Rightarrow> plan \<Rightarrow> plan_period option" where
  "card_period billingPeriod plan =
     (if billingPeriod = Quarterly
      then (case at_index (pl_periods plan) 1 of Some p \<Rightarrow> Some p | None \<Rightarrow> at_index (pl_periods plan) 0)
      else at_index (pl_periods plan) 0)"

text \<open>\<^verbatim>\<open>NumberFlow\<close> is an element of another package that shows a value as an amount of roubles.\<close>

definition number_flow :: "platform \<Rightarrow> jval \<Rightarrow> jsstr \<Rightarrow> 'e view" where
  "number_flow P v suffix = El (lit ''number-flow'') [Text (jtext P v), Text suffix]"

definition PlanCard :: "platform \<Rightarrow> pricing_props \<Rightarrow> pricing \<Rightarrow> plan \<Rightarrow> pricing_event view list" where
  "PlanCard P X s plan = (case card_period (pr_billingPeriod s) plan of
     None \<Rightarrow> []
   | Some period \<Rightarrow>
     (let st = resolveButtonState (pp_id period) plan (px_loadingPlan X) (px_mode X) (px_currentSubscription X);
          isCurrent = (bs_reason st = Some Current_Plan);
          isSelected = (pr_selectedPlanId s = Some (pp_id period));
          savings = (if pr_billingPeriod s = Quarterly then quarterlySavings plan else None)
      in [El (lit ''div'') (
        [Btn (bs_disabled st \<or> px_mode X \<noteq> Payment_Mode) (Select_Card (pp_id period)) [],
         El (lit ''h3'') [Text (pl_title plan)]]
        @ show_if isCurrent (El (lit ''span'') [Text ru_active_subscription])
        @ [El (lit ''h4'') [number_flow P (Some (JNum (pp_amount period)))
             (if pr_billingPeriod s = Monthly then ru_per_month else ru_per_3_months)]]
        @ (case savings of Some sv \<Rightarrow> [El (lit ''span'') [Text (ru_approx @ show_int (sv_monthly sv) @ ru_rouble_per_month)]] | None \<Rightarrow> [])
        @ [El (lit ''p'') [Text (pl_description plan)],
           if px_mode X = Payment_Mode
           then Btn (bs_disabled st) (Select_Card (pp_id period)) [Text (if isSelected then ru_selected else ru_choose)]
           else Link (lit ''/auth?plan='' @ plan_id_string (pp_id period)) [Text (bs_label st)],
           El (lit ''span'') [Text (if pr_billingPeriod s = Monthly then ru_pay_1_month
             else (case savings of Some sv \<Rightarrow> ru_pay_3_months_save @ show_int (sv_percent sv) @ lit ''%'' | None \<Rightarrow> ru_pay_3_months))],
           El (lit ''span'') [Text ru_included],
           El (lit ''div'') (map (\<lambda>feature. El (lit ''span'') [Text feature]) (pl_features plan))])]))"

text \<open>\<^verbatim>\<open>v > 0\<close> on a value of any type.\<close>

definition js_positive :: "platform \<Rightarrow> jval \<Rightarrow> bool" where
  "js_positive P v = (case v of
     Some (JNum n) \<Rightarrow> 0 < n
   | Some (JBool b) \<Rightarrow> b
   | Some (JStr t) \<Rightarrow> (case pf_to_number P t of Some n \<Rightarrow> 0 < n | None \<Rightarrow> False)
   | Some (JArr xs) \<Rightarrow> (case pf_to_number P (template (pf_number P) (JArr xs)) of Some n \<Rightarrow> 0 < n | None \<Rightarrow> False)
   | _ \<Rightarrow> False)"

definition order_total :: "platform \<Rightarrow> pricing \<Rightarrow> plan_period \<Rightarrow> 'e view list" where
  "order_total P s period = (case pr_promoDetails s of
     Some d \<Rightarrow> [El (lit ''span'') [Text (jtext P (pd_originalAmount d) @ ru_rouble_suffix)], number_flow P (pd_finalAmount d) []]
   | None \<Rightarrow> [number_flow P (Some (JNum (pp_amount period))) []])"

definition order_view :: "platform \<Rightarrow> pricing_props \<Rightarrow> pricing \<Rightarrow> plan \<times> plan_period \<Rightarrow> pricing_event view" where
  "order_view P X s sel = (case sel of (plan, period) \<Rightarrow> El (lit ''div'') (
     [El (lit ''h3'') [Text ru_checkout],
      El (lit ''h4'') [Text (pl_title plan)],
      El (lit ''p'') [Text (ru_plan_bullet @ pp_label period)],
      El (lit ''div'') [Text ru_base_price, Text (pf_number P (pp_amount period) @ ru_rouble_suffix)]]
     @ (case pr_child s of Some ch \<Rightarrow> [map_view In_Promo (promo_view P (ch_state ch))] | None \<Rightarrow> [])
     @ (case pr_promoDetails s of
          Some d \<Rightarrow> show_if (js_positive P (pd_discountAmount d)) (El (lit ''div'')
            [Text (ru_promo_discount_open @ jtext P (pd_discountPercent d) @ lit ''%)''),
             Text (lit ''-'' @ jtext P (pd_discountAmount d) @ ru_rouble_suffix)])
        | None \<Rightarrow> [])
     @ [El (lit ''div'') (Text ru_total_due # order_total P s period),
        Btn (px_loadingPlan X \<noteq> None) Pay
          [Text (if px_loadingPlan X = pr_selectedPlanId s then ru_creating_payment else ru_pay)]]))"

definition pricing_view :: "platform \<Rightarrow> pricing_props \<Rightarrow> pricing \<Rightarrow> pricing_event view" where
  "pricing_view P X s =
     (let plans = safePlans (px_plans X); maxDiscount = maxQuarterlyDiscountPercent plans in
      if plans = [] then El [] []
      else El (lit ''div'') (
        [El (lit ''h2'') [Text ru_choose_subscription],
         El (lit ''p'') [Text ru_pricing_lead],
         El (lit ''span'') [Text ru_one_month],
         Btn False Switch_Billing [],
         El (lit ''span'') (Text ru_three_months # show_if (0 < maxDiscount) (El (lit ''span'') [Text (ru_minus @ show_int maxDiscount @ lit ''%'')])),
         El (lit ''div'') (concat (map (PlanCard P X s) plans))]
        @ (case selectedPeriodAndPlan X s of
             Some sel \<Rightarrow> show_if (px_mode X = Payment_Mode) (order_view P X s sel) | None \<Rightarrow> [])))"

definition Pricing04 :: "platform \<Rightarrow> pricing_props \<Rightarrow> (pricing, pricing_event, pricing_call, nat \<times> jsstr) component" where
  "Pricing04 P X = \<lparr>cp_view = pricing_view P X, cp_ext = (\<lambda>_ _. False), cp_handle = pricing_handle X,
     cp_resume = pricing_resume\<rparr>"

definition pricing_start :: "pricing_props \<Rightarrow> (pricing, pricing_call, nat \<times> jsstr) ui" where
  "pricing_start X = apply_reaction (render_child X (pricing_init X)) [] []"

lemma Pricing04_sel [simp]:
  "cp_view (Pricing04 P X) = pricing_view P X" "cp_ext (Pricing04 P X) = (\<lambda>_ _. False)"
  "cp_handle (Pricing04 P X) = pricing_handle X" "cp_resume (Pricing04 P X) = pricing_resume"
  by (simp_all add: Pricing04_def)

subsection \<open>The plan chooser\<close>

record chooser =
  cz_planCode :: plan_code
  cz_periodId :: plan_id
  cz_promoInput :: jsstr

definition chooser_plan :: "plan list \<Rightarrow> plan_code \<Rightarrow> plan option" where
  "chooser_plan plans code = (case find (\<lambda>plan. pl_code plan = code) (safePlans plans) of
     Some p \<Rightarrow> Some p | None \<Rightarrow> at_index (safePlans plans) 0)"

definition chooser_init :: "plan list \<Rightarrow> plan_id option \<Rightarrow> chooser" where
  "chooser_init plans initialPlan =
     (let initial = (case findPlan plans initialPlan of Some p \<Rightarrow> Some p | None \<Rightarrow> at_index (safePlans plans) 0);
          planCode = (case initial of Some p \<Rightarrow> pl_code p | None \<Rightarrow> Premium_Plan);
          currentPlan = chooser_plan plans planCode;
          initialPeriod = (case currentPlan of None \<Rightarrow> None
            | Some p \<Rightarrow> (case find (\<lambda>period. Some (pp_id period) = initialPlan) (pl_periods p) of
                Some q \<Rightarrow> Some q | None \<Rightarrow> at_index (pl_periods p) 0))
      in \<lparr>cz_planCode = planCode, cz_periodId = (case initialPeriod of Some q \<Rightarrow> pp_id q | None \<Rightarrow> Basic),
          cz_promoInput = []\<rparr>)"

definition chooser_period :: "plan list \<Rightarrow> chooser \<Rightarrow> plan_period option" where
  "chooser_period plans s = (case chooser_plan plans (cz_planCode s) of
     None \<Rightarrow> None
   | Some p \<Rightarrow> (case find (\<lambda>item. pp_id item = cz_periodId s) (pl_periods p) of
       Some q \<Rightarrow> Some q | None \<Rightarrow> at_index (pl_periods p) 0))"

datatype chooser_event =
    Choose_Plan plan
  | Choose_Period plan_id
  | Type_Promo jsstr
  | Choose_Select plan_id

fun chooser_handle :: "chooser_event \<Rightarrow> chooser \<Rightarrow> (chooser, plan_id, unit) reaction" where
  "chooser_handle (Choose_Plan plan) s =
     (s\<lparr>cz_planCode := pl_code plan, cz_periodId := (case at_index (pl_periods plan) 0 of Some q \<Rightarrow> pp_id q | None \<Rightarrow> Basic)\<rparr>, [], [])"
| "chooser_handle (Choose_Period i) s = (s\<lparr>cz_periodId := i\<rparr>, [], [])"
| "chooser_handle (Type_Promo x) s = (s\<lparr>cz_promoInput := toUpperCase x\<rparr>, [], [])"
| "chooser_handle (Choose_Select i) s = (s, [Call i], [])"

definition chooser_href :: "plan_period \<Rightarrow> chooser \<Rightarrow> exn + jsstr" where
  "chooser_href period s =
     (let base = lit ''/auth?plan='' @ plan_id_string (pp_id period) in
      if truthy (trim (cz_promoInput s))
      then (case encodeURIComponent (trim (cz_promoInput s)) of
              Inl e \<Rightarrow> Inl e | Inr c \<Rightarrow> Inr (base @ lit ''&promo='' @ c))
      else Inr base)"

definition chooser_view :: "plan list \<Rightarrow> plan_id option \<Rightarrow> pricing_mode \<Rightarrow> chooser \<Rightarrow> exn + chooser_event view list" where
  "chooser_view plans loadingPlan mode s = (case (chooser_plan plans (cz_planCode s), chooser_period plans s) of
     (Some currentPlan, Some period) \<Rightarrow>
       (let isPayment = (mode = Payment_Mode);
            buttonText = (if loadingPlan = Some (pp_id period) then ru_creating_payment
                          else if isPayment then ru_pay else ru_continue);
            control = (if isPayment then Inr (Btn (loadingPlan \<noteq> None) (Choose_Select (pp_id period)) [Text buttonText])
                       else (case chooser_href period s of Inl e \<Rightarrow> Inl e | Inr href \<Rightarrow> Inr (Link href [Text buttonText])))
        in case control of
             Inl e \<Rightarrow> Inl e
           | Inr c \<Rightarrow> Inr [El (lit ''div'') [
               El (lit ''div'') (map (\<lambda>plan. Btn False (Choose_Plan plan) [Text (pl_title plan)]) (safePlans plans)),
               El (lit ''h3'') [Text (pl_title currentPlan)],
               El (lit ''p'') [Text (pl_description currentPlan)],
               El (lit ''ul'') (map (\<lambda>feature. El (lit ''li'') [Text feature]) (pl_features currentPlan)),
               El (lit ''div'') (map (\<lambda>item. Btn False (Choose_Period (pp_id item))
                 [Text (pp_label item), Text (formatRub (pp_amount item))]) (pl_periods currentPlan)),
               El (lit ''div'') [Text ru_total, El (lit ''strong'') [Text (formatRub (pp_amount period))],
                 Input False (lit ''text'') (cz_promoInput s) Type_Promo, c]]])
   | _ \<Rightarrow> Inr [])"

subsection \<open>Which cards can be chosen\<close>

lemma planCodeOf_string [simp]:
  "planCodeOf (plan_id_string i) = Some (if i = Basic \<or> i = Basic_3m then Premium_Plan else Vip_Plan)"
  by (cases i) (simp_all add: planCodeOf_def)

text \<open>The subscription in force already is this very period, or is VIP while the card is Premium.\<close>

definition owned_or_downgrade :: "current_subscription option \<Rightarrow> plan \<Rightarrow> plan_id \<Rightarrow> bool" where
  "owned_or_downgrade sub plan i \<longleftrightarrow> (case sub of None \<Rightarrow> False
     | Some c \<Rightarrow> su_status c = lit ''active'' \<and>
         (su_plan c = plan_id_string i \<or> planCodeOf (su_plan c) = Some Vip_Plan \<and> pl_code plan = Premium_Plan))"

lemma resolveButtonState_enabled:
  "\<not> bs_disabled (resolveButtonState i plan lp mode sub) \<longleftrightarrow> lp = None \<and> \<not> owned_or_downgrade sub plan i"
  by (cases "pl_code plan")
     (auto simp: resolveButtonState_def owned_or_downgrade_def Let_def split: option.splits plan_code.splits)

lemma offers_map_view [simp]: "offers (map_view f v) e \<longleftrightarrow> (\<exists>e0. e = f e0 \<and> offers v e0)"
  by (induction v) auto

lemma card_period_in: "card_period b plan = Some period \<Longrightarrow> period \<in> set (pl_periods plan)"
  by (auto simp: card_period_def at_index_def split: if_splits option.splits)

lemma offers_number_flow [simp]: "\<not> offers (number_flow P v suffix) e"
  by (simp add: number_flow_def)

lemma offers_PlanCard:
  assumes "v \<in> set (PlanCard P X s plan)" "offers v e"
  shows "\<exists>period \<in> set (pl_periods plan).
     e = Select_Card (pp_id period) \<and> px_mode X = Payment_Mode \<and> px_loadingPlan X = None \<and>
     \<not> owned_or_downgrade (px_currentSubscription X) plan (pp_id period)"
proof (cases "card_period (pr_billingPeriod s) plan")
  case None
  with assms(1) show ?thesis by (simp add: PlanCard_def)
next
  case (Some period)
  let ?st = "resolveButtonState (pp_id period) plan (px_loadingPlan X) (px_mode X) (px_currentSubscription X)"
  have "e = Select_Card (pp_id period) \<and> px_mode X = Payment_Mode \<and> \<not> bs_disabled ?st"
    using assms unfolding PlanCard_def Some Let_def
    by (cases "px_mode X") (auto split: if_splits option.splits)
  then show ?thesis
    using card_period_in [OF Some] resolveButtonState_enabled by blast
qed

lemma offers_order_total [simp]: "v \<in> set (order_total P s period) \<Longrightarrow> \<not> offers v e"
  by (auto simp: order_total_def split: option.splits)

lemma offers_order: "offers (order_view P X s sel) (Select_Card i) \<Longrightarrow> False"
  by (auto simp: order_view_def split: prod.splits option.splits if_splits)

text \<open>C18: A plan can be chosen in the price list only in payment mode, only while no payment is being
  created, only for a period that is on sale, and never for the period the visitor already has nor
  for Premium while VIP is in force.\<close>

theorem Pricing04_selectable:
  assumes "offers (pricing_view P X s) (Select_Card i)"
  shows "\<exists>plan \<in> set (px_plans X). \<exists>period \<in> set (pl_periods plan). pp_id period = i \<and>
    px_mode X = Payment_Mode \<and> px_loadingPlan X = None \<and> \<not> owned_or_downgrade (px_currentSubscription X) plan i"
proof -
  have "\<exists>plan \<in> set (safePlans (px_plans X)). \<exists>v \<in> set (PlanCard P X s plan). offers v (Select_Card i)"
    using assms unfolding pricing_view_def Let_def
    by (auto dest: offers_order split: if_splits option.splits)
  then obtain plan v where plan: "plan \<in> set (safePlans (px_plans X))" "v \<in> set (PlanCard P X s plan)" "offers v (Select_Card i)"
    by blast
  from offers_PlanCard [OF plan(2,3)] plan(1) show ?thesis by (auto simp: safePlans_def)
qed

subsection \<open>Savings\<close>

lemma fl64_pos_iff: "0 < fl64 x \<Longrightarrow> 0 < x"
proof (rule ccontr)
  assume fl: "0 < fl64 x" and "\<not> 0 < x"
  then have x: "x < 0" by (cases "x = 0") simp_all
  let ?u = "2 powi (binade \<bar>x\<bar> - 52) :: rat"
  have u: "0 < ?u" by simp
  have "x / ?u \<le> of_int 0" using x u by (simp add: divide_nonpos_pos)
  then have "round_half_even (x / ?u) \<le> 0" by (rule round_half_even_le)
  then have "of_int (round_half_even (x / ?u)) * ?u \<le> 0" using u by (simp add: mult_nonpos_nonneg)
  moreover have "fl64 x = of_int (round_half_even (x / ?u)) * ?u" using x by (simp add: fl64_def Let_def)
  ultimately show False using fl by simp
qed

text \<open>C32: The saving shown for three months is between 0 and 100 percent and never more than the price
  of three single months, with the rounding of double arithmetic taken into account.\<close>

theorem quarterlySavings_bounds:
  assumes prices: "\<forall>p \<in> set (pl_periods plan). 0 \<le> pp_amount p" and some: "quarterlySavings plan = Some sv"
  shows "0 \<le> sv_percent sv \<and> sv_percent sv \<le> 100 \<and> 0 < sv_absolute sv \<and>
    sv_absolute sv \<le> fl64 (pp_amount (pl_periods plan ! 0) * 3)"
proof -
  let ?m = "pp_amount (pl_periods plan ! 0)" and ?q = "pp_amount (pl_periods plan ! 1)"
  let ?base = "fl64 (?m * 3)"
  define ab where "ab = max 0 (fl64 (?base - ?q))"
  have len: "1 < length (pl_periods plan)"
    and pos: "0 < ab" and sv: "sv_percent sv = Math_round (fl64 (fl64 (ab / ?base) * 100))" "sv_absolute sv = ab"
    using some by (auto simp: quarterlySavings_def at_index_def Let_def ab_def split: if_splits)
  have "pl_periods plan ! 0 \<in> set (pl_periods plan)" "pl_periods plan ! 1 \<in> set (pl_periods plan)"
    using len by (auto intro: nth_mem)
  then have "0 \<le> ?m" "0 \<le> ?q" using prices by blast+
  then have base: "0 \<le> ?base" "is_double ?base" by (simp_all add: fl64_nonneg is_double_fl64)
  have "ab = fl64 (?base - ?q)" "0 < fl64 (?base - ?q)" using pos by (auto simp: ab_def max_def split: if_splits)
  then have le: "ab \<le> ?base"
    using fl64_le [of "?base - ?q" ?base] fl64_pos_iff [of "?base - ?q"] base(2) \<open>0 \<le> ?q\<close> by simp
  then have ratio: "0 \<le> ab / ?base" "ab / ?base \<le> 1" using pos by (simp_all add: divide_le_eq)
  then have r1: "0 \<le> fl64 (ab / ?base)" "fl64 (ab / ?base) \<le> 1" by (simp_all add: fl64_nonneg fl64_le)
  then have "0 \<le> fl64 (fl64 (ab / ?base) * 100)" "fl64 (fl64 (ab / ?base) * 100) \<le> 100"
    by (simp_all add: fl64_nonneg fl64_le)
  then show ?thesis using Math_round_bounds [of 0 _ 100] pos le sv by simp
qed

theorem quarterlySavings_bounds_witness:
  "\<exists>sv. quarterlySavings default_premium = Some sv \<and> sv_absolute sv = 92 \<and> 0 \<le> sv_percent sv \<and> sv_percent sv \<le> 100"
proof -
  obtain sv where sv: "quarterlySavings default_premium = Some sv" "sv_absolute sv = 92"
    by (simp add: quarterlySavings_def default_premium_def at_index_def fl64_double)
  have "\<forall>p \<in> set (pl_periods default_premium). 0 \<le> pp_amount p" by (simp add: default_premium_def)
  from quarterlySavings_bounds [OF this sv(1)] sv show ?thesis by blast
qed

subsection \<open>A promo code checked for another plan\<close>

definition sample_props :: pricing_props where
  "sample_props = \<lparr>px_plans = [default_premium, default_vip], px_initialPlan = Some Basic, px_initialPromoCode = [],
     px_loadingPlan = None, px_mode = Payment_Mode, px_currentSubscription = None\<rparr>"

lemma sample_props_sel [simp]:
  "px_mode sample_props = Payment_Mode" "safePlans (px_plans sample_props) = [default_premium, default_vip]"
  "px_loadingPlan sample_props = None" "px_currentSubscription sample_props = None"
  "px_initialPlan sample_props = Some Basic" "px_initialPromoCode sample_props = []"
  by (simp_all add: sample_props_def safePlans_def default_premium_def default_vip_def)

lemma selected_sample: "\<exists>sel. selected_in i [default_premium, default_vip] = Some sel"
  by (cases i) (simp_all add: default_premium_def default_vip_def)

lemma selected_sample_found [simp]: "selected_in i [default_premium, default_vip] \<noteq> None"
  using selected_sample [of i] by auto

declare selected_in.simps [simp del]

text \<open>The price list with the given plan selected and the given field mounted.\<close>

definition with_child :: "plan_id \<Rightarrow> nat \<Rightarrow> promo \<Rightarrow> pricing" where
  "with_child i n c = \<lparr>pr_billingPeriod = Monthly, pr_selectedPlanId = Some i, pr_promoCode = [], pr_promoDetails = None,
     pr_child = Some \<lparr>ch_number = n, ch_key = i, ch_state = c\<rparr>, pr_mounts = n + 1\<rparr>"

lemma promo_mount_empty [simp]: "promo_mount [] c = (c, [], [])"
  by (simp add: promo_mount_def)

lemma pricing_start_sample:
  "pricing_start sample_props = idle_with (with_child Basic 0 (promo_init (lit ''basic'') []))"
  by (simp add: pricing_start_def pricing_init_def render_child_def selectedPeriodAndPlan_def lift_child_def with_child_def
      billingPeriodForPlan_def findPlan_def at_index_def, simp add: default_premium_def)

lemma sample_offers_child:
  assumes "offers (promo_view P c) e"
  shows "offers (pricing_view P sample_props (with_child i n c)) (In_Promo e)"
proof -
  obtain sel where sel: "selected_in i [default_premium, default_vip] = Some sel"
    using selected_sample by blast
  have "offers (order_view P sample_props (with_child i n c) sel) (In_Promo e)"
    using assms by (cases sel) (simp add: order_view_def with_child_def)
  then show ?thesis
    by (simp add: pricing_view_def Let_def selectedPeriodAndPlan_def sel with_child_def)
qed

lemma sample_offers_card: "offers (pricing_view P sample_props (with_child Basic n c)) (Select_Card Vip)"
  by (simp add: pricing_view_def Let_def PlanCard_def card_period_def at_index_def with_child_def,
      simp add: default_vip_def resolveButtonState_def)

theorem Pricing04_selectable_witness:
  "offers (pricing_view promo_platform sample_props (with_child Basic 0 (promo_init [] []))) (Select_Card Vip) \<and>
   (\<exists>plan \<in> set (px_plans sample_props). \<exists>period \<in> set (pl_periods plan). pp_id period = Vip)"
proof -
  have "offers (pricing_view promo_platform sample_props (with_child Basic 0 (promo_init [] []))) (Select_Card Vip)"
    by (rule sample_offers_card)
  with Pricing04_selectable [OF this] show ?thesis by blast
qed

lemma sample_child_step:
  assumes "ui_reach (Pricing04 P sample_props) any s0 \<lparr>ui_comp = with_child i n c, ui_wait = ws, ui_out = out\<rparr>"
    "offers (promo_view P c) e" "promo_handle e c = (c', map Fetch rqs, ps)"
  shows "ui_reach (Pricing04 P sample_props) any s0
    \<lparr>ui_comp = with_child i n c', ui_wait = ws @ map (Pair n) ps, ui_out = out @ map Fetch rqs\<rparr>"
proof -
  have "foldl on_confirm s (map Fetch rqs) = s" "concat (map child_fetch (map Fetch rqs)) = map Fetch rqs" for s
    by (induction rqs arbitrary: s) simp_all
  then have "pricing_handle sample_props (In_Promo e) (with_child i n c) = (with_child i n c', map Fetch rqs, map (Pair n) ps)"
    using assms(3) by (simp add: with_child_def lift_child_def)
  with reach_user [OF assms(1), of "In_Promo e"] sample_offers_child [OF assms(2)] show ?thesis by simp
qed

text \<open>C40: A promo code that is being checked for one plan while the visitor chooses another is confirmed
  for the plan that was left: the order then shows the discounted price of the former plan as the
  total of the chosen one, although no discount was ever asked for it.\<close>

theorem Pricing04_stale_promo:
  "\<exists>s. ui_reach (Pricing04 P sample_props) any (pricing_start sample_props) s \<and>
     pr_selectedPlanId (ui_comp s) = Some Vip \<and> ui_wait s = [] \<and>
     pr_promoDetails (ui_comp s) = Some discount_details \<and>
     ui_out s = [Fetch (preview_request (lit ''basic'') (lit ''SALE''))]"
proof -
  let ?C = "Pricing04 P sample_props" and ?s0 = "pricing_start sample_props"
  let ?c = "promo_init (lit ''basic'') []" and ?rq = "preview_request (lit ''basic'') (lit ''SALE'')"
  let ?c2 = "?c\<lparr>pc_open := True, pc_input := lit ''SALE''\<rparr>"
  have sale: "toUpperCase (lit ''SALE'') = lit ''SALE''" "trim (lit ''SALE'') = lit ''SALE''"
    by (simp_all add: js_simps toUpperCase_def upper_cu_def trim_def trim_start_def trim_end_def is_ws_def)
  have "ui_reach ?C any ?s0 \<lparr>ui_comp = with_child Basic 0 ?c, ui_wait = [], ui_out = []\<rparr>"
    using reach_init [of ?C any ?s0] by (simp add: pricing_start_sample)
  from sample_child_step [OF this, of Open_Promo "?c\<lparr>pc_open := True\<rparr>" "[]" "[]"]
  have "ui_reach ?C any ?s0 \<lparr>ui_comp = with_child Basic 0 (?c\<lparr>pc_open := True\<rparr>), ui_wait = [], ui_out = []\<rparr>"
    by (simp add: promo_view_def promo_init_def)
  from sample_child_step [OF this, of "Type_Code (lit ''SALE'')" ?c2 "[]" "[]"]
  have "ui_reach ?C any ?s0 \<lparr>ui_comp = with_child Basic 0 ?c2, ui_wait = [], ui_out = []\<rparr>"
    by (simp add: promo_view_def promo_init_def isLoading_def isSuccess_def type_code_def sale)
  from sample_child_step [OF this, of Apply_Code "?c2\<lparr>pc_promo := Loading\<rparr>" "[?rq]" "[lit ''SALE'']"]
  have "ui_reach ?C any ?s0 \<lparr>ui_comp = with_child Basic 0 (?c2\<lparr>pc_promo := Loading\<rparr>),
      ui_wait = [(0, lit ''SALE'')], ui_out = [Fetch ?rq]\<rparr>"
    by (simp add: promo_view_def promo_init_def isLoading_def isSuccess_def apply_code_def Let_def sale)
  from reach_user [OF this, of "Select_Card Vip"] sample_offers_card [of P 0]
  have "ui_reach ?C any ?s0 \<lparr>ui_comp = with_child Vip 1 (promo_init (lit ''vip'') []),
      ui_wait = [] @ (0, lit ''SALE'') # [], ui_out = [Fetch ?rq]\<rparr>"
    by (simp add: with_child_def onSelectPlanId_def render_child_def selectedPeriodAndPlan_def lift_child_def)
  from reach_arrive [OF this, of discount_answer] show ?thesis
    by (intro exI [of _ "apply_reaction (pricing_resume (0, lit ''SALE'') discount_answer (with_child Vip 1 (promo_init (lit ''vip'') []))) [] [Fetch ?rq]"])
       (simp add: pricing_resume_def with_child_def)
qed

subsection \<open>The plan chooser\<close>

lemma find_in: "find P xs = Some x \<Longrightarrow> x \<in> set xs"
  by (auto simp: find_Some_iff)

lemma at_index_in: "at_index xs i = Some x \<Longrightarrow> x \<in> set xs"
  by (auto simp: at_index_def split: if_splits)

text \<open>As long as one plan is on sale, the chooser shows a plan on sale and one of its own periods,
  whatever was chosen before: the total is always a price of the plan that is shown.\<close>

lemma PlanChooser_consistent:
  assumes "safePlans plans \<noteq> []"
  shows "\<exists>plan period. chooser_plan plans (cz_planCode s) = Some plan \<and> chooser_period plans s = Some period \<and>
    plan \<in> set plans \<and> period \<in> set (pl_periods plan)"
proof -
  have "\<exists>plan \<in> set (safePlans plans). chooser_plan plans (cz_planCode s) = Some plan"
    using assms by (auto simp: chooser_plan_def at_index_def split: option.split dest: find_in)
  then obtain plan where plan: "chooser_plan plans (cz_planCode s) = Some plan" "plan \<in> set plans" "pl_periods plan \<noteq> []"
    by (auto simp: safePlans_def)
  then have "\<exists>period \<in> set (pl_periods plan). chooser_period plans s = Some period"
    by (auto simp: chooser_period_def at_index_def split: option.split dest: find_in)
  with plan show ?thesis by blast
qed

end
