(* ===== verification/Dashboard.thy ===== *)
theory Dashboard
  imports Pricing
begin

section \<open>The account page (web/components/Dashboard.tsx)\<close>

text \<open>
  The page of a signed-in visitor: the state of the subscription, the price list of
  \<^theory_text>\<open>Pricing\<close> with the payment, the link into the Happ application, automatic renewal and signing
  out. The page asks for the session and the site configuration with \<^verbatim>\<open>Promise.all\<close>: \<open>db_loads\<close> holds the
  answers that are there until both are. A body is read as the type that the source asserts; a
  field of another type reads as the empty text. The time of day passes by the event \<open>Clock\<close>;
  the data of the subscription are computed at the moment the session is set. Leaving the page is
  not modelled.
\<close>

subsection \<open>Data\<close>

record session =
  ses_email :: jsstr
  ses_plan :: jsstr
  ses_status :: jsstr
  ses_expires_at :: jsstr
  ses_auto_renew :: bool

definition session_of :: "json \<Rightarrow> session" where
  "session_of j = (let sub = jget_safe j (lit ''subscription'') in
     \<lparr>ses_email = str_at (jget_safe j (lit ''user'')) (lit ''email''), ses_plan = str_at sub (lit ''plan''),
      ses_status = str_at sub (lit ''status''), ses_expires_at = str_at sub (lit ''expires_at''),
      ses_auto_renew = jtruthy (jopt sub (lit ''auto_renew''))\<rparr>)"

definition plan_id_of :: "jsstr \<Rightarrow> plan_id option" where
  "plan_id_of s = find (\<lambda>i. plan_id_string i = s) [Basic, Basic_3m, Vip, Vip_3m]"

definition period_of :: "json \<Rightarrow> plan_period list" where
  "period_of j = (case plan_id_of (str_at (Some j) (lit ''id'')) of
     None \<Rightarrow> []
   | Some i \<Rightarrow> [\<lparr>pp_id = i, pp_label = str_at (Some j) (lit ''label''), pp_duration_days = num_at (Some j) (lit ''duration_days''),
       pp_amount = num_at (Some j) (lit ''amount''), pp_currency = str_at (Some j) (lit ''currency'')\<rparr>])"

definition plan_of :: "json \<Rightarrow> plan" where
  "plan_of j = \<lparr>pl_code = (if has_prop (lit ''code'') (plan_code_string Vip_Plan) j then Vip_Plan else Premium_Plan),
     pl_title = str_at (Some j) (lit ''title''), pl_description = str_at (Some j) (lit ''description''),
     pl_periods = concat (map period_of (jarray (jget_safe j (lit ''periods'')))),
     pl_features = map (\<lambda>f. case f of JStr s \<Rightarrow> s | _ \<Rightarrow> []) (jarray (jget_safe j (lit ''features'')))\<rparr>"

definition config_of :: "json \<Rightarrow> site_config" where
  "config_of j = (let d = jget_safe j (lit ''downloads''); s = jget_safe j (lit ''support'') in
     \<lparr>sc_brand = str_at (Some j) (lit ''brand''), sc_plans = map plan_of (jarray (jget_safe j (lit ''plans''))),
      sc_downloads = \<lparr>dl_android = str_at d (lit ''android''), dl_windows = str_at d (lit ''windows''),
        dl_macos = str_at d (lit ''macos''), dl_linux = str_at d (lit ''linux''), dl_happ = str_at d (lit ''happ''),
        dl_androidtv = str_at d (lit ''androidtv'')\<rparr>,
      sc_support = \<lparr>su_email = str_at s (lit ''email''), su_telegram = str_at s (lit ''telegram''),
        su_whatsapp = str_at s (lit ''whatsapp''), su_max = str_at s (lit ''max'')\<rparr>\<rparr>)"

subsection \<open>The subscription\<close>

text \<open>What the platform knows of dates: the instant a text names, in milliseconds, and an instant in
  long form.\<close>

record dates =
  dt_parse :: "jsstr \<Rightarrow> rat option"
  dt_long :: "rat \<Rightarrow> jsstr"

definition PLAN_BADGE :: "jsstr \<Rightarrow> jsstr" where
  "PLAN_BADGE plan = (
     if plan = lit ''vip'' \<or> plan = lit ''vip_3m'' then lit ''VIP''
     else if plan = lit ''basic'' \<or> plan = lit ''basic_3m'' then lit ''Premium''
     else if plan = lit ''trial'' then lit ''Trial''
     else lit ''Free'')"

record subscription_meta =
  sm_formatted :: jsstr
  sm_daysLeft :: int
  sm_progress :: rat
  sm_planMeta :: jsstr
  sm_isActive :: bool
  sm_isFree :: bool

text \<open>The difference of the instants, and the days, are doubles. A text that is not a date makes the formatter
  throw while the page renders: \<^const>\<open>None\<close>.\<close>

definition days_left :: "rat \<Rightarrow> int" where
  "days_left ms = max 0 \<lceil>fl64 (ms / (1000 * 60 * 60 * 24))\<rceil>"

definition subscriptionMeta :: "dates \<Rightarrow> rat \<Rightarrow> session \<Rightarrow> subscription_meta option" where
  "subscriptionMeta D now s = (
     let isFree = (ses_plan s = lit ''free'');
         expiresAtRaw = ses_expires_at s;
         expiresDate = dt_parse D expiresAtRaw in
     if truthy expiresAtRaw \<and> expiresDate = None then None else
     let formatted = (if truthy expiresAtRaw then dt_long D (the expiresDate) else ru_em_dash);
         ms = (if truthy expiresAtRaw then fl64 (the expiresDate - now) else 0);
         daysLeft = days_left ms;
         is3Months = ends_with (ses_plan s) (lit ''_3m'');
         periodDays = (if is3Months then 90 else 30);
         progress = (if isFree then 1 else min 1 (max 0 (fl64 (of_int daysLeft / periodDays))));
         isActive = (isFree \<or> ses_status s = lit ''active'' \<and> daysLeft > 0)
     in Some \<lparr>sm_formatted = formatted, sm_daysLeft = daysLeft, sm_progress = progress,
          sm_planMeta = PLAN_BADGE (ses_plan s), sm_isActive = isActive, sm_isFree = isFree\<rparr>)"

definition pluralizeDays :: "nat \<Rightarrow> jsstr" where
  "pluralizeDays n = (let mod10 = n mod 10; mod100 = n mod 100 in
     if mod10 = 1 \<and> mod100 \<noteq> 11 then ru_day
     else if 2 \<le> mod10 \<and> mod10 \<le> 4 \<and> (mod100 < 10 \<or> 20 \<le> mod100) then ru_days_few
     else ru_days_many)"

subsection \<open>State and actions\<close>

datatype dash_wait =
    W_Session
  | W_Config
  | W_AutoRenew bool
  | W_Payment
  | W_Happ
  | W_Logout
  | W_Pricing "nat \<times> jsstr"

datatype dash_call = Replace jsstr

record dash_env =
  de_platform :: platform
  de_dates :: dates
  de_plan :: "jsstr option"
  de_promo :: "jsstr option"

record dashboard =
  db_session :: "session option"
  db_now :: rat
  db_config :: site_config
  db_message :: jsstr
  db_error :: jsstr
  db_loadingPayment :: "plan_id option"
  db_loadingAutoRenew :: bool
  db_showCancelConfirm :: bool
  db_pricing :: "pricing option"
  db_clock :: rat
  db_loads :: "response option \<times> response option"

type_synonym dash_reaction = "(dashboard, dash_call, dash_wait) reaction"

definition dashboard_init :: "rat \<Rightarrow> dashboard" where
  "dashboard_init now = \<lparr>db_session = None, db_now = now, db_config = defaultSiteConfig, db_message = [], db_error = [],
     db_loadingPayment = None, db_loadingAutoRenew = False, db_showCancelConfirm = False, db_pricing = None,
     db_clock = now, db_loads = (None, None)\<rparr>"

definition load :: "dashboard \<Rightarrow> dash_reaction" where
  "load s = (s, [Fetch (fetch_plain (lit ''GET'') (lit ''/api/session'')), Fetch (fetch_plain (lit ''GET'') (lit ''/api/site-config''))],
     [W_Session, W_Config])"

text \<open>The rest of \<^verbatim>\<open>load\<close>, when both answers are there. An exception is not caught: what follows is left
  out.\<close>

definition load_done :: "response \<Rightarrow> response \<Rightarrow> dashboard \<Rightarrow> dash_reaction" where
  "load_done sessionResponse configResponse s = (
     if rs_status sessionResponse = 401 then (s, [Call (Replace (lit ''/auth''))], []) else
     (case (if rs_ok sessionResponse
            then (case json_of sessionResponse of
                    Inl e \<Rightarrow> Inl e | Inr j \<Rightarrow> Inr (s\<lparr>db_session := Some (session_of j), db_now := db_clock s\<rparr>))
            else Inr s) of
        Inl e \<Rightarrow> (s, [], [])
      | Inr s1 \<Rightarrow>
          (if rs_ok configResponse
           then (case json_of configResponse of Inl _ \<Rightarrow> (s1, [], []) | Inr j \<Rightarrow> (s1\<lparr>db_config := config_of j\<rparr>, [], []))
           else (s1, [], []))))"

text \<open>\<^verbatim>\<open>Promise.all\<close>: an answer waits for the other one; after a failure nothing follows.\<close>

definition load_arrived :: "bool \<Rightarrow> exn + response \<Rightarrow> dashboard \<Rightarrow> dash_reaction" where
  "load_arrived is_session a s = (case a of
     Inl _ \<Rightarrow> (s, [], [])
   | Inr r \<Rightarrow>
       (let loads = (if is_session then (Some r, snd (db_loads s)) else (fst (db_loads s), Some r));
            s1 = s\<lparr>db_loads := loads\<rparr> in
        case loads of (Some r1, Some r2) \<Rightarrow> load_done r1 r2 s1 | _ \<Rightarrow> (s1, [], [])))"

definition toggleAutoRenew :: "bool \<Rightarrow> dashboard \<Rightarrow> dash_reaction" where
  "toggleAutoRenew enabled s = (s\<lparr>db_error := [], db_loadingAutoRenew := True\<rparr>,
     [Fetch (fetch_json (lit ''PATCH'') (lit ''/api/subscription/auto-renew'') (JObj [(lit ''enabled'', JBool enabled)]))],
     [W_AutoRenew enabled])"

definition failed_with :: "platform \<Rightarrow> exn \<Rightarrow> dashboard \<Rightarrow> dashboard" where
  "failed_with P e s = s\<lparr>db_error := message_of P e\<rparr>"

definition autorenew_error :: "platform \<Rightarrow> response \<Rightarrow> exn" where
  "autorenew_error P r = (case json_of r of
     Inl e \<Rightarrow> e
   | Inr data \<Rightarrow> if data = JNull then TypeError
       else Error (template (pf_number P) (jor (jget_safe data (lit ''error'')) (JStr ru_autorenew_failed))))"

definition autorenew_done :: "platform \<Rightarrow> bool \<Rightarrow> answer \<Rightarrow> dashboard \<Rightarrow> dash_reaction" where
  "autorenew_done P enabled a s = (
     let s1 = (case a of
         Inl e \<Rightarrow> failed_with P e s
       | Inr r \<Rightarrow>
           if rs_ok r then s\<lparr>db_session := map_option (\<lambda>x. x\<lparr>ses_auto_renew := enabled\<rparr>) (db_session s), db_now := db_clock s\<rparr>
           else failed_with P (autorenew_error P r) s)
     in (s1\<lparr>db_loadingAutoRenew := False\<rparr>, [], []))"

definition createPayment :: "plan_id \<Rightarrow> jsstr \<Rightarrow> dashboard \<Rightarrow> dash_reaction" where
  "createPayment plan appliedPromoCode s =
     (s\<lparr>db_error := [], db_message := [], db_loadingPayment := Some plan\<rparr>,
      [Fetch (fetch_json (lit ''POST'') (lit ''/api/payments/create'')
         (JObj ((lit ''plan'', JStr (plan_id_string plan)) #
            (if truthy appliedPromoCode then [(lit ''promo_code'', JStr appliedPromoCode)] else []))))],
      [W_Payment])"

text \<open>The body of an answer that is read before its status is checked: \<^verbatim>\<open>data.error ?? fallback\<close>.\<close>

definition checked_body :: "platform \<Rightarrow> jsstr \<Rightarrow> answer \<Rightarrow> exn + json" where
  "checked_body P fallback a = (case a of
     Inl e \<Rightarrow> Inl e
   | Inr r \<Rightarrow> (case json_of r of
       Inl e \<Rightarrow> Inl e
     | Inr data \<Rightarrow>
         if data = JNull then Inl TypeError
         else if \<not> rs_ok r then Inl (Error (template (pf_number P) (jnullish (jget_safe data (lit ''error'')) (JStr fallback))))
         else Inr data))"

definition payment_done :: "platform \<Rightarrow> answer \<Rightarrow> dashboard \<Rightarrow> dash_reaction" where
  "payment_done P a s = (case checked_body P ru_payment_not_created a of
     Inl e \<Rightarrow> ((failed_with P e s)\<lparr>db_loadingPayment := None\<rparr>, [], [])
   | Inr data \<Rightarrow>
       if jtruthy (jget_safe data (lit ''confirmation_url''))
       then (s\<lparr>db_loadingPayment := None\<rparr>,
             [Assign (template (pf_number P) (the (jget_safe data (lit ''confirmation_url''))))], [])
       else (s\<lparr>db_message := ru_subscription_activated, db_loadingPayment := None\<rparr>, [], []))"

definition openHapp :: "dashboard \<Rightarrow> dash_reaction" where
  "openHapp s = (s\<lparr>db_error := [], db_message := []\<rparr>,
     [Fetch (fetch_plain (lit ''POST'') (lit ''/api/happ-link''))], [W_Happ])"

definition happ_done :: "platform \<Rightarrow> answer \<Rightarrow> dashboard \<Rightarrow> dash_reaction" where
  "happ_done P a s = (case checked_body P ru_link_not_created a of
     Inl e \<Rightarrow> (failed_with P e s, [], [])
   | Inr data \<Rightarrow>
       if \<not> jtruthy (jget_safe data (lit ''happ_url'')) then (failed_with P (Error ru_link_not_received) s, [], [])
       else (s, [Assign (template (pf_number P) (the (jget_safe data (lit ''happ_url''))))], []))"

definition logout :: "dashboard \<Rightarrow> dash_reaction" where
  "logout s = (s, [Fetch (fetch_plain (lit ''POST'') (lit ''/api/auth/logout''))], [W_Logout])"

definition logout_done :: "answer \<Rightarrow> dashboard \<Rightarrow> dash_reaction" where
  "logout_done a s = (case a of Inl _ \<Rightarrow> (s, [], []) | Inr _ \<Rightarrow> (s, [Call (Replace (lit ''/''))], []))"

subsection \<open>The price list on the page\<close>

text \<open>The source casts the parameter of the address to a plan. A text that names no plan is read as none here: the price list
  finds no plan for either.\<close>

definition selectedPlan :: "dash_env \<Rightarrow> plan_id option" where
  "selectedPlan V = (case de_plan V of None \<Rightarrow> None | Some p \<Rightarrow> plan_id_of p)"

definition promoFromUrl :: "dash_env \<Rightarrow> jsstr" where
  "promoFromUrl V = (case de_promo V of None \<Rightarrow> [] | Some p \<Rightarrow> toUpperCase (trim p))"

definition price_props :: "dash_env \<Rightarrow> dashboard \<Rightarrow> session \<Rightarrow> pricing_props" where
  "price_props V s ses = \<lparr>px_plans = sc_plans (db_config s), px_initialPlan = selectedPlan V,
     px_initialPromoCode = promoFromUrl V, px_loadingPlan = db_loadingPayment s, px_mode = Payment_Mode,
     px_currentSubscription = Some \<lparr>su_plan = ses_plan ses, su_status = ses_status ses\<rparr>\<rparr>"

text \<open>A reaction of the price list: its requests go out, and its call of \<^verbatim>\<open>onSelect\<close> is \<^const>\<open>createPayment\<close>.\<close>

fun price_cmd :: "pricing_call cmd \<Rightarrow> dash_reaction \<Rightarrow> dash_reaction" where
  "price_cmd (Call (Select_Plan i code)) (s, out, ps) = (case createPayment i code s of (s', out', ps') \<Rightarrow> (s', out @ out', ps @ ps'))"
| "price_cmd (Fetch rq) (s, out, ps) = (s, out @ [Fetch rq], ps)"
| "price_cmd (Push u) (s, out, ps) = (s, out @ [Push u], ps)"
| "price_cmd (Assign u) (s, out, ps) = (s, out @ [Assign u], ps)"

definition lift_pricing :: "pricing_reaction \<Rightarrow> dashboard \<Rightarrow> dash_reaction" where
  "lift_pricing r s = (case r of (p, cmds, ps) \<Rightarrow>
     fold price_cmd cmds (s\<lparr>db_pricing := Some p\<rparr>, [], map W_Pricing ps))"

text \<open>After every change the page renders: the price list is mounted with the first session and gets the
  properties of the new state.\<close>

definition render_pricing :: "dash_env \<Rightarrow> dashboard \<Rightarrow> dash_reaction" where
  "render_pricing V s = (case db_session s of
     None \<Rightarrow> (s, [], [])
   | Some ses \<Rightarrow>
       (let X = price_props V s ses in
        lift_pricing (render_child X (case db_pricing s of Some p \<Rightarrow> p | None \<Rightarrow> pricing_init X)) s))"

definition settle :: "dash_env \<Rightarrow> dash_reaction \<Rightarrow> dash_reaction" where
  "settle V r = (case r of (s, out, ps) \<Rightarrow>
     (case render_pricing V s of (s', out', ps') \<Rightarrow> (s', out @ out', ps @ ps')))"

subsection \<open>Events and view\<close>

datatype dash_event =
    Logout
  | Ask_Cancel
  | Keep_Renewal
  | Cancel_Renewal
  | Open_Happ
  | In_Pricing pricing_event
  | Clock rat

definition in_pricing :: "dash_env \<Rightarrow> pricing_event \<Rightarrow> dashboard \<Rightarrow> dash_reaction" where
  "in_pricing V e s = (case (db_session s, db_pricing s) of
     (Some ses, Some p) \<Rightarrow> lift_pricing (pricing_handle (price_props V s ses) e p) s
   | _ \<Rightarrow> (s, [], []))"

fun dash_handle :: "dash_env \<Rightarrow> dash_event \<Rightarrow> dashboard \<Rightarrow> dash_reaction" where
  "dash_handle V Logout s = logout s"
| "dash_handle V Ask_Cancel s = (s\<lparr>db_showCancelConfirm := True\<rparr>, [], [])"
| "dash_handle V Keep_Renewal s = (s\<lparr>db_showCancelConfirm := False\<rparr>, [], [])"
| "dash_handle V Cancel_Renewal s = toggleAutoRenew False (s\<lparr>db_showCancelConfirm := False\<rparr>)"
| "dash_handle V Open_Happ s = openHapp s"
| "dash_handle V (In_Pricing e) s = in_pricing V e s"
| "dash_handle V (Clock t) s = (s\<lparr>db_clock := t\<rparr>, [], [])"

fun dash_resume :: "dash_env \<Rightarrow> dash_wait \<Rightarrow> answer \<Rightarrow> dashboard \<Rightarrow> dash_reaction" where
  "dash_resume V W_Session a s = load_arrived True a s"
| "dash_resume V W_Config a s = load_arrived False a s"
| "dash_resume V (W_AutoRenew enabled) a s = autorenew_done (de_platform V) enabled a s"
| "dash_resume V W_Payment a s = payment_done (de_platform V) a s"
| "dash_resume V W_Happ a s = happ_done (de_platform V) a s"
| "dash_resume V W_Logout a s = logout_done a s"
| "dash_resume V (W_Pricing w) a s = (case db_pricing s of
     None \<Rightarrow> (s, [], []) | Some p \<Rightarrow> lift_pricing (pricing_resume w a p) s)"

definition renewal_view :: "dashboard \<Rightarrow> session \<Rightarrow> subscription_meta \<Rightarrow> dash_event view list" where
  "renewal_view s ses m = show_if (\<not> sm_isFree m \<and> ses_auto_renew ses) (El (lit ''div'')
     [El (lit ''span'') [Text ru_auto_renew],
      El (lit ''strong'') [Text ru_enabled,
        Btn (db_loadingAutoRenew s) Ask_Cancel [Text (if db_loadingAutoRenew s then ru_switching_off else ru_switch_off)]]])"

definition hero_view :: "dashboard \<Rightarrow> session \<Rightarrow> subscription_meta \<Rightarrow> dash_event view" where
  "hero_view s ses m = El (lit ''section'')
     [El (lit ''strong'') [Text (if sm_isActive m then ru_protection_on else ru_subscription_expired)],
      El (lit ''div'') [Text (if sm_isFree m then ru_free_tariff else if sm_isActive m then ru_subscription_active else ru_renewal_needed)],
      El (lit ''h2'') [Text (if sm_isFree m then ru_free_plan
        else if sm_isActive m then ru_days_left @ show_int (sm_daysLeft m) @ lit '' '' @ pluralizeDays (nat (sm_daysLeft m))
        else ru_subscription_expired)],
      El (lit ''p'') [Text (if sm_isFree m then ru_free_lead
        else if sm_isActive m then ru_valid_until @ sm_formatted m @ ru_manage_below
        else ru_expired_lead)],
      El (lit ''div'') ([El (lit ''div'') [Text ru_plan_word, Text (sm_planMeta m)],
        El (lit ''div'') [Text (lit ''Email''), Text (ses_email ses)]] @ renewal_view s ses m)]"

definition notice_view :: "dash_env \<Rightarrow> dashboard \<Rightarrow> dash_event view list" where
  "notice_view V s = show_if (truthy (db_message s) \<or> truthy (db_error s) \<or> truthy_opt (de_plan V))
     (El (lit ''div'') [Text (if truthy (db_error s) then db_error s else if truthy (db_message s) then db_message s
        else ru_plan_chosen)])"

definition platforms :: "(downloads \<Rightarrow> jsstr) list" where
  "platforms = [dl_android, dl_androidtv, dl_windows, dl_macos, dl_linux]"

definition downloads_view :: "dashboard \<Rightarrow> dash_event view" where
  "downloads_view s = El (lit ''section'') (
     [El (lit ''h2'') [Text ru_download_app], El (lit ''p'') [Text ru_download_lead]] @
     map2 (\<lambda>label f. El (lit ''div'') [Text label, Link (f (sc_downloads (db_config s))) [Text ru_download]])
       [lit ''Android'', lit ''TV'', lit ''Windows'', lit ''macOS'', lit ''Linux''] platforms @
     [El (lit ''div'') [Text (lit ''iPhone''), Btn False Open_Happ [Text ru_into_happ]]])"

definition confirm_view :: "dashboard \<Rightarrow> dash_event view list" where
  "confirm_view s = show_if (db_showCancelConfirm s) (El (lit ''div'')
     [El (lit ''h3'') [Text ru_are_you_sure], El (lit ''p'') [Text ru_cancel_warning],
      Btn False Keep_Renewal [Text ru_keep_enabled], Btn False Cancel_Renewal [Text ru_switch_off_anyway]])"

definition support_links :: "dashboard \<Rightarrow> jsstr \<Rightarrow> dash_event view list" where
  "support_links s label = [Link (su_telegram (sc_support (db_config s))) [Text (lit ''Telegram'')],
     Link (lit ''mailto:'' @ su_email (sc_support (db_config s))) [Text label]]"

definition account_view :: "dash_env \<Rightarrow> dashboard \<Rightarrow> session \<Rightarrow> subscription_meta \<Rightarrow> dash_event view" where
  "account_view V s ses m = El (lit ''main'') (
     [El (lit ''header'') (support_links s ru_support),
      El (lit ''aside'')
        [Text (toUpperCase (take 1 (ses_email ses))), Text (ses_email ses), Text (sm_planMeta m),
         Link (lit ''#home'') [Text ru_home], Link (lit ''#subscription'') [Text ru_subscription],
         Link (lit ''#downloads'') [Text ru_download], Link (lit ''/dashboard/vip'') [Text (lit ''VIP'')],
         Btn False Logout [Text ru_sign_out]],
      hero_view s ses m] @ notice_view V s @
     [El (lit ''section'') ([El (lit ''h2'') [Text (if sm_isActive m then ru_renew_or_change else ru_activate_access)]] @
        (case db_pricing s of
           Some p \<Rightarrow> [map_view In_Pricing (pricing_view (de_platform V) (price_props V s ses) p)] | None \<Rightarrow> [])),
      downloads_view s,
      El (lit ''section'') ([El (lit ''h3'') [Text ru_support_24_7], El (lit ''p'') [Text ru_support_lead]] @ support_links s (lit ''Email'') @
        [El (lit ''h3'') [Text ru_account_data], El (lit ''p'') [Text ru_account_lead], Text (ses_email ses)])] @
     confirm_view s)"

definition dash_view :: "dash_env \<Rightarrow> dashboard \<Rightarrow> dash_event view" where
  "dash_view V s = (case db_session s of
     None \<Rightarrow> El (lit ''main'') [El (lit ''p'') [Text ru_loading_dashboard]]
   | Some ses \<Rightarrow> (case subscriptionMeta (de_dates V) (db_now s) ses of
       None \<Rightarrow> El [] []
     | Some m \<Rightarrow> account_view V s ses m))"

definition Dashboard_page :: "dash_env \<Rightarrow> (dashboard, dash_event, dash_call, dash_wait) component" where
  "Dashboard_page V = \<lparr>cp_view = dash_view V, cp_ext = (\<lambda>_ e. \<exists>t. e = Clock t),
     cp_handle = (\<lambda>e s. settle V (dash_handle V e s)), cp_resume = (\<lambda>w a s. settle V (dash_resume V w a s))\<rparr>"

definition dashboard_start :: "rat \<Rightarrow> (dashboard, dash_call, dash_wait) ui" where
  "dashboard_start now = apply_reaction (load (dashboard_init now)) [] []"

lemma Dashboard_sel [simp]:
  "cp_view (Dashboard_page V) = dash_view V" "cp_ext (Dashboard_page V) s e \<longleftrightarrow> (\<exists>t. e = Clock t)"
  "cp_handle (Dashboard_page V) e s = settle V (dash_handle V e s)"
  "cp_resume (Dashboard_page V) w a s = settle V (dash_resume V w a s)"
  by (simp_all add: Dashboard_page_def)

subsection \<open>The data of the subscription\<close>

lemma days_left_pos: "0 < days_left ms \<longleftrightarrow> 0 < ms"
  using fl64_pos [of "ms / (1000 * 60 * 60 * 24)"] fl64_pos_iff [of "ms / (1000 * 60 * 60 * 24)"]
  by (auto simp: days_left_def less_max_iff_disj)

text \<open>C31: What the account page says of a subscription: the ring is filled between empty and full, the days left
  are not negative, and the subscription counts as active exactly for the free plan, or when its status is active
  and its end lies in the future; a session whose end is not a date is not shown at all.\<close>

theorem subscriptionMeta_sound:
  assumes meta: "subscriptionMeta D now s = Some m"
  shows "0 \<le> sm_progress m \<and> sm_progress m \<le> 1 \<and> 0 \<le> sm_daysLeft m \<and>
    (sm_isActive m \<longleftrightarrow> ses_plan s = lit ''free'' \<or>
       ses_status s = lit ''active'' \<and> truthy (ses_expires_at s) \<and> now < the (dt_parse D (ses_expires_at s)))"
proof -
  let ?x = "the (dt_parse D (ses_expires_at s)) - now"
  let ?ms = "if truthy (ses_expires_at s) then fl64 ?x else 0"
  have m: "sm_isActive m \<longleftrightarrow> ses_plan s = lit ''free'' \<or> ses_status s = lit ''active'' \<and> 0 < days_left ?ms"
    "sm_daysLeft m = days_left ?ms" "0 \<le> sm_progress m" "sm_progress m \<le> 1"
    using meta unfolding subscriptionMeta_def Let_def
    by (simp_all only: split: if_splits) (simp_all del: ends_with_def, auto)
  have "0 < days_left ?ms \<longleftrightarrow> truthy (ses_expires_at s) \<and> now < the (dt_parse D (ses_expires_at s))"
    using fl64_pos [of ?x] fl64_pos_iff [of ?x] by (simp add: days_left_pos) auto
  moreover have "0 \<le> sm_daysLeft m" by (simp add: m(2) days_left_def)
  ultimately show ?thesis using m by blast
qed

definition plain_dates :: dates where
  "plain_dates = \<lparr>dt_parse = (\<lambda>t. Some 864000000), dt_long = (\<lambda>_. [])\<rparr>"

definition sample_session :: session where
  "sample_session = \<lparr>ses_email = lit ''a@b'', ses_plan = lit ''vip'', ses_status = lit ''active'',
     ses_expires_at = lit ''2026'', ses_auto_renew = True\<rparr>"

lemma sample_meta: "\<exists>m. subscriptionMeta plain_dates 0 sample_session = Some m \<and> \<not> sm_isFree m"
  by (simp add: subscriptionMeta_def Let_def plain_dates_def sample_session_def)

theorem subscriptionMeta_sound_witness:
  "\<exists>m. subscriptionMeta plain_dates 0 sample_session = Some m \<and> sm_isActive m \<and> 0 \<le> sm_progress m \<and> sm_progress m \<le> 1"
proof -
  obtain m where m: "subscriptionMeta plain_dates 0 sample_session = Some m" using sample_meta by blast
  from subscriptionMeta_sound [OF m] m show ?thesis
    by (auto simp: plain_dates_def sample_session_def)
qed

subsection \<open>One request of a kind at a time\<close>

definition is_fetch :: "'x cmd \<Rightarrow> bool" where
  "is_fetch k \<longleftrightarrow> (case k of Fetch _ \<Rightarrow> True | _ \<Rightarrow> False)"

definition is_renewal :: "dash_wait \<Rightarrow> bool" where
  "is_renewal w \<longleftrightarrow> (case w of W_AutoRenew _ \<Rightarrow> True | _ \<Rightarrow> False)"

lemma is_renewal_simps [simp]:
  "is_renewal (W_AutoRenew b)" "\<not> is_renewal W_Payment" "\<not> is_renewal W_Session" "\<not> is_renewal W_Config"
  "\<not> is_renewal W_Happ" "\<not> is_renewal W_Logout" "\<not> is_renewal (W_Pricing w)"
  by (simp_all add: is_renewal_def)

lemma in_flight_pricing [simp]:
  "in_flight is_renewal (map W_Pricing ps) = 0" "in_flight ((=) W_Payment) (map W_Pricing ps) = 0"
  by (induction ps) simp_all

definition flights_ok :: "dashboard \<Rightarrow> dash_wait list \<Rightarrow> bool" where
  "flights_ok c ws \<longleftrightarrow> in_flight ((=) W_Payment) ws = (if db_loadingPayment c = None then 0 else 1) \<and>
     in_flight is_renewal ws = (if db_loadingAutoRenew c then 1 else 0) \<and>
     (db_showCancelConfirm c \<longrightarrow> \<not> db_loadingAutoRenew c)"

lemma child_fetches: "list_all is_fetch (concat (map child_fetch cmds))"
proof -
  have "list_all is_fetch (child_fetch k)" for k by (cases k) (simp_all add: is_fetch_def)
  then show ?thesis by (induction cmds) simp_all
qed

lemma lift_child_fetches: "lift_child n k r s = (p, cmds, ps) \<Longrightarrow> list_all is_fetch cmds"
  by (auto simp: lift_child_def child_fetches split: prod.splits)

lemma render_child_fetches: "render_child X s = (p, cmds, ps) \<Longrightarrow> list_all is_fetch cmds"
  by (auto simp: render_child_def dest: lift_child_fetches split: option.splits if_splits)

lemma pricing_handle_fetches: "pricing_handle X e s = (p, cmds, ps) \<Longrightarrow> e \<noteq> Pay \<Longrightarrow> list_all is_fetch cmds"
  by (cases e) (auto dest: render_child_fetches lift_child_fetches split: option.splits)

lemma pricing_resume_fetches: "pricing_resume w a s = (p, cmds, ps) \<Longrightarrow> list_all is_fetch cmds"
  by (auto simp: pricing_resume_def dest: lift_child_fetches split: option.splits if_splits prod.splits)

lemma fold_price_fetches:
  "list_all is_fetch cmds \<Longrightarrow> \<exists>out'. fold price_cmd cmds (s, out, ps) = (s, out', ps)"
proof (induction cmds arbitrary: out)
  case (Cons k cmds)
  then show ?case by (cases k) (simp_all add: is_fetch_def)
qed simp

lemma lift_pricing_fetches:
  assumes "r = (p, cmds, ps)" "list_all is_fetch cmds"
  shows "\<exists>out. lift_pricing r s = (s\<lparr>db_pricing := Some p\<rparr>, out, map W_Pricing ps)"
  using fold_price_fetches [OF assms(2)] assms(1) by (simp add: lift_pricing_def)

lemma flights_ok_pricing [simp]: "flights_ok (c\<lparr>db_pricing := p\<rparr>) ws = flights_ok c ws"
  by (simp add: flights_ok_def)

lemma settle_flights:
  assumes "settle V (c, out, ps) = (c', out', ps')" "flights_ok c (ws @ ps)"
  shows "flights_ok c' (ws @ ps')"
proof (cases "db_session c")
  case None
  with assms show ?thesis by (simp add: settle_def render_pricing_def)
next
  case (Some ses)
  let ?X = "price_props V c ses"
  obtain p cmds qs where r: "render_child ?X (case db_pricing c of Some p \<Rightarrow> p | None \<Rightarrow> pricing_init ?X) = (p, cmds, qs)"
    using prod_cases3 by blast
  from lift_pricing_fetches [OF r render_child_fetches [OF r], of c] obtain out1 where
    "render_pricing V c = (c\<lparr>db_pricing := Some p\<rparr>, out1, map W_Pricing qs)"
    using Some by (auto simp: render_pricing_def Let_def)
  with assms show ?thesis by (auto simp: settle_def flights_ok_def)
qed

lemma settle_keeps:
  assumes "r = (c, out, ps)" "flights_ok c (ws @ ps)"
  shows "case settle V r of (c', out', ps') \<Rightarrow> flights_ok c' (ws @ ps')"
  using settle_flights [of V c out ps _ _ _ ws] assms by (auto split: prod.splits)

lemma pay_offered:
  "offers (pricing_view P X p) Pay \<Longrightarrow> px_loadingPlan X = None"
  unfolding pricing_view_def Let_def
  by (auto simp: order_view_def dest: offers_PlanCard split: if_splits option.splits prod.splits)

text \<open>What the page offers: each action and the condition under which it is there.\<close>

lemma dash_offers:
  assumes "offers (dash_view V c) e"
  shows "\<exists>ses. db_session c = Some ses \<and>
    (e \<in> {Logout, Open_Happ} \<or> e = Ask_Cancel \<and> \<not> db_loadingAutoRenew c \<or>
     e \<in> {Keep_Renewal, Cancel_Renewal} \<and> db_showCancelConfirm c \<or>
     (\<exists>e0. e = In_Pricing e0 \<and> (e0 = Pay \<longrightarrow> db_loadingPayment c = None)))"
proof -
  obtain ses m where ses: "db_session c = Some ses" and v: "offers (account_view V c ses m) e"
    using assms by (auto simp: dash_view_def split: option.splits)
  have "offers (hero_view c ses m) e \<Longrightarrow> e = Ask_Cancel \<and> \<not> db_loadingAutoRenew c"
    by (auto simp: hero_view_def renewal_view_def split: if_splits)
  moreover have "offers (downloads_view c) e \<Longrightarrow> e = Open_Happ"
    by (auto simp: downloads_view_def platforms_def)
  moreover have "w \<in> set (confirm_view c) \<Longrightarrow> offers w e \<Longrightarrow> e \<in> {Keep_Renewal, Cancel_Renewal} \<and> db_showCancelConfirm c" for w
    by (auto simp: confirm_view_def split: if_splits)
  moreover have "w \<in> set (notice_view V c) \<Longrightarrow> \<not> offers w e" "w \<in> set (support_links c l) \<Longrightarrow> \<not> offers w e" for w l
    by (auto simp: notice_view_def support_links_def split: if_splits)
  moreover have "offers (pricing_view (de_platform V) (price_props V c ses) p) Pay \<Longrightarrow> db_loadingPayment c = None" for p
    by (drule pay_offered) (simp add: price_props_def)
  ultimately have "e \<in> {Logout, Open_Happ} \<or> e = Ask_Cancel \<and> \<not> db_loadingAutoRenew c \<or>
     e \<in> {Keep_Renewal, Cancel_Renewal} \<and> db_showCancelConfirm c \<or>
     (\<exists>e0. e = In_Pricing e0 \<and> (e0 = Pay \<longrightarrow> db_loadingPayment c = None))"
    using v unfolding account_view_def by (auto split: option.splits)
  with ses show ?thesis by blast
qed

text \<open>A reaction that touches none of the flags and waits for nothing new.\<close>

definition quiet :: "dashboard \<Rightarrow> dash_reaction \<Rightarrow> bool" where
  "quiet c r \<longleftrightarrow> (case r of (c', _, ps) \<Rightarrow> in_flight is_renewal ps = 0 \<and> in_flight ((=) W_Payment) ps = 0 \<and>
     db_loadingPayment c' = db_loadingPayment c \<and> db_loadingAutoRenew c' = db_loadingAutoRenew c \<and>
     db_showCancelConfirm c' = db_showCancelConfirm c)"

lemma quiet_load_done: "quiet c (load_done r1 r2 (c\<lparr>db_loads := l\<rparr>))"
  by (simp add: quiet_def load_done_def split: sum.split)

lemma quiet_load_arrived: "quiet c (load_arrived b a c)"
proof (cases a)
  case (Inr r)
  obtain l where l: "(if b then (Some r, snd (db_loads c)) else (fst (db_loads c), Some r)) = l" by blast
  show ?thesis
    by (cases l; cases "fst l"; cases "snd l")
      (simp_all add: load_arrived_def Inr l Let_def quiet_load_done, simp_all add: quiet_def)
qed (simp add: load_arrived_def quiet_def)

lemma quiet_answers: "quiet c (happ_done P a c)" "quiet c (logout_done a c)" "quiet c (openHapp c)" "quiet c (logout c)"
  by (simp_all add: quiet_def happ_done_def logout_done_def openHapp_def logout_def failed_with_def split: sum.split)

lemma quiet_flights:
  "quiet c (c', out, ps) \<Longrightarrow> flights_ok c (ws @ w # ws') \<Longrightarrow> \<not> is_renewal w \<Longrightarrow> w \<noteq> W_Payment \<Longrightarrow> flights_ok c' ((ws @ ws') @ ps)"
  "quiet c (c', out, ps) \<Longrightarrow> flights_ok c ws \<Longrightarrow> flights_ok c' (ws @ ps)"
  by (simp_all add: quiet_def flights_ok_def)

lemma quiet_pricing:
  assumes "r = (p, cmds, ps)" "list_all is_fetch cmds"
  shows "quiet c (lift_pricing r c)"
  using lift_pricing_fetches [OF assms, of c] by (auto simp: quiet_def)

lemma handle_flights:
  assumes "flights_ok c ws" "offers (dash_view V c) e \<or> (\<exists>t. e = Clock t)" "dash_handle V e c = (c', out, ps)"
  shows "flights_ok c' (ws @ ps)"
proof (cases e)
  case (In_Pricing e0)
  then obtain ses where ses: "db_session c = Some ses" and pay: "e0 = Pay \<longrightarrow> db_loadingPayment c = None"
    using assms(2) dash_offers by blast
  show ?thesis
  proof (cases "db_pricing c")
    case None
    with assms In_Pricing ses show ?thesis by (simp add: in_pricing_def)
  next
    case (Some p)
    let ?X = "price_props V c ses"
    show ?thesis
    proof (cases "e0 = Pay")
      case True
      with assms In_Pricing ses Some pay show ?thesis
        by (auto simp: in_pricing_def lift_pricing_def createPayment_def flights_ok_def split: option.splits)
    next
      case False
      obtain p' cmds qs where r: "pricing_handle ?X e0 p = (p', cmds, qs)" using prod_cases3 by blast
      from quiet_flights(2) [OF _ assms(1)] quiet_pricing [OF r pricing_handle_fetches [OF r False], of c] assms(3) In_Pricing ses Some
      show ?thesis by (simp add: in_pricing_def)
    qed
  qed
next
  case Cancel_Renewal
  with assms(2) have "db_showCancelConfirm c" using dash_offers by blast
  with assms Cancel_Renewal show ?thesis by (auto simp: toggleAutoRenew_def flights_ok_def)
next
  case Ask_Cancel
  with assms(2) have "\<not> db_loadingAutoRenew c" using dash_offers by blast
  with assms Ask_Cancel show ?thesis by (auto simp: flights_ok_def)
next
  case Logout
  with assms(3) quiet_answers(4) [of c] quiet_flights(2) [OF _ assms(1)] show ?thesis by simp
next
  case Open_Happ
  with assms(3) quiet_answers(3) [of c] quiet_flights(2) [OF _ assms(1)] show ?thesis by simp
qed (use assms in \<open>auto simp: flights_ok_def\<close>)

lemma resume_flights:
  assumes "flights_ok c (ws @ w # ws')" "dash_resume V w a c = (c', out, ps)"
  shows "flights_ok c' ((ws @ ws') @ ps)"
proof (cases "is_renewal w \<or> w = W_Payment")
  case True
  then consider b where "w = W_AutoRenew b" | "w = W_Payment" by (cases w) auto
  then show ?thesis
  proof cases
    case 1
    with assms(2) have "ps = []" "\<not> db_loadingAutoRenew c'" "db_loadingPayment c' = db_loadingPayment c"
      by (auto simp: autorenew_done_def failed_with_def Let_def split: sum.splits if_splits)
    with 1 assms(1) show ?thesis by (auto simp: flights_ok_def split: if_splits)
  next
    case 2
    with assms(2) have "ps = []" "db_loadingPayment c' = None" "db_loadingAutoRenew c' = db_loadingAutoRenew c"
      "db_showCancelConfirm c' = db_showCancelConfirm c"
      by (auto simp: payment_done_def failed_with_def split: sum.splits if_splits)
    with 2 assms(1) show ?thesis by (auto simp: flights_ok_def split: if_splits)
  qed
next
  case False
  have "quiet c (dash_resume V w a c)"
  proof (cases w)
    case (W_Pricing v)
    show ?thesis
    proof (cases "db_pricing c")
      case None
      with W_Pricing show ?thesis by (simp add: quiet_def)
    next
      case (Some p)
      obtain p' cmds qs where r: "pricing_resume v a p = (p', cmds, qs)" using prod_cases3 by blast
      from quiet_pricing [OF r pricing_resume_fetches [OF r]] W_Pricing Some show ?thesis by simp
    qed
  qed (use False in \<open>simp_all add: quiet_load_arrived quiet_answers\<close>)
  with False assms show ?thesis using quiet_flights(1) by simp
qed

lemma react_flights:
  "(\<And>c' out ps. r = (c', out, ps) \<Longrightarrow> flights_ok c' (ws @ ps)) \<Longrightarrow>
     flights_ok (ui_comp (apply_reaction (settle V r) ws out)) (ui_wait (apply_reaction (settle V r) ws out))"
  using settle_keeps [of r _ _ _ ws V] by (cases r) (auto simp: apply_reaction_def split: prod.splits)

interpretation dash: ui_invariant "Dashboard_page V" any "dashboard_start now"
  "\<lambda>s. flights_ok (ui_comp s) (ui_wait s)"
proof unfold_locales
  show "flights_ok (ui_comp (dashboard_start now)) (ui_wait (dashboard_start now))"
    by (simp add: dashboard_start_def load_def dashboard_init_def flights_ok_def)
qed (auto intro!: react_flights intro: handle_flights resume_flights)

text \<open>C12: On the account page at most one payment and at most one change of the automatic renewal are under way; the
  page knows it exactly; and it offers neither the button that pays nor the one that switches the
  renewal off while the earlier request is not answered.\<close>

theorem Dashboard_single_flight:
  assumes "ui_reach (Dashboard_page V) any (dashboard_start now) s"
  shows "in_flight ((=) W_Payment) (ui_wait s) = (if db_loadingPayment (ui_comp s) = None then 0 else 1) \<and>
    in_flight is_renewal (ui_wait s) = (if db_loadingAutoRenew (ui_comp s) then 1 else 0) \<and>
    (offers (dash_view V (ui_comp s)) (In_Pricing Pay) \<longrightarrow> in_flight ((=) W_Payment) (ui_wait s) = 0) \<and>
    (offers (dash_view V (ui_comp s)) Cancel_Renewal \<longrightarrow> in_flight is_renewal (ui_wait s) = 0)"
proof -
  have ok: "flights_ok (ui_comp s) (ui_wait s)" by (rule dash.reach_keeps [OF assms])
  with dash_offers [of V "ui_comp s"] show ?thesis unfolding flights_ok_def by fastforce
qed

text \<open>A run: the session arrives, the configuration does not, and the visitor switches the renewal off.\<close>

definition sample_env :: dash_env where
  "sample_env = \<lparr>de_platform = \<lparr>pf_number = (\<lambda>_. []), pf_to_number = (\<lambda>_. None), pf_message = (\<lambda>_. [])\<rparr>,
     de_dates = plain_dates, de_plan = None, de_promo = None\<rparr>"

definition sample_session_json :: json where
  "sample_session_json = JObj [(lit ''user'', JObj [(lit ''email'', JStr (lit ''a@b''))]),
     (lit ''subscription'', JObj [(lit ''plan'', JStr (lit ''vip'')), (lit ''status'', JStr (lit ''active'')),
       (lit ''expires_at'', JStr (lit ''2026'')), (lit ''auto_renew'', JBool True)])]"

definition session_answer :: response where
  "session_answer = \<lparr>rs_status = 200, rs_headers = [], rs_body = JsonBody sample_session_json\<rparr>"

definition no_answer :: response where
  "no_answer = \<lparr>rs_status = 500, rs_headers = [], rs_body = NoBody\<rparr>"

lemma session_of_sample: "session_of sample_session_json = sample_session"
  by (simp add: session_of_def sample_session_json_def sample_session_def str_at_def Let_def)

lemma answers_ok: "rs_ok session_answer" "rs_status session_answer \<noteq> 401" "\<not> rs_ok no_answer"
  "json_of session_answer = Inr sample_session_json"
  by (simp_all add: session_answer_def no_answer_def rs_ok_def)

lemma render_unselected:
  assumes "db_session c = Some ses" "de_plan V = None" "\<forall>p. db_pricing c = Some p \<longrightarrow> pr_selectedPlanId p = None"
  shows "\<exists>p. render_pricing V c = (c\<lparr>db_pricing := Some p\<rparr>, [], []) \<and> pr_selectedPlanId p = None"
proof -
  let ?X = "price_props V c ses"
  let ?p = "case db_pricing c of Some p \<Rightarrow> p | None \<Rightarrow> pricing_init ?X"
  have none: "pr_selectedPlanId ?p = None"
    using assms by (auto simp: pricing_init_def price_props_def selectedPlan_def Let_def split: option.split)
  then have "render_child ?X ?p = (?p\<lparr>pr_child := None\<rparr>, [], [])"
    by (simp add: render_child_def selectedPeriodAndPlan_def)
  then have "render_pricing V c = (c\<lparr>db_pricing := Some (?p\<lparr>pr_child := None\<rparr>)\<rparr>, [], [])"
    using assms(1) by (simp add: render_pricing_def Let_def lift_pricing_def)
  moreover have "pr_selectedPlanId (?p\<lparr>pr_child := None\<rparr>) = None" using none by simp
  ultimately show ?thesis by blast
qed

lemma sample_env_plan: "de_plan sample_env = None"
  by (simp add: sample_env_def)

lemma sample_loaded:
  "\<exists>c out. ui_reach (Dashboard_page sample_env) any (dashboard_start 0) \<lparr>ui_comp = c, ui_wait = [], ui_out = out\<rparr> \<and>
     db_session c = Some sample_session \<and> db_now c = 0 \<and> \<not> db_loadingAutoRenew c \<and>
     (\<exists>p. db_pricing c = Some p \<and> pr_selectedPlanId p = None)"
proof -
  let ?C = "Dashboard_page sample_env"
  have start: "dashboard_start 0 = \<lparr>ui_comp = dashboard_init 0, ui_wait = [] @ W_Session # [W_Config],
      ui_out = fst (snd (load (dashboard_init 0)))\<rparr>"
    by (simp add: dashboard_start_def load_def)
  have init: "db_session (dashboard_init 0) = None" "db_pricing (dashboard_init 0) = None" "db_clock (dashboard_init 0) = 0"
    "db_loads (dashboard_init 0) = (None, None)" "\<not> db_loadingAutoRenew (dashboard_init 0)"
    by (simp_all add: dashboard_init_def)
  let ?c1 = "(dashboard_init 0)\<lparr>db_loads := (Some session_answer, None)\<rparr>"
  have "ui_reach ?C any (dashboard_start 0)
      (apply_reaction (cp_resume ?C W_Session (Inr session_answer) (dashboard_init 0)) ([] @ [W_Config]) (fst (snd (load (dashboard_init 0)))))"
    using reach_arrive [OF reach_init [of ?C any "dashboard_start 0", unfolded start]] by (simp add: start)
  then have r1: "ui_reach ?C any (dashboard_start 0) \<lparr>ui_comp = ?c1, ui_wait = [] @ W_Config # [], ui_out = fst (snd (load (dashboard_init 0)))\<rparr>"
    using init by (simp add: load_arrived_def settle_def render_pricing_def)
  let ?c2 = "?c1\<lparr>db_loads := (Some session_answer, Some no_answer), db_session := Some sample_session, db_now := 0\<rparr>"
  have "dash_resume sample_env W_Config (Inr no_answer) ?c1 = (?c2, [], [])"
    using init by (simp add: load_arrived_def load_done_def answers_ok session_of_sample)
  moreover obtain p where p: "render_pricing sample_env ?c2 = (?c2\<lparr>db_pricing := Some p\<rparr>, [], [])" "pr_selectedPlanId p = None"
    using render_unselected [of ?c2 sample_session sample_env] init sample_env_plan by auto
  ultimately have "cp_resume ?C W_Config (Inr no_answer) ?c1 = (?c2\<lparr>db_pricing := Some p\<rparr>, [], [])"
    by (simp add: settle_def)
  with reach_arrive [OF r1, of "Inr no_answer"] p(2) init show ?thesis by auto
qed

lemma sample_offers:
  assumes "db_session c = Some sample_session" "db_now c = 0"
  shows "\<not> db_loadingAutoRenew c \<Longrightarrow> offers (dash_view sample_env c) Ask_Cancel"
    "db_showCancelConfirm c \<Longrightarrow> offers (dash_view sample_env c) Cancel_Renewal"
proof -
  obtain m where m: "subscriptionMeta (de_dates sample_env) 0 sample_session = Some m" "\<not> sm_isFree m"
    using sample_meta by (auto simp: sample_env_def)
  have "ses_auto_renew sample_session" by (simp add: sample_session_def)
  with assms m show "\<not> db_loadingAutoRenew c \<Longrightarrow> offers (dash_view sample_env c) Ask_Cancel"
    by (simp add: dash_view_def account_view_def hero_view_def renewal_view_def)
  from assms m show "db_showCancelConfirm c \<Longrightarrow> offers (dash_view sample_env c) Cancel_Renewal"
    by (simp add: dash_view_def account_view_def confirm_view_def)
qed

theorem Dashboard_single_flight_witness:
  "\<exists>s. ui_reach (Dashboard_page sample_env) any (dashboard_start 0) s \<and> in_flight is_renewal (ui_wait s) = 1"
proof -
  let ?C = "Dashboard_page sample_env"
  obtain c out p where r: "ui_reach ?C any (dashboard_start 0) \<lparr>ui_comp = c, ui_wait = [], ui_out = out\<rparr>"
    and c: "db_session c = Some sample_session" "db_now c = 0" "\<not> db_loadingAutoRenew c" "db_pricing c = Some p" "pr_selectedPlanId p = None"
    using sample_loaded by blast
  let ?c1 = "c\<lparr>db_showCancelConfirm := True\<rparr>"
  obtain p1 where p1: "render_pricing sample_env ?c1 = (?c1\<lparr>db_pricing := Some p1\<rparr>, [], [])" "pr_selectedPlanId p1 = None"
    using render_unselected [of ?c1 sample_session sample_env] c sample_env_plan by auto
  have r1: "ui_reach ?C any (dashboard_start 0) \<lparr>ui_comp = ?c1\<lparr>db_pricing := Some p1\<rparr>, ui_wait = [], ui_out = out\<rparr>"
    using reach_user [OF r, of Ask_Cancel] sample_offers(1) c p1 by (simp add: settle_def)
  let ?c2 = "(?c1\<lparr>db_pricing := Some p1\<rparr>)\<lparr>db_showCancelConfirm := False, db_error := [], db_loadingAutoRenew := True\<rparr>"
  obtain p2 where p2: "render_pricing sample_env ?c2 = (?c2\<lparr>db_pricing := Some p2\<rparr>, [], [])"
    using render_unselected [of ?c2 sample_session sample_env] c p1 sample_env_plan by auto
  have "offers (dash_view sample_env (?c1\<lparr>db_pricing := Some p1\<rparr>)) Cancel_Renewal"
    by (rule sample_offers(2)) (use c in simp_all)
  with reach_user [OF r1, of Cancel_Renewal] p2 obtain out2 where
    reach: "ui_reach ?C any (dashboard_start 0) \<lparr>ui_comp = ?c2\<lparr>db_pricing := Some p2\<rparr>, ui_wait = [W_AutoRenew False], ui_out = out2\<rparr>"
    by (auto simp: settle_def toggleAutoRenew_def)
  from Dashboard_single_flight [OF reach] have "in_flight is_renewal [W_AutoRenew False] = 1" by simp
  with reach show ?thesis by (metis ui.select_convs(2))
qed

end
