(* ===== verification/Vip_Section.thy ===== *)
theory Vip_Section
  imports Api_Routes Js_Base64 Dashboard
begin

section \<open>The VIP settings (web/components/VipSection.tsx, web/components/VipPageClient.tsx)\<close>

text \<open>
  The routing rules of a VIP visitor: the list, switching a rule on and off, deleting it, the editor,
  copying a preset of the system, the ad blocker, and the export to the Happ application; and the page around
  it. A handler of the source that works on \<^verbatim>\<open>profiles\<close> after an \<^verbatim>\<open>await\<close> uses the list of the render it was
  made in: its continuation carries that list. \<^verbatim>\<open>confirm\<close> is part of the event that raises it. The bodies
  of the backend are read as the types that the source asserts.
\<close>

subsection \<open>Data\<close>

record vip_profile =
  vp_id :: rat
  vp_name :: jsstr
  vp_code :: jsstr
  vp_kind :: jsstr
  vp_action :: jsstr
  vp_enabled :: bool
  vp_description :: jsstr
  vp_domains :: "jsstr list"
  vp_domain_suffixes :: "jsstr list"
  vp_cidrs :: "jsstr list"
  vp_already_added :: bool

definition strings_at :: "json \<Rightarrow> jsstr \<Rightarrow> jsstr list" where
  "strings_at j k = map (\<lambda>v. case v of JStr s \<Rightarrow> s | _ \<Rightarrow> []) (jarray (jget_safe j k))"

definition profile_of :: "json \<Rightarrow> vip_profile" where
  "profile_of j = \<lparr>vp_id = num_at (Some j) (lit ''id''), vp_name = str_at (Some j) (lit ''name''),
     vp_code = str_at (Some j) (lit ''code''), vp_kind = str_at (Some j) (lit ''kind''),
     vp_action = str_at (Some j) (lit ''action''), vp_enabled = jtruthy (jget_safe j (lit ''enabled'')),
     vp_description = str_at (Some j) (lit ''description''), vp_domains = strings_at j (lit ''domains''),
     vp_domain_suffixes = strings_at j (lit ''domain_suffixes''), vp_cidrs = strings_at j (lit ''cidrs''),
     vp_already_added = jtruthy (jget_safe j (lit ''already_added''))\<rparr>"

datatype vip_tab = Custom_Tab | System_Tab

record vip =
  vs_profiles :: "vip_profile list"
  vs_adBlockEnabled :: bool
  vs_loading :: bool
  vs_error :: jsstr
  vs_activeTab :: vip_tab
  vs_isEditing :: "rat option"
  vs_editName :: jsstr
  vs_editDomains :: jsstr
  vs_editAction :: jsstr

datatype vip_wait =
    V_List
  | V_AdBlock bool
  | V_Toggle "vip_profile list" rat
  | V_Delete "vip_profile list" rat
  | V_Save bool
  | V_Token jsstr
  | V_Copy

datatype vip_call =
    Alert jsstr
  | Go_To jsstr

type_synonym vip_reaction = "(vip, vip_call, vip_wait) reaction"

record vip_props =
  vx_platform :: platform
  vx_plan :: jsstr
  vx_adBlock :: bool

definition isVip :: "vip_props \<Rightarrow> bool" where
  "isVip X \<longleftrightarrow> vx_plan X = lit ''vip'' \<or> vx_plan X = lit ''vip_3m''"

definition vip_init :: "vip_props \<Rightarrow> vip" where
  "vip_init X = \<lparr>vs_profiles = [], vs_adBlockEnabled = vx_adBlock X, vs_loading = False, vs_error = [],
     vs_activeTab = Custom_Tab, vs_isEditing = None, vs_editName = [], vs_editDomains = [], vs_editAction = lit ''proxy''\<rparr>"

subsection \<open>Actions\<close>

definition fetchProfiles :: "vip \<Rightarrow> vip_reaction" where
  "fetchProfiles s = (s, [Fetch (fetch_plain (lit ''GET'') (lit ''/api/routing-profiles''))], [V_List])"

definition profiles_arrived :: "answer \<Rightarrow> vip \<Rightarrow> vip_reaction" where
  "profiles_arrived a s = (case a of
     Inl _ \<Rightarrow> (s, [], [])
   | Inr res \<Rightarrow> (case json_of res of
       Inl _ \<Rightarrow> (s, [], [])
     | Inr data \<Rightarrow>
         if jtruthy (jget_safe data (lit ''profiles''))
         then (s\<lparr>vs_profiles := map profile_of (jarray (jget_safe data (lit ''profiles'')))\<rparr>, [], [])
         else (s, [], [])))"

definition busy :: "vip \<Rightarrow> vip" where
  "busy s = s\<lparr>vs_error := [], vs_loading := True\<rparr>"

text \<open>\<^verbatim>\<open>if (!res.ok) throw new Error(message)\<close>, the \<^verbatim>\<open>catch\<close> and the \<^verbatim>\<open>finally\<close> of the actions.\<close>

definition settled :: "platform \<Rightarrow> jsstr \<Rightarrow> (response \<Rightarrow> vip \<Rightarrow> vip_reaction) \<Rightarrow> answer \<Rightarrow> vip \<Rightarrow> vip_reaction" where
  "settled P message ok a s = (case (case a of
       Inl e \<Rightarrow> Inl e | Inr res \<Rightarrow> if rs_ok res then Inr res else Inl (Error message)) of
     Inl e \<Rightarrow> (s\<lparr>vs_error := message_of P e, vs_loading := False\<rparr>, [], [])
   | Inr res \<Rightarrow> (case ok res s of (s', out, ps) \<Rightarrow> (s'\<lparr>vs_loading := False\<rparr>, out, ps)))"

definition toggleAdBlock :: "vip \<Rightarrow> vip_reaction" where
  "toggleAdBlock s = (busy s, [Fetch (fetch_json (lit ''PATCH'') (lit ''/api/subscription/ad-block'')
     (JObj [(lit ''enabled'', JBool (\<not> vs_adBlockEnabled s))]))], [V_AdBlock (vs_adBlockEnabled s)])"

definition adblock_done :: "platform \<Rightarrow> bool \<Rightarrow> answer \<Rightarrow> vip \<Rightarrow> vip_reaction" where
  "adblock_done P was = settled P ru_adblock_failed (\<lambda>_ s. (s\<lparr>vs_adBlockEnabled := \<not> was\<rparr>, [], []))"

definition profile_url :: "platform \<Rightarrow> rat \<Rightarrow> jsstr" where
  "profile_url P i = lit ''/api/routing-profiles/'' @ pf_number P i"

definition toggleProfile :: "platform \<Rightarrow> vip_profile \<Rightarrow> vip \<Rightarrow> vip_reaction" where
  "toggleProfile P profile s = (busy s,
     [Fetch (fetch_json (lit ''PUT'') (profile_url P (vp_id profile)) (JObj [(lit ''enabled'', JBool (\<not> vp_enabled profile))]))],
     [V_Toggle (vs_profiles s) (vp_id profile)])"

definition toggle_done :: "platform \<Rightarrow> vip_profile list \<Rightarrow> rat \<Rightarrow> answer \<Rightarrow> vip \<Rightarrow> vip_reaction" where
  "toggle_done P profiles i = settled P ru_profile_failed (\<lambda>_ s.
     (s\<lparr>vs_profiles := map (\<lambda>p. if vp_id p = i then p\<lparr>vp_enabled := \<not> vp_enabled p\<rparr> else p) profiles\<rparr>, [], []))"

definition deleteProfile :: "platform \<Rightarrow> rat \<Rightarrow> bool \<Rightarrow> vip \<Rightarrow> vip_reaction" where
  "deleteProfile P i agreed s = (if \<not> agreed then (s, [], []) else
     (busy s, [Fetch (fetch_plain (lit ''DELETE'') (profile_url P i))], [V_Delete (vs_profiles s) i]))"

definition delete_done :: "platform \<Rightarrow> vip_profile list \<Rightarrow> rat \<Rightarrow> answer \<Rightarrow> vip \<Rightarrow> vip_reaction" where
  "delete_done P profiles i = settled P ru_delete_failed (\<lambda>_ s.
     (s\<lparr>vs_profiles := filter (\<lambda>p. vp_id p \<noteq> i) profiles\<rparr>, [], []))"

definition domains_of :: "jsstr \<Rightarrow> jsstr list" where
  "domains_of t = filter truthy (split_runs (\<lambda>c. is_ws c \<or> c = 44) t)"

definition save_body :: "vip \<Rightarrow> json" where
  "save_body s = JObj [(lit ''name'', JStr (vs_editName s)), (lit ''action'', JStr (vs_editAction s)),
     (lit ''domains'', JArr (map JStr (domains_of (vs_editDomains s))))]"

text \<open>The end of \<^verbatim>\<open>saveProfile\<close> and of \<^verbatim>\<open>copySystemProfile\<close>: the list is asked for again.\<close>

definition reload_custom :: "vip \<Rightarrow> vip_reaction" where
  "reload_custom s = (case fetchProfiles s of (s', out, ps) \<Rightarrow> (s'\<lparr>vs_activeTab := Custom_Tab\<rparr>, out, ps))"

definition save_ok :: "vip \<Rightarrow> vip_reaction" where
  "save_ok s = reload_custom (s\<lparr>vs_isEditing := None\<rparr>)"

definition saveProfile :: "platform \<Rightarrow> vip \<Rightarrow> vip_reaction" where
  "saveProfile P s = (case vs_isEditing s of
     None \<Rightarrow> (case save_ok (busy s) of (s', out, ps) \<Rightarrow> (s'\<lparr>vs_loading := False\<rparr>, out, ps))
   | Some i \<Rightarrow>
       if i = -1
       then (busy s, [Fetch (fetch_json (lit ''POST'') (lit ''/api/routing-profiles'') (save_body s))], [V_Save True])
       else (busy s, [Fetch (fetch_json (lit ''PUT'') (profile_url P i) (save_body s))], [V_Save False]))"

definition save_done :: "platform \<Rightarrow> bool \<Rightarrow> answer \<Rightarrow> vip \<Rightarrow> vip_reaction" where
  "save_done P create = settled P (if create then ru_create_rule_failed else ru_update_rule_failed) (\<lambda>_. save_ok)"

definition copySystemProfile :: "jsstr \<Rightarrow> vip \<Rightarrow> vip_reaction" where
  "copySystemProfile code s = (busy s, [Fetch (fetch_plain (lit ''GET'') (lit ''/api/session''))], [V_Token code])"

text \<open>\<^verbatim>\<open>`Bearer ${token}`\<close>: a missing property is the text \<^verbatim>\<open>undefined\<close>.\<close>

definition copy_request :: "platform \<Rightarrow> jsstr \<Rightarrow> jval \<Rightarrow> request" where
  "copy_request P code token = \<lparr>rq_url = lit ''/api/v1/me/routing-profiles/system/'' @ code @ lit ''/copy'',
     rq_method = lit ''POST'',
     rq_headers = new_headers [(lit ''Authorization'', lit ''Bearer '' @
       (case token of None \<Rightarrow> lit ''undefined'' | Some t \<Rightarrow> template (pf_number P) t))],
     rq_body = NoBody, rq_no_store = False\<rparr>"

definition vip_failed :: "platform \<Rightarrow> exn \<Rightarrow> vip \<Rightarrow> vip_reaction" where
  "vip_failed P e s = (s\<lparr>vs_error := message_of P e, vs_loading := False\<rparr>, [], [])"

definition token_arrived :: "platform \<Rightarrow> jsstr \<Rightarrow> answer \<Rightarrow> vip \<Rightarrow> vip_reaction" where
  "token_arrived P code a s = (case a of
     Inl e \<Rightarrow> vip_failed P e s
   | Inr res \<Rightarrow>
       if \<not> rs_ok res then vip_failed P (Error (lit ''Session error'')) s
       else (case json_of res of
           Inl e \<Rightarrow> vip_failed P e s
         | Inr data \<Rightarrow> (case jget data (lit ''token'') of
             Inl e \<Rightarrow> vip_failed P e s
           | Inr token \<Rightarrow> (s, [Fetch (copy_request P code token)], [V_Copy]))))"

definition copy_done :: "platform \<Rightarrow> answer \<Rightarrow> vip \<Rightarrow> vip_reaction" where
  "copy_done P = settled P ru_preset_failed (\<lambda>_. reload_custom)"

definition startCreate :: "vip \<Rightarrow> vip" where
  "startCreate s = s\<lparr>vs_isEditing := Some (-1), vs_editName := [], vs_editDomains := [], vs_editAction := lit ''proxy''\<rparr>"

definition all_domains :: "vip_profile \<Rightarrow> jsstr list" where
  "all_domains p = vp_domains p @ vp_domain_suffixes p @ vp_cidrs p"

definition startEdit :: "vip_profile \<Rightarrow> vip \<Rightarrow> vip" where
  "startEdit profile s = s\<lparr>vs_isEditing := Some (vp_id profile), vs_editName := vp_name profile,
     vs_editDomains := join nl (all_domains profile),
     vs_editAction := (if truthy (vp_action profile) then vp_action profile else lit ''proxy'')\<rparr>"

definition customProfiles :: "vip \<Rightarrow> vip_profile list" where
  "customProfiles s = filter (\<lambda>p. vp_kind p = lit ''custom'') (vs_profiles s)"

definition systemProfiles :: "vip \<Rightarrow> vip_profile list" where
  "systemProfiles s = filter (\<lambda>p. vp_kind p = lit ''system'') (vs_profiles s)"

definition happ_rule :: "vip_profile \<Rightarrow> json" where
  "happ_rule p = JObj [(lit ''type'', JStr (lit ''field'')), (lit ''domain'', JArr (map JStr (all_domains p))),
     (lit ''outboundTag'', JStr (vp_action p))]"

definition happProfile :: "vip_profile list \<Rightarrow> json" where
  "happProfile rules = JObj [(lit ''name'', JStr (lit ''FBLink Routing'')), (lit ''rules'', JArr (map happ_rule rules))]"

definition happ_link :: "(rat \<Rightarrow> jsstr) \<Rightarrow> vip_profile list \<Rightarrow> exn + jsstr" where
  "happ_link N rules = (case encodeURIComponent (stringify N (happProfile rules)) of
     Inl e \<Rightarrow> Inl e
   | Inr t \<Rightarrow> (case btoa (unescape t) of Inl e \<Rightarrow> Inl e | Inr b \<Rightarrow> Inr (lit ''happ://routing/onadd/'' @ b)))"

definition exportToHapp :: "platform \<Rightarrow> vip \<Rightarrow> vip_reaction" where
  "exportToHapp P s = (if customProfiles s = [] then (s, [Call (Alert ru_add_a_rule)], [])
     else (case happ_link (pf_number P) (customProfiles s) of
         Inl _ \<Rightarrow> (s\<lparr>vs_error := ru_link_failed\<rparr>, [], [])
       | Inr link \<Rightarrow> (s, [Assign link], [])))"

subsection \<open>Events and view\<close>

datatype vip_event =
    Toggle_AdBlock
  | Show_Tab vip_tab
  | Export
  | Start_Create
  | Start_Edit vip_profile
  | Edit_Name jsstr
  | Edit_Action jsstr
  | Edit_Domains jsstr
  | Cancel_Edit
  | Save_Rule
  | Toggle_Rule vip_profile
  | Delete_Rule rat bool
  | Copy_Preset jsstr

fun vip_handle :: "vip_props \<Rightarrow> vip_event \<Rightarrow> vip \<Rightarrow> vip_reaction" where
  "vip_handle X Toggle_AdBlock s = toggleAdBlock s"
| "vip_handle X (Show_Tab t) s = (s\<lparr>vs_activeTab := t\<rparr>, [], [])"
| "vip_handle X Export s = exportToHapp (vx_platform X) s"
| "vip_handle X Start_Create s = (startCreate s, [], [])"
| "vip_handle X (Start_Edit p) s = (startEdit p s, [], [])"
| "vip_handle X (Edit_Name t) s = (s\<lparr>vs_editName := t\<rparr>, [], [])"
| "vip_handle X (Edit_Action t) s = (s\<lparr>vs_editAction := t\<rparr>, [], [])"
| "vip_handle X (Edit_Domains t) s = (s\<lparr>vs_editDomains := t\<rparr>, [], [])"
| "vip_handle X Cancel_Edit s = (s\<lparr>vs_isEditing := None\<rparr>, [], [])"
| "vip_handle X Save_Rule s = saveProfile (vx_platform X) s"
| "vip_handle X (Toggle_Rule p) s = toggleProfile (vx_platform X) p s"
| "vip_handle X (Delete_Rule i agreed) s = deleteProfile (vx_platform X) i agreed s"
| "vip_handle X (Copy_Preset code) s = copySystemProfile code s"

fun vip_resume :: "vip_props \<Rightarrow> vip_wait \<Rightarrow> answer \<Rightarrow> vip \<Rightarrow> vip_reaction" where
  "vip_resume X V_List a s = profiles_arrived a s"
| "vip_resume X (V_AdBlock was) a s = adblock_done (vx_platform X) was a s"
| "vip_resume X (V_Toggle profiles i) a s = toggle_done (vx_platform X) profiles i a s"
| "vip_resume X (V_Delete profiles i) a s = delete_done (vx_platform X) profiles i a s"
| "vip_resume X (V_Save create) a s = save_done (vx_platform X) create a s"
| "vip_resume X (V_Token code) a s = token_arrived (vx_platform X) code a s"
| "vip_resume X V_Copy a s = copy_done (vx_platform X) a s"

definition editor_view :: "vip \<Rightarrow> rat \<Rightarrow> vip_event view" where
  "editor_view s i = El (lit ''div'')
     [El (lit ''h3'') [Text (if i = -1 then ru_new_rule else ru_edit_rule)],
      Text ru_name, Input False (lit ''text'') (vs_editName s) Edit_Name,
      Text ru_action, Select (vs_editAction s) [(lit ''proxy'', ru_via_vpn), (lit ''direct'', ru_directly)] Edit_Action,
      Text ru_domains_label, Input False (lit ''textarea'') (vs_editDomains s) Edit_Domains,
      Btn (vs_loading s) Cancel_Edit [Text ru_cancel],
      Btn (vs_loading s \<or> \<not> truthy (vs_editName s)) Save_Rule [Text ru_save]]"

text \<open>The button that deletes asks first; both answers are events.\<close>

definition custom_rule_view :: "vip \<Rightarrow> vip_profile \<Rightarrow> vip_event view" where
  "custom_rule_view s p = El (lit ''div'')
     [Text (vp_name p), Text (vp_action p), Text (if truthy (vp_description p) then vp_description p else ru_user_rule),
      Btn (vs_loading s) (Toggle_Rule p) [],
      Btn (vs_loading s) (Start_Edit p) [],
      Btn (vs_loading s) (Delete_Rule (vp_id p) True) [], Btn (vs_loading s) (Delete_Rule (vp_id p) False) []]"

definition custom_tab_view :: "vip \<Rightarrow> vip_event view list" where
  "custom_tab_view s =
     [El (lit ''div'') [El (lit ''h3'') [Text ru_apply_config],
        El (lit ''p'') [Text (ru_you_have @ show_nat (length (customProfiles s)) @ ru_rules_send)],
        Btn (customProfiles s = []) Export [Text ru_add_to_happ]],
      El (lit ''div'') (
        [Btn (vs_isEditing s \<noteq> None) Start_Create [Text ru_create_rule]] @
        (case vs_isEditing s of None \<Rightarrow> [] | Some i \<Rightarrow> [editor_view s i]) @
        map (custom_rule_view s) (customProfiles s) @
        show_if (customProfiles s = [] \<and> vs_isEditing s = None) (El (lit ''div'')
          [El (lit ''p'') [Text ru_no_rules_yet], Btn False (Show_Tab System_Tab) [Text ru_choose_presets]]))]"

definition system_rule_view :: "vip \<Rightarrow> vip_profile \<Rightarrow> vip_event view" where
  "system_rule_view s p = El (lit ''div'')
     [Text (vp_name p), Text ru_system, Text (vp_action p), Text (vp_description p),
      if vp_already_added p then Text ru_added
      else Btn (vs_loading s) (Copy_Preset (vp_code p)) [Text ru_add]]"

definition vip_view :: "vip_props \<Rightarrow> vip \<Rightarrow> vip_event view" where
  "vip_view X s = (if \<not> isVip X
     then El (lit ''div'') [El (lit ''h2'') [Text ru_vip_only], El (lit ''p'') [Text ru_vip_only_lead],
       Link (lit ''/dashboard#subscription'') [Text ru_upgrade_vip]]
     else El (lit ''div'') (
       [El (lit ''h1'') [Text ru_vip_settings], El (lit ''p'') [Text ru_vip_lead]] @
       show_if (truthy (vs_error s)) (El (lit ''div'') [Text (vs_error s)]) @
       [El (lit ''div'') [Text ru_ad_filter, El (lit ''h2'') [Text (lit ''AdBlock (DNS)'')], El (lit ''p'') [Text ru_adblock_lead],
          El (lit ''strong'') [Text ru_adblock_on], Btn (vs_loading s) Toggle_AdBlock []],
        El (lit ''div'') (
          [Text ru_smart_routing, El (lit ''h2'') [Text ru_traffic_rules], El (lit ''p'') [Text ru_traffic_lead],
           Btn False (Show_Tab Custom_Tab) [Text ru_my_routes], Btn False (Show_Tab System_Tab) [Text ru_presets]] @
          (if vs_activeTab s = Custom_Tab then custom_tab_view s
           else map (system_rule_view s) (systemProfiles s)))]))"

definition VipSection :: "vip_props \<Rightarrow> (vip, vip_event, vip_call, vip_wait) component" where
  "VipSection X = \<lparr>cp_view = vip_view X, cp_ext = (\<lambda>_ _. False), cp_handle = vip_handle X, cp_resume = vip_resume X\<rparr>"

definition vip_start :: "vip_props \<Rightarrow> (vip, vip_call, vip_wait) ui" where
  "vip_start X = apply_reaction (if isVip X then fetchProfiles (vip_init X) else (vip_init X, [], [])) [] []"

lemma VipSection_sel [simp]:
  "cp_view (VipSection X) = vip_view X" "cp_ext (VipSection X) = (\<lambda>_ _. False)"
  "cp_handle (VipSection X) = vip_handle X" "cp_resume (VipSection X) = vip_resume X"
  by (simp_all add: VipSection_def)

subsection \<open>The page\<close>

record vip_page =
  vg_session :: "json option"
  vg_config :: "json option"
  vg_loads :: "response option \<times> response option"
  vg_section :: "vip option"

datatype vip_page_wait =
    G_Session
  | G_Config
  | G_Vip vip_wait

datatype vip_page_event =
    Back
  | In_Vip vip_event

type_synonym vip_page_reaction = "(vip_page, vip_call, vip_page_wait) reaction"

definition page_init :: vip_page where
  "page_init = \<lparr>vg_session = None, vg_config = None, vg_loads = (None, None), vg_section = None\<rparr>"

definition page_load :: "vip_page \<Rightarrow> vip_page_reaction" where
  "page_load s = (s, [Fetch (fetch_plain (lit ''GET'') (lit ''/api/session'')), Fetch (fetch_plain (lit ''GET'') (lit ''/api/site-config''))],
     [G_Session, G_Config])"

text \<open>The end of \<^verbatim>\<open>load\<close>; an exception leaves the rest out.\<close>

definition page_load_done :: "response \<Rightarrow> response \<Rightarrow> vip_page \<Rightarrow> vip_page_reaction" where
  "page_load_done sessionResponse configResponse s = (
     if rs_status sessionResponse = 401 then (s, [Call (Go_To (lit ''/auth''))], []) else
     (case (if rs_ok sessionResponse then map_sum id (\<lambda>j. s\<lparr>vg_session := Some j\<rparr>) (json_of sessionResponse) else Inr s) of
        Inl _ \<Rightarrow> (s, [], [])
      | Inr s1 \<Rightarrow> (case (if rs_ok configResponse then map_sum id (\<lambda>j. s1\<lparr>vg_config := Some j\<rparr>) (json_of configResponse) else Inr s1) of
          Inl _ \<Rightarrow> (s1, [], [])
        | Inr s2 \<Rightarrow> (s2, [], []))))"

definition page_arrived :: "bool \<Rightarrow> answer \<Rightarrow> vip_page \<Rightarrow> vip_page_reaction" where
  "page_arrived is_session a s = (case a of
     Inl _ \<Rightarrow> (s, [], [])
   | Inr r \<Rightarrow>
       (let loads = (if is_session then (Some r, snd (vg_loads s)) else (fst (vg_loads s), Some r));
            s1 = s\<lparr>vg_loads := loads\<rparr> in
        case loads of (Some r1, Some r2) \<Rightarrow> page_load_done r1 r2 s1 | _ \<Rightarrow> (s1, [], [])))"

definition section_props :: "platform \<Rightarrow> json \<Rightarrow> vip_props" where
  "section_props P session = (let sub = jget_safe session (lit ''subscription'') in
     \<lparr>vx_platform = P, vx_plan = str_at sub (lit ''plan''), vx_adBlock = jtruthy (jopt sub (lit ''vip_ad_block_enabled''))\<rparr>)"

definition page_ready :: "vip_page \<Rightarrow> bool" where
  "page_ready s \<longleftrightarrow> jtruthy (vg_session s) \<and> jtruthy (vg_config s)"

definition lift_vip :: "vip_page \<Rightarrow> vip_reaction \<Rightarrow> vip_page_reaction" where
  "lift_vip s r = (case r of (c, cmds, ps) \<Rightarrow> (s\<lparr>vg_section := Some c\<rparr>, cmds, map G_Vip ps))"

text \<open>The first render with both bodies mounts the section, which runs its effect.\<close>

definition page_settle :: "platform \<Rightarrow> vip_page_reaction \<Rightarrow> vip_page_reaction" where
  "page_settle P r = (case r of (s, cmds, ps) \<Rightarrow>
     (case (vg_section s, vg_session s) of
        (None, Some j) \<Rightarrow>
          if page_ready s
          then (let X = section_props P j in
            case lift_vip s (if isVip X then fetchProfiles (vip_init X) else (vip_init X, [], [])) of
              (s', cmds', ps') \<Rightarrow> (s', cmds @ cmds', ps @ ps'))
          else r
      | _ \<Rightarrow> r))"

fun page_handle :: "platform \<Rightarrow> vip_page_event \<Rightarrow> vip_page \<Rightarrow> vip_page_reaction" where
  "page_handle P Back s = (s, [Push (lit ''/dashboard'')], [])"
| "page_handle P (In_Vip e) s = (case (vg_section s, vg_session s) of
     (Some c, Some j) \<Rightarrow> lift_vip s (vip_handle (section_props P j) e c) | _ \<Rightarrow> (s, [], []))"

fun page_resume :: "platform \<Rightarrow> vip_page_wait \<Rightarrow> answer \<Rightarrow> vip_page \<Rightarrow> vip_page_reaction" where
  "page_resume P G_Session a s = page_settle P (page_arrived True a s)"
| "page_resume P G_Config a s = page_settle P (page_arrived False a s)"
| "page_resume P (G_Vip w) a s = (case (vg_section s, vg_session s) of
     (Some c, Some j) \<Rightarrow> lift_vip s (vip_resume (section_props P j) w a c) | _ \<Rightarrow> (s, [], []))"

definition page_view :: "platform \<Rightarrow> vip_page \<Rightarrow> vip_page_event view" where
  "page_view P s = (case (vg_session s, vg_config s, vg_section s) of
     (Some session, Some config, Some c) \<Rightarrow>
       if page_ready s
       then (let support = jget_safe config (lit ''support'') in El (lit ''main'')
         [El (lit ''header'') [Link (str_at support (lit ''telegram'')) [Text (lit ''Telegram'')],
            Link (lit ''mailto:'' @ str_at support (lit ''email'')) [Text ru_support]],
          Btn False Back [Text ru_back_dashboard],
          map_view In_Vip (vip_view (section_props P session) c)])
       else El (lit ''main'') [El (lit ''p'') [Text ru_loading_vip]]
   | _ \<Rightarrow> El (lit ''main'') [El (lit ''p'') [Text ru_loading_vip]])"

definition VipPageClient :: "platform \<Rightarrow> (vip_page, vip_page_event, vip_call, vip_page_wait) component" where
  "VipPageClient P = \<lparr>cp_view = page_view P, cp_ext = (\<lambda>_ _. False), cp_handle = page_handle P, cp_resume = page_resume P\<rparr>"

definition vip_page_start :: "(vip_page, vip_call, vip_page_wait) ui" where
  "vip_page_start = apply_reaction (page_load page_init) [] []"

subsection \<open>One change at a time\<close>

definition is_change :: "vip_wait \<Rightarrow> bool" where
  "is_change w \<longleftrightarrow> w \<noteq> V_List"

fun changes :: "vip_event \<Rightarrow> bool" where
  "changes Toggle_AdBlock = True"
| "changes Save_Rule = True"
| "changes (Toggle_Rule p) = True"
| "changes (Delete_Rule i b) = True"
| "changes (Copy_Preset code) = True"
| "changes _ = False"

lemma is_change_simps [simp]:
  "\<not> is_change V_List" "is_change (V_AdBlock b)" "is_change (V_Toggle ps i)" "is_change (V_Delete ps i)"
  "is_change (V_Save b)" "is_change (V_Token t)" "is_change V_Copy"
  by (simp_all add: is_change_def)

lemma offers_editor: "offers (editor_view s i) e \<Longrightarrow> changes e \<Longrightarrow> \<not> vs_loading s"
  by (auto simp: editor_view_def)

lemma offers_custom_rule: "offers (custom_rule_view s p) e \<Longrightarrow> \<not> vs_loading s"
  by (auto simp: custom_rule_view_def)

lemma offers_system_rule: "offers (system_rule_view s p) e \<Longrightarrow> \<not> vs_loading s"
  by (auto simp: system_rule_view_def split: if_splits)

lemma offers_custom_tab: "v \<in> set (custom_tab_view s) \<Longrightarrow> offers v e \<Longrightarrow> changes e \<Longrightarrow> \<not> vs_loading s"
  by (auto simp: custom_tab_view_def dest: offers_editor offers_custom_rule split: option.splits if_splits)

lemma vip_offers: "offers (vip_view X s) e \<Longrightarrow> isVip X"
  by (auto simp: vip_view_def split: if_splits)

lemma vip_offers_change: "offers (vip_view X s) e \<Longrightarrow> changes e \<Longrightarrow> \<not> vs_loading s"
  by (auto simp: vip_view_def dest: offers_custom_tab offers_system_rule split: if_splits)

definition change_ok :: "vip \<Rightarrow> vip_wait list \<Rightarrow> bool" where
  "change_ok s ws \<longleftrightarrow> in_flight is_change ws = (if vs_loading s then 1 else 0)"

lemma reload_custom_simps:
  "reload_custom s = (s\<lparr>vs_activeTab := Custom_Tab\<rparr>, [Fetch (fetch_plain (lit ''GET'') (lit ''/api/routing-profiles''))], [V_List])"
  by (simp add: reload_custom_def fetchProfiles_def)

lemma handle_change_ok:
  assumes "change_ok s ws" "changes e \<Longrightarrow> \<not> vs_loading s" "vip_handle X e s = (s', out, ps)"
  shows "change_ok s' (ws @ ps)"
  using assms
  by (cases e) (auto simp: change_ok_def toggleAdBlock_def busy_def exportToHapp_def startCreate_def startEdit_def
      saveProfile_def save_ok_def reload_custom_simps toggleProfile_def deleteProfile_def copySystemProfile_def
      split: if_splits sum.splits option.splits)

lemma settled_loading:
  assumes "settled P m f a s = (s', out, ps)" "\<And>r s s' out ps. f r s = (s', out, ps) \<Longrightarrow> in_flight is_change ps = 0"
  shows "\<not> vs_loading s' \<and> in_flight is_change ps = 0"
  using assms(1) by (auto simp: settled_def dest: assms(2) split: if_splits sum.splits prod.splits)

lemma resume_change_ok:
  assumes "change_ok s (ws @ w # ws')" "vip_resume X w a s = (s', out, ps)"
  shows "change_ok s' ((ws @ ws') @ ps)"
proof (cases "is_change w")
  case True
  then have none: "in_flight is_change (ws @ ws') = 0" "vs_loading s"
    using assms(1) by (auto simp: change_ok_def split: if_splits)
  show ?thesis
  proof (cases w)
    case (V_Token code)
    with assms(2) none show ?thesis
      by (auto simp: change_ok_def token_arrived_def vip_failed_def split: sum.splits if_splits)
  next
    case V_List
    with True show ?thesis by simp
  qed (use assms(2) none settled_loading in
      \<open>(force simp: change_ok_def adblock_done_def toggle_done_def delete_done_def save_done_def copy_done_def
        save_ok_def reload_custom_simps)+\<close>)
next
  case False
  with assms show ?thesis
    by (auto simp: is_change_def change_ok_def profiles_arrived_def split: sum.splits if_splits)
qed

lemma offered_change_ok:
  "change_ok s ws \<Longrightarrow> offers (vip_view X s) e \<Longrightarrow> vip_handle X e s = (s', out, ps) \<Longrightarrow> change_ok s' (ws @ ps)"
  using handle_change_ok vip_offers_change by blast

interpretation vips: ui_invariant "VipSection X" any "vip_start X" "\<lambda>s. change_ok (ui_comp s) (ui_wait s)"
proof
  show "change_ok (ui_comp (vip_start X)) (ui_wait (vip_start X))"
    by (simp add: vip_start_def fetchProfiles_def vip_init_def change_ok_def)
qed (auto simp: apply_reaction_def split: prod.splits dest: offered_change_ok resume_change_ok)

text \<open>C13: The VIP settings send one change at a time: a change waits for its answer exactly while the
  section is marked as loading, and no control that would start another one is enabled then.\<close>

theorem VipSection_single_change:
  assumes "ui_reach (VipSection X) any (vip_start X) s"
  shows "in_flight is_change (ui_wait s) = (if vs_loading (ui_comp s) then 1 else 0) \<and>
    (\<forall>e. offers (vip_view X (ui_comp s)) e \<longrightarrow> changes e \<longrightarrow> in_flight is_change (ui_wait s) = 0)"
  using vips.reach_keeps [OF assms] vip_offers_change by (fastforce simp: change_ok_def)

text \<open>A visitor with the VIP plan, and lists of rules that the server answers with.\<close>

definition sample_vip :: "platform \<Rightarrow> vip_props" where
  "sample_vip P = \<lparr>vx_platform = P, vx_plan = lit ''vip'', vx_adBlock = False\<rparr>"

definition rule_json :: "rat \<Rightarrow> json" where
  "rule_json i = JObj [(lit ''id'', JNum i), (lit ''kind'', JStr (lit ''custom''))]"

definition list_answer :: "rat list \<Rightarrow> answer" where
  "list_answer is = Inr (json_response 200 (JObj [(lit ''profiles'', JArr (map rule_json is))]))"

definition sample_rule :: "rat \<Rightarrow> vip_profile" where
  "sample_rule i = profile_of (rule_json i)"

lemma sample_vip_simps [simp]: "isVip (sample_vip P)" "vx_platform (sample_vip P) = P"
  by (simp_all add: isVip_def sample_vip_def)

lemma sample_rule_simps [simp]: "vp_id (sample_rule i) = i" "vp_kind (sample_rule i) = lit ''custom''"
  by (simp_all add: sample_rule_def profile_of_def rule_json_def num_at_def str_at_def jopt_def jget_safe_def lit_Cons)

lemma list_arrived: "profiles_arrived (list_answer is) s = (s\<lparr>vs_profiles := map sample_rule is\<rparr>, [], [])"
  by (simp add: profiles_arrived_def list_answer_def json_response_def jget_safe_def jarray_def sample_rule_def)

lemma vip_started: "\<exists>out. ui_reach (VipSection (sample_vip P)) any (vip_start (sample_vip P))
    \<lparr>ui_comp = (vip_init (sample_vip P))\<lparr>vs_profiles := map sample_rule is\<rparr>, ui_wait = [], ui_out = out\<rparr>"
  using reach_arrive [of "VipSection (sample_vip P)" any "vip_start (sample_vip P)" "vip_init (sample_vip P)" "[]" V_List "[]" _ "list_answer is"]
    reach_init [of "VipSection (sample_vip P)" any "vip_start (sample_vip P)"]
  by (simp add: vip_start_def fetchProfiles_def list_arrived) blast

theorem VipSection_single_change_witness:
  "\<exists>s. ui_reach (VipSection (sample_vip sample_platform)) any (vip_start (sample_vip sample_platform)) s \<and> in_flight is_change (ui_wait s) = 1"
proof -
  let ?X = "sample_vip sample_platform" and ?c = "(vip_init (sample_vip sample_platform))\<lparr>vs_profiles := map sample_rule []\<rparr>"
  obtain out where "ui_reach (VipSection ?X) any (vip_start ?X) \<lparr>ui_comp = ?c, ui_wait = [], ui_out = out\<rparr>"
    using vip_started by blast
  moreover have "offers (cp_view (VipSection ?X) ?c) Toggle_AdBlock" by (simp add: vip_view_def vip_init_def)
  ultimately have r: "ui_reach (VipSection ?X) any (vip_start ?X) (apply_reaction (cp_handle (VipSection ?X) Toggle_AdBlock ?c) [] out)"
    by (rule reach_user) simp
  from VipSection_single_change [OF r] r show ?thesis
    by (auto simp: toggleAdBlock_def busy_def)
qed

subsection \<open>A list that is out of date\<close>

text \<open>A new rule is saved, and the list is asked for again while a switch of another rule is under way.\<close>

lemma vip_saved:
  "\<exists>c out. ui_reach (VipSection (sample_vip P)) any (vip_start (sample_vip P)) \<lparr>ui_comp = c, ui_wait = [V_List], ui_out = out\<rparr> \<and>
     vs_profiles c = [sample_rule 1] \<and> \<not> vs_loading c \<and> vs_activeTab c = Custom_Tab"
proof -
  let ?X = "sample_vip P" and ?r = "ui_reach (VipSection (sample_vip P)) any (vip_start (sample_vip P))"
  let ?c0 = "(vip_init ?X)\<lparr>vs_profiles := map sample_rule [1]\<rparr>"
  let ?c1 = "startCreate ?c0" let ?c2 = "?c1\<lparr>vs_editName := lit ''n''\<rparr>"
  obtain out where "?r \<lparr>ui_comp = ?c0, ui_wait = [], ui_out = out\<rparr>" using vip_started by blast
  from reach_user [OF this, of Start_Create] have "?r \<lparr>ui_comp = ?c1, ui_wait = [], ui_out = out\<rparr>"
    by (simp add: vip_view_def vip_init_def custom_tab_view_def)
  from reach_user [OF this, of "Edit_Name (lit ''n'')"] have "?r \<lparr>ui_comp = ?c2, ui_wait = [], ui_out = out\<rparr>"
    by (simp add: vip_view_def vip_init_def custom_tab_view_def editor_view_def startCreate_def)
  from reach_user [OF this, of Save_Rule] obtain out' where "?r \<lparr>ui_comp = busy ?c2, ui_wait = [V_Save True], ui_out = out'\<rparr>"
    by (auto simp: vip_view_def vip_init_def custom_tab_view_def editor_view_def startCreate_def saveProfile_def lit_Cons)
  from reach_arrive [of "VipSection ?X" any "vip_start ?X" _ "[]" _ "[]" _ "Inr (json_response 200 JNull)", simplified, OF this]
  show ?thesis
    by (auto simp: save_done_def settled_def save_ok_def reload_custom_simps startCreate_def busy_def json_response_def rs_ok_def)
qed

text \<open>C38: Switching a rule can take another rule off the page: the continuation of \<^verbatim>\<open>toggleProfile\<close>
  works on the list of the moment of the click, so that a rule which arrived with a newer list in between
  disappears, and nothing that is under way brings it back.\<close>

theorem toggleProfile_loses_rule:
  "\<exists>s s'. ui_reach (VipSection (sample_vip P)) any (vip_start (sample_vip P)) s \<and>
     ui_step (VipSection (sample_vip P)) s (Arrive (V_Toggle [sample_rule 1] 1) (Inr (json_response 200 JNull))) s' \<and>
     sample_rule 2 \<in> set (vs_profiles (ui_comp s)) \<and> 2 \<notin> vp_id ` set (vs_profiles (ui_comp s')) \<and> ui_wait s' = []"
proof -
  let ?X = "sample_vip P" and ?r = "ui_reach (VipSection (sample_vip P)) any (vip_start (sample_vip P))"
  obtain c out where c: "?r \<lparr>ui_comp = c, ui_wait = [V_List], ui_out = out\<rparr>" "vs_profiles c = [sample_rule 1]"
    "\<not> vs_loading c" "vs_activeTab c = Custom_Tab" using vip_saved by blast
  let ?c1 = "busy c" and ?c2 = "(busy c)\<lparr>vs_profiles := map sample_rule [1, 2]\<rparr>"
  from reach_user [OF c(1), of "Toggle_Rule (sample_rule 1)"] c(2-4)
  obtain out1 where "?r \<lparr>ui_comp = ?c1, ui_wait = [V_List, V_Toggle [sample_rule 1] 1], ui_out = out1\<rparr>"
    by (auto simp: vip_view_def custom_tab_view_def customProfiles_def custom_rule_view_def toggleProfile_def)
  from reach_arrive [of "VipSection ?X" any "vip_start ?X" _ "[]" V_List _ _ "list_answer [1, 2]", simplified, OF this]
  have "?r \<lparr>ui_comp = ?c2, ui_wait = [V_Toggle [sample_rule 1] 1], ui_out = out1\<rparr>" by (simp add: list_arrived)
  moreover from step_arrive [of "VipSection ?X" ?c2 "[]" "V_Toggle [sample_rule 1] 1" "[]" out1 "Inr (json_response 200 JNull)"]
  have "ui_step (VipSection ?X) \<lparr>ui_comp = ?c2, ui_wait = [V_Toggle [sample_rule 1] 1], ui_out = out1\<rparr>
     (Arrive (V_Toggle [sample_rule 1] 1) (Inr (json_response 200 JNull)))
     (apply_reaction (toggle_done P [sample_rule 1] 1 (Inr (json_response 200 JNull)) ?c2) [] out1)" by simp
  ultimately show ?thesis
    by - (intro exI conjI, assumption, assumption, simp_all add: toggle_done_def settled_def json_response_def rs_ok_def)
qed

subsection \<open>Copying a preset\<close>

text \<open>C37: A preset is never copied with the token of the visitor: the session request, whose answer
  \<^verbatim>\<open>copySystemProfile\<close> takes the token from, never returns one, so that the request that copies goes out with
  the text \<^verbatim>\<open>Bearer undefined\<close>.\<close>

theorem copySystemProfile_unauthenticated:
  assumes "GET_session E w = (Inr r, w')" "rs_ok r"
  shows "\<exists>rq. token_arrived P code (Inr r) s = (s, [Fetch rq], [V_Copy]) \<and>
    header_get (rq_headers rq) (lit ''Authorization'') = Some (lit ''Bearer undefined'')"
proof -
  obtain user subscription where "rs_body r = JsonBody (JObj [(lit ''authenticated'', JBool True),
      (lit ''user'', user), (lit ''subscription'', subscription)])"
    using GET_session_fields [OF assms] by blast
  with assms(2) show ?thesis
    by (simp add: token_arrived_def copy_request_def new_headers_def jget_def lit_Cons)
qed

theorem copySystemProfile_unauthenticated_witness:
  "\<exists>r w' rq. GET_session sim_env (sim_start sim_cookies2 [json_response 200 JNull, json_response 200 JNull]) = (Inr r, w') \<and>
    token_arrived sample_platform (lit ''ru'') (Inr r) (vip_init (sample_vip sample_platform)) =
      (vip_init (sample_vip sample_platform), [Fetch rq], [V_Copy]) \<and>
    header_get (rq_headers rq) (lit ''Authorization'') = Some (lit ''Bearer undefined'')"
proof -
  obtain w' where r: "GET_session sim_env (sim_start sim_cookies2 [json_response 200 JNull, json_response 200 JNull]) =
      (Inr (json_response 200 (JObj [(lit ''authenticated'', JBool True), (lit ''user'', JNull), (lit ''subscription'', JNull)])), w')"
    using GET_session_sample by blast
  have "rs_ok (json_response 200 j)" for j by (simp add: json_response_def rs_ok_def)
  from copySystemProfile_unauthenticated [OF r this] r show ?thesis by blast
qed

subsection \<open>The export\<close>

definition profile_units :: "vip_profile \<Rightarrow> bool" where
  "profile_units p \<longleftrightarrow> (\<forall>t \<in> set (vp_action p # all_domains p). \<forall>c \<in> set t. c < 65536)"

lemma wf_happ_rule: "profile_units p \<Longrightarrow> wf_text (stringify N (happ_rule p))"
  unfolding happ_rule_def profile_units_def
  by (auto intro!: wf_text_append wf_text_join simp: wf_lit wf_json_quote)

lemma wf_happProfile: "\<forall>p \<in> set rules. profile_units p \<Longrightarrow> wf_text (stringify N (happProfile rules))"
  unfolding happProfile_def
  by (auto intro!: wf_text_append wf_text_join simp: wf_lit wf_json_quote wf_happ_rule)

text \<open>C11: The export succeeds whenever there is a rule: the page opens a Happ link whose payload decodes
  to the UTF-8 form of the JSON document of the rules, whatever characters (lone surrogates included) the rules
  have. The message for a failed export is never shown.\<close>

theorem exportToHapp_link:
  assumes "customProfiles s \<noteq> []" "\<forall>p \<in> set (customProfiles s). profile_units p"
  shows "\<exists>b. exportToHapp P s = (s, [Assign (lit ''happ://routing/onadd/'' @ b)], []) \<and>
    utf8_text (stringify (pf_number P) (happProfile (customProfiles s))) = Some (atob b)"
proof -
  obtain t b where "encodeURIComponent (stringify (pf_number P) (happProfile (customProfiles s))) = Inr t"
    "btoa (unescape t) = Inr b" "utf8_text (stringify (pf_number P) (happProfile (customProfiles s))) = Some (atob b)"
    using base64_text [OF wf_happProfile [OF assms(2)]] by blast
  with assms(1) show ?thesis by (simp add: exportToHapp_def happ_link_def)
qed

theorem exportToHapp_link_witness:
  "\<exists>b. exportToHapp sample_platform ((vip_init (sample_vip sample_platform))\<lparr>vs_profiles := [sample_rule 1]\<rparr>) =
      ((vip_init (sample_vip sample_platform))\<lparr>vs_profiles := [sample_rule 1]\<rparr>, [Assign (lit ''happ://routing/onadd/'' @ b)], [])"
proof -
  let ?s = "(vip_init (sample_vip sample_platform))\<lparr>vs_profiles := [sample_rule 1]\<rparr>"
  have "customProfiles ?s = [sample_rule 1]" by (simp add: customProfiles_def)
  moreover have "profile_units (sample_rule 1)"
    by (simp add: profile_units_def all_domains_def sample_rule_def profile_of_def rule_json_def strings_at_def
        str_at_def jopt_def jget_safe_def jarray_def lit_Cons)
  ultimately show ?thesis using exportToHapp_link [of ?s sample_platform] by auto
qed

subsection \<open>Editing\<close>

lemma truthy_filter: "\<forall>w \<in> set ws. w \<noteq> [] \<Longrightarrow> filter truthy ws = ws"
  by (simp add: filter_id_conv)

text \<open>Opening a rule in the editor and saving it unchanged sends the name, the action and every
  domain, suffix and address range of the rule, in order, if none of them is empty or holds a separator.\<close>

lemma startEdit_roundtrip:
  assumes "\<forall>w \<in> set (all_domains p). w \<noteq> [] \<and> (\<forall>c \<in> set w. \<not> is_ws c \<and> c \<noteq> 44)" "truthy (vp_action p)"
  shows "save_body (startEdit p s) = JObj [(lit ''name'', JStr (vp_name p)), (lit ''action'', JStr (vp_action p)),
    (lit ''domains'', JArr (map JStr (all_domains p)))]"
proof -
  have "domains_of (join nl (all_domains p)) = all_domains p"
  proof (cases "all_domains p = []")
    case False
    with split_runs_join [of "all_domains p" "\<lambda>c. is_ws c \<or> c = 44" 10] assms(1) truthy_filter [of "all_domains p"]
    show ?thesis by (simp add: domains_of_def is_ws_def)
  qed (simp add: domains_of_def)
  with assms(2) show ?thesis by (simp add: save_body_def startEdit_def)
qed

subsection \<open>The page asks nothing for other plans\<close>

definition vip_session :: "platform \<Rightarrow> vip_page \<Rightarrow> bool" where
  "vip_session P s \<longleftrightarrow> (case vg_session s of None \<Rightarrow> False | Some j \<Rightarrow> isVip (section_props P j))"

fun loads_page :: "'x cmd \<Rightarrow> bool" where
  "loads_page (Fetch rq) \<longleftrightarrow> rq_url rq \<in> {lit ''/api/session'', lit ''/api/site-config''}"
| "loads_page _ \<longleftrightarrow> True"

fun is_load :: "vip_page_wait \<Rightarrow> bool" where
  "is_load (G_Vip w) = False"
| "is_load _ = True"

text \<open>The answers of the first load come once, and before the section is there.\<close>

definition page_ok :: "platform \<Rightarrow> vip_page \<Rightarrow> vip_page_wait list \<Rightarrow> vip_call cmd list \<Rightarrow> bool" where
  "page_ok P s ws out \<longleftrightarrow>
     in_flight ((=) G_Session) ws + (if fst (vg_loads s) = None then 0 else 1) \<le> 1 \<and>
     in_flight ((=) G_Config) ws + (if snd (vg_loads s) = None then 0 else 1) \<le> 1 \<and>
     (vg_session s = None \<or> list_all (\<lambda>w. \<not> is_load w) ws) \<and>
     (vip_session P s \<or> list_all is_load ws \<and> list_all loads_page out)"

lemma list_all_none: "in_flight ((=) G_Session) ws = 0 \<Longrightarrow> in_flight ((=) G_Config) ws = 0 \<Longrightarrow> list_all (\<lambda>w. \<not> is_load w) ws"
proof (induction ws)
  case (Cons w ws)
  then show ?case by (cases w) (auto split: if_splits)
qed simp

lemma page_start_ok: "page_ok P (ui_comp vip_page_start) (ui_wait vip_page_start) (ui_out vip_page_start)"
  by (simp add: vip_page_start_def page_load_def page_init_def page_ok_def fetch_plain_def)

lemma lift_vip_run: "lift_vip s (c, cmds, ps) = (s\<lparr>vg_section := Some c\<rparr>, cmds, map G_Vip ps)"
  by (simp add: lift_vip_def)

lemma in_flight_vip [simp]: "in_flight ((=) G_Session) (map G_Vip ps) = 0" "in_flight ((=) G_Config) (map G_Vip ps) = 0"
  by (induction ps) simp_all

lemma list_all_vip [simp]: "list_all (\<lambda>w. \<not> is_load w) (map G_Vip ps)"
  by (induction ps) simp_all

text \<open>A step of the section, for a session of the plan.\<close>

lemma page_ok_section:
  assumes "page_ok P s ws out" "vip_session P s"
  shows "page_ok P (s\<lparr>vg_section := c\<rparr>) (ws @ map G_Vip ps) (out @ cmds)"
  using assms by (simp add: page_ok_def vip_session_def)

lemma page_view_offers: "offers (page_view P s) (In_Vip e) \<Longrightarrow> vip_session P s"
  by (auto simp: page_view_def vip_session_def Let_def dest: vip_offers split: option.splits if_splits)

lemma page_load_done_run:
  assumes "page_load_done r1 r2 s = (s', cmds, ps)"
  shows "ps = [] \<and> list_all loads_page cmds \<and> vg_loads s' = vg_loads s"
  using assms by (cases "json_of r1"; cases "json_of r2") (auto simp: page_load_done_def split: if_splits)

lemma page_arrived_run:
  assumes "page_arrived b a s = (s', cmds, ps)"
  shows "ps = [] \<and> list_all loads_page cmds \<and>
    (b \<or> fst (vg_loads s') = fst (vg_loads s)) \<and> (\<not> b \<or> snd (vg_loads s') = snd (vg_loads s)) \<and>
    (vg_session s' = vg_session s \<or> fst (vg_loads s') \<noteq> None \<and> snd (vg_loads s') \<noteq> None)"
proof (cases a)
  case (Inl e)
  with assms show ?thesis by (auto simp: page_arrived_def)
next
  case (Inr r)
  define l where "l = (if b then (Some r, snd (vg_loads s)) else (fst (vg_loads s), Some r))"
  show ?thesis
  proof (cases "fst l = None \<or> snd l = None")
    case True
    with assms Inr have "s' = s\<lparr>vg_loads := l\<rparr> \<and> cmds = [] \<and> ps = []"
      by (cases l) (auto simp: page_arrived_def Let_def l_def [symmetric] split: option.splits)
    then show ?thesis by (auto simp: l_def)
  next
    case False
    with assms Inr obtain r1 r2 where "l = (Some r1, Some r2)" "page_load_done r1 r2 (s\<lparr>vg_loads := l\<rparr>) = (s', cmds, ps)"
      by (cases l) (auto simp: page_arrived_def Let_def l_def [symmetric])
    with page_load_done_run show ?thesis by (fastforce simp: l_def split: if_splits)
  qed
qed

lemma page_settle_ok:
  assumes "page_ok P s ws out" "page_settle P (s, cmds, []) = (s', cmds', ps)" "list_all loads_page cmds"
  shows "page_ok P s' (ws @ ps) (out @ cmds')"
proof (cases "page_settle P (s, cmds, []) = (s, cmds, [])")
  case True
  with assms show ?thesis by (auto simp: page_ok_def)
next
  case False
  then obtain j where j: "vg_section s = None" "vg_session s = Some j" "page_ready s"
    by (auto simp: page_settle_def split: option.splits if_splits)
  show ?thesis
  proof (cases "isVip (section_props P j)")
    case True
    with j assms(2) obtain c where "s' = s\<lparr>vg_section := c\<rparr>" "ps = map G_Vip [V_List]" "\<exists>ks. cmds' = cmds @ ks"
      by (auto simp: page_settle_def Let_def fetchProfiles_def lift_vip_run)
    moreover have "vip_session P s" using True j by (simp add: vip_session_def)
    ultimately show ?thesis using page_ok_section [OF assms(1)] by blast
  next
    case False
    with j assms(2) have "s' = s\<lparr>vg_section := Some (vip_init (section_props P j))\<rparr>" "ps = []" "cmds' = cmds"
      by (auto simp: page_settle_def Let_def lift_vip_run)
    with assms(1,3) show ?thesis by (auto simp: page_ok_def vip_session_def)
  qed
qed

lemma page_load_ok:
  assumes ok: "page_ok P s (ws @ w # ws') out" and w: "w = (if b then G_Session else G_Config)"
    and run: "page_settle P (page_arrived b a s) = (s', cmds, ps)"
  shows "page_ok P s' ((ws @ ws') @ ps) (out @ cmds)"
proof -
  obtain s1 ks qs where r: "page_arrived b a s = (s1, ks, qs)" by (cases "page_arrived b a s") auto
  note a = page_arrived_run [OF r]
  from ok w have none: "vg_session s = None" "list_all is_load (ws @ ws')" "list_all loads_page out"
    by (auto simp: page_ok_def vip_session_def split: if_splits)
  have "vg_session s1 = None \<or> list_all (\<lambda>w. \<not> is_load w) (ws @ ws')"
    using ok w a none(1) by (cases b) (auto simp: page_ok_def list_all_none split: if_splits)
  with ok w a none have "page_ok P s1 (ws @ ws') out"
    by (cases b) (auto simp: page_ok_def split: if_splits)
  from page_settle_ok [OF this] run r a show ?thesis by auto
qed

lemma page_handle_ok:
  assumes "page_ok P s ws out" "offers (page_view P s) e" "page_handle P e s = (s', cmds, ps)"
  shows "page_ok P s' (ws @ ps) (out @ cmds)"
proof (cases e)
  case Back
  with assms show ?thesis by (auto simp: page_ok_def)
next
  case (In_Vip e0)
  with assms(2) have vip: "vip_session P s" using page_view_offers by simp
  then obtain j where j: "vg_session s = Some j" by (auto simp: vip_session_def split: option.splits)
  show ?thesis
  proof (cases "vg_section s")
    case (Some c)
    obtain c' ks qs where "vip_handle (section_props P j) e0 c = (c', ks, qs)" using prod_cases3 by blast
    with assms(3) In_Vip Some j page_ok_section [OF assms(1) vip] show ?thesis by (auto simp: lift_vip_run)
  qed (use assms In_Vip in auto)
qed

lemma page_resume_ok:
  assumes "page_ok P s (ws @ w # ws') out" "page_resume P w a s = (s', cmds, ps)"
  shows "page_ok P s' ((ws @ ws') @ ps) (out @ cmds)"
proof (cases w)
  case (G_Vip v)
  with assms(1) have vip: "vip_session P s" and ok: "page_ok P s (ws @ ws') out" by (auto simp: page_ok_def)
  then obtain j where j: "vg_session s = Some j" by (auto simp: vip_session_def split: option.splits)
  show ?thesis
  proof (cases "vg_section s")
    case (Some c)
    obtain c' ks qs where "vip_resume (section_props P j) v a c = (c', ks, qs)" using prod_cases3 by blast
    with assms(2) G_Vip Some j page_ok_section [OF ok vip] show ?thesis by (auto simp: lift_vip_run)
  qed (use assms(2) ok G_Vip in auto)
next
  case G_Session
  with page_load_ok [OF assms(1), of True] assms(2) show ?thesis by simp
next
  case G_Config
  with page_load_ok [OF assms(1), of False] assms(2) show ?thesis by simp
qed

lemma VipPageClient_sel [simp]:
  "cp_view (VipPageClient P) = page_view P" "cp_ext (VipPageClient P) = (\<lambda>_ _. False)"
  "cp_handle (VipPageClient P) = page_handle P" "cp_resume (VipPageClient P) = page_resume P"
  by (simp_all add: VipPageClient_def)

interpretation vip_pages: ui_invariant "VipPageClient P" any vip_page_start "\<lambda>s. page_ok P (ui_comp s) (ui_wait s) (ui_out s)"
  by unfold_locales
    (auto simp: page_start_ok apply_reaction_def split: prod.splits dest: page_handle_ok page_resume_ok)

text \<open>C23: The VIP page sends a request other than the two that load it only when the session says that the
  plan of the visitor is a VIP plan, in whatever order the answers arrive.\<close>

theorem VipPageClient_gate:
  assumes "ui_reach (VipPageClient P) any vip_page_start s" "Fetch rq \<in> set (ui_out s)"
    "rq_url rq \<noteq> lit ''/api/session''" "rq_url rq \<noteq> lit ''/api/site-config''"
  shows "\<exists>j. vg_session (ui_comp s) = Some j \<and> vx_plan (section_props P j) \<in> {lit ''vip'', lit ''vip_3m''}"
proof -
  have "vip_session P (ui_comp s)"
    using vip_pages.reach_keeps [OF assms(1)] assms(2-4) by (auto simp: page_ok_def list_all_iff)
  then show ?thesis by (auto simp: vip_session_def isVip_def split: option.splits)
qed

definition sample_vip_session :: json where
  "sample_vip_session = JObj [(lit ''subscription'', JObj [(lit ''plan'', JStr (lit ''vip''))])]"

lemma sample_vip_page:
  "\<exists>s. ui_reach (VipPageClient sample_platform) any vip_page_start s \<and>
     Fetch (fetch_plain (lit ''GET'') (lit ''/api/routing-profiles'')) \<in> set (ui_out s)"
proof -
  let ?C = "VipPageClient sample_platform" and ?ok = "\<lambda>j. Inr (json_response 200 j) :: answer"
  have "ui_reach ?C any vip_page_start vip_page_start" by (rule reach_init)
  from reach_arrive [of ?C any vip_page_start _ "[]" G_Session "[G_Config]" _ "?ok sample_vip_session", simplified] this
  obtain out where "ui_reach ?C any vip_page_start
      \<lparr>ui_comp = page_init\<lparr>vg_loads := (Some (json_response 200 sample_vip_session), None)\<rparr>, ui_wait = [G_Config], ui_out = out\<rparr>"
    by (fastforce simp: vip_page_start_def page_load_def page_arrived_def page_settle_def page_init_def)
  from reach_arrive [of ?C any vip_page_start _ "[]" G_Config "[]" _ "?ok (JBool True)", simplified, OF this]
  show ?thesis
    by (auto simp: page_arrived_def page_load_done_def page_settle_def page_init_def page_ready_def json_response_def rs_ok_def
        sample_vip_session_def section_props_def isVip_def str_at_def jopt_def jget_safe_def fetchProfiles_def lift_vip_run Let_def)
qed

theorem VipPageClient_gate_witness:
  "\<exists>s j. ui_reach (VipPageClient sample_platform) any vip_page_start s \<and> vg_session (ui_comp s) = Some j \<and>
     vx_plan (section_props sample_platform j) \<in> {lit ''vip'', lit ''vip_3m''}"
proof -
  obtain s where s: "ui_reach (VipPageClient sample_platform) any vip_page_start s"
    "Fetch (fetch_plain (lit ''GET'') (lit ''/api/routing-profiles'')) \<in> set (ui_out s)"
    using sample_vip_page by blast
  from VipPageClient_gate [OF s] s(1) show ?thesis by (auto simp: fetch_plain_def)
qed

end
