(* ===== verification/Auth_Form.thy ===== *)
theory Auth_Form
  imports Ui_Machine Js_Text
begin

section \<open>The sign-in form (web/components/AuthForm.tsx)\<close>

text \<open>
  The form for signing in, creating an account and resetting a password, as a machine of
  \<^theory_text>\<open>Ui_Machine\<close>. \<open>onSubmit\<close> is split at its \<^verbatim>\<open>await\<close>: \<open>onSubmit\<close> sends the request and
  leaves a continuation with the values its closure captured, \<open>onSubmit_done\<close> is the rest. The
  checks of the browser on \<^verbatim>\<open>required\<close> fields are left out, so more submissions are possible here
  than there.
\<close>

datatype mode = Login | Register | Reset

record copy_entry =
  cy_title :: jsstr
  cy_subtitle :: jsstr
  cy_cta :: jsstr

fun COPY :: "mode \<Rightarrow> copy_entry" where
  "COPY Login = \<lparr>cy_title = ru_login_title, cy_subtitle = ru_login_subtitle, cy_cta = ru_login_cta\<rparr>"
| "COPY Register = \<lparr>cy_title = ru_register_title, cy_subtitle = ru_register_subtitle, cy_cta = ru_register_cta\<rparr>"
| "COPY Reset = \<lparr>cy_title = ru_reset_title, cy_subtitle = ru_reset_subtitle, cy_cta = ru_reset_cta\<rparr>"

text \<open>\<^verbatim>\<open>postJSON\<close> after its \<^verbatim>\<open>fetch\<close>: a body that is not JSON counts as \<^verbatim>\<open>{}\<close>.\<close>

definition postJSON_result :: "platform \<Rightarrow> answer \<Rightarrow> exn + json" where
  "postJSON_result P a = (case a of
     Inl e \<Rightarrow> Inl e
   | Inr response \<Rightarrow>
       let data = (case json_of response of Inl _ \<Rightarrow> JObj [] | Inr j \<Rightarrow> j) in
       if \<not> rs_ok response then
         (if data = JNull then Inl TypeError
          else Inl (Error (template (pf_number P)
            (jnullish (jget_safe data (lit ''error''))
              (jnullish (jget_safe data (lit ''message'')) (JStr ru_request_failed))))))
       else Inr data)"

record auth_form =
  af_mode :: mode
  af_email :: jsstr
  af_password :: jsstr
  af_code :: jsstr
  af_message :: jsstr
  af_error :: jsstr
  af_isCodeSent :: bool
  af_isPasswordVisible :: bool
  af_loading :: bool

definition auth_init :: auth_form where
  "auth_init = \<lparr>af_mode = Login, af_email = [], af_password = [], af_code = [], af_message = [], af_error = [],
     af_isCodeSent = False, af_isPasswordVisible = False, af_loading = False\<rparr>"

text \<open>What the closure of a submission captured.\<close>

record submission =
  sb_mode :: mode
  sb_isCodeSent :: bool

definition onSubmit :: "auth_form \<Rightarrow> (auth_form, unit, submission) reaction" where
  "onSubmit s =
     (let s' = s\<lparr>af_error := [], af_message := [], af_loading := True\<rparr>;
          email = (lit ''email'', JStr (af_email s));
          password = (lit ''password'', JStr (af_password s));
          code = (lit ''code'', JStr (af_code s));
          rq = (if af_mode s = Login then fetch_json (lit ''POST'') (lit ''/api/auth/login'') (JObj [email, password])
                else if af_mode s = Register \<and> \<not> af_isCodeSent s
                then fetch_json (lit ''POST'') (lit ''/api/auth/register'') (JObj [email, password])
                else if af_mode s = Register then fetch_json (lit ''POST'') (lit ''/api/auth/verify'') (JObj [email, code])
                else if af_mode s = Reset \<and> \<not> af_isCodeSent s
                then fetch_json (lit ''POST'') (lit ''/api/auth/forgot'') (JObj [email])
                else fetch_json (lit ''POST'') (lit ''/api/auth/reset'')
                       (JObj [email, code, (lit ''new_password'', JStr (af_password s))]))
      in (s', [Fetch rq], [\<lparr>sb_mode = af_mode s, sb_isCodeSent = af_isCodeSent s\<rparr>]))"

definition dashboard_url :: "jsstr \<Rightarrow> jsstr" where
  "dashboard_url initialPlan = (if truthy initialPlan then lit ''/dashboard?plan='' @ initialPlan else lit ''/dashboard'')"

definition onSubmit_done ::
    "platform \<Rightarrow> jsstr \<Rightarrow> submission \<Rightarrow> answer \<Rightarrow> auth_form \<Rightarrow> (auth_form, unit, submission) reaction" where
  "onSubmit_done P initialPlan p a s = (case postJSON_result P a of
     Inl err \<Rightarrow> (s\<lparr>af_error := message_of P err, af_loading := False\<rparr>, [], [])
   | Inr _ \<Rightarrow>
       if sb_mode p = Login then (s\<lparr>af_loading := False\<rparr>, [Push (dashboard_url initialPlan)], [])
       else if sb_mode p = Register \<and> \<not> sb_isCodeSent p
       then (s\<lparr>af_isCodeSent := True, af_message := ru_code_sent, af_loading := False\<rparr>, [], [])
       else if sb_mode p = Register then (s\<lparr>af_loading := False\<rparr>, [Push (dashboard_url initialPlan)], [])
       else if sb_mode p = Reset \<and> \<not> sb_isCodeSent p
       then (s\<lparr>af_isCodeSent := True, af_message := ru_code_maybe_sent, af_loading := False\<rparr>, [], [])
       else (s\<lparr>af_mode := Login, af_isCodeSent := False, af_message := ru_password_updated, af_loading := False\<rparr>, [], []))"

definition switchMode :: "mode \<Rightarrow> auth_form \<Rightarrow> auth_form" where
  "switchMode nextMode s = s\<lparr>af_mode := nextMode, af_isCodeSent := False, af_message := [], af_error := [], af_code := []\<rparr>"

definition showPassword :: "auth_form \<Rightarrow> bool" where
  "showPassword s \<longleftrightarrow> af_mode s = Login \<or> (af_mode s = Register \<and> \<not> af_isCodeSent s) \<or> (af_mode s = Reset \<and> af_isCodeSent s)"

definition showCode :: "auth_form \<Rightarrow> bool" where
  "showCode s \<longleftrightarrow> af_isCodeSent s \<and> af_mode s \<noteq> Login"

definition buttonLabel :: "auth_form \<Rightarrow> jsstr" where
  "buttonLabel s = (if af_loading s then ru_please_wait else if showCode s then ru_confirm else cy_cta (COPY (af_mode s)))"

datatype auth_event =
    Submit
  | Set_Email jsstr
  | Set_Password jsstr
  | Set_Code jsstr
  | Toggle_Password
  | Switch_Mode mode

definition auth_view :: "auth_form \<Rightarrow> auth_event view" where
  "auth_view s = El (lit ''main'') [
     El (lit ''span'') [Text ru_encryption_eyebrow],
     El (lit ''h1'') [Text (cy_title (COPY (af_mode s)))],
     El (lit ''p'') [Text (cy_subtitle (COPY (af_mode s)))],
     El (lit ''form'') (
       [El (lit ''label'') [Text (lit ''Email''), Input False (lit ''email'') (af_email s) Set_Email]]
       @ show_if (showPassword s) (El (lit ''div'') (
           [El (lit ''label'') [Text (if af_mode s = Reset then ru_new_password else ru_password)],
            Input False (if af_isPasswordVisible s then lit ''text'' else lit ''password'') (af_password s) Set_Password,
            Btn False Toggle_Password []]
           @ show_if (af_mode s = Login) (Btn False (Switch_Mode Reset) [Text ru_forgot_password])))
       @ show_if (showCode s) (El (lit ''label'') [Text ru_code_from_email, Input False (lit ''text'') (af_code s) Set_Code])
       @ show_if (truthy (af_message s)) (El (lit ''div'') [Text (af_message s)])
       @ show_if (truthy (af_error s)) (El (lit ''div'') [Text (af_error s)])
       @ [Btn (af_loading s) Submit [Text (buttonLabel s)]]),
     El (lit ''div'') (
       show_if (af_mode s = Login) (El (lit ''p'') [Text ru_no_account, Btn False (Switch_Mode Register) [Text ru_create]])
       @ show_if (af_mode s = Register) (El (lit ''p'') [Text ru_have_account, Btn False (Switch_Mode Login) [Text ru_login_cta]])
       @ show_if (af_mode s = Reset) (El (lit ''p'') [Btn False (Switch_Mode Login) [Text ru_back_to_login]])),
     El (lit ''p'') [Text ru_fineprint]]"

fun auth_handle :: "auth_event \<Rightarrow> auth_form \<Rightarrow> (auth_form, unit, submission) reaction" where
  "auth_handle Submit s = onSubmit s"
| "auth_handle (Set_Email x) s = (s\<lparr>af_email := x\<rparr>, [], [])"
| "auth_handle (Set_Password x) s = (s\<lparr>af_password := x\<rparr>, [], [])"
| "auth_handle (Set_Code x) s = (s\<lparr>af_code := x\<rparr>, [], [])"
| "auth_handle Toggle_Password s = (s\<lparr>af_isPasswordVisible := \<not> af_isPasswordVisible s\<rparr>, [], [])"
| "auth_handle (Switch_Mode m) s = (switchMode m s, [], [])"

definition AuthForm :: "platform \<Rightarrow> jsstr \<Rightarrow> (auth_form, auth_event, unit, submission) component" where
  "AuthForm P initialPlan = \<lparr>cp_view = auth_view, cp_ext = (\<lambda>_ _. False), cp_handle = auth_handle,
     cp_resume = onSubmit_done P initialPlan\<rparr>"

lemma AuthForm_sel [simp]:
  "cp_view (AuthForm P plan) = auth_view" "cp_ext (AuthForm P plan) = (\<lambda>_ _. False)"
  "cp_handle (AuthForm P plan) = auth_handle" "cp_resume (AuthForm P plan) = onSubmit_done P plan"
  by (simp_all add: AuthForm_def)

subsection \<open>One request at a time\<close>

lemma auth_offers_Submit [simp]: "offers (auth_view s) Submit \<longleftrightarrow> \<not> af_loading s"
  by (auto simp: auth_view_def)

lemma auth_offers_Switch [simp]: "offers (auth_view s) (Switch_Mode m) \<longleftrightarrow>
    (af_mode s = Login \<and> m \<noteq> Login) \<or> (af_mode s \<noteq> Login \<and> m = Login)"
  by (cases m; cases "af_mode s") (auto simp: auth_view_def showPassword_def)

text \<open>The form waits exactly while a request is in flight, never for two; it leads to the dashboard only
  after a sign-in or a confirmation was asked for.\<close>

definition auth_inv :: "jsstr \<Rightarrow> (auth_form, unit, submission) ui \<Rightarrow> bool" where
  "auth_inv plan s \<longleftrightarrow> length (ui_wait s) = (if af_loading (ui_comp s) then 1 else 0) \<and>
     list_all (\<lambda>p. (sb_mode p = Login \<longrightarrow> asked (lit ''/api/auth/login'') (ui_out s)) \<and>
                   (sb_mode p = Register \<and> sb_isCodeSent p \<longrightarrow> asked (lit ''/api/auth/verify'') (ui_out s))) (ui_wait s) \<and>
     list_all (\<lambda>u. u = dashboard_url plan) (pushes (ui_out s)) \<and>
     (pushes (ui_out s) \<noteq> [] \<longrightarrow> asked (lit ''/api/auth/login'') (ui_out s) \<or> asked (lit ''/api/auth/verify'') (ui_out s))"

lemma auth_inv_keeps: "ui_invariant (AuthForm P plan) any (idle_with auth_init) (auth_inv plan)"
proof (unfold_locales, goal_cases)
  case 1
  show ?case by (simp add: auth_inv_def auth_init_def)
next
  case (2 c ws out e)
  then show ?case
    by (cases e) (auto simp: auth_inv_def onSubmit_def switchMode_def Let_def split: if_splits)
next
  case (3 c ws out e)
  then show ?case by simp
next
  case (4 c ws p ws' out a)
  then have "ws = []" "ws' = []" "af_loading c" by (auto simp: auth_inv_def split: if_splits)
  with 4 show ?case
    by (cases "postJSON_result P a") (auto simp: auth_inv_def onSubmit_done_def)
qed

interpretation auth: ui_invariant "AuthForm P plan" any "idle_with auth_init" "auth_inv plan"
  by (rule auth_inv_keeps)

text \<open>C19: The sign-in form never has two requests in flight and is waiting exactly while one is; it
  navigates nowhere but to the dashboard, and only after a sign-in or a confirmation was asked for.\<close>

theorem AuthForm_single_flight:
  assumes "ui_reach (AuthForm P plan) any (idle_with auth_init) s"
  shows "length (ui_wait s) = (if af_loading (ui_comp s) then 1 else 0) \<and>
    set (pushes (ui_out s)) \<subseteq> {dashboard_url plan} \<and>
    (pushes (ui_out s) \<noteq> [] \<longrightarrow> asked (lit ''/api/auth/login'') (ui_out s) \<or> asked (lit ''/api/auth/verify'') (ui_out s))"
  using auth.reach_keeps [OF assms] by (auto simp: auth_inv_def list_all_iff)

definition ok_answer :: answer where
  "ok_answer = Inr \<lparr>rs_status = 200, rs_headers = [], rs_body = JsonBody (JObj [(lit ''ok'', JBool True)])\<rparr>"

lemma postJSON_ok [simp]: "postJSON_result P ok_answer = Inr (JObj [(lit ''ok'', JBool True)])"
  by (simp add: postJSON_result_def ok_answer_def json_of_def rs_ok_def)

text \<open>A sign-in that the backend accepts.\<close>

lemma sign_in_reached:
  "\<exists>s. ui_reach (AuthForm P plan) any (idle_with auth_init) s \<and> pushes (ui_out s) = [dashboard_url plan] \<and> \<not> af_loading (ui_comp s)"
proof -
  let ?C = "AuthForm P plan"
  have 1: "ui_reach ?C any (idle_with auth_init) (apply_reaction (onSubmit auth_init) [] [])"
    using reach_user [OF reach_init, of ?C auth_init Submit any] by (simp add: auth_init_def)
  let ?c = "fst (onSubmit auth_init)" and ?p = "\<lparr>sb_mode = Login, sb_isCodeSent = False\<rparr>"
  from 1 obtain out where 2: "ui_reach ?C any (idle_with auth_init) \<lparr>ui_comp = ?c, ui_wait = [] @ ?p # [], ui_out = out\<rparr>" "pushes out = []"
    by (simp add: onSubmit_def auth_init_def Let_def)
  have "ui_reach ?C any (idle_with auth_init) (apply_reaction (onSubmit_done P plan ?p ok_answer ?c) [] out)"
    using reach_arrive [OF 2(1), of ok_answer] by simp
  then show ?thesis using 2(2) by (fastforce simp: onSubmit_done_def)
qed

theorem AuthForm_single_flight_witness:
  "\<exists>s. ui_reach (AuthForm sample_platform (lit ''vip'')) any (idle_with auth_init) s \<and>
     pushes (ui_out s) = [lit ''/dashboard?plan=vip''] \<and> ui_wait s = [] \<and>
     (asked (lit ''/api/auth/login'') (ui_out s) \<or> asked (lit ''/api/auth/verify'') (ui_out s))"
proof -
  obtain s where s: "ui_reach (AuthForm sample_platform (lit ''vip'')) any (idle_with auth_init) s"
      "pushes (ui_out s) = [lit ''/dashboard?plan=vip'']" "\<not> af_loading (ui_comp s)"
    using sign_in_reached [of sample_platform "lit ''vip''"] by (auto simp: dashboard_url_def simp flip: lit_append)
  with AuthForm_single_flight [OF s(1)] show ?thesis by auto
qed

subsection \<open>The code step\<close>

text \<open>The runs in which the user does not switch the mode while a request is in flight.\<close>

definition patient :: "(auth_form, unit, submission) ui \<Rightarrow> (auth_event, submission) label \<Rightarrow> bool" where
  "patient s l \<longleftrightarrow> (\<forall>m. l = User (Switch_Mode m) \<longrightarrow> \<not> af_loading (ui_comp s))"

definition code_asked :: "mode \<Rightarrow> 'x cmd list \<Rightarrow> bool" where
  "code_asked m out = (case m of
     Login \<Rightarrow> False
   | Register \<Rightarrow> asked (lit ''/api/auth/register'') out
   | Reset \<Rightarrow> asked (lit ''/api/auth/forgot'') out)"

definition code_inv :: "(auth_form, unit, submission) ui \<Rightarrow> bool" where
  "code_inv s \<longleftrightarrow> length (ui_wait s) = (if af_loading (ui_comp s) then 1 else 0) \<and>
     (af_isCodeSent (ui_comp s) \<longrightarrow> code_asked (af_mode (ui_comp s)) (ui_out s)) \<and>
     list_all (\<lambda>p. sb_mode p = af_mode (ui_comp s) \<and> sb_isCodeSent p = af_isCodeSent (ui_comp s) \<and>
       (sb_mode p \<noteq> Login \<longrightarrow> code_asked (sb_mode p) (ui_out s))) (ui_wait s)"

lemma code_asked_append [simp]: "code_asked m out \<Longrightarrow> code_asked m (out @ ks)"
  by (auto simp: code_asked_def split: mode.splits)

lemma code_inv_keeps: "ui_invariant (AuthForm P plan) patient (idle_with auth_init) code_inv"
proof (unfold_locales, goal_cases)
  case 1
  show ?case by (simp add: code_inv_def auth_init_def)
next
  case (2 c ws out e)
  then show ?case
    by (cases e) (auto simp: code_inv_def patient_def onSubmit_def switchMode_def Let_def code_asked_def
        split: if_splits mode.splits)
next
  case (3 c ws out e)
  then show ?case by simp
next
  case (4 c ws p ws' out a)
  then have "ws = []" "ws' = []" "af_loading c" by (auto simp: code_inv_def split: if_splits)
  with 4 show ?case
    by (cases "postJSON_result P a"; cases "af_mode c") (auto simp: code_inv_def onSubmit_done_def code_asked_def)
qed

interpretation auth_code: ui_invariant "AuthForm P plan" patient "idle_with auth_init" code_inv
  by (rule code_inv_keeps)

text \<open>C34: As long as the user does not switch the mode while a request is in flight, the field for the
  code is shown only after a code was asked for in this very mode: by registering, or by asking for a
  reset.\<close>

theorem AuthForm_code_step:
  assumes "ui_reach (AuthForm P plan) patient (idle_with auth_init) s" "showCode (ui_comp s)"
  shows "code_asked (af_mode (ui_comp s)) (ui_out s)"
  using auth_code.reach_keeps [OF assms(1)] assms(2) by (simp add: code_inv_def showCode_def)

lemma auth_switch:
  assumes "ui_reach (AuthForm P plan) L (idle_with auth_init) \<lparr>ui_comp = c, ui_wait = ws, ui_out = out\<rparr>"
    "offers (auth_view c) (Switch_Mode m)" "L \<lparr>ui_comp = c, ui_wait = ws, ui_out = out\<rparr> (User (Switch_Mode m))"
  shows "ui_reach (AuthForm P plan) L (idle_with auth_init) \<lparr>ui_comp = switchMode m c, ui_wait = ws, ui_out = out\<rparr>"
  using reach_user [OF assms(1), of "Switch_Mode m"] assms(2,3) by simp

text \<open>The state right after asking for an account.\<close>

lemma auth_registering:
  assumes "\<And>c ws out m. L \<lparr>ui_comp = c, ui_wait = ws, ui_out = out\<rparr> (User Submit)"
    "L \<lparr>ui_comp = auth_init, ui_wait = [], ui_out = []\<rparr> (User (Switch_Mode Register))"
  shows "ui_reach (AuthForm P plan) L (idle_with auth_init)
    \<lparr>ui_comp = auth_init\<lparr>af_mode := Register, af_loading := True\<rparr>,
     ui_wait = [\<lparr>sb_mode = Register, sb_isCodeSent = False\<rparr>],
     ui_out = [Fetch (fetch_json (lit ''POST'') (lit ''/api/auth/register'') (JObj [(lit ''email'', JStr []), (lit ''password'', JStr [])]))]\<rparr>"
proof -
  have 1: "ui_reach (AuthForm P plan) L (idle_with auth_init) \<lparr>ui_comp = switchMode Register auth_init, ui_wait = [], ui_out = []\<rparr>"
    by (rule auth_switch [OF reach_init]) (use assms in \<open>simp_all add: auth_init_def\<close>)
  have "L \<lparr>ui_comp = switchMode Register auth_init, ui_wait = [], ui_out = []\<rparr> (User Submit)" by (rule assms)
  with reach_user [OF 1, of Submit] show ?thesis
    by (simp add: onSubmit_def switchMode_def auth_init_def)
qed

theorem AuthForm_code_step_witness:
  "\<exists>s. ui_reach (AuthForm sample_platform []) patient (idle_with auth_init) s \<and> showCode (ui_comp s) \<and>
     code_asked (af_mode (ui_comp s)) (ui_out s)"
proof -
  have "ui_reach (AuthForm sample_platform []) patient (idle_with auth_init)
    \<lparr>ui_comp = auth_init\<lparr>af_mode := Register, af_loading := True\<rparr>,
     ui_wait = [] @ \<lparr>sb_mode = Register, sb_isCodeSent = False\<rparr> # [],
     ui_out = [Fetch (fetch_json (lit ''POST'') (lit ''/api/auth/register'') (JObj [(lit ''email'', JStr []), (lit ''password'', JStr [])]))]\<rparr>"
    using auth_registering [of patient] by (simp add: patient_def auth_init_def)
  from reach_arrive [OF this, of ok_answer] obtain s where
    s: "ui_reach (AuthForm sample_platform []) patient (idle_with auth_init) s" "showCode (ui_comp s)"
    by (fastforce simp: patient_def onSubmit_done_def showCode_def)
  with AuthForm_code_step [OF s] show ?thesis by blast
qed

text \<open>Switching the mode while a registration is in flight leaves the form in the code step of the
  password reset although no reset code was ever asked for: the answer applies to a form that has
  moved on.\<close>

lemma AuthForm_code_race:
  "\<exists>s. ui_reach (AuthForm P plan) any (idle_with auth_init) s \<and> af_mode (ui_comp s) = Reset \<and> showCode (ui_comp s) \<and>
     \<not> asked (lit ''/api/auth/forgot'') (ui_out s)"
proof -
  let ?out = "[Fetch (fetch_json (lit ''POST'') (lit ''/api/auth/register'') (JObj [(lit ''email'', JStr []), (lit ''password'', JStr [])]))]"
  let ?p = "\<lparr>sb_mode = Register, sb_isCodeSent = False\<rparr>"
  have "ui_reach (AuthForm P plan) any (idle_with auth_init) \<lparr>ui_comp = auth_init\<lparr>af_mode := Register, af_loading := True\<rparr>,
      ui_wait = [?p], ui_out = ?out\<rparr>"
    by (rule auth_registering) simp_all
  from auth_switch [OF this, of Login]
  have "ui_reach (AuthForm P plan) any (idle_with auth_init)
      \<lparr>ui_comp = switchMode Login (auth_init\<lparr>af_mode := Register, af_loading := True\<rparr>), ui_wait = [?p], ui_out = ?out\<rparr>"
    by simp
  from auth_switch [OF this, of Reset]
  have "ui_reach (AuthForm P plan) any (idle_with auth_init)
      \<lparr>ui_comp = auth_init\<lparr>af_mode := Reset, af_loading := True\<rparr>, ui_wait = [] @ ?p # [], ui_out = ?out\<rparr>"
    by (simp add: switchMode_def auth_init_def)
  from reach_arrive [OF this, of ok_answer] show ?thesis
    by (intro exI [of _ "apply_reaction (onSubmit_done P plan ?p ok_answer (auth_init\<lparr>af_mode := Reset, af_loading := True\<rparr>)) [] ?out"])
       (simp add: onSubmit_done_def showCode_def)
qed

end
