(* ===== verification/Admin_Text.thy ===== *)
theory Admin_Text
  imports Admin_Lib Ui_Machine Js_Number Js_Text
begin

section \<open>Texts and figures of the administration panel\<close>

text \<open>
  The pure functions of web/components/admin/AdminPanel.tsx and the charts of web/components/admin/Charts.tsx: the pattern
  of an image digest, hiding secrets in messages, the health of the fleet, durations and ages, the seed of a
  configuration, the geometry of a chart. A regular expression is an executable scanner that
  takes what the expression matches at a position. Parsing and printing a date are arguments. The coordinates of a chart
  are rounded to the nearest double after every operation, as the floating point numbers of the source are.
\<close>

subsection \<open>Image digests\<close>

definition alnum :: "code_unit \<Rightarrow> bool" where
  "alnum c \<longleftrightarrow> 48 \<le> c \<and> c \<le> 57 \<or> 65 \<le> c \<and> c \<le> 90 \<or> 97 \<le> c \<and> c \<le> 122"

definition ref_char :: "code_unit \<Rightarrow> bool" where
  "ref_char c \<longleftrightarrow> alnum c \<or> c \<in> {46, 95, 58, 47, 45}"

definition hex_char :: "code_unit \<Rightarrow> bool" where
  "hex_char c \<longleftrightarrow> 48 \<le> c \<and> c \<le> 57 \<or> 65 \<le> c \<and> c \<le> 70 \<or> 97 \<le> c \<and> c \<le> 102"

definition immutableDigest :: "jsstr \<Rightarrow> bool" where
  "immutableDigest s = (case s of
     [] \<Rightarrow> False
   | c # t \<Rightarrow> (let rest = dropWhile ref_char t in
       alnum c \<and> takeWhile ref_char t \<noteq> [] \<and> take 8 rest = lit ''@sha256:'' \<and>
       length (drop 8 rest) = 64 \<and> list_all hex_char (drop 8 rest)))"

subsection \<open>Secrets\<close>

text \<open>The alternatives of the first expression, in lower case; it ignores case.\<close>

definition secret_keys :: "jsstr list" where
  "secret_keys = [lit ''password'', lit ''secret'', lit ''token'', lit ''private_key'', lit ''private key'', lit ''private-key'',
     lit ''privatekey'', lit ''ssh_password'', lit ''ssh password'', lit ''ssh-password'', lit ''sshpassword'']"

definition match_key :: "jsstr \<Rightarrow> jsstr option" where
  "match_key s = find (\<lambda>k. toLowerCase (take (length k) s) = k) secret_keys"

definition value_char :: "code_unit \<Rightarrow> bool" where
  "value_char c \<longleftrightarrow> \<not> (c = 44 \<or> is_ws c \<or> c = 34 \<or> c = 39)"

definition skip_equals :: "jsstr \<Rightarrow> jsstr" where
  "skip_equals s = (case s of [] \<Rightarrow> [] | c # t \<Rightarrow> if c = 61 then t else s)"

lemma match_key_Some: "match_key s = Some k \<Longrightarrow> k \<in> set secret_keys \<and> toLowerCase (take (length k) s) = k"
  unfolding match_key_def find_Some_iff by auto

lemma secret_keys_nonempty: "k \<in> set secret_keys \<Longrightarrow> 0 < length k"
  by (auto simp: secret_keys_def)

lemma match_key_length: "match_key s = Some k \<Longrightarrow> 0 < length k"
  using match_key_Some secret_keys_nonempty by blast

lemma length_skip_equals: "length (skip_equals s) \<le> length s"
  by (auto simp: skip_equals_def split: list.splits)

function redact_keys :: "jsstr \<Rightarrow> jsstr" where
  "redact_keys s = (case s of
     [] \<Rightarrow> []
   | c # t \<Rightarrow> (case match_key s of
       None \<Rightarrow> c # redact_keys t
     | Some k \<Rightarrow> take (length k) s @ lit ''=[redacted]'' @
         redact_keys (dropWhile value_char (skip_equals (drop (length k) s)))))"
  by pat_completeness auto
termination
proof (relation "measure length")
  fix s c t k
  assume "s = c # t" "match_key s = Some k"
  then have "length (drop (length k) s) < length s" using match_key_length by auto
  then have "length (skip_equals (drop (length k) s)) < length s" using length_skip_equals le_less_trans by blast
  then show "(dropWhile value_char (skip_equals (drop (length k) s)), s) \<in> measure length"
    using length_dropWhile_le [of value_char "skip_equals (drop (length k) s)"] by simp
qed auto

declare redact_keys.simps [simp del]

definition token_char :: "code_unit \<Rightarrow> bool" where
  "token_char c \<longleftrightarrow> alnum c \<or> c \<in> {46, 95, 126, 43, 47, 45}"

text \<open>\<^verbatim>\<open>(Bearer\s+)[A-Za-z0-9._~+/-]+=*\<close>: what is kept and what follows.\<close>

definition match_bearer :: "jsstr \<Rightarrow> (jsstr \<times> jsstr) option" where
  "match_bearer s = (let spaces = takeWhile is_ws (drop 6 s); rest = dropWhile is_ws (drop 6 s) in
     if toLowerCase (take 6 s) = lit ''bearer'' \<and> spaces \<noteq> [] \<and> takeWhile token_char rest \<noteq> []
     then Some (take 6 s @ spaces, dropWhile (\<lambda>c. c = 61) (dropWhile token_char rest)) else None)"

lemma match_bearer_length: "match_bearer s = Some (kept, rest) \<Longrightarrow> length rest < length s"
proof -
  assume "match_bearer s = Some (kept, rest)"
  then have "spaces \<noteq> [] \<Longrightarrow> True" "takeWhile is_ws (drop 6 s) \<noteq> []"
    and rest: "rest = dropWhile (\<lambda>c. c = 61) (dropWhile token_char (dropWhile is_ws (drop 6 s)))" for spaces :: jsstr
    by (auto simp: match_bearer_def Let_def split: if_splits)
  then have "drop 6 s \<noteq> []" by auto
  moreover have "length rest \<le> length (drop 6 s)"
    unfolding rest by (meson length_dropWhile_le order_trans)
  ultimately show ?thesis by auto
qed

function redact_bearer :: "jsstr \<Rightarrow> jsstr" where
  "redact_bearer s = (case s of
     [] \<Rightarrow> []
   | c # t \<Rightarrow> (case match_bearer s of
       None \<Rightarrow> c # redact_bearer t
     | Some (kept, rest) \<Rightarrow> kept @ lit ''[redacted]'' @ redact_bearer rest))"
  by pat_completeness auto
termination by (relation "measure length") (auto dest: match_bearer_length)

declare redact_bearer.simps [simp del]

definition redactAdminSecrets :: "jsstr \<Rightarrow> jsstr" where
  "redactAdminSecrets v = redact_bearer (redact_keys v)"

definition safeAdminText :: "jsstr option \<Rightarrow> jsstr \<Rightarrow> jsstr" where
  "safeAdminText v fallback = (if \<not> truthy_opt v then fallback else redactAdminSecrets (the v))"

definition safeAdminErrorMessage :: "platform \<Rightarrow> exn \<Rightarrow> jsstr" where
  "safeAdminErrorMessage P e = redactAdminSecrets (message_of P e)"

subsection \<open>Figures\<close>

definition computeFleetHealth :: "admin_server list \<Rightarrow> admin_notification list \<Rightarrow> int" where
  "computeFleetHealth servers notifications = (if servers = [] then 0 else
     let stalePenalty = int (length (filter (\<lambda>s. on (as_agent_heartbeat_stale s)) servers)) * 22;
         inactivePenalty = int (length (filter (\<lambda>s. \<not> as_active s) servers)) * 12;
         dockerPenalty = int (length (filter (\<lambda>s. as_agent_mode s = Some (lit ''agent'') \<and>
           as_agent_docker_available s = Some False) servers)) * 14;
         incidentPenalty = int (length (filter (\<lambda>n. an_status n = Open) notifications)) * 8
     in max 0 (min 100 (100 - stalePenalty - inactivePenalty - dockerPenalty - incidentPenalty)))"

text \<open>The percentage of \<^verbatim>\<open>MiniMeter\<close> and of \<^verbatim>\<open>UtilizationBars\<close>.\<close>

definition meter_value :: "rat \<Rightarrow> int" where
  "meter_value v = max 0 (min 100 (Math_round v))"

text \<open>What the platform knows of dates: the instant of a text, in milliseconds, and its long form.\<close>

record admin_dates =
  ad_parse :: "jsstr \<Rightarrow> int option"
  ad_locale :: "int \<Rightarrow> jsstr"

definition formatRelative :: "platform \<Rightarrow> admin_dates \<Rightarrow> jsstr option \<Rightarrow> int option \<Rightarrow> jsstr" where
  "formatRelative P D v now = (if \<not> truthy_opt v then lit ''never'' else
     (case ad_parse D (the v) of
        None \<Rightarrow> ru_em_dash
      | Some timestamp \<Rightarrow> (case now of
          None \<Rightarrow> ad_locale D timestamp
        | Some n \<Rightarrow>
            (let seconds = max 0 (Math_round (fl64 (of_int (n - timestamp) / 1000))) in
             if seconds < 60 then pf_number P (of_int seconds) @ ru_s_ago else
             let minutes = Math_round (fl64 (of_int seconds / 60)) in
             if minutes < 60 then pf_number P (of_int minutes) @ ru_m_ago else
             let hours = Math_round (fl64 (of_int minutes / 60)) in
             if hours < 24 then pf_number P (of_int hours) @ ru_h_ago
             else ad_locale D timestamp))))"

text \<open>The remainder of doubles is exact.\<close>

definition js_rem :: "rat \<Rightarrow> int \<Rightarrow> rat" where
  "js_rem x m = x - of_int m * of_int \<lfloor>x / of_int m\<rfloor>"

definition formatDuration :: "platform \<Rightarrow> rat \<Rightarrow> jsstr" where
  "formatDuration P seconds = (if seconds \<le> 0 then lit ''0s'' else
     let days = \<lfloor>fl64 (seconds / 86400)\<rfloor>;
         hours = \<lfloor>fl64 (js_rem seconds 86400 / 3600)\<rfloor>;
         minutes = \<lfloor>fl64 (js_rem seconds 3600 / 60)\<rfloor> in
     if days > 0 then pf_number P (of_int days) @ ru_d @ pf_number P (of_int hours) @ ru_h
     else if hours > 0 then pf_number P (of_int hours) @ ru_h_space @ pf_number P (of_int minutes) @ ru_m
     else pf_number P (of_int minutes) @ ru_m)"

definition seedAWGConfig :: "platform \<Rightarrow> admin_server \<Rightarrow> jsstr" where
  "seedAWGConfig P server = (case Option.bind (as_config_summary server) cs_awg of
     None \<Rightarrow> []
   | Some awg \<Rightarrow> join nl
      [lit ''[Interface]'',
       lit ''ListenPort = '' @ pf_number P (of_int (nullish (awg_listen_port awg) 51820)),
       lit ''Jc = '' @ nullish (awg_jc awg) [],
       lit ''Jmin = '' @ nullish (awg_jmin awg) [],
       lit ''Jmax = '' @ nullish (awg_jmax awg) [],
       lit ''S1 = '' @ nullish (awg_s1 awg) [],
       lit ''S2 = '' @ nullish (awg_s2 awg) [],
       lit ''S3 = '' @ nullish (awg_s3 awg) [],
       lit ''S4 = '' @ nullish (awg_s4 awg) [],
       lit ''H1 = '' @ nullish (awg_h1 awg) [],
       lit ''H2 = '' @ nullish (awg_h2 awg) [],
       lit ''H3 = '' @ nullish (awg_h3 awg) [],
       lit ''H4 = '' @ nullish (awg_h4 awg) []])"

subsection \<open>Charts\<close>

record point =
  pt_label :: jsstr
  pt_value :: rat

definition chart_max :: "point list \<Rightarrow> rat" where
  "chart_max points = foldr max (map pt_value points) 1"

definition chart_step :: "point list \<Rightarrow> rat" where
  "chart_step points = (if length points > 1 then fl64 (360 / of_nat (length points - 1)) else 360)"

definition chart_y :: "rat \<Rightarrow> rat \<Rightarrow> rat" where
  "chart_y m v = fl64 (fl64 (120 - fl64 (fl64 (v / m) * (120 - 18))) - 8)"

definition chart_points :: "point list \<Rightarrow> (rat \<times> rat) list" where
  "chart_points points = map (\<lambda>(i, p). (fl64 (of_nat i * chart_step points), chart_y (chart_max points) (pt_value p)))
     (enumerate 0 points)"

definition chart_line :: "platform \<Rightarrow> point list \<Rightarrow> jsstr" where
  "chart_line P points = join (lit '' '') (map (\<lambda>(x, y). pf_number P x @ lit '','' @ pf_number P y) (chart_points points))"

definition chart_area :: "platform \<Rightarrow> point list \<Rightarrow> jsstr" where
  "chart_area P points = lit ''0,120 '' @ chart_line P points @ lit '' 360,120''"

text \<open>\<^verbatim>\<open>points.slice(-4)\<close>\<close>

definition last_four :: "'a list \<Rightarrow> 'a list" where
  "last_four xs = drop (length xs - 4) xs"

definition SparkAreaChart :: "(rat \<Rightarrow> jsstr) \<Rightarrow> platform \<Rightarrow> jsstr \<Rightarrow> point list \<Rightarrow> 'e view" where
  "SparkAreaChart ru P title points = El (lit ''figure'')
     [El (lit ''figcaption'') [Text title, Text (ru (chart_max points) @ lit '' max'')],
      El (lit ''polyline'') [Text (chart_area P points)], El (lit ''polyline'') [Text (chart_line P points)],
      El (lit ''g'') (map (\<lambda>(x, y). El (lit ''circle'') [Text (pf_number P x), Text (pf_number P y)]) (chart_points points)),
      El (lit ''div'') (map (\<lambda>p. Text (pt_label p @ lit '': '' @ ru (pt_value p))) (last_four points))]"

definition UtilizationBars :: "platform \<Rightarrow> admin_server list \<Rightarrow> 'e view" where
  "UtilizationBars P items = El (lit ''div'') (
     [El (lit ''h3'') [Text ru_vps_load], Text (lit ''utilization'')] @
     map (\<lambda>server. El (lit ''div'') [Text (as_name server),
       Text (pf_number P (of_int (meter_value (nullish (as_utilization server) 0))) @ lit ''%'')]) (take 6 items))"

subsection \<open>What is hidden\<close>

lemma secret_keys_no_equals: "k \<in> set secret_keys \<Longrightarrow> 61 \<notin> set k"
proof -
  have "list_all (list_all (\<lambda>c. c \<noteq> 61)) secret_keys" by (simp add: secret_keys_def lit_Cons)
  then show "k \<in> set secret_keys \<Longrightarrow> 61 \<notin> set k" by (auto simp: list_all_iff)
qed

text \<open>A keyword before an equals sign is found without looking behind the sign.\<close>

lemma key_local:
  assumes "k \<in> set secret_keys"
  shows "toLowerCase (take (length k) (xs @ 61 # ys)) = k \<longleftrightarrow> length k \<le> length xs \<and> toLowerCase (take (length k) xs) = k"
proof (cases "length k \<le> length xs")
  case False
  then have "61 \<in> set (take (length k) (xs @ 61 # ys))" by (auto simp: take_Cons')
  then have "61 \<in> set (toLowerCase (take (length k) (xs @ 61 # ys)))"
    unfolding toLowerCase_def by (force simp: lower_cu_def)
  with secret_keys_no_equals [OF assms] False show ?thesis by metis
qed simp

lemma match_key_local: "match_key (xs @ 61 # ys) = match_key (xs @ 61 # zs)"
  unfolding match_key_def by (rule find_cong) (simp_all only: key_local)

lemma match_key_before: "match_key (xs @ 61 # ys) = Some k \<Longrightarrow> length k \<le> length xs"
  using match_key_Some key_local by blast

lemma match_key_found: "toLowerCase k \<in> set secret_keys \<Longrightarrow> match_key (k @ s) \<noteq> None"
  unfolding match_key_def find_None_iff by (auto simp: toLowerCase_def)

lemma value_char_equals [simp]: "value_char 61"
  by (simp add: value_char_def is_ws_def)

lemma drop_value_skip: "dropWhile value_char (skip_equals s) = dropWhile value_char s"
  by (auto simp: skip_equals_def split: list.splits)

lemma redact_keys_match:
  "match_key s = Some q \<Longrightarrow> redact_keys s = take (length q) s @ lit ''=[redacted]'' @ redact_keys (dropWhile value_char (drop (length q) s))"
  using match_key_length [of s q] match_key_Some [of s q]
  by (cases s) (auto simp: redact_keys.simps [of "_ # _"] drop_value_skip toLowerCase_def)

lemma dropWhile_until:
  "\<forall>c \<in> set xs. P c \<Longrightarrow> s = [] \<or> \<not> P (hd s) \<Longrightarrow> dropWhile P (xs @ s) = s"
  by (induction xs) (auto simp: dropWhile_eq_self_iff)

text \<open>A keyword is read as one word behind a text, if it has no white space in it, or if the text ends at the border
  of a word.\<close>

definition apart :: "jsstr \<Rightarrow> jsstr \<Rightarrow> bool" where
  "apart pre k \<longleftrightarrow> (\<forall>c \<in> set k. value_char c) \<or> pre = [] \<or> \<not> value_char (last pre)"

lemma value_char_lower [simp]: "value_char (lower_cu c) = value_char c"
proof -
  have "lower_cu c = 44 \<longleftrightarrow> c = 44" "lower_cu c = 34 \<longleftrightarrow> c = 34" "lower_cu c = 39 \<longleftrightarrow> c = 39"
    by (auto simp: lower_cu_def)
  then show ?thesis by (simp add: value_char_def)
qed

lemma apart_tl: "apart (c # p) k \<Longrightarrow> apart p k"
  by (auto simp: apart_def)

text \<open>No keyword begins with another one, and behind the white space inside of a keyword none with white space begins.\<close>

lemma keys_prefix_free: "q \<in> set secret_keys \<Longrightarrow> k \<in> set secret_keys \<Longrightarrow> take (length q) k = q \<Longrightarrow> q = k"
proof -
  have "list_all (\<lambda>q. list_all (\<lambda>k. take (length q) k = q \<longrightarrow> q = k) secret_keys) secret_keys"
    by (simp add: secret_keys_def lit_Cons)
  then show "q \<in> set secret_keys \<Longrightarrow> k \<in> set secret_keys \<Longrightarrow> take (length q) k = q \<Longrightarrow> q = k"
    by (auto simp: list_all_iff)
qed

lemma keys_no_overlap:
  assumes "q \<in> set secret_keys" "k \<in> set secret_keys" "n < length q" "\<not> value_char (q ! n)" "\<not> list_all value_char k"
  shows "take (length q - Suc n) k \<noteq> drop (Suc n) q"
proof -
  have v: "value_char c" if "c \<in> {45, 95} \<or> 97 \<le> c \<and> c \<le> 122" for c
    using that by (auto simp: value_char_def is_ws_def)
  have s: "\<not> value_char 32" by (simp add: value_char_def is_ws_def)
  have "list_all (\<lambda>q. list_all (\<lambda>n. value_char (q ! n) \<or>
      list_all (\<lambda>k. list_all value_char k \<or> take (length q - Suc n) k \<noteq> drop (Suc n) q) secret_keys) [0..<length q]) secret_keys"
    by (simp add: secret_keys_def lit_Cons upt_rec v s)
  then have "value_char (q ! n) \<or> (\<forall>k \<in> set secret_keys. list_all value_char k \<or> take (length q - Suc n) k \<noteq> drop (Suc n) q)"
    using assms(1,3) unfolding list_all_iff set_upt by simp
  with assms(2,4,5) show ?thesis by blast
qed

lemma key_at_border:
  assumes q: "q \<in> set secret_keys" "toLowerCase (take (length q) (pre @ k)) = q" "length q \<le> length (pre @ k)"
    and k: "toLowerCase k \<in> set secret_keys" "\<not> (\<forall>c \<in> set k. value_char c)"
    and pre: "pre \<noteq> []" "\<not> value_char (last pre)"
  shows "length q < length pre"
proof (rule ccontr)
  assume "\<not> length q < length pre"
  then have le: "length pre \<le> length q" by simp
  then have q': "q = toLowerCase pre @ take (length q - length pre) (toLowerCase k)"
    using q(2) by (simp add: toLowerCase_def take_map)
  let ?n = "length pre - 1"
  have n: "?n < length q" "Suc ?n = length pre" using le pre(1) by (cases pre; simp)+
  then have "q ! ?n = lower_cu (last pre)"
    using pre(1) by (subst q') (simp add: nth_append toLowerCase_def last_conv_nth)
  then have "\<not> value_char (q ! ?n)" using pre(2) by simp
  moreover have "\<not> list_all value_char (toLowerCase k)" using k(2) by (simp add: list_all_iff toLowerCase_def)
  ultimately have "take (length q - length pre) (toLowerCase k) \<noteq> drop (length pre) q"
    using keys_no_overlap [OF q(1) k(1) n(1)] unfolding n(2) by blast
  moreover have "drop (length pre) q = take (length q - length pre) (toLowerCase k)"
    by (subst q') (simp add: toLowerCase_def)
  ultimately show False by simp
qed

text \<open>The rest of a text behind a keyword, up to the end of its value: the value goes on up to the end of the text, or
  the later keyword is still there, as one word.\<close>

lemma suffix_keeps_key:
  assumes k: "toLowerCase k \<in> set secret_keys" "apart pre k"
    and q: "q \<in> set secret_keys" "toLowerCase (take (length q) (pre @ k)) = q" "length q \<le> length (pre @ k)"
    and zs: "zs = drop (length q) (pre @ k)" "\<exists>c \<in> set zs. \<not> value_char c"
  shows "\<exists>pre'. dropWhile value_char zs = pre' @ k \<and> length pre' < length pre \<and> apart pre' k"
proof -
  let ?r = "drop (length q) pre"
  have "length q < length pre \<and> (\<exists>c \<in> set ?r. \<not> value_char c)"
  proof (cases "\<forall>c \<in> set k. value_char c")
    case True
    have "length q < length pre"
    proof (rule ccontr)
      assume "\<not> length q < length pre"
      then have "zs = drop (length q - length pre) k" using zs(1) by simp
      with zs(2) True show False by (auto dest: in_set_dropD)
    qed
    with True zs show ?thesis by auto
  next
    case False
    have "pre \<noteq> []"
    proof
      assume "pre = []"
      then have "q = toLowerCase k" using keys_prefix_free [OF q(1) k(1)] q(2) by (simp add: toLowerCase_def take_map)
      with \<open>pre = []\<close> zs show False by (simp add: toLowerCase_def)
    qed
    with False k(2) have l: "\<not> value_char (last pre)" unfolding apart_def by blast
    have n: "length q < length pre" by (rule key_at_border [OF q k(1) False \<open>pre \<noteq> []\<close> l])
    then have "last pre \<in> set ?r" by (metis drop_eq_Nil2 last_drop last_in_set not_less)
    with n l show ?thesis by blast
  qed
  then have n: "length q < length pre" and r: "\<exists>c \<in> set ?r. \<not> value_char c" by simp_all
  have "dropWhile value_char zs = dropWhile value_char ?r @ k" using n r zs(1) by (auto simp: dropWhile_append1)
  moreover have "length (dropWhile value_char ?r) < length pre"
    using length_dropWhile_le [of value_char ?r] length_drop [of "length q" pre] n secret_keys_nonempty [OF q(1)] by linarith
  moreover have "last (dropWhile value_char ?r) = last pre" using r n by (auto simp: dropWhile_last)
  ultimately show ?thesis using k(2) n by (auto simp: apart_def)
qed

lemma redact_keys_hides:
  assumes k: "toLowerCase k \<in> set secret_keys" "apart pre k"
    and v: "\<forall>c \<in> set v. value_char c" "\<forall>c \<in> set v'. value_char c"
    and post: "post = [] \<or> \<not> value_char (hd post)"
  shows "redact_keys (pre @ k @ 61 # v @ post) = redact_keys (pre @ k @ 61 # v' @ post)"
  using k(2)
proof (induction "length pre" arbitrary: pre rule: less_induct)
  case less
  let ?t = "pre @ k @ 61 # v @ post" and ?t' = "pre @ k @ 61 # v' @ post"
  have m: "match_key ?t' = match_key ?t"
    using match_key_local [of "pre @ k" "v' @ post" "v @ post"] by simp
  show ?case
  proof (cases "match_key ?t")
    case None
    then obtain c p where pre: "pre = c # p" using match_key_found [OF k(1)] by (cases pre) auto
    with None m less(1) [of p] less(2) apart_tl [of c p k] show ?thesis by (simp add: redact_keys.simps [of "c # _"])
  next
    case (Some q)
    then have q: "length q \<le> length (pre @ k)" "0 < length q"
      using match_key_before [of "pre @ k" "v @ post"] match_key_length by auto
    define zs where "zs = drop (length q) (pre @ k)"
    have drops: "drop (length q) (pre @ k @ 61 # w @ post) = zs @ 61 # w @ post" for w
      using q zs_def by (metis append.assoc append_Nil diff_is_0_eq drop0 drop_append)
    have heads: "take (length q) ?t' = take (length q) ?t" using q(1) by simp
    have run: "redact_keys ?t = take (length q) ?t @ lit ''=[redacted]'' @ redact_keys (dropWhile value_char (zs @ 61 # v @ post))"
      "redact_keys ?t' = take (length q) ?t @ lit ''=[redacted]'' @ redact_keys (dropWhile value_char (zs @ 61 # v' @ post))"
      using redact_keys_match [OF Some] redact_keys_match [of ?t' q] m Some unfolding heads drops by simp_all
    have "redact_keys (dropWhile value_char (zs @ 61 # v @ post)) = redact_keys (dropWhile value_char (zs @ 61 # v' @ post))"
    proof (cases "\<forall>c \<in> set zs. value_char c")
      case True
      have "dropWhile value_char (zs @ 61 # w @ post) = post" if "\<forall>c \<in> set w. value_char c" for w
        using dropWhile_until [of "zs @ 61 # w" value_char post] True that post by auto
      with v show ?thesis by simp
    next
      case False
      have "q \<in> set secret_keys" "toLowerCase (take (length q) (pre @ k)) = q"
        using match_key_Some [OF Some] q(1) by (simp_all add: toLowerCase_def)
      then obtain pre' where "dropWhile value_char zs = pre' @ k" "length pre' < length pre" "apart pre' k"
        using suffix_keeps_key [OF k(1) less(2) _ _ q(1) zs_def] False by blast
      moreover have "dropWhile value_char (zs @ 61 # w @ post) = dropWhile value_char zs @ 61 # w @ post" for w
        using False by (auto simp: dropWhile_append1)
      ultimately show ?thesis using less(1) by simp
    qed
    with run show ?thesis by simp
  qed
qed

text \<open>C17: A secret that is written \<^verbatim>\<open>key=value\<close> is hidden completely: what the panel shows of a text with a
  keyword (in whatever case), an equals sign and a value up to the next comma, quote or white space does not depend on the
  value, whatever stands after it. It holds whatever stands before a keyword that is one word; a keyword with
  a space in it (\<^verbatim>\<open>private key\<close>, \<^verbatim>\<open>ssh password\<close>) has to begin the text or to follow a comma, a quote or
  white space, since otherwise its first word may be taken for the end of an earlier value
  (\<open>redact_keys_spaced_leaks\<close> below).\<close>

theorem redactAdminSecrets_hides:
  assumes "toLowerCase k \<in> set secret_keys" "(\<forall>c \<in> set k. value_char c) \<or> pre = [] \<or> \<not> value_char (last pre)"
    and "\<forall>c \<in> set v. value_char c" "\<forall>c \<in> set v'. value_char c" and "post = [] \<or> \<not> value_char (hd post)"
  shows "redactAdminSecrets (pre @ k @ lit ''='' @ v @ post) = redactAdminSecrets (pre @ k @ lit ''='' @ v' @ post)"
  using redact_keys_hides [OF assms(1) _ assms(3-5), of pre] assms(2)
  by (simp add: redactAdminSecrets_def lit_Cons apart_def)

theorem redactAdminSecrets_hides_witness:
  "redactAdminSecrets (lit ''token=a, '' @ lit ''Private key'' @ lit ''='' @ lit ''abc'' @ lit '', y'') =
   redactAdminSecrets (lit ''token=a, '' @ lit ''Private key'' @ lit ''='' @ lit ''q'' @ lit '', y'')"
  by (rule redactAdminSecrets_hides) (simp_all add: secret_keys_def toLowerCase_def lower_cu_def lit_Cons value_char_def is_ws_def)

text \<open>A private key is shown where the two words of its keyword follow an earlier value without a separator.\<close>

lemma redact_keys_spaced_leaks:
  "redactAdminSecrets (lit ''token:private key=abc'') = lit ''token=[redacted] key=abc''"
proof -
  have k: "match_key (lit ''token:private key=abc'') = Some (lit ''token'')"
    by (simp add: match_key_def secret_keys_def toLowerCase_def lower_cu_def lit_Cons)
  have "redact_keys (lit '' key=abc'') = lit '' key=abc''"
    by (simp add: redact_keys.simps match_key_def secret_keys_def toLowerCase_def lower_cu_def lit_Cons)
  then have "redact_keys (lit ''token:private key=abc'') = lit ''token=[redacted] key=abc''"
    using redact_keys_match [OF k] by (simp add: lit_Cons value_char_def is_ws_def)
  then show ?thesis
    by (simp add: redactAdminSecrets_def redact_bearer.simps match_bearer_def Let_def toLowerCase_def lower_cu_def lit_Cons)
qed

text \<open>The expression looks for the value right behind the keyword only: of a secret written with a colon and a space,
  as in \<^verbatim>\<open>password: hunter2\<close>, the keyword is marked as redacted and the value is shown.\<close>

lemma redactAdminSecrets_colon_leaks:
  "redactAdminSecrets (lit ''password: hunter2'') = lit ''password=[redacted] hunter2''"
proof -
  have k: "match_key (lit ''password: hunter2'') = Some (lit ''password'')"
    by (simp add: match_key_def secret_keys_def toLowerCase_def lower_cu_def lit_Cons)
  have "redact_keys (lit '' hunter2'') = lit '' hunter2''"
    by (simp add: redact_keys.simps match_key_def secret_keys_def toLowerCase_def lower_cu_def lit_Cons)
  then have "redact_keys (lit ''password: hunter2'') = lit ''password=[redacted] hunter2''"
    using redact_keys_match [OF k] by (simp add: lit_Cons value_char_def is_ws_def)
  then show ?thesis
    by (simp add: redactAdminSecrets_def redact_bearer.simps match_bearer_def Let_def toLowerCase_def lower_cu_def lit_Cons)
qed

subsection \<open>The pattern of a digest\<close>

lemma ref_char_at [simp]: "\<not> ref_char 64"
  by (simp add: ref_char_def alnum_def)

text \<open>The test of an image digest accepts exactly the texts that the pattern
  \<^verbatim>\<open>/^[a-zA-Z0-9][a-zA-Z0-9._:/-]+@sha256:[a-fA-F0-9]{64}$/\<close> describes.\<close>

lemma immutableDigest_pattern:
  "immutableDigest s \<longleftrightarrow> (\<exists>c r h. s = c # r @ lit ''@sha256:'' @ h \<and> alnum c \<and> r \<noteq> [] \<and> list_all ref_char r \<and>
     length h = 64 \<and> list_all hex_char h)"
proof
  assume d: "immutableDigest s"
  then obtain c t where s: "s = c # t" by (cases s) (auto simp: immutableDigest_def)
  let ?rest = "dropWhile ref_char t"
  have "t = takeWhile ref_char t @ take 8 ?rest @ drop 8 ?rest" by simp
  with d s show "\<exists>c r h. s = c # r @ lit ''@sha256:'' @ h \<and> alnum c \<and> r \<noteq> [] \<and> list_all ref_char r \<and>
     length h = 64 \<and> list_all hex_char h"
    by (intro exI [of _ c] exI [of _ "takeWhile ref_char t"] exI [of _ "drop 8 ?rest"])
      (auto simp: immutableDigest_def Let_def list_all_iff dest: set_takeWhileD)
next
  assume "\<exists>c r h. s = c # r @ lit ''@sha256:'' @ h \<and> alnum c \<and> r \<noteq> [] \<and> list_all ref_char r \<and>
     length h = 64 \<and> list_all hex_char h"
  then obtain c r h where s: "s = c # r @ lit ''@sha256:'' @ h" "alnum c" "r \<noteq> []" "list_all ref_char r"
    "length h = 64" "list_all hex_char h" by blast
  have "takeWhile ref_char (r @ lit ''@sha256:'' @ h) = r" "dropWhile ref_char (r @ lit ''@sha256:'' @ h) = lit ''@sha256:'' @ h"
    using s(4) by (simp_all add: takeWhile_append2 dropWhile_append2 list_all_iff lit_Cons)
  with s show "immutableDigest s" by (simp add: immutableDigest_def Let_def lit_Cons)
qed

subsection \<open>The health of the fleet\<close>

text \<open>The health of the fleet is a percentage; it is 100 exactly for a fleet that has a server, whose
  servers are active, reporting and see Docker, without an open incident; and a further open incident never raises it.\<close>

lemma computeFleetHealth_bounds:
  "0 \<le> computeFleetHealth servers ns \<and> computeFleetHealth servers ns \<le> 100 \<and>
   (computeFleetHealth servers ns = 100 \<longleftrightarrow> servers \<noteq> [] \<and>
      list_all (\<lambda>s. as_active s \<and> \<not> on (as_agent_heartbeat_stale s) \<and>
        \<not> (as_agent_mode s = Some (lit ''agent'') \<and> as_agent_docker_available s = Some False)) servers \<and>
      list_all (\<lambda>n. an_status n \<noteq> Open) ns) \<and>
   computeFleetHealth servers (n # ns) \<le> computeFleetHealth servers ns"
proof -
  define a b c d where "a = int (length (filter (\<lambda>s. on (as_agent_heartbeat_stale s)) servers)) * 22"
    and "b = int (length (filter (\<lambda>s. \<not> as_active s) servers)) * 12"
    and "c = int (length (filter (\<lambda>s. as_agent_mode s = Some (lit ''agent'') \<and> as_agent_docker_available s = Some False) servers)) * 14"
    and "d = int (length (filter (\<lambda>n. an_status n = Open) ns)) * 8"
  have h: "computeFleetHealth servers ns = (if servers = [] then 0 else max 0 (min 100 (100 - a - b - c - d)))"
    by (simp add: computeFleetHealth_def a_def b_def c_def d_def Let_def)
  have pos: "0 \<le> a" "0 \<le> b" "0 \<le> c" "0 \<le> d" by (simp_all add: a_def b_def c_def d_def)
  then have "computeFleetHealth servers ns = 100 \<longleftrightarrow> servers \<noteq> [] \<and> a = 0 \<and> b = 0 \<and> c = 0 \<and> d = 0"
    unfolding h by auto
  moreover have "a = 0 \<and> b = 0 \<and> c = 0 \<longleftrightarrow> list_all (\<lambda>s. as_active s \<and> \<not> on (as_agent_heartbeat_stale s) \<and>
      \<not> (as_agent_mode s = Some (lit ''agent'') \<and> as_agent_docker_available s = Some False)) servers"
    unfolding a_def b_def c_def by (auto simp: list_all_iff filter_empty_conv)
  moreover have "d = 0 \<longleftrightarrow> list_all (\<lambda>n. an_status n \<noteq> Open) ns"
    unfolding d_def by (auto simp: list_all_iff filter_empty_conv)
  moreover have "computeFleetHealth servers (n # ns) =
      (if servers = [] then 0 else max 0 (min 100 (100 - a - b - c - (d + (if an_status n = Open then 8 else 0)))))"
    by (simp add: computeFleetHealth_def a_def b_def c_def d_def Let_def)
  then have "computeFleetHealth servers (n # ns) \<le> computeFleetHealth servers ns" unfolding h by (simp add: max_def min_def)
  ultimately show ?thesis using h by auto
qed

lemma meter_value_bounds: "0 \<le> meter_value v \<and> meter_value v \<le> 100"
  by (simp add: meter_value_def)

subsection \<open>Durations and ages\<close>

lemma js_rem_int: "0 < m \<Longrightarrow> js_rem (of_int n) m = of_int (n mod m)"
proof -
  assume "0 < m"
  have "\<lfloor>of_int n / (of_int m :: rat)\<rfloor> = n div m" by (simp add: floor_divide_of_int_eq)
  then show ?thesis by (simp add: js_rem_def minus_div_mult_eq_mod [symmetric] mult.commute)
qed

text \<open>The uptime of a server is shown as exact integer arithmetic has it (days and hours, hours and minutes, or
  minutes), although the code divides doubles, for every whole number of seconds below two to the power 50.\<close>

lemma formatDuration_exact:
  assumes "0 < n" "n < 2 ^ 50"
  shows "formatDuration P (of_int n) =
    (if 0 < n div 86400 then pf_number P (of_int (n div 86400)) @ ru_d @ pf_number P (of_int (n mod 86400 div 3600)) @ ru_h
     else if 0 < n mod 86400 div 3600
     then pf_number P (of_int (n mod 86400 div 3600)) @ ru_h_space @ pf_number P (of_int (n mod 3600 div 60)) @ ru_m
     else pf_number P (of_int (n mod 3600 div 60)) @ ru_m)"
proof -
  have days: "\<lfloor>fl64 (of_int n / of_int 86400)\<rfloor> = n div 86400" by (rule floor_fl64_div) (use assms in simp_all)
  have hours: "\<lfloor>fl64 (of_int (n mod 86400) / of_int 3600)\<rfloor> = n mod 86400 div 3600"
    by (rule floor_fl64_div) (use pos_mod_bound [of 86400 n] in simp_all)
  have minutes: "\<lfloor>fl64 (of_int (n mod 3600) / of_int 60)\<rfloor> = n mod 3600 div 60"
    by (rule floor_fl64_div) (use pos_mod_bound [of 3600 n] in simp_all)
  have rem: "js_rem (of_int n) 86400 = of_int (n mod 86400)" "js_rem (of_int n) 3600 = of_int (n mod 3600)"
    by (rule js_rem_int, simp)+
  have "(n \<le> 0) = False" using assms(1) by simp
  then show ?thesis unfolding formatDuration_def Let_def rem using days hours minutes
    by (simp only: of_int_numeral of_int_le_0_iff if_False)
qed

definition decimal_platform :: platform where
  "decimal_platform = sample_platform\<lparr>pf_number := (\<lambda>r. show_int \<lfloor>r\<rfloor>)\<rparr>"

text \<open>What \<open>formatRelative\<close> may show for an instant: a date, or a number with its unit.\<close>

definition relative_form :: "platform \<Rightarrow> admin_dates \<Rightarrow> int \<Rightarrow> jsstr \<Rightarrow> bool" where
  "relative_form P D timestamp t \<longleftrightarrow> t = ad_locale D timestamp \<or>
     (\<exists>k. 0 \<le> k \<and> k < 60 \<and> t = pf_number P (of_int k) @ ru_s_ago) \<or>
     (\<exists>k. 1 \<le> k \<and> k < 60 \<and> t = pf_number P (of_int k) @ ru_m_ago) \<or>
     (\<exists>k. 1 \<le> k \<and> k < 24 \<and> t = pf_number P (of_int k) @ ru_h_ago)"

lemma relative_form_intros:
  "relative_form P D timestamp (ad_locale D timestamp)"
  "0 \<le> k \<Longrightarrow> k < 60 \<Longrightarrow> relative_form P D timestamp (pf_number P (of_int k) @ ru_s_ago)"
  "1 \<le> k \<Longrightarrow> k < 60 \<Longrightarrow> relative_form P D timestamp (pf_number P (of_int k) @ ru_m_ago)"
  "1 \<le> k \<Longrightarrow> k < 24 \<Longrightarrow> relative_form P D timestamp (pf_number P (of_int k) @ ru_h_ago)"
  unfolding relative_form_def by blast+

lemma round_sixtieth: "60 \<le> k \<Longrightarrow> 1 \<le> Math_round (fl64 (of_int k / 60))"
proof -
  assume "60 \<le> k"
  then have "(1 :: rat) \<le> of_int k / 60" by simp
  then have "1 \<le> fl64 (of_int k / 60)" using fl64_ge [of 1] by simp
  then show ?thesis unfolding Math_round_def by linarith
qed

text \<open>An age is never shown with a number that belongs to another unit: seconds from 0 to 59,
  minutes from 1 to 59, hours from 1 to 23, and a date otherwise, also for an instant in the future.\<close>

lemma formatRelative_forms:
  assumes "truthy v" "ad_parse D v = Some timestamp"
  shows "relative_form P D timestamp (formatRelative P D (Some v) now)"
proof (cases now)
  case None
  with assms show ?thesis by (simp add: formatRelative_def relative_form_def)
next
  case (Some n)
  define s where "s = max 0 (Math_round (fl64 (of_int (n - timestamp) / 1000)))"
  define m where "m = Math_round (fl64 (of_int s / 60))"
  define h where "h = Math_round (fl64 (of_int m / 60))"
  have f: "formatRelative P D (Some v) now = (if s < 60 then pf_number P (of_int s) @ ru_s_ago
      else if m < 60 then pf_number P (of_int m) @ ru_m_ago
      else if h < 24 then pf_number P (of_int h) @ ru_h_ago else ad_locale D timestamp)"
    using assms Some by (simp add: formatRelative_def Let_def s_def m_def h_def)
  have "0 \<le> s" "60 \<le> s \<Longrightarrow> 1 \<le> m" "60 \<le> m \<Longrightarrow> 1 \<le> h"
    using round_sixtieth by (simp_all add: s_def m_def h_def)
  then show ?thesis unfolding f using relative_form_intros by (cases "s < 60"; cases "m < 60"; cases "h < 24") simp_all
qed

subsection \<open>The chart\<close>

lemma chart_max_ge: "1 \<le> chart_max points \<and> (\<forall>p \<in> set points. pt_value p \<le> chart_max points)"
  by (induction points) (auto simp: chart_max_def)

text \<open>Every point of a chart with values that are not negative lies inside the drawing, between 10 and 112 of
  its 120 units of height, at whatever scale.\<close>

lemma SparkAreaChart_inside:
  assumes "\<forall>p \<in> set points. 0 \<le> pt_value p" "(x, y) \<in> set (chart_points points)"
  shows "10 \<le> y \<and> y \<le> 112 \<and> 0 \<le> x"
proof -
  obtain i where i: "i < length points" and p: "x = fl64 (of_nat i * chart_step points)" "y = chart_y (chart_max points) (pt_value (points ! i))"
    using assms(2) by (auto simp: chart_points_def in_set_enumerate_eq)
  let ?q = "pt_value (points ! i) / chart_max points"
  have "0 \<le> ?q" "?q \<le> 1" using chart_max_ge [of points] nth_mem [OF i] assms(1) by (auto simp: divide_le_eq)
  then have r: "0 \<le> fl64 ?q" "fl64 ?q \<le> 1" using fl64_nonneg fl64_le [of ?q 1] by simp_all
  define t where "t = fl64 (fl64 ?q * 102)"
  have t: "0 \<le> t" "t \<le> 102" using r fl64_nonneg fl64_le [of "fl64 ?q * 102" 102] by (simp_all add: t_def)
  define u where "u = fl64 (120 - t)"
  have u: "18 \<le> u" "u \<le> 120" using t fl64_ge [of 18 "120 - t"] fl64_le [of "120 - t" 120] by (simp_all add: u_def)
  have y: "y = fl64 (u - 8)" by (simp add: p(2) chart_y_def u_def t_def)
  have "10 \<le> y" "y \<le> 112" using u fl64_ge [of 10 "u - 8"] fl64_le [of "u - 8" 112] by (simp_all add: y)
  moreover have "0 \<le> chart_step points" by (simp add: chart_step_def fl64_nonneg)
  ultimately show ?thesis by (simp add: p(1) fl64_nonneg)
qed

end
