(* ===== verification/Admin_Panel.thy ===== *)
theory Admin_Panel
  imports Admin_Text
begin

section \<open>The administration panel (web/components/admin/AdminPanel.tsx)\<close>

text \<open>
  The panel as a machine: polling, the stream of notifications, the actions on servers and notifications, the dialog
  that confirms a maintenance action, the import of a configuration, filters, selection and the views of all its parts.
  A server is kept as the object the backend sent, because a health check lays a new object over it; it is read as
  \<^typ>\<open>admin_server\<close>. Effects that depend on the rendered state run at the end of the step that changes it
  (\<open>settle_panel\<close>). The stream and the two timers are events from outside; the clock is moved by the event \<open>Clock\<close>.
  Bodies are read as the types that the source asserts, and identifiers are integers. Leaving the page is not modelled.
\<close>

subsection \<open>Reading the bodies\<close>

definition opt_str :: "json \<Rightarrow> string \<Rightarrow> jsstr option" where
  "opt_str j k = (case jget_safe j (lit k) of Some (JStr s) \<Rightarrow> Some s | _ \<Rightarrow> None)"

definition opt_num :: "json \<Rightarrow> string \<Rightarrow> rat option" where
  "opt_num j k = (case jget_safe j (lit k) of Some (JNum n) \<Rightarrow> Some n | _ \<Rightarrow> None)"

definition opt_int :: "json \<Rightarrow> string \<Rightarrow> int option" where
  "opt_int j k = map_option floor (opt_num j k)"

definition opt_bool :: "json \<Rightarrow> string \<Rightarrow> bool option" where
  "opt_bool j k = (case jget_safe j (lit k) of Some (JBool b) \<Rightarrow> Some b | _ \<Rightarrow> None)"

definition the_str :: "json \<Rightarrow> string \<Rightarrow> jsstr" where
  "the_str j k = nullish (opt_str j k) []"

definition the_int :: "json \<Rightarrow> string \<Rightarrow> int" where
  "the_int j k = nullish (opt_int j k) 0"

definition awg_of :: "json \<Rightarrow> awg_summary" where
  "awg_of j = \<lparr>awg_listen_port = opt_int j ''listen_port'', awg_interface = opt_str j ''interface'',
     awg_container = opt_str j ''container'', awg_jc = opt_str j ''jc'', awg_jmin = opt_str j ''jmin'', awg_jmax = opt_str j ''jmax'',
     awg_s1 = opt_str j ''s1'', awg_s2 = opt_str j ''s2'', awg_s3 = opt_str j ''s3'', awg_s4 = opt_str j ''s4'',
     awg_h1 = opt_str j ''h1'', awg_h2 = opt_str j ''h2'', awg_h3 = opt_str j ''h3'', awg_h4 = opt_str j ''h4''\<rparr>"

definition xray_of :: "json \<Rightarrow> xray_summary" where
  "xray_of j = \<lparr>xr_address = opt_str j ''address'', xr_port = opt_int j ''port'', xr_server_name = opt_str j ''server_name'',
     xr_public_key = opt_str j ''public_key'', xr_short_id = opt_str j ''short_id'', xr_network = opt_str j ''network'',
     xr_security = opt_str j ''security'', xr_grpc_service_name = opt_str j ''grpc_service_name'',
     xr_container_name = opt_str j ''container_name''\<rparr>"

definition opt_obj :: "(json \<Rightarrow> 'a) \<Rightarrow> json \<Rightarrow> string \<Rightarrow> 'a option" where
  "opt_obj f j k = (case jget_safe j (lit k) of Some (JObj kvs) \<Rightarrow> Some (f (JObj kvs)) | _ \<Rightarrow> None)"

definition summary_of :: "json \<Rightarrow> config_summary" where
  "summary_of j = \<lparr>cs_awg = opt_obj awg_of j ''awg'', cs_xray = opt_obj xray_of j ''xray''\<rparr>"

definition server_of :: "json \<Rightarrow> admin_server" where
  "server_of j = \<lparr>as_id = the_int j ''id'', as_name = the_str j ''name'', as_host = opt_str j ''host'',
     as_endpoint = opt_str j ''endpoint'', as_region = opt_str j ''region'', as_country_code = opt_str j ''country_code'',
     as_active = (opt_bool j ''active'' = Some True), as_is_vip_only = opt_bool j ''is_vip_only'', as_max_peers = opt_int j ''max_peers'',
     as_active_keys = opt_int j ''active_keys'', as_active_awg = opt_int j ''active_awg'', as_active_vless = opt_int j ''active_vless'',
     as_utilization = opt_num j ''utilization'', as_agent_mode = opt_str j ''agent_mode'', as_agent_node_id = opt_str j ''agent_node_id'',
     as_agent_last_heartbeat_at = opt_str j ''agent_last_heartbeat_at'', as_agent_heartbeat_stale = opt_bool j ''agent_heartbeat_stale'',
     as_agent_docker_available = opt_bool j ''agent_docker_available'', as_agent_uptime_seconds = opt_num j ''agent_uptime_seconds'',
     as_agent_last_health_status = opt_str j ''agent_last_health_status'', as_agent_last_version = opt_str j ''agent_last_version'',
     as_agent_last_commit = opt_str j ''agent_last_commit'', as_agent_active_digest = opt_str j ''agent_active_digest'',
     as_agent_previous_digest = opt_str j ''agent_previous_digest'', as_agent_last_update_status = opt_str j ''agent_last_update_status'',
     as_agent_last_update_error = opt_str j ''agent_last_update_error'', as_agent_last_snapshot_hash = opt_str j ''agent_last_snapshot_hash'',
     as_agent_last_snapshot_at = opt_str j ''agent_last_snapshot_at'', as_agent_last_snapshot_status = opt_str j ''agent_last_snapshot_status'',
     as_agent_bootstrap_status = opt_str j ''agent_bootstrap_status'', as_agent_bootstrap_error = opt_str j ''agent_bootstrap_error'',
     as_agent_bootstrap_at = opt_str j ''agent_bootstrap_at'', as_pihole_enabled = opt_bool j ''pihole_enabled'',
     as_pihole_last_sync_at = opt_str j ''pihole_last_sync_at'', as_pihole_last_sync_error = opt_str j ''pihole_last_sync_error'',
     as_config_summary = opt_obj summary_of j ''config_summary''\<rparr>"

definition severity_of :: "json \<Rightarrow> admin_severity" where
  "severity_of j = (if the_str j ''severity'' = lit ''critical'' then Critical
     else if the_str j ''severity'' = lit ''warning'' then Warning else Info)"

definition notified_server_of :: "json \<Rightarrow> notification_server" where
  "notified_server_of j = \<lparr>ns_id = the_int j ''id'', ns_name = the_str j ''name'', ns_region = opt_str j ''region'',
     ns_endpoint = opt_str j ''endpoint'', ns_country_code = opt_str j ''country_code''\<rparr>"

definition notification_of :: "json \<Rightarrow> admin_notification" where
  "notification_of j = \<lparr>an_id = the_int j ''id'', an_fingerprint = opt_str j ''fingerprint'', an_severity = severity_of j,
     an_status = (if the_str j ''status'' = lit ''open'' then Open else Resolved), an_title = the_str j ''title'',
     an_message = the_str j ''message'', an_server_id = opt_int j ''server_id'', an_server = opt_obj notified_server_of j ''server'',
     an_metadata_json = opt_str j ''metadata_json'', an_last_seen_at = the_str j ''last_seen_at'',
     an_acknowledged_at = opt_str j ''acknowledged_at'', an_acknowledged_by_id = opt_int j ''acknowledged_by_id'',
     an_muted_until = opt_str j ''muted_until'', an_resolved_at = opt_str j ''resolved_at'', an_created_at = the_str j ''created_at''\<rparr>"

definition notifications_of :: "json \<Rightarrow> admin_notification list" where
  "notifications_of j = map notification_of (jarray (jget_safe j (lit ''notifications'')))"

definition kpis_of :: "json \<Rightarrow> admin_kpis" where
  "kpis_of j = \<lparr>k_total_users = the_int j ''total_users'', k_active_subscriptions = the_int j ''active_subscriptions'',
     k_active_vpn_keys = the_int j ''active_vpn_keys'', k_total_servers = the_int j ''total_servers'',
     k_active_servers = the_int j ''active_servers'', k_open_incidents = the_int j ''open_incidents'',
     k_monthly_revenue = nullish (opt_num j ''monthly_revenue'') 0\<rparr>"

definition audit_of :: "json \<Rightarrow> admin_audit_log" where
  "audit_of j = \<lparr>al_id = the_int j ''id'', al_actor_user_id = opt_int j ''actor_user_id'', al_action = the_str j ''action'',
     al_entity = the_str j ''entity'', al_entity_id = the_str j ''entity_id'', al_result = the_str j ''result'',
     al_message = the_str j ''message'', al_ip = the_str j ''ip'', al_created_at = the_str j ''created_at''\<rparr>"

record admin_stats =
  st_users :: "point list"
  st_revenue :: "point list"

definition no_stats :: admin_stats where
  "no_stats = \<lparr>st_users = [], st_revenue = []\<rparr>"

definition series_of :: "json \<Rightarrow> string \<Rightarrow> point list" where
  "series_of j k = map (\<lambda>p. \<lparr>pt_label = the_str p ''label'', pt_value = nullish (opt_num p ''value'') 0\<rparr>)
     (jarray (jget_safe j (lit k)))"

definition stats_of :: "json \<Rightarrow> admin_stats" where
  "stats_of j = \<lparr>st_users = series_of j ''users_series'', st_revenue = series_of j ''revenue_series''\<rparr>"

subsection \<open>State\<close>

datatype admin_section = S_Overview | S_Servers | S_Incidents | S_Users | S_Payments | S_Agent | S_Settings

datatype drawer_tab = T_Health | T_Agent | T_Snapshot | T_Config | T_Actions | T_Audit

datatype modal_kind = Update | Rollback | Toggle

record config_form =
  cf_server :: int
  cf_awg :: jsstr
  cf_xray :: jsstr
  cf_publicKey :: jsstr
  cf_shortID :: jsstr
  cf_clientID :: jsstr

record panel =
  ap_kpis :: admin_kpis
  ap_servers :: "json list"
  ap_notifications :: "admin_notification list"
  ap_section :: admin_section
  ap_filters :: server_filters
  ap_selected :: "int option"
  ap_tab :: drawer_tab
  ap_stats :: admin_stats
  ap_auditLogs :: "admin_audit_log list"
  ap_busyAction :: "jsstr option"
  ap_toast :: jsstr
  ap_modal :: "(modal_kind \<times> admin_server) option"
  ap_digest :: jsstr
  ap_modalError :: jsstr
  ap_relativeNow :: "int option"
  ap_config :: "config_form option"
  ap_clock :: int
  ap_live :: bool

text \<open>What waits: the continuations of the four refreshing functions, and of \<^verbatim>\<open>postAction\<close> at its three waits. An
  action carries the server that was selected when it was called, and what its caller does afterwards: nothing, or
  closing the dialog, with the busy action of the render the caller belongs to.\<close>

datatype after_action = Nothing | Close_Modal "jsstr option"

datatype panel_wait =
    P_Overview
  | P_Stats
  | P_Audit int
  | P_Health int
  | P_Action jsstr "int option" after_action
  | P_Action_Overview "int option" after_action
  | P_Action_Audit after_action

type_synonym panel_reaction = "(panel, unit, panel_wait) reaction"

record panel_env =
  pn_platform :: platform
  pn_dates :: admin_dates
  pn_ru :: "rat \<Rightarrow> jsstr"
  pn_email :: jsstr

definition servers_of :: "panel \<Rightarrow> admin_server list" where
  "servers_of s = map server_of (ap_servers s)"

definition visibleServers :: "panel \<Rightarrow> admin_server list" where
  "visibleServers s = applyServerFilters (servers_of s) (ap_filters s)"

definition selectedServer :: "panel \<Rightarrow> admin_server option" where
  "selectedServer s = (case find (\<lambda>v. Some (as_id v) = ap_selected s) (servers_of s) of
     Some v \<Rightarrow> Some v
   | None \<Rightarrow> (case visibleServers s of [] \<Rightarrow> None | v # _ \<Rightarrow> Some v))"

definition selected_id :: "panel \<Rightarrow> int option" where
  "selected_id s = map_option as_id (selectedServer s)"

definition criticalBanner :: "panel_env \<Rightarrow> panel \<Rightarrow> bool" where
  "criticalBanner E s = hasUnacknowledgedCriticalIncident (ad_parse (pn_dates E)) (ap_clock s) (ap_notifications s)"

definition set_overview :: "json \<Rightarrow> panel \<Rightarrow> panel" where
  "set_overview j s = s\<lparr>ap_kpis := nullish (opt_obj kpis_of j ''kpis'') (kpis_of (JObj [])),
     ap_servers := jarray (jget_safe j (lit ''servers''))\<rparr>"

text \<open>The effect on \<^verbatim>\<open>visibleServers\<close>, whenever the servers or the filters are set.\<close>

definition reselect :: "panel \<Rightarrow> panel" where
  "reselect s = s\<lparr>ap_selected := preserveSelectedServer (ap_selected s) (visibleServers s)\<rparr>"

definition panel_init :: "json \<Rightarrow> int \<Rightarrow> panel" where
  "panel_init overview now = reselect (set_overview overview
     \<lparr>ap_kpis = kpis_of (JObj []), ap_servers = [], ap_notifications = notifications_of overview, ap_section = S_Overview,
      ap_filters = \<lparr>sf_query = [], sf_status = All_Status, sf_region = [], sf_vipOnly = All_Tiers\<rparr>,
      ap_selected = (case jarray (jget_safe overview (lit ''servers'')) of [] \<Rightarrow> None | j # _ \<Rightarrow> Some (as_id (server_of j))),
      ap_tab = T_Health, ap_stats = no_stats, ap_auditLogs = [], ap_busyAction = None, ap_toast = [], ap_modal = None,
      ap_digest = [], ap_modalError = [], ap_relativeNow = Some now, ap_config = None, ap_clock = now, ap_live = True\<rparr>)"

subsection \<open>Refreshing\<close>

definition admin_get :: "jsstr \<Rightarrow> request" where
  "admin_get path = \<lparr>rq_url = path, rq_method = lit ''GET'', rq_headers = [], rq_body = NoBody, rq_no_store = True\<rparr>"

definition overview_request :: request where
  "overview_request = admin_get (lit ''/api/admin/overview'')"

definition stats_request :: request where
  "stats_request = admin_get (lit ''/api/admin/stats?days=7'')"

text \<open>What \<^verbatim>\<open>new EventSource\<close> asks for: the request of the stream is not cached either, and names the type it accepts.\<close>

definition events_request :: request where
  "events_request = (admin_get (lit ''/api/admin/events''))\<lparr>rq_headers := [(lit ''Accept'', lit ''text/event-stream'')]\<rparr>"

definition audit_request :: "platform \<Rightarrow> int \<Rightarrow> request" where
  "audit_request P i = admin_get (lit ''/api/admin/audit?entity=vpn_server&entity_id='' @ pf_number P (of_int i))"

text \<open>\<^verbatim>\<open>if (!response.ok) throw new Error(message)\<close>, then the body.\<close>

definition ok_body :: "jsstr \<Rightarrow> answer \<Rightarrow> exn + json" where
  "ok_body message a = (case a of
     Inl e \<Rightarrow> Inl e
   | Inr r \<Rightarrow> if rs_ok r then json_of r else Inl (Error message))"

definition overview_arrived :: "platform \<Rightarrow> answer \<Rightarrow> panel \<Rightarrow> panel" where
  "overview_arrived P a s = (case ok_body ru_overview_unavailable a of
     Inl e \<Rightarrow> s\<lparr>ap_toast := safeAdminErrorMessage P e\<rparr>
   | Inr data \<Rightarrow> reselect (set_overview data (s\<lparr>ap_notifications := notifications_of data\<rparr>)))"

definition stats_arrived :: "answer \<Rightarrow> panel \<Rightarrow> panel" where
  "stats_arrived a s = (case a of
     Inl _ \<Rightarrow> s\<lparr>ap_stats := no_stats\<rparr>
   | Inr r \<Rightarrow> if \<not> rs_ok r then s
       else (case json_of r of Inl _ \<Rightarrow> s\<lparr>ap_stats := no_stats\<rparr> | Inr data \<Rightarrow> s\<lparr>ap_stats := stats_of data\<rparr>))"

definition audit_arrived :: "answer \<Rightarrow> panel \<Rightarrow> panel" where
  "audit_arrived a s = (case a of
     Inl _ \<Rightarrow> s\<lparr>ap_auditLogs := []\<rparr>
   | Inr r \<Rightarrow> if \<not> rs_ok r then s
       else (case json_of r of
           Inl _ \<Rightarrow> s\<lparr>ap_auditLogs := []\<rparr>
         | Inr data \<Rightarrow> s\<lparr>ap_auditLogs := map audit_of (jarray (jget_safe data (lit ''audit_logs'')))\<rparr>))"

subsection \<open>Actions\<close>

definition json_headers :: headers where
  "json_headers = new_headers [(lit ''Content-Type'', lit ''application/json'')]"

definition action_request :: "jsstr \<Rightarrow> jsstr \<Rightarrow> json option \<Rightarrow> request" where
  "action_request method url body = \<lparr>rq_url = url, rq_method = method, rq_headers = json_headers,
     rq_body = (if method = lit ''GET'' then NoBody else (case body of Some b \<Rightarrow> JsonBody b | None \<Rightarrow> JsonBody (JObj []))),
     rq_no_store = False\<rparr>"

definition postAction :: "jsstr \<Rightarrow> jsstr \<Rightarrow> json option \<Rightarrow> jsstr \<Rightarrow> after_action \<Rightarrow> panel \<Rightarrow> panel_reaction" where
  "postAction label url body method after s =
     (s\<lparr>ap_busyAction := Some label\<rparr>, [Fetch (action_request method url body)], [P_Action label (selected_id s) after])"

definition starts_with :: "jsstr \<Rightarrow> jsstr \<Rightarrow> bool" where
  "starts_with s p \<longleftrightarrow> take (length p) s = p"

definition closeActionModal :: "jsstr option \<Rightarrow> panel \<Rightarrow> panel" where
  "closeActionModal busyAction s = (
     if (case busyAction of None \<Rightarrow> False | Some b \<Rightarrow> starts_with b (lit ''modal-'')) then s
     else s\<lparr>ap_modal := None, ap_digest := [], ap_modalError := []\<rparr>)"

text \<open>The \<^verbatim>\<open>finally\<close> of \<^verbatim>\<open>postAction\<close>, and its caller.\<close>

definition action_finished :: "bool \<Rightarrow> after_action \<Rightarrow> panel \<Rightarrow> panel" where
  "action_finished ok after s = (let s1 = s\<lparr>ap_busyAction := None\<rparr> in
     case after of Close_Modal busyAction \<Rightarrow> if ok then closeActionModal busyAction s1 else s1 | Nothing \<Rightarrow> s1)"

definition action_error :: "platform \<Rightarrow> response \<Rightarrow> exn" where
  "action_error P r = (case json_of r of
     Inl _ \<Rightarrow> Error ru_command_not_done
   | Inr data \<Rightarrow> if data = JNull then TypeError
       else Error (template (pf_number P) (jnullish (jget_safe data (lit ''error'')) (JStr ru_command_not_done))))"

definition action_failed :: "platform \<Rightarrow> exn \<Rightarrow> after_action \<Rightarrow> panel \<Rightarrow> panel_reaction" where
  "action_failed P e after s = (action_finished False after (s\<lparr>ap_toast := safeAdminErrorMessage P e\<rparr>), [], [])"

definition action_answered :: "platform \<Rightarrow> int option \<Rightarrow> after_action \<Rightarrow> answer \<Rightarrow> panel \<Rightarrow> panel_reaction" where
  "action_answered P sel after a s = (case a of
     Inl e \<Rightarrow> action_failed P e after s
   | Inr r \<Rightarrow> if \<not> rs_ok r then action_failed P (action_error P r) after s
       else (s\<lparr>ap_toast := ru_command_done\<rparr>, [Fetch overview_request], [P_Action_Overview sel after]))"

definition action_overview :: "platform \<Rightarrow> int option \<Rightarrow> after_action \<Rightarrow> answer \<Rightarrow> panel \<Rightarrow> panel_reaction" where
  "action_overview P sel after a s = (let s1 = overview_arrived P a s in
     case sel of
       None \<Rightarrow> (action_finished True after s1, [], [])
     | Some i \<Rightarrow> (s1, [Fetch (audit_request P i)], [P_Action_Audit after]))"

definition action_audit :: "after_action \<Rightarrow> answer \<Rightarrow> panel \<Rightarrow> panel_reaction" where
  "action_audit after a s = (action_finished True after (audit_arrived a s), [], [])"

definition server_path :: "platform \<Rightarrow> int \<Rightarrow> jsstr" where
  "server_path P i = lit ''/api/admin/servers/'' @ pf_number P (of_int i)"

definition label_for :: "platform \<Rightarrow> string \<Rightarrow> int \<Rightarrow> jsstr" where
  "label_for P l i = lit l @ pf_number P (of_int i)"

definition refreshServerHealth :: "platform \<Rightarrow> int \<Rightarrow> panel \<Rightarrow> panel_reaction" where
  "refreshServerHealth P i s = (s\<lparr>ap_busyAction := Some (label_for P ''health-'' i)\<rparr>,
     [Fetch (admin_get (server_path P i @ lit ''/health''))], [P_Health i])"

text \<open>\<^verbatim>\<open>{ ...server, ...data.server }\<close> for the server with the id.\<close>

definition lay_over :: "int \<Rightarrow> jval \<Rightarrow> json \<Rightarrow> json" where
  "lay_over i new server = (if as_id (server_of server) = i
     then JObj (spread (own_props (Some server)) (own_props new)) else server)"

definition health_arrived :: "panel_env \<Rightarrow> int \<Rightarrow> answer \<Rightarrow> panel \<Rightarrow> panel" where
  "health_arrived E i a s = (case ok_body ru_health_unavailable a of
     Inl e \<Rightarrow> s\<lparr>ap_toast := safeAdminErrorMessage (pn_platform E) e, ap_busyAction := None\<rparr>
   | Inr data \<Rightarrow> reselect (s\<lparr>ap_servers := map (lay_over i (jget_safe data (lit ''server''))) (ap_servers s),
       ap_notifications := mergeNotificationEvent (ad_parse (pn_dates E)) (ap_notifications s) (notifications_of data),
       ap_busyAction := None\<rparr>))"

definition notification_path :: "platform \<Rightarrow> int \<Rightarrow> jsstr" where
  "notification_path P i = lit ''/api/admin/notifications/'' @ pf_number P (of_int i)"

definition ackNotification :: "platform \<Rightarrow> int \<Rightarrow> panel \<Rightarrow> panel_reaction" where
  "ackNotification P i = postAction (label_for P ''ack-'' i) (notification_path P i @ lit ''/ack'') None (lit ''POST'') Nothing"

definition muteNotification :: "platform \<Rightarrow> int \<Rightarrow> panel \<Rightarrow> panel_reaction" where
  "muteNotification P i = postAction (label_for P ''mute-'' i) (notification_path P i @ lit ''/mute'')
     (Some (JObj [(lit ''minutes'', JNum 30)])) (lit ''POST'') Nothing"

definition openActionModal :: "modal_kind \<Rightarrow> admin_server \<Rightarrow> panel \<Rightarrow> panel" where
  "openActionModal kind server s = s\<lparr>ap_modal := Some (kind, server), ap_digest := [], ap_modalError := []\<rparr>"

fun modal_label :: "platform \<Rightarrow> modal_kind \<Rightarrow> int \<Rightarrow> jsstr" where
  "modal_label P Update i = label_for P ''modal-update-'' i"
| "modal_label P Rollback i = label_for P ''modal-rollback-'' i"
| "modal_label P Toggle i = label_for P ''modal-toggle-'' i"

definition submitActionModal :: "platform \<Rightarrow> panel \<Rightarrow> panel_reaction" where
  "submitActionModal P s = (case ap_modal s of
     None \<Rightarrow> (s, [], [])
   | Some (kind, server) \<Rightarrow>
       (let i = as_id server; after = Close_Modal (ap_busyAction s) in
        case kind of
          Update \<Rightarrow>
            (let digest = trim (ap_digest s) in
             if \<not> immutableDigest digest
             then (s\<lparr>ap_modalError := lit ''Use an immutable image digest in the form repo/name@sha256:<64 hex chars>.''\<rparr>, [], [])
             else postAction (modal_label P Update i) (server_path P i @ lit ''/agent/update'')
               (Some (JObj [(lit ''image_digest'', JStr digest)])) (lit ''POST'') after s)
        | Rollback \<Rightarrow> postAction (modal_label P Rollback i) (server_path P i @ lit ''/agent/rollback'') None (lit ''POST'') after s
        | Toggle \<Rightarrow> postAction (modal_label P Toggle i) (server_path P i @ lit ''/toggle'') None (lit ''POST'') after s))"

definition setPendingDigest :: "jsstr \<Rightarrow> panel \<Rightarrow> panel" where
  "setPendingDigest t s = (let s1 = s\<lparr>ap_digest := t\<rparr> in
     if truthy (ap_modalError s) then s1\<lparr>ap_modalError := []\<rparr> else s1)"

text \<open>A message of the stream; the text that is not JSON is an exception.\<close>

definition stream_message :: "panel_env \<Rightarrow> exn + json \<Rightarrow> panel \<Rightarrow> panel" where
  "stream_message E m s = (case m of
     Inl _ \<Rightarrow> s\<lparr>ap_toast := ru_stream_failed\<rparr>
   | Inr data \<Rightarrow>
       (let incoming = notifications_of data; parse = ad_parse (pn_dates E);
            s1 = s\<lparr>ap_notifications := mergeNotificationEvent parse (ap_notifications s) incoming\<rparr> in
        if hasUnacknowledgedCriticalIncident parse (ap_clock s) incoming then s1\<lparr>ap_toast := ru_new_critical\<rparr> else s1))"

subsection \<open>The import of a configuration\<close>

definition config_init :: "platform \<Rightarrow> admin_server \<Rightarrow> config_form" where
  "config_init P server = (let xray = Option.bind (as_config_summary server) cs_xray in
     \<lparr>cf_server = as_id server, cf_awg = seedAWGConfig P server, cf_xray = [],
      cf_publicKey = nullish (Option.bind xray xr_public_key) [], cf_shortID = nullish (Option.bind xray xr_short_id) [],
      cf_clientID = []\<rparr>)"

definition import_body :: "config_form \<Rightarrow> json" where
  "import_body f = JObj [(lit ''awg_config'', JStr (cf_awg f)), (lit ''xray_config_json'', JStr (cf_xray f)),
     (lit ''xray_public_key'', JStr (cf_publicKey f)), (lit ''xray_short_id'', JStr (cf_shortID f)),
     (lit ''xray_client_id'', JStr (cf_clientID f))]"

definition import_config :: "platform \<Rightarrow> panel \<Rightarrow> panel_reaction" where
  "import_config P s = (case (ap_config s, selectedServer s) of
     (Some f, Some v) \<Rightarrow> postAction (label_for P ''config-import-'' (as_id v)) (server_path P (as_id v) @ lit ''/configs/import'')
       (Some (import_body f)) (lit ''POST'') Nothing s
   | _ \<Rightarrow> (s, [], []))"

definition edit_config :: "(config_form \<Rightarrow> config_form) \<Rightarrow> panel \<Rightarrow> panel" where
  "edit_config f s = s\<lparr>ap_config := map_option f (ap_config s)\<rparr>"

subsection \<open>Events\<close>

datatype panel_event =
    Dismiss_Toast
  | Go_Section admin_section
  | Set_Query jsstr
  | Set_Status jsstr
  | Set_Region jsstr
  | Set_Vip jsstr
  | Ack_First
  | Ack int
  | Mute int
  | Select_Server int
  | Select_Notified "int option"
  | Refresh_Overview
  | Refresh_Health int
  | Take_Snapshot int
  | Agent_Status int
  | Set_Tab drawer_tab
  | Request_Action modal_kind admin_server
  | Close_Dialog
  | Set_Digest jsstr
  | Submit_Dialog
  | Edit_Awg jsstr
  | Edit_Xray jsstr
  | Edit_PublicKey jsstr
  | Edit_ShortID jsstr
  | Edit_ClientID jsstr
  | Import_Config
  | Clock int
  | Clock_Tick
  | Poll
  | Stream "exn + json"
  | Stream_Error

definition status_string :: "status_filter \<Rightarrow> jsstr" where
  "status_string f = (case f of All_Status \<Rightarrow> lit ''all'' | Active_Status \<Rightarrow> lit ''active''
     | Inactive_Status \<Rightarrow> lit ''inactive'' | Stale_Status \<Rightarrow> lit ''stale'')"

definition status_of :: "jsstr \<Rightarrow> status_filter" where
  "status_of t = (if t = lit ''active'' then Active_Status else if t = lit ''inactive'' then Inactive_Status
     else if t = lit ''stale'' then Stale_Status else All_Status)"

definition tier_string :: "vip_filter \<Rightarrow> jsstr" where
  "tier_string f = (case f of All_Tiers \<Rightarrow> lit ''all'' | Vip_Tier \<Rightarrow> lit ''vip'' | Standard_Tier \<Rightarrow> lit ''standard'')"

definition tier_of :: "jsstr \<Rightarrow> vip_filter" where
  "tier_of t = (if t = lit ''vip'' then Vip_Tier else if t = lit ''standard'' then Standard_Tier else All_Tiers)"

definition set_filters :: "(server_filters \<Rightarrow> server_filters) \<Rightarrow> panel \<Rightarrow> panel" where
  "set_filters f s = reselect (s\<lparr>ap_filters := f (ap_filters s)\<rparr>)"

text \<open>The section and the effect on it.\<close>

definition setActiveSection :: "admin_section \<Rightarrow> panel \<Rightarrow> panel" where
  "setActiveSection n s = (let s1 = s\<lparr>ap_section := n\<rparr> in
     if ap_section s = n then s1
     else case n of S_Agent \<Rightarrow> s1\<lparr>ap_tab := T_Agent\<rparr> | S_Settings \<Rightarrow> s1\<lparr>ap_tab := T_Config\<rparr>
       | S_Servers \<Rightarrow> s1\<lparr>ap_tab := T_Health\<rparr> | _ \<Rightarrow> s1)"

text \<open>The effect on the tab and the selected server, and the mounting of the configuration form.\<close>

definition mount_config :: "platform \<Rightarrow> panel \<Rightarrow> panel" where
  "mount_config P s = (case selectedServer s of
     Some v \<Rightarrow>
       if ap_tab s \<noteq> T_Config then s\<lparr>ap_config := None\<rparr>
       else (case ap_config s of
           Some f \<Rightarrow> if cf_server f = as_id v then s else s\<lparr>ap_config := Some (config_init P v)\<rparr>
         | None \<Rightarrow> s\<lparr>ap_config := Some (config_init P v)\<rparr>)
   | None \<Rightarrow> s\<lparr>ap_config := None\<rparr>)"

definition settle_panel :: "panel_env \<Rightarrow> panel \<Rightarrow> panel_reaction \<Rightarrow> panel_reaction" where
  "settle_panel E old r = (case r of (s, out, ps) \<Rightarrow>
     (let s1 = mount_config (pn_platform E) s in
      if (ap_tab s = ap_tab old \<and> selected_id s = selected_id old) \<or> ap_tab s \<noteq> T_Audit then (s1, out, ps)
      else (case selected_id s of
          None \<Rightarrow> (s1, out, ps)
        | Some i \<Rightarrow> (s1, out @ [Fetch (audit_request (pn_platform E) i)], ps @ [P_Audit i]))))"

fun panel_react :: "panel_env \<Rightarrow> panel_event \<Rightarrow> panel \<Rightarrow> panel_reaction" where
  "panel_react E Dismiss_Toast s = (s\<lparr>ap_toast := []\<rparr>, [], [])"
| "panel_react E (Go_Section n) s = (setActiveSection n s, [], [])"
| "panel_react E (Set_Query t) s = (set_filters (\<lambda>f. f\<lparr>sf_query := t\<rparr>) s, [], [])"
| "panel_react E (Set_Status t) s = (set_filters (\<lambda>f. f\<lparr>sf_status := status_of t\<rparr>) s, [], [])"
| "panel_react E (Set_Region t) s = (set_filters (\<lambda>f. f\<lparr>sf_region := t\<rparr>) s, [], [])"
| "panel_react E (Set_Vip t) s = (set_filters (\<lambda>f. f\<lparr>sf_vipOnly := tier_of t\<rparr>) s, [], [])"
| "panel_react E Ack_First s = (case ap_notifications s of
     [] \<Rightarrow> (s, [], []) | n # _ \<Rightarrow> ackNotification (pn_platform E) (an_id n) s)"
| "panel_react E (Ack i) s = ackNotification (pn_platform E) i s"
| "panel_react E (Mute i) s = muteNotification (pn_platform E) i s"
| "panel_react E (Select_Server i) s = (s\<lparr>ap_selected := Some i\<rparr>, [], [])"
| "panel_react E (Select_Notified i) s = (if i = None \<or> i = Some 0 then (s, [], []) else (s\<lparr>ap_selected := i\<rparr>, [], []))"
| "panel_react E Refresh_Overview s = (s, [Fetch overview_request], [P_Overview])"
| "panel_react E (Refresh_Health i) s = refreshServerHealth (pn_platform E) i s"
| "panel_react E (Take_Snapshot i) s = postAction (label_for (pn_platform E) ''snapshot-'' i)
     (server_path (pn_platform E) i @ lit ''/agent/snapshot'') None (lit ''POST'') Nothing s"
| "panel_react E (Agent_Status i) s = postAction (label_for (pn_platform E) ''status-'' i)
     (server_path (pn_platform E) i @ lit ''/agent/status'') None (lit ''GET'') Nothing s"
| "panel_react E (Set_Tab t) s = (s\<lparr>ap_tab := t\<rparr>, [], [])"
| "panel_react E (Request_Action kind server) s = (openActionModal kind server s, [], [])"
| "panel_react E Close_Dialog s = (closeActionModal (ap_busyAction s) s, [], [])"
| "panel_react E (Set_Digest t) s = (setPendingDigest t s, [], [])"
| "panel_react E Submit_Dialog s = submitActionModal (pn_platform E) s"
| "panel_react E (Edit_Awg t) s = (edit_config (\<lambda>f. f\<lparr>cf_awg := t\<rparr>) s, [], [])"
| "panel_react E (Edit_Xray t) s = (edit_config (\<lambda>f. f\<lparr>cf_xray := t\<rparr>) s, [], [])"
| "panel_react E (Edit_PublicKey t) s = (edit_config (\<lambda>f. f\<lparr>cf_publicKey := t\<rparr>) s, [], [])"
| "panel_react E (Edit_ShortID t) s = (edit_config (\<lambda>f. f\<lparr>cf_shortID := t\<rparr>) s, [], [])"
| "panel_react E (Edit_ClientID t) s = (edit_config (\<lambda>f. f\<lparr>cf_clientID := t\<rparr>) s, [], [])"
| "panel_react E Import_Config s = import_config (pn_platform E) s"
| "panel_react E (Clock t) s = (s\<lparr>ap_clock := t\<rparr>, [], [])"
| "panel_react E Clock_Tick s = (s\<lparr>ap_relativeNow := Some (ap_clock s)\<rparr>, [], [])"
| "panel_react E Poll s = (s, [Fetch overview_request, Fetch stats_request], [P_Overview, P_Stats])"
| "panel_react E (Stream m) s = (stream_message E m s, [], [])"
| "panel_react E Stream_Error s = (s\<lparr>ap_live := False\<rparr>, [], [])"

definition panel_handle :: "panel_env \<Rightarrow> panel_event \<Rightarrow> panel \<Rightarrow> panel_reaction" where
  "panel_handle E e s = settle_panel E s (panel_react E e s)"

fun panel_continue :: "panel_env \<Rightarrow> panel_wait \<Rightarrow> answer \<Rightarrow> panel \<Rightarrow> panel_reaction" where
  "panel_continue E P_Overview a s = (overview_arrived (pn_platform E) a s, [], [])"
| "panel_continue E P_Stats a s = (stats_arrived a s, [], [])"
| "panel_continue E (P_Audit i) a s = (audit_arrived a s, [], [])"
| "panel_continue E (P_Health i) a s = (health_arrived E i a s, [], [])"
| "panel_continue E (P_Action label sel after) a s = action_answered (pn_platform E) sel after a s"
| "panel_continue E (P_Action_Overview sel after) a s = action_overview (pn_platform E) sel after a s"
| "panel_continue E (P_Action_Audit after) a s = action_audit after a s"

definition panel_resume :: "panel_env \<Rightarrow> panel_wait \<Rightarrow> answer \<Rightarrow> panel \<Rightarrow> panel_reaction" where
  "panel_resume E w a s = settle_panel E s (panel_continue E w a s)"

text \<open>The timers, and the stream while it is open.\<close>

fun panel_outside :: "panel \<Rightarrow> panel_event \<Rightarrow> bool" where
  "panel_outside s (Clock t) = (ap_clock s \<le> t)"
| "panel_outside s Clock_Tick = True"
| "panel_outside s Poll = True"
| "panel_outside s (Stream m) = ap_live s"
| "panel_outside s Stream_Error = ap_live s"
| "panel_outside s _ = False"

subsection \<open>Views\<close>

definition Kpi :: "jsstr \<Rightarrow> jsstr \<Rightarrow> jsstr \<Rightarrow> 'e view" where
  "Kpi label val hint = El (lit ''div'') [Text label, Text val, Text hint]"

definition PanelHeader :: "jsstr \<Rightarrow> jsstr \<Rightarrow> 'e view" where
  "PanelHeader title text = El (lit ''div'') [El (lit ''h2'') [Text title], El (lit ''p'') [Text text]]"

definition StatusCard :: "jsstr \<Rightarrow> jsstr \<Rightarrow> jsstr \<Rightarrow> 'e option \<Rightarrow> 'e view" where
  "StatusCard label val detail onClick = (let kids = [Text label, Text val, Text detail] in
     case onClick of None \<Rightarrow> El (lit ''div'') kids | Some e \<Rightarrow> Btn False e kids)"

definition FilterSelect :: "jsstr \<Rightarrow> jsstr \<Rightarrow> (jsstr \<Rightarrow> 'e) \<Rightarrow> (jsstr \<times> jsstr) list \<Rightarrow> 'e view" where
  "FilterSelect label val onChange options = El (lit ''label'') [Text label, Select val options onChange]"

definition MiniMeter :: "platform \<Rightarrow> rat \<Rightarrow> 'e view" where
  "MiniMeter P v = El (lit ''div'') [Text (pf_number P (of_int (meter_value v)) @ lit ''%'')]"

definition StatusBadge :: "admin_server \<Rightarrow> 'e view" where
  "StatusBadge server = El (lit ''span'') [Text (if on (as_agent_heartbeat_stale server) then lit ''Stale''
     else if as_active server then lit ''Online'' else lit ''Off'')]"

definition IconButton :: "jsstr \<Rightarrow> 'e \<Rightarrow> bool \<Rightarrow> 'e view" where
  "IconButton label onClick active = Btn active onClick [Text label]"

definition InfoRow :: "jsstr \<Rightarrow> jsstr \<Rightarrow> 'e view" where
  "InfoRow label val = El (lit ''div'') [El (lit ''dt'') [Text label], El (lit ''dd'') [Text val]]"

definition ActionGroup :: "jsstr \<Rightarrow> 'e view list \<Rightarrow> 'e view" where
  "ActionGroup title children = El (lit ''div'') (Text title # children)"

definition ConfigInput :: "jsstr \<Rightarrow> jsstr \<Rightarrow> (jsstr \<Rightarrow> 'e) \<Rightarrow> 'e view" where
  "ConfigInput label val onChange = El (lit ''label'') [Text label, Input False (lit ''text'') val onChange]"

definition health_signals :: "admin_server \<Rightarrow> (jsstr \<times> jsstr \<times> bool) list" where
  "health_signals server =
     [(lit ''Heartbeat'', if on (as_agent_heartbeat_stale server) then lit ''stale'' else lit ''fresh'',
       \<not> on (as_agent_heartbeat_stale server) \<and> truthy_opt (as_agent_last_heartbeat_at server)),
      (lit ''Docker'', if on (as_agent_docker_available server) then lit ''available'' else lit ''missing'',
       as_agent_docker_available server = Some True),
      (lit ''Agent'', or_str (as_agent_last_health_status server) (or_str (as_agent_mode server) (lit ''manual'')),
       as_agent_last_health_status server = Some (lit ''ok'') \<or> as_agent_mode server = Some (lit ''agent'')),
      (lit ''Pi-hole'', if truthy_opt (as_pihole_last_sync_error server) then lit ''error''
         else if on (as_pihole_enabled server) then lit ''enabled'' else lit ''off'',
       \<not> truthy_opt (as_pihole_last_sync_error server))]"

definition HealthSignalGrid :: "admin_server \<Rightarrow> 'e view" where
  "HealthSignalGrid server = El (lit ''div'') (map (\<lambda>(label, val, ok). El (if ok then lit ''ok'' else lit ''bad'') [Text label, Text val])
     (health_signals server))"

definition severity_string :: "admin_severity \<Rightarrow> jsstr" where
  "severity_string v = (case v of Info \<Rightarrow> lit ''info'' | Warning \<Rightarrow> lit ''warning'' | Critical \<Rightarrow> lit ''critical'')"

definition NotificationInbox :: "panel_env \<Rightarrow> panel \<Rightarrow> panel_event view" where
  "NotificationInbox E s = (let ns = ap_notifications s; P = pn_platform E in El (lit ''section'') (
     [El (lit ''h2'') [Text ru_notifications],
      Text (show_nat (length (filter (\<lambda>n. an_status n = Open) ns)) @ lit '' open'')] @
     show_if (ns = []) (El (lit ''p'') [Text ru_no_incidents]) @
     map (\<lambda>n. El (lit ''article'') [Text (an_title n),
       Text (nullish (map_option ns_name (an_server n)) (lit ''Fleet'') @ ru_dot @
         formatRelative P (pn_dates E) (Some (an_created_at n)) (ap_relativeNow s)),
       Text (severity_string (an_severity n)),
       El (lit ''p'') [Text (safeAdminText (Some (an_message n)) [])],
       Btn False (Ack (an_id n)) [Text ru_accept], Btn False (Mute (an_id n)) [Text ru_mute_30]]) ns))"

definition ActionModal :: "platform \<Rightarrow> panel \<Rightarrow> panel_event view list" where
  "ActionModal P s = (case ap_modal s of
     None \<Rightarrow> []
   | Some (kind, server) \<Rightarrow>
       (let busy = (ap_busyAction s = Some (modal_label P kind (as_id server)));
            digestValid = (kind \<noteq> Update \<or> immutableDigest (trim (ap_digest s))) in
        [El (lit ''dialog'') (
          [El (lit ''h2'') [Text (case kind of Update \<Rightarrow> lit ''Update agent image'' | Rollback \<Rightarrow> lit ''Rollback agent image''
              | Toggle \<Rightarrow> lit ''Toggle server active state'')],
           El (lit ''p'') [Text (as_name server @ ru_dot @ (case kind of
               Update \<Rightarrow> lit ''Only immutable image digests are accepted. The backend will send the command through the existing signed agent API.''
             | Rollback \<Rightarrow> lit ''This rolls the agent back to the previous recorded digest. Current user VPN access is not changed directly.''
             | Toggle \<Rightarrow> lit ''This changes whether the server is eligible for users. Existing direct SSH or Docker access is never exposed to the UI.''))],
           Btn False Close_Dialog []] @
          (if kind = Update
           then [Text (lit ''Immutable image digest''), Input False (lit ''text'') (ap_digest s) Set_Digest] @
             show_if (\<not> digestValid) (Text (lit ''Use an immutable image@sha256 digest. Mutable tags like :latest are blocked.''))
           else [Text (lit ''Confirm this controlled action for '' @ as_name server @ lit ''.'')]) @
          show_if (truthy (ap_modalError s)) (El (lit ''div'') [Text (ap_modalError s)]) @
          [Btn busy Close_Dialog [Text (lit ''Cancel'')],
           Btn (busy \<or> \<not> digestValid) Submit_Dialog [Text (if busy then lit ''Working...'' else (case kind of
               Update \<Rightarrow> lit ''Update by digest'' | Rollback \<Rightarrow> lit ''Rollback''
             | Toggle \<Rightarrow> if as_active server then lit ''Disable server'' else lit ''Enable server''))]])]))"

definition ConfigImportPanel :: "platform \<Rightarrow> panel \<Rightarrow> admin_server \<Rightarrow> panel_event view list" where
  "ConfigImportPanel P s server = (case ap_config s of
     None \<Rightarrow> []
   | Some f \<Rightarrow> (let busy = (ap_busyAction s = Some (label_for P ''config-import-'' (as_id server))) in
      [El (lit ''div'') [Text ru_import_note,
        Text (lit ''AWG config''), Input False (lit ''textarea'') (cf_awg f) Edit_Awg,
        Text (lit ''Xray server.json''), Input False (lit ''textarea'') (cf_xray f) Edit_Xray,
        ConfigInput (lit ''Reality public key'') (cf_publicKey f) Edit_PublicKey,
        ConfigInput (lit ''Short ID'') (cf_shortID f) Edit_ShortID,
        ConfigInput (lit ''Template client ID'') (cf_clientID f) Edit_ClientID,
        Btn (busy \<or> \<not> truthy (trim (cf_awg f)) \<and> \<not> truthy (trim (cf_xray f))) Import_Config
          [Text (if busy then ru_importing else ru_import_configs)]]]))"

definition dash_or :: "jsstr option \<Rightarrow> jsstr" where
  "dash_or v = or_str v ru_em_dash"

definition drawer_body :: "panel_env \<Rightarrow> panel \<Rightarrow> admin_server \<Rightarrow> panel_event view list" where
  "drawer_body E s server = (let P = pn_platform E; D = pn_dates E; now = ap_relativeNow s; i = as_id server;
       busy = (\<lambda>l. ap_busyAction s = Some (label_for P l i)) in
     case ap_tab s of
       T_Health \<Rightarrow> [HealthSignalGrid server,
         InfoRow (lit ''Heartbeat'') (formatRelative P D (as_agent_last_heartbeat_at server) now),
         InfoRow (lit ''Docker'') (if on (as_agent_docker_available server) then lit ''available'' else lit ''unavailable''),
         InfoRow (lit ''Uptime'') (formatDuration P (nullish (as_agent_uptime_seconds server) 0)),
         InfoRow (lit ''Pi-hole'') (if truthy_opt (as_pihole_last_sync_error server)
           then safeAdminText (as_pihole_last_sync_error server) ru_em_dash
           else if on (as_pihole_enabled server) then lit ''enabled'' else lit ''disabled''),
         Btn (busy ''health-'') (Refresh_Health i) [Text (lit ''Refresh health'')]]
     | T_Agent \<Rightarrow> [InfoRow (lit ''Version'') (dash_or (as_agent_last_version server)), InfoRow (lit ''Commit'') (dash_or (as_agent_last_commit server)),
         InfoRow (lit ''Active digest'') (dash_or (as_agent_active_digest server)),
         InfoRow (lit ''Previous digest'') (dash_or (as_agent_previous_digest server)),
         InfoRow (lit ''Update'') (if truthy_opt (as_agent_last_update_error server)
           then safeAdminText (as_agent_last_update_error server) ru_em_dash else dash_or (as_agent_last_update_status server))]
     | T_Snapshot \<Rightarrow> [InfoRow (lit ''Hash'') (dash_or (as_agent_last_snapshot_hash server)),
         InfoRow (lit ''Snapshot at'') (formatRelative P D (as_agent_last_snapshot_at server) now),
         InfoRow (lit ''Status'') (dash_or (as_agent_last_snapshot_status server)),
         Btn (busy ''snapshot-'') (Take_Snapshot i) [Text (lit ''Import snapshot'')]]
     | T_Config \<Rightarrow> ConfigImportPanel P s server
     | T_Actions \<Rightarrow> [ActionGroup (lit ''Safe checks'')
           [Btn (busy ''status-'') (Agent_Status i) [Text (lit ''Agent status'')], Btn (busy ''health-'') (Refresh_Health i) [Text (lit ''Refresh health'')]],
         ActionGroup (lit ''Maintenance'')
           [Btn False (Request_Action Update server) [Text (lit ''Update by digest'')], Btn False (Request_Action Rollback server) [Text (lit ''Rollback'')]],
         ActionGroup (lit ''Destructive'')
           [Btn False (Request_Action Toggle server) [Text (if as_active server then lit ''Disable server'' else lit ''Enable server'')]]]
     | T_Audit \<Rightarrow> show_if (ap_auditLogs s = []) (El (lit ''p'') [Text ru_no_events]) @
         map (\<lambda>log. El (lit ''div'') [Text (al_action log @ ru_dot @ al_result log),
           Text (formatRelative P D (Some (al_created_at log)) now @ lit '' '' @
             (if truthy (al_message log) then ru_dot @ safeAdminText (Some (al_message log)) [] else []))]) (ap_auditLogs s))"

definition ServerDrawer :: "panel_env \<Rightarrow> panel \<Rightarrow> admin_server \<Rightarrow> panel_event view" where
  "ServerDrawer E s server = El (lit ''section'') (
     [El (lit ''h2'') [Text (as_name server)], El (lit ''p'') [Text (or_str (as_endpoint server) (nullish (as_host server) []))], StatusBadge server] @
     map (\<lambda>(t, l). Btn False (Set_Tab t) [Text (lit l)])
       [(T_Health, ''Health''), (T_Agent, ''Agent''), (T_Snapshot, ''Snapshot''), (T_Config, ''Config''), (T_Actions, ''Actions''), (T_Audit, ''Audit'')] @
     drawer_body E s server)"

definition userPoints :: "panel \<Rightarrow> point list" where
  "userPoints s = (if st_users (ap_stats s) \<noteq> [] then st_users (ap_stats s)
     else [\<lparr>pt_label = ru_now, pt_value = of_int (k_total_users (ap_kpis s))\<rparr>])"

definition revenuePoints :: "panel \<Rightarrow> point list" where
  "revenuePoints s = (if st_revenue (ap_stats s) \<noteq> [] then st_revenue (ap_stats s)
     else [\<lparr>pt_label = ru_month, pt_value = of_int (Math_round (k_monthly_revenue (ap_kpis s)))\<rparr>])"

definition once :: "jsstr list \<Rightarrow> jsstr list" where
  "once xs = rev (remdups (rev xs))"

definition region_names :: "panel \<Rightarrow> jsstr list" where
  "region_names s = once (filter truthy (map (\<lambda>v. nullish (as_region v) []) (servers_of s)))"

text \<open>The order of \<^verbatim>\<open>sort()\<close>: by code units.\<close>

fun units_le :: "jsstr \<Rightarrow> jsstr \<Rightarrow> bool" where
  "units_le [] t = True"
| "units_le (c # s) [] = False"
| "units_le (c # s) (d # t) = (c < d \<or> c = d \<and> units_le s t)"

definition regions :: "panel \<Rightarrow> jsstr list" where
  "regions s = js_sort units_le (region_names s)"

definition num :: "platform \<Rightarrow> int \<Rightarrow> jsstr" where
  "num P i = pf_number P (of_int i)"

definition count :: "platform \<Rightarrow> 'a list \<Rightarrow> jsstr" where
  "count P xs = num P (int (length xs))"

definition SectionFocus :: "panel_env \<Rightarrow> panel \<Rightarrow> panel_event view" where
  "SectionFocus E s = (let P = pn_platform E; servers = servers_of s; ns = ap_notifications s;
       openNotifications = filter (\<lambda>n. an_status n = Open) ns;
       staleServers = filter (\<lambda>v. on (as_agent_heartbeat_stale v)) servers;
       dockerUnavailable = filter (\<lambda>v. as_agent_mode v = Some (lit ''agent'') \<and> as_agent_docker_available v = Some False) servers;
       h = computeFleetHealth servers openNotifications in
     case ap_section s of
       S_Incidents \<Rightarrow> El (lit ''div'') (PanelHeader ru_incidents_title ru_incidents_text # Text ru_reaction_queue #
         map (\<lambda>n. Btn False (Select_Notified (an_server_id n)) [Text (an_title n),
           Text (nullish (map_option ns_name (an_server n)) (lit ''Fleet'') @ ru_dot @ (if an_status n = Open then lit ''open'' else lit ''resolved'')),
           Text (severity_string (an_severity n))]) (take 5 ns) @
         show_if (ns = []) (Text ru_no_incidents))
     | S_Users \<Rightarrow> El (lit ''div'')
         [StatusCard ru_audience (pf_number P (if userPoints s = [] then 0 else pt_value (last (userPoints s)))) ru_audience_detail None,
          StatusCard ru_active_keys (num P (sum_list (map (\<lambda>v. nullish (as_active_keys v) 0) servers))) ru_spread_over_vps None,
          PanelHeader ru_by_region (num P (int (length (region_names s))) @ ru_by_region_text)]
     | S_Payments \<Rightarrow> El (lit ''div'')
         [SparkAreaChart (pn_ru E) P ru_revenue_by_day (revenuePoints s), SparkAreaChart (pn_ru E) P ru_user_growth (userPoints s),
          PanelHeader ru_finance ru_finance_text]
     | S_Agent \<Rightarrow> El (lit ''div'')
         [StatusCard (lit ''Heartbeat stale'') (count P staleServers) ru_need_check None,
          StatusCard (lit ''Docker unavailable'') (count P dockerUnavailable) ru_no_docker None,
          StatusCard (lit ''Digest tracked'') (count P (filter (\<lambda>v. truthy_opt (as_agent_active_digest v)) servers)) (lit ''Immutable update ready'') None,
          StatusCard (lit ''Snapshot status'') (count P (filter (\<lambda>v. truthy_opt (as_agent_last_snapshot_hash v)) servers)) ru_has_hash None]
     | S_Settings \<Rightarrow> (case selectedServer s of
           None \<Rightarrow> El (lit ''div'') [PanelHeader ru_config_settings ru_choose_vps, Text (lit ''Health before config''), Text ru_before_import, MiniMeter P 0]
         | Some v \<Rightarrow> El (lit ''div'') [PanelHeader ru_config_settings (ru_chosen_server @ as_name v @ ru_config_tab_open),
             Text (lit ''Health before config''), Text ru_before_import,
             Btn (ap_busyAction s = Some (label_for P ''health-'' (as_id v))) (Refresh_Health (as_id v)) [Text (lit ''Health'')],
             MiniMeter P (nullish (as_utilization v) 0)])
     | _ \<Rightarrow> El (lit ''div'')
         [Text (lit ''Fleet health''), Text (num P h @ lit ''%''), El (lit ''p'') [Text ru_fleet_lead],
          MiniMeter P (of_int h),
          StatusCard ru_nav_incidents (count P openNotifications) ru_open_notifications (Some (Go_Section S_Incidents)),
          StatusCard ru_vps_watched (count P servers) (count P staleServers @ lit '' stale heartbeat'') (Some (Go_Section S_Servers))])"

definition navItems :: "(admin_section \<times> jsstr \<times> jsstr) list" where
  "navItems = [(S_Overview, ru_nav_overview, ru_nav_overview_hint), (S_Servers, lit ''VPS'', ru_nav_servers_hint),
     (S_Incidents, ru_nav_incidents, ru_nav_incidents_hint), (S_Users, ru_nav_users, ru_nav_users_hint),
     (S_Payments, ru_nav_payments, ru_nav_payments_hint), (S_Agent, ru_nav_agent, lit ''Digest, Docker, snapshot''),
     (S_Settings, ru_nav_settings, ru_nav_settings_hint)]"

definition banner_view :: "panel_env \<Rightarrow> panel \<Rightarrow> panel_event view list" where
  "banner_view E s = show_if (criticalBanner E s) (El (lit ''div'')
     [Text ru_one_vps_down, Text ru_check_agent, Btn False Ack_First [Text ru_accept]])"

definition kpi_view :: "panel_env \<Rightarrow> panel \<Rightarrow> panel_event view" where
  "kpi_view E s = (let P = pn_platform E; k = ap_kpis s; ru = (\<lambda>n. pn_ru E (of_int n)) in El (lit ''div'')
     [Kpi (lit ''Uptime fleet'') (num P (k_active_servers k) @ lit ''/'' @ num P (k_total_servers k)) ru_active_vps,
      Kpi (lit ''VPS'') (num P (k_total_servers k)) (num P (k_open_incidents k) @ ru_n_incidents),
      Kpi ru_nav_users (ru (k_total_users k)) (num P (k_active_subscriptions k) @ ru_n_active),
      Kpi ru_keys (ru (k_active_vpn_keys k)) (lit ''AWG + VLESS''),
      Kpi (lit ''MRR'') (ru (Math_round (k_monthly_revenue k)) @ ru_rouble) ru_this_month])"

definition filters_view :: "panel \<Rightarrow> panel_event view list" where
  "filters_view s =
     [FilterSelect ru_th_status (status_string (sf_status (ap_filters s))) Set_Status
        [(lit ''all'', ru_all), (lit ''active'', ru_active_many), (lit ''inactive'', ru_switched_off), (lit ''stale'', lit ''Stale'')],
      FilterSelect ru_region (sf_region (ap_filters s)) Set_Region (([], ru_all_regions) # map (\<lambda>r. (r, r)) (regions s)),
      FilterSelect (lit ''VIP'') (tier_string (sf_vipOnly (ap_filters s))) Set_Vip
        [(lit ''all'', ru_all), (lit ''vip'', lit ''VIP''), (lit ''standard'', lit ''Standard'')],
      Btn False Refresh_Overview [Text ru_refresh]]"

definition server_row :: "panel_env \<Rightarrow> panel \<Rightarrow> admin_server \<Rightarrow> panel_event view" where
  "server_row E s server = (let P = pn_platform E; i = as_id server in El (lit ''tr'')
     [Btn False (Select_Server i) [Text (as_name server), Text (dash_or (as_region server) @ ru_dot @ or_str (as_endpoint server) (nullish (as_host server) []))],
      Text (or_str (as_agent_mode server) (lit ''manual'')),
      Text (num P (nullish (as_active_awg server) 0) @ lit '' AWG / '' @ num P (nullish (as_active_vless server) 0) @ lit '' VLESS''),
      MiniMeter P (nullish (as_utilization server) 0),
      Text (formatRelative P (pn_dates E) (as_agent_last_heartbeat_at server) (ap_relativeNow s)),
      StatusBadge server,
      IconButton (lit ''Health'') (Refresh_Health i) (ap_busyAction s = Some (label_for P ''health-'' i)),
      IconButton (lit ''Snapshot'') (Take_Snapshot i) (ap_busyAction s = Some (label_for P ''snapshot-'' i)),
      IconButton (lit ''Details'') (Select_Server i) False])"

definition table_view :: "panel_env \<Rightarrow> panel \<Rightarrow> panel_event view" where
  "table_view E s = El (lit ''div'') (
     [El (lit ''h1'') [Text (lit ''VPS health'')], El (lit ''p'') [Text ru_vps_health_lead]] @ filters_view s @
     map Text [ru_th_server, lit ''Agent'', ru_th_clients, ru_th_load, lit ''Heartbeat'', ru_th_status, ru_th_actions] @
     map (server_row E s) (visibleServers s))"

definition panel_view :: "panel_env \<Rightarrow> panel \<Rightarrow> panel_event view" where
  "panel_view E s = (let P = pn_platform E in El (lit ''div'') (
     [Link (lit ''#admin-main'') [Text ru_go_to_content]] @
     show_if (truthy (ap_toast s)) (El (lit ''status'') [Text (ap_toast s), Btn False Dismiss_Toast []]) @
     map (\<lambda>(n, label, hint). Btn False (Go_Section n) [Text label, Text hint]) navItems @
     [Part (lit ''admin-main'') (
       [Input False (lit ''text'') (sf_query (ap_filters s)) Set_Query, Text (lit ''Production''),
        Text (if ap_notifications s = [] then [] else show_nat (length (ap_notifications s))), Text (pn_email E)] @
       banner_view E s @
       [kpi_view E s, SectionFocus E s, table_view E s,
        SparkAreaChart (pn_ru E) P ru_new_users (userPoints s), SparkAreaChart (pn_ru E) P ru_revenue (revenuePoints s),
        UtilizationBars P (servers_of s), NotificationInbox E s] @
       (case selectedServer s of None \<Rightarrow> [] | Some v \<Rightarrow> [ServerDrawer E s v]))] @
     ActionModal P s))"

definition AdminPanel :: "panel_env \<Rightarrow> (panel, panel_event, unit, panel_wait) component" where
  "AdminPanel E = \<lparr>cp_view = panel_view E, cp_ext = panel_outside, cp_handle = panel_handle E, cp_resume = panel_resume E\<rparr>"

text \<open>The effect of the first render asks for the figures and opens the stream. The stream is asked for once: its messages
  and its end are events from outside, and after an error it is closed.\<close>

definition panel_start :: "json \<Rightarrow> int \<Rightarrow> (panel, unit, panel_wait) ui" where
  "panel_start overview now = apply_reaction (panel_init overview now, [Fetch stats_request, Fetch events_request], [P_Stats]) [] []"

lemma AdminPanel_sel [simp]:
  "cp_view (AdminPanel E) = panel_view E" "cp_ext (AdminPanel E) = panel_outside"
  "cp_handle (AdminPanel E) = panel_handle E" "cp_resume (AdminPanel E) = panel_resume E"
  by (simp_all add: AdminPanel_def)

end
