(* ===== verification/Admin_Panel_Runs.thy ===== *)
theory Admin_Panel_Runs
  imports Admin_Panel
begin

section \<open>Runs of the administration panel\<close>

text \<open>
  What holds in every run of the panel of \<^theory_text>\<open>Admin_Panel\<close>: where its requests go and what an update of an agent
  carries, the notifications as a store that follows the events, and the keys of the inbox; and runs that show what
  the shared mark of a busy action, the banner and the audit list do not guard against.
\<close>

subsection \<open>Settling\<close>

lemma mount_config_sel [simp]:
  "ap_servers (mount_config P s) = ap_servers s" "ap_notifications (mount_config P s) = ap_notifications s"
  "ap_filters (mount_config P s) = ap_filters s" "ap_selected (mount_config P s) = ap_selected s"
  "ap_tab (mount_config P s) = ap_tab s" "ap_busyAction (mount_config P s) = ap_busyAction s"
  "ap_modal (mount_config P s) = ap_modal s" "ap_digest (mount_config P s) = ap_digest s"
  "ap_clock (mount_config P s) = ap_clock s" "ap_live (mount_config P s) = ap_live s"
  "ap_auditLogs (mount_config P s) = ap_auditLogs s" "ap_section (mount_config P s) = ap_section s"
  by (simp_all add: mount_config_def split: option.split)

lemma shown_cong:
  assumes "ap_servers s = ap_servers t" "ap_filters s = ap_filters t" "ap_selected s = ap_selected t"
  shows "servers_of s = servers_of t" "visibleServers s = visibleServers t" "selectedServer s = selectedServer t"
    "selected_id s = selected_id t"
proof -
  show servers: "servers_of s = servers_of t" by (simp add: servers_of_def assms)
  then show visible: "visibleServers s = visibleServers t" by (simp add: visibleServers_def assms)
  show "selectedServer s = selectedServer t" unfolding selectedServer_def servers visible assms ..
  then show "selected_id s = selected_id t" by (simp add: selected_id_def)
qed

lemma mount_config_shown [simp]:
  "servers_of (mount_config P s) = servers_of s" "visibleServers (mount_config P s) = visibleServers s"
  "selectedServer (mount_config P s) = selectedServer s" "selected_id (mount_config P s) = selected_id s"
  by (rule shown_cong, simp_all)+

lemma settle_panel_cases:
  "\<exists>out' ps'. settle_panel E old (s, out, ps) = (mount_config (pn_platform E) s, out @ out', ps @ ps') \<and>
     (out' = [] \<and> ps' = [] \<or> (\<exists>i. out' = [Fetch (audit_request (pn_platform E) i)] \<and> ps' = [P_Audit i]))"
  by (auto simp: settle_panel_def Let_def split: option.splits if_splits)

lemma settle_quiet:
  "ap_tab s \<noteq> T_Audit \<Longrightarrow> settle_panel E old (s, out, ps) = (mount_config (pn_platform E) s, out, ps)"
  by (simp add: settle_panel_def Let_def)

subsection \<open>Requests\<close>

definition panel_request :: "platform \<Rightarrow> request \<Rightarrow> bool" where
  "panel_request P rq \<longleftrightarrow> starts_with (rq_url rq) (lit ''/api/admin/'') \<and>
     (\<forall>i. rq_url rq = server_path P i @ lit ''/agent/update'' \<longrightarrow>
        (\<exists>d. rq_body rq = JsonBody (JObj [(lit ''image_digest'', JStr d)]) \<and> immutableDigest d))"

fun only_requests :: "platform \<Rightarrow> unit cmd \<Rightarrow> bool" where
  "only_requests P (Fetch rq) = panel_request P rq"
| "only_requests P _ = False"

lemma suffix_neq: "take n (rev a) \<noteq> take n (rev b) \<Longrightarrow> n \<le> length a \<Longrightarrow> n \<le> length b \<Longrightarrow> xs @ a \<noteq> ys @ b"
proof
  assume neq: "take n (rev a) \<noteq> take n (rev b)" and len: "n \<le> length a" "n \<le> length b" and eq: "xs @ a = ys @ b"
  have "take n (rev (xs @ a)) = take n (rev a)" "take n (rev (ys @ b)) = take n (rev b)" using len by simp_all
  with eq neq show False by simp
qed

text \<open>The paths of the other requests are not those of an update.\<close>

lemma other_suffix:
  "take 2 (rev (lit q)) \<noteq> take 2 (rev (lit ''/agent/update'')) \<Longrightarrow> 2 \<le> length q \<Longrightarrow>
     server_path P i @ lit q \<noteq> server_path P j @ lit ''/agent/update''"
  by (rule suffix_neq [of 2]) simp_all

lemma take_lit: "n \<le> length p \<Longrightarrow> take n (lit p @ t) = lit (take n p)"
  by (simp add: lit_def take_map)

lemma starts_admin: "starts_with s (lit ''/api/admin/'') \<longleftrightarrow> take 11 s = lit ''/api/admin/''"
  by (simp add: starts_with_def numeral_eq_Suc)

lemma panel_requestI:
  "starts_with (rq_url rq) (lit ''/api/admin/'') \<Longrightarrow> (\<And>i. rq_url rq \<noteq> server_path P i @ lit ''/agent/update'') \<Longrightarrow> panel_request P rq"
  by (simp add: panel_request_def)

lemma panel_other_request:
  assumes "rq_url rq = lit q @ t" "take 11 q = ''/api/admin/''" "take 16 q \<noteq> ''/api/admin/serve''" "16 \<le> length q"
  shows "panel_request P rq"
proof (rule panel_requestI)
  show "starts_with (rq_url rq) (lit ''/api/admin/'')"
    using take_lit [of 11 q t] assms by (simp add: starts_admin)
  fix i
  have "take 16 (server_path P i @ lit ''/agent/update'') = lit ''/api/admin/serve''"
    using take_lit [of 16 "''/api/admin/servers/''" "pf_number P (of_int i) @ lit ''/agent/update''"] by (simp add: server_path_def)
  with take_lit [of 16 q t] assms show "rq_url rq \<noteq> server_path P i @ lit ''/agent/update''"
    by (metis lit_inject)
qed

lemma panel_gets:
  "panel_request P overview_request" "panel_request P stats_request" "panel_request P events_request" "panel_request P (audit_request P i)"
proof -
  show "panel_request P overview_request"
    by (rule panel_other_request [of _ "''/api/admin/overview''" "[]"]) (simp_all add: overview_request_def admin_get_def)
  show "panel_request P stats_request"
    by (rule panel_other_request [of _ "''/api/admin/stats?days=7''" "[]"]) (simp_all add: stats_request_def admin_get_def)
  show "panel_request P events_request"
    by (rule panel_other_request [of _ "''/api/admin/events''" "[]"]) (simp_all add: events_request_def admin_get_def)
  show "panel_request P (audit_request P i)"
    by (rule panel_other_request [of _ "''/api/admin/audit?entity=vpn_server&entity_id=''"]) (simp_all add: audit_request_def admin_get_def)
qed

lemma starts_server_path: "starts_with (server_path P i @ t) (lit ''/api/admin/'')"
  using take_lit [of 11 "''/api/admin/servers/''" "pf_number P (of_int i) @ t"] by (simp add: server_path_def starts_admin)

lemma panel_server_request:
  assumes "rq_url rq = server_path P i @ lit q" "take 2 (rev q) \<noteq> ''et''" "2 \<le> length q"
  shows "panel_request P rq"
proof (rule panel_requestI)
  show "starts_with (rq_url rq) (lit ''/api/admin/'')" by (simp add: assms(1) starts_server_path)
  have "take 2 (rev (lit q)) = lit (take 2 (rev q))" "take 2 (rev (lit ''/agent/update'')) = lit ''et''"
    by (simp_all add: lit_def rev_map take_map)
  with assms(2) have "take 2 (rev (lit q)) \<noteq> take 2 (rev (lit ''/agent/update''))" by (metis lit_inject)
  then show "rq_url rq \<noteq> server_path P j @ lit ''/agent/update''" for j
    using suffix_neq [of 2 "lit q" "lit ''/agent/update''"] assms(1,3) by simp
qed

lemma panel_notification_request: "rq_url rq = notification_path P i @ t \<Longrightarrow> panel_request P rq"
  by (rule panel_other_request [of _ "''/api/admin/notifications/''"]) (simp_all add: notification_path_def)

lemma panel_update_request:
  "immutableDigest d \<Longrightarrow> panel_request P (action_request (lit ''POST'') (server_path P i @ lit ''/agent/update'')
     (Some (JObj [(lit ''image_digest'', JStr d)])))"
  unfolding panel_request_def by (simp add: action_request_def starts_server_path)

lemma action_request_url [simp]: "rq_url (action_request method url body) = url"
  by (simp add: action_request_def)

lemma panel_server_action:
  "take 2 (rev q) \<noteq> ''et'' \<Longrightarrow> 2 \<le> length q \<Longrightarrow> panel_request P (action_request method (server_path P i @ lit q) body)"
  by (rule panel_server_request) simp_all

lemma panel_notification_action: "panel_request P (action_request method (notification_path P i @ t) body)"
  by (rule panel_notification_request) simp

lemmas panel_requests = panel_gets panel_update_request panel_server_action panel_notification_action

text \<open>Every step sends such requests only.\<close>

definition requests_only :: "platform \<Rightarrow> panel_reaction \<Rightarrow> bool" where
  "requests_only P r \<longleftrightarrow> list_all (only_requests P) (fst (snd r))"

lemma requests_only_simps [simp]: "requests_only P (s, out, ps) \<longleftrightarrow> list_all (only_requests P) out"
  by (simp add: requests_only_def)

lemma post_requests [simp]:
  "requests_only P (postAction label url body method after s) \<longleftrightarrow> panel_request P (action_request method url body)"
  by (simp add: postAction_def)

lemma submit_requests: "requests_only P (submitActionModal P s)"
  by (simp add: submitActionModal_def Let_def panel_requests split: option.split modal_kind.split)

lemma react_requests: "requests_only (pn_platform E) (panel_react E e s)"
  by (cases e) (simp_all add: panel_requests submit_requests ackNotification_def muteNotification_def import_config_def
      refreshServerHealth_def panel_server_request admin_get_def split: list.split option.split)

lemma continue_requests: "requests_only (pn_platform E) (panel_continue E w a s)"
  by (cases w) (simp_all add: panel_requests action_answered_def action_failed_def action_overview_def action_audit_def Let_def
      split: sum.split option.split)

lemma settle_requests: "requests_only (pn_platform E) r \<Longrightarrow> requests_only (pn_platform E) (settle_panel E old r)"
proof -
  assume "requests_only (pn_platform E) r"
  moreover obtain s out ps where r: "r = (s, out, ps)" by (cases r) auto
  ultimately show ?thesis using settle_panel_cases [of E old s out ps] by (auto simp: panel_gets)
qed

lemma apply_requests:
  "list_all (only_requests P) out \<Longrightarrow> requests_only P r \<Longrightarrow> list_all (only_requests P) (ui_out (apply_reaction r ws out))"
  by (cases r) simp

interpretation panel_runs: ui_invariant "AdminPanel E" any "panel_start overview now"
    "\<lambda>s. list_all (only_requests (pn_platform E)) (ui_out s)"
  by unfold_locales
    (simp_all add: panel_start_def panel_gets apply_requests panel_handle_def panel_resume_def settle_requests react_requests continue_requests)

text \<open>C4: Whatever happens in the panel, it sends requests to the administration proxy only and never leaves the page,
  and a request that updates the agent of a server carries an image digest that the pattern of immutable digests accepts.\<close>

theorem AdminPanel_requests:
  assumes "ui_reach (AdminPanel E) any (panel_start overview now) s" "k \<in> set (ui_out s)"
  shows "\<exists>rq. k = Fetch rq \<and> starts_with (rq_url rq) (lit ''/api/admin/'') \<and>
    (\<forall>i. rq_url rq = server_path (pn_platform E) i @ lit ''/agent/update'' \<longrightarrow>
      (\<exists>d. rq_body rq = JsonBody (JObj [(lit ''image_digest'', JStr d)]) \<and> immutableDigest d))"
proof -
  have "only_requests (pn_platform E) k"
    using panel_runs.reach_keeps [OF assms(1)] assms(2) by (simp add: list_all_iff)
  then show ?thesis by (cases k) (auto simp: panel_request_def)
qed

subsection \<open>Sample runs\<close>

text \<open>What the panel offers.\<close>

lemma offers_row:
  assumes "v \<in> set (visibleServers s)" "offers (server_row E s v) e"
  shows "offers (panel_view E s) e"
proof -
  have "offers (table_view E s) e" using assms by (auto simp: table_view_def)
  then show ?thesis by (simp add: panel_view_def Let_def)
qed

lemma offers_in_row:
  "ap_busyAction s \<noteq> Some (label_for (pn_platform E) ''health-'' (as_id v)) \<Longrightarrow> offers (server_row E s v) (Refresh_Health (as_id v))"
  "offers (server_row E s v) (Select_Server (as_id v))"
  by (simp_all add: server_row_def IconButton_def Let_def)

lemma offers_tab: "selectedServer s = Some v \<Longrightarrow> offers (panel_view E s) (Set_Tab t)"
  by (cases t) (simp_all add: panel_view_def Let_def ServerDrawer_def)

lemma offers_action:
  "selectedServer s = Some v \<Longrightarrow> ap_tab s = T_Actions \<Longrightarrow> offers (panel_view E s) (Request_Action kind v)"
  by (cases kind) (simp_all add: panel_view_def Let_def ServerDrawer_def drawer_body_def ActionGroup_def)

lemma offers_dialog:
  "ap_modal s = Some (kind, v) \<Longrightarrow> ap_busyAction s \<noteq> Some (modal_label (pn_platform E) kind (as_id v)) \<Longrightarrow>
     kind \<noteq> Update \<or> immutableDigest (trim (ap_digest s)) \<Longrightarrow> offers (panel_view E s) Submit_Dialog"
  "ap_modal s = Some (Update, v) \<Longrightarrow> offers (panel_view E s) (Set_Digest t)"
  by (simp_all add: panel_view_def Let_def ActionModal_def)

lemma offers_banner: "criticalBanner E s \<Longrightarrow> offers (panel_view E s) Ack_First"
  by (simp add: panel_view_def Let_def banner_view_def)

text \<open>A fleet whose servers have an identifier only.\<close>

definition bare_server :: "int \<Rightarrow> json" where
  "bare_server i = JObj [(lit ''id'', JNum (of_int i))]"

definition bare_overview :: "int list \<Rightarrow> json" where
  "bare_overview is = JObj [(lit ''servers'', JArr (map bare_server is))]"

lemma bare_id [simp]: "as_id (server_of (bare_server i)) = i"
  by (simp add: server_of_def bare_server_def the_int_def opt_int_def opt_num_def jget_safe_def)

lemma bare_start [simp]:
  "ap_servers (panel_init (bare_overview is) now) = map bare_server is"
  "ap_filters (panel_init (bare_overview is) now) = \<lparr>sf_query = [], sf_status = All_Status, sf_region = [], sf_vipOnly = All_Tiers\<rparr>"
  "ap_busyAction (panel_init (bare_overview is) now) = None" "ap_tab (panel_init (bare_overview is) now) = T_Health"
  by (simp_all add: panel_init_def reselect_def set_overview_def bare_overview_def jget_safe_def jarray_def)

lemma visible_all: "server_visible \<lparr>sf_query = [], sf_status = All_Status, sf_region = [], sf_vipOnly = All_Tiers\<rparr> v"
  by (simp add: server_visible_def Let_def toLowerCase_def trim_def trim_start_def trim_end_def)

lemma bare_selected: "ap_selected (panel_init (bare_overview (i # is)) now) = Some i"
proof -
  have "visibleServers s = map server_of (ap_servers s)"
    if "ap_filters s = \<lparr>sf_query = [], sf_status = All_Status, sf_region = [], sf_vipOnly = All_Tiers\<rparr>" for s
    by (simp add: visibleServers_def servers_of_def applyServerFilters_def that visible_all)
  then show ?thesis
    by (simp add: panel_init_def reselect_def set_overview_def bare_overview_def jget_safe_def jarray_def preserveSelectedServer_def)
qed

text \<open>The states of the sample runs: the servers, no filter, and the selected one.\<close>

definition fleet :: "int list \<Rightarrow> int \<Rightarrow> panel \<Rightarrow> bool" where
  "fleet is i s \<longleftrightarrow> ap_servers s = map bare_server is \<and> ap_selected s = Some i \<and> i \<in> set is \<and>
     ap_filters s = \<lparr>sf_query = [], sf_status = All_Status, sf_region = [], sf_vipOnly = All_Tiers\<rparr>"

lemma fleet_start: "fleet (i # is) i (panel_init (bare_overview (i # is)) now)"
  by (simp add: fleet_def bare_selected)

lemma fleet_visible: "fleet is i s \<Longrightarrow> j \<in> set is \<Longrightarrow> server_of (bare_server j) \<in> set (visibleServers s)"
  by (auto simp: fleet_def visibleServers_def servers_of_def applyServerFilters_def visible_all)

lemma fleet_selected: "fleet is i s \<Longrightarrow> selectedServer s = Some (server_of (bare_server i))"
proof -
  assume f: "fleet is i s"
  have "i \<in> set is \<Longrightarrow> find (\<lambda>v. Some (as_id v) = Some i) (map server_of (map bare_server is)) = Some (server_of (bare_server i))"
    by (induction "is") auto
  with f show ?thesis by (simp add: fleet_def selectedServer_def servers_of_def)
qed

lemma fleet_id: "fleet is i s \<Longrightarrow> selected_id s = Some i"
  by (simp add: selected_id_def fleet_selected)

lemma fleet_mount [simp]: "fleet is i (mount_config P s) = fleet is i s"
  by (simp add: fleet_def)

text \<open>One step of a run, away from the audit tab.\<close>

lemma panel_user:
  assumes "ui_reach (AdminPanel E) any s0 \<lparr>ui_comp = s, ui_wait = ws, ui_out = out\<rparr>" "offers (panel_view E s) e"
    "panel_react E e s = (s', ks, ps)" "ap_tab s' \<noteq> T_Audit"
  shows "ui_reach (AdminPanel E) any s0 \<lparr>ui_comp = mount_config (pn_platform E) s', ui_wait = ws @ ps, ui_out = out @ ks\<rparr>"
  using reach_user [OF assms(1), of e] assms(2-4) by (simp add: panel_handle_def settle_quiet)

text \<open>Opening the dialog for the selected server.\<close>

lemma dialog_open_from:
  assumes "ui_reach (AdminPanel E) any s0 \<lparr>ui_comp = s, ui_wait = ws, ui_out = out\<rparr>" "fleet is i s"
  shows "\<exists>s'. ui_reach (AdminPanel E) any s0 \<lparr>ui_comp = s', ui_wait = ws, ui_out = out\<rparr> \<and>
     fleet is i s' \<and> ap_tab s' = T_Actions \<and> ap_modal s' = Some (kind, server_of (bare_server i)) \<and> ap_busyAction s' = ap_busyAction s"
proof -
  let ?r = "ui_reach (AdminPanel E) any s0"
  let ?s1 = "mount_config (pn_platform E) (s\<lparr>ap_tab := T_Actions\<rparr>)"
  let ?s2 = "mount_config (pn_platform E) (openActionModal kind (server_of (bare_server i)) ?s1)"
  have f: "fleet is i ?s1" using assms(2) by (simp add: fleet_def)
  from panel_user [OF assms(1) offers_tab [OF fleet_selected [OF assms(2)], where t = T_Actions]]
  have "?r \<lparr>ui_comp = ?s1, ui_wait = ws, ui_out = out\<rparr>" by simp
  from panel_user [OF this offers_action [OF fleet_selected [OF f], where kind = kind]]
  have "?r \<lparr>ui_comp = ?s2, ui_wait = ws, ui_out = out\<rparr>" by (simp add: openActionModal_def)
  moreover have "fleet is i ?s2 \<and> ap_tab ?s2 = T_Actions \<and> ap_modal ?s2 = Some (kind, server_of (bare_server i)) \<and>
      ap_busyAction ?s2 = ap_busyAction s"
    using f by (simp add: openActionModal_def fleet_def)
  ultimately show ?thesis by blast
qed

lemma fleet_reached:
  "ui_reach (AdminPanel E) any (panel_start (bare_overview (i # is)) now)
     \<lparr>ui_comp = panel_init (bare_overview (i # is)) now, ui_wait = [P_Stats], ui_out = [Fetch stats_request, Fetch events_request]\<rparr>"
  using reach_init [of "AdminPanel E" any "panel_start (bare_overview (i # is)) now"] by (simp add: panel_start_def)

definition sample_panel_env :: panel_env where
  "sample_panel_env = \<lparr>pn_platform = sample_platform, pn_dates = \<lparr>ad_parse = (\<lambda>_. None), ad_locale = (\<lambda>_. [])\<rparr>, pn_ru = (\<lambda>_. []), pn_email = []\<rparr>"

definition sample_digest :: jsstr where
  "sample_digest = lit ''ab@sha256:'' @ replicate 64 97"

lemma sample_digest_ok: "immutableDigest sample_digest" "trim sample_digest = sample_digest"
proof -
  show "immutableDigest sample_digest"
    by (simp add: immutableDigest_def sample_digest_def lit_Cons Let_def alnum_def ref_char_def hex_char_def list_all_iff)
  show "trim sample_digest = sample_digest"
    by (rule trim_no_ws) (auto simp: sample_digest_def lit_Cons is_ws_def)
qed

theorem AdminPanel_requests_witness:
  "\<exists>s rq. ui_reach (AdminPanel sample_panel_env) any (panel_start (bare_overview [1]) 0) s \<and> Fetch rq \<in> set (ui_out s) \<and>
     rq_url rq = server_path sample_platform 1 @ lit ''/agent/update'' \<and>
     (\<exists>d. rq_body rq = JsonBody (JObj [(lit ''image_digest'', JStr d)]) \<and> immutableDigest d)"
proof -
  let ?E = sample_panel_env and ?v = "server_of (bare_server 1)"
  have P: "pn_platform ?E = sample_platform" by (simp add: sample_panel_env_def)
  let ?r = "ui_reach (AdminPanel ?E) any (panel_start (bare_overview [1]) 0)"
  obtain s where s: "?r \<lparr>ui_comp = s, ui_wait = [P_Stats], ui_out = [Fetch stats_request, Fetch events_request]\<rparr>" "ap_tab s = T_Actions"
    "ap_modal s = Some (Update, ?v)" "ap_busyAction s = None"
    using dialog_open_from [OF fleet_reached fleet_start] by (metis bare_start(3))
  let ?s1 = "mount_config sample_platform (setPendingDigest sample_digest s)"
  have s1: "ap_tab ?s1 = T_Actions" "ap_modal ?s1 = Some (Update, ?v)" "ap_busyAction ?s1 = None" "ap_digest ?s1 = sample_digest"
    using s by (simp_all add: setPendingDigest_def Let_def)
  from panel_user [OF s(1) offers_dialog(2) [OF s(3), where t = sample_digest]] s(2)
  have "?r \<lparr>ui_comp = ?s1, ui_wait = [P_Stats], ui_out = [Fetch stats_request, Fetch events_request]\<rparr>"
    by (simp add: P setPendingDigest_def Let_def)
  from panel_user [OF this offers_dialog(1) [OF s1(2)]] s1 sample_digest_ok obtain s2 out ws where
    r: "?r \<lparr>ui_comp = s2, ui_wait = ws, ui_out = out\<rparr>"
    "Fetch (action_request (lit ''POST'') (server_path sample_platform 1 @ lit ''/agent/update'')
       (Some (JObj [(lit ''image_digest'', JStr sample_digest)]))) \<in> set out"
    by (fastforce simp: P submitActionModal_def Let_def postAction_def)
  from AdminPanel_requests [OF r(1)] r show ?thesis by (fastforce simp: P)
qed

subsection \<open>The mark of the busy action\<close>

definition is_toggle :: "platform \<Rightarrow> int \<Rightarrow> panel_wait \<Rightarrow> bool" where
  "is_toggle P i w = (case w of P_Action label _ _ \<Rightarrow> label = modal_label P Toggle i | _ \<Rightarrow> False)"

lemma busy_labels_differ: "label_for P ''health-'' i \<noteq> modal_label P Toggle j"
  by (simp add: label_for_def lit_Cons)

lemma submit_toggle:
  "ap_modal s = Some (Toggle, v) \<Longrightarrow> submitActionModal P s = (s\<lparr>ap_busyAction := Some (modal_label P Toggle (as_id v))\<rparr>,
     [Fetch (action_request (lit ''POST'') (server_path P (as_id v) @ lit ''/toggle'') None)],
     [P_Action (modal_label P Toggle (as_id v)) (selected_id s) (Close_Modal (ap_busyAction s))])"
  by (simp add: submitActionModal_def postAction_def Let_def)

text \<open>C39: A server can be toggled twice at once: a state is reached in which two toggles of one server are under way,
  which cancel each other. The run of the proof shows how: every action shares one mark of being busy, so that the answer to
  a health check that was under way before clears the mark of the toggle, and the dialog can be submitted again.\<close>

theorem AdminPanel_double_toggle:
  "\<exists>s. ui_reach (AdminPanel E) any (panel_start (bare_overview [1]) now) s \<and>
     in_flight (is_toggle (pn_platform E) 1) (ui_wait s) = 2"
proof -
  let ?P = "pn_platform E" and ?v = "server_of (bare_server 1)" and ?s0 = "panel_init (bare_overview [1]) now"
  let ?r = "ui_reach (AdminPanel E) any (panel_start (bare_overview [1]) now)"
  let ?s1 = "mount_config ?P (?s0\<lparr>ap_busyAction := Some (label_for ?P ''health-'' 1)\<rparr>)"
  have f0: "fleet [1] 1 ?s0" by (rule fleet_start)
  have "offers (panel_view E ?s0) (Refresh_Health 1)"
    using offers_row [OF fleet_visible [OF f0] offers_in_row(1)] by simp
  from panel_user [OF fleet_reached this] obtain out1 where
    r1: "?r \<lparr>ui_comp = ?s1, ui_wait = [P_Stats, P_Health 1], ui_out = out1\<rparr>" by (simp add: refreshServerHealth_def)
  have "fleet [1] 1 ?s1" using f0 by (simp add: fleet_def)
  from dialog_open_from [OF r1 this, where kind = Toggle] obtain s2 where
    s2: "?r \<lparr>ui_comp = s2, ui_wait = [P_Stats, P_Health 1], ui_out = out1\<rparr>" "fleet [1] 1 s2"
    "ap_tab s2 = T_Actions" "ap_modal s2 = Some (Toggle, ?v)" "ap_busyAction s2 = Some (label_for ?P ''health-'' 1)"
    unfolding mount_config_sel by auto
  let ?s3 = "mount_config ?P (s2\<lparr>ap_busyAction := Some (modal_label ?P Toggle 1)\<rparr>)"
  from panel_user [OF s2(1) offers_dialog(1) [OF s2(4)]] s2(3-5) submit_toggle [OF s2(4)] busy_labels_differ
  obtain w out3 where r3: "?r \<lparr>ui_comp = ?s3, ui_wait = [P_Stats] @ P_Health 1 # [w], ui_out = out3\<rparr>" and w: "is_toggle ?P 1 w"
    by (simp add: is_toggle_def)
  let ?s4 = "mount_config ?P (health_arrived E 1 (Inl NetworkError) ?s3)"
  from reach_arrive [OF r3, of "Inl NetworkError"] s2(3)
  have r4: "?r \<lparr>ui_comp = ?s4, ui_wait = [P_Stats, w], ui_out = out3\<rparr>"
    by (simp add: panel_resume_def settle_quiet health_arrived_def ok_body_def)
  have s4: "ap_modal ?s4 = Some (Toggle, ?v)" "ap_busyAction ?s4 = None" "ap_tab ?s4 = T_Actions"
    using s2 by (simp_all add: health_arrived_def ok_body_def)
  from panel_user [OF r4 offers_dialog(1) [OF s4(1)]] s4 submit_toggle [OF s4(1)]
  obtain s5 w' out5 where r5: "?r \<lparr>ui_comp = s5, ui_wait = [P_Stats, w, w'], ui_out = out5\<rparr>" and w': "is_toggle ?P 1 w'"
    by (simp add: is_toggle_def)
  have "in_flight (is_toggle ?P 1) [P_Stats, w, w'] = 2" using w w' by (simp add: is_toggle_def [of _ _ P_Stats])
  with r5 show ?thesis by (intro exI [of _ "\<lparr>ui_comp = s5, ui_wait = [P_Stats, w, w'], ui_out = out5\<rparr>"]) simp
qed

subsection \<open>The banner\<close>

definition info_notification :: json where
  "info_notification = JObj [(lit ''id'', JNum 2), (lit ''severity'', JStr (lit ''info'')), (lit ''status'', JStr (lit ''open''))]"

definition critical_notification :: json where
  "critical_notification = JObj [(lit ''id'', JNum 1), (lit ''severity'', JStr (lit ''critical'')), (lit ''status'', JStr (lit ''open''))]"

definition two_incidents :: json where
  "two_incidents = JObj [(lit ''notifications'', JArr [info_notification, critical_notification])]"

lemma two_incidents_sel:
  "an_id (notification_of info_notification) = 2" "an_severity (notification_of info_notification) = Info"
  "is_blocking parse now (notification_of critical_notification)"
  by (simp_all add: notification_of_def info_notification_def critical_notification_def severity_of_def the_int_def opt_int_def
      opt_num_def the_str_def opt_str_def jget_safe_def is_blocking_def Let_def truthy_opt_def)

text \<open>The button of the banner for a critical incident acknowledges the first notification of the list, whatever
  it is: with a newer notification before the critical one, the click acknowledges that one.\<close>

lemma criticalBanner_acks_first:
  "criticalBanner E (panel_init two_incidents now) \<and> offers (panel_view E (panel_init two_incidents now)) Ack_First \<and>
   (\<exists>n. hd (ap_notifications (panel_init two_incidents now)) = n \<and> an_severity n = Info \<and>
      panel_react E Ack_First (panel_init two_incidents now) = ackNotification (pn_platform E) (an_id n) (panel_init two_incidents now))"
proof -
  have n: "ap_notifications (panel_init two_incidents now) = [notification_of info_notification, notification_of critical_notification]"
    by (simp add: panel_init_def reselect_def set_overview_def notifications_of_def two_incidents_def jget_safe_def jarray_def)
  then have b: "criticalBanner E (panel_init two_incidents now)"
    by (simp add: criticalBanner_def hasUnacknowledgedCriticalIncident_def two_incidents_sel)
  from offers_banner [OF b] b n show ?thesis by (simp add: two_incidents_sel)
qed

subsection \<open>The audit list\<close>

lemma panel_user_audit:
  assumes "ui_reach (AdminPanel E) any s0 \<lparr>ui_comp = s, ui_wait = ws, ui_out = out\<rparr>" "offers (panel_view E s) e"
    "panel_react E e s = (s', [], [])" "ap_tab s' = T_Audit" "selected_id s' = Some i" "ap_tab s \<noteq> T_Audit \<or> selected_id s \<noteq> Some i"
  shows "\<exists>out'. ui_reach (AdminPanel E) any s0 \<lparr>ui_comp = mount_config (pn_platform E) s', ui_wait = ws @ [P_Audit i], ui_out = out'\<rparr>"
proof -
  have "settle_panel E s (s', [], []) = (mount_config (pn_platform E) s', [Fetch (audit_request (pn_platform E) i)], [P_Audit i])"
    using assms(4-6) by (auto simp: settle_panel_def Let_def)
  with reach_user [OF assms(1), of e] assms(2,3) show ?thesis by (auto simp: panel_handle_def)
qed

lemma fleet_select: "fleet is i s \<Longrightarrow> j \<in> set is \<Longrightarrow> fleet is j (s\<lparr>ap_selected := Some j\<rparr>)"
  by (simp add: fleet_def)

definition audit_answer :: "int \<Rightarrow> answer" where
  "audit_answer i = Inr \<lparr>rs_status = 200, rs_headers = [],
     rs_body = JsonBody (JObj [(lit ''audit_logs'', JArr [JObj [(lit ''id'', JNum (of_int i))]])])\<rparr>"

lemma audit_answered: "map al_id (ap_auditLogs (audit_arrived (audit_answer i) s)) = [i]"
  by (simp add: audit_arrived_def audit_answer_def rs_ok_def jget_safe_def jarray_def audit_of_def the_int_def
      opt_int_def opt_num_def)

text \<open>The audit list can belong to another server than the one it is shown for: the answers for two servers that were
  selected one after the other are taken in the order in which they arrive, and nothing that is under way corrects the list.\<close>

lemma AdminPanel_audit_of_other_server:
  "\<exists>s s'. ui_reach (AdminPanel E) any (panel_start (bare_overview [1, 2]) now) s \<and>
     ui_step (AdminPanel E) s (Arrive (P_Audit 1) (audit_answer 1)) s' \<and>
     map al_id (ap_auditLogs (ui_comp s')) = [1] \<and> selected_id (ui_comp s') = Some 2 \<and> ap_tab (ui_comp s') = T_Audit \<and>
     in_flight ((=) (P_Audit 2)) (ui_wait s') = 0"
proof -
  let ?P = "pn_platform E" and ?s0 = "panel_init (bare_overview [1, 2]) now"
  let ?r = "ui_reach (AdminPanel E) any (panel_start (bare_overview [1, 2]) now)"
  let ?s1 = "mount_config ?P (?s0\<lparr>ap_tab := T_Audit\<rparr>)" let ?s2 = "mount_config ?P (?s1\<lparr>ap_selected := Some 2\<rparr>)"
  have f0: "fleet [1, 2] 1 ?s0" by (rule fleet_start)
  then have f1: "fleet [1, 2] 1 ?s1" "fleet [1, 2] 1 (?s0\<lparr>ap_tab := T_Audit\<rparr>)" by (simp_all add: fleet_def)
  have f2: "fleet [1, 2] 2 (?s1\<lparr>ap_selected := Some 2\<rparr>)" by (rule fleet_select [OF f1(1)]) simp
  from panel_user_audit [OF fleet_reached offers_tab [OF fleet_selected [OF f0], where t = T_Audit], where i = 1] fleet_id [OF f1(2)]
  obtain out1 where r1: "?r \<lparr>ui_comp = ?s1, ui_wait = [P_Stats, P_Audit 1], ui_out = out1\<rparr>" by auto
  have "offers (panel_view E ?s1) (Select_Server 2)"
    using offers_row [OF fleet_visible [OF f1(1), of 2] offers_in_row(2)] by simp
  from panel_user_audit [OF r1 this, where i = 2] fleet_id [OF f2] fleet_id [OF f1(1)]
  obtain out2 where r2: "?r \<lparr>ui_comp = ?s2, ui_wait = [P_Stats, P_Audit 1] @ P_Audit 2 # [], ui_out = out2\<rparr>" by auto
  have sel2: "selected_id ?s2 = Some 2" using fleet_id [OF f2] by simp
  have audit_sel: "selected_id (audit_arrived a s) = selected_id s" for a s
    by (rule shown_cong(4)) (simp_all add: audit_arrived_def split: sum.split)
  have audit_tab: "ap_tab (audit_arrived a s) = ap_tab s" for a s
    by (simp add: audit_arrived_def split: sum.split)
  have settled: "panel_resume E (P_Audit i) a s = (mount_config ?P (audit_arrived a s), [], [])" for i a s
    by (simp add: panel_resume_def settle_panel_def Let_def audit_sel audit_tab)
  let ?s3 = "mount_config ?P (audit_arrived (audit_answer 2) ?s2)"
  from reach_arrive [OF r2, of "audit_answer 2"]
  have r3: "?r \<lparr>ui_comp = ?s3, ui_wait = [P_Stats] @ P_Audit 1 # [], ui_out = out2\<rparr>" by (simp add: settled)
  let ?s4 = "mount_config ?P (audit_arrived (audit_answer 1) ?s3)"
  from step_arrive [of "AdminPanel E" ?s3 "[P_Stats]" "P_Audit 1" "[]" out2 "audit_answer 1"]
  have "ui_step (AdminPanel E) \<lparr>ui_comp = ?s3, ui_wait = [P_Stats] @ P_Audit 1 # [], ui_out = out2\<rparr> (Arrive (P_Audit 1) (audit_answer 1))
      \<lparr>ui_comp = ?s4, ui_wait = [P_Stats], ui_out = out2\<rparr>" by (simp add: settled)
  moreover have "map al_id (ap_auditLogs ?s4) = [1]" "selected_id ?s4 = Some 2" "ap_tab ?s4 = T_Audit"
    using sel2 audit_answered by (simp_all add: audit_sel audit_tab)
  ultimately show ?thesis using r3
    by (intro exI [of _ "\<lparr>ui_comp = ?s3, ui_wait = [P_Stats] @ P_Audit 1 # [], ui_out = out2\<rparr>"]
        exI [of _ "\<lparr>ui_comp = ?s4, ui_wait = [P_Stats], ui_out = out2\<rparr>"]) simp
qed

subsection \<open>The notifications as a store\<close>

text \<open>The specification: a map from identifiers to notifications. A whole overview replaces it, a health check and a
  message of the stream add to it, the newer version winning; nothing else changes it.\<close>

definition replaced_by :: "jsstr \<Rightarrow> answer \<Rightarrow> (int \<rightharpoonup> admin_notification) \<Rightarrow> (int \<rightharpoonup> admin_notification)" where
  "replaced_by message a m = (case ok_body message a of Inl _ \<Rightarrow> m | Inr data \<Rightarrow> by_id (notifications_of data))"

definition extended_by :: "exn + json \<Rightarrow> (int \<rightharpoonup> admin_notification) \<Rightarrow> (int \<rightharpoonup> admin_notification)" where
  "extended_by r m = (case r of Inl _ \<Rightarrow> m | Inr data \<Rightarrow> m ++ by_id (notifications_of data))"

fun store :: "(panel_event, panel_wait) label \<Rightarrow> (int \<rightharpoonup> admin_notification) \<Rightarrow> (int \<rightharpoonup> admin_notification)" where
  "store (Arrive P_Overview a) m = replaced_by ru_overview_unavailable a m"
| "store (Arrive (P_Action_Overview sel after) a) m = replaced_by ru_overview_unavailable a m"
| "store (Arrive (P_Health i) a) m = extended_by (ok_body ru_health_unavailable a) m"
| "store (Ext (Stream r)) m = extended_by r m"
| "store (User (Stream r)) m = extended_by r m"
| "store _ m = m"

lemma by_id_merge_add: "by_id (mergeNotificationEvent parse c i) = by_id c ++ by_id i"
proof -
  have by_id: "by_id ns = map_of (map (\<lambda>n. (an_id n, n)) (rev ns))" for ns by (rule ext) (simp add: by_id_def)
  have "by_id (mergeNotificationEvent parse c i) = by_id (c @ i)" by (rule ext) (rule by_id_merge)
  then show ?thesis by (simp add: by_id)
qed

lemma settle_notifications: "ap_notifications (fst (settle_panel E old r)) = ap_notifications (fst r)"
proof -
  obtain s out ps where r: "r = (s, out, ps)" by (cases r) auto
  show ?thesis unfolding r using settle_panel_cases [of E old s out ps] by auto
qed

lemma reselect_notifications [simp]: "ap_notifications (reselect s) = ap_notifications s"
  by (simp add: reselect_def)

lemma closed_notifications [simp]: "ap_notifications (closeActionModal b s) = ap_notifications s"
  by (simp add: closeActionModal_def)

lemma finished_notifications [simp]: "ap_notifications (action_finished ok after s) = ap_notifications s"
  by (simp add: action_finished_def Let_def split: after_action.split)

lemma overview_notifications:
  "by_id (ap_notifications (overview_arrived P a s)) = replaced_by ru_overview_unavailable a (by_id (ap_notifications s))"
  by (simp add: overview_arrived_def replaced_by_def set_overview_def split: sum.split)

lemma audit_notifications [simp]: "ap_notifications (audit_arrived a s) = ap_notifications s"
  by (simp add: audit_arrived_def split: sum.split)

lemma react_notifications:
  "by_id (ap_notifications (fst (panel_react E e s))) = store (Ext e) (by_id (ap_notifications s))"
  by (cases e) (simp_all add: setActiveSection_def set_filters_def ackNotification_def muteNotification_def postAction_def
      refreshServerHealth_def openActionModal_def setPendingDigest_def submitActionModal_def edit_config_def import_config_def
      stream_message_def extended_by_def by_id_merge_add Let_def
      split: list.split admin_section.split option.split modal_kind.split sum.split)

lemma continue_notifications:
  "by_id (ap_notifications (fst (panel_continue E w a s))) = store (Arrive w a) (by_id (ap_notifications s))"
  by (cases w) (simp_all add: overview_notifications stats_arrived_def health_arrived_def extended_by_def by_id_merge_add
      action_answered_def action_failed_def action_overview_def action_audit_def Let_def
      split: sum.split option.split)

interpretation inbox: ui_refinement "AdminPanel E" "\<lambda>s. by_id (ap_notifications s)" store
proof
  fix c e p a
  show "by_id (ap_notifications (fst (cp_resume (AdminPanel E) p a c))) = store (Arrive p a) (by_id (ap_notifications c))"
    by (simp add: panel_resume_def settle_notifications continue_notifications)
  show "by_id (ap_notifications (fst (cp_handle (AdminPanel E) e c))) = store (Ext e) (by_id (ap_notifications c))"
    by (simp add: panel_handle_def settle_notifications react_notifications)
  show "by_id (ap_notifications (fst (cp_handle (AdminPanel E) e c))) = store (User e) (by_id (ap_notifications c))"
    if "offers (cp_view (AdminPanel E) c) e"
    using react_notifications [of E e c] by (cases e) (simp_all add: panel_handle_def settle_notifications)
qed

text \<open>C6: The notifications of the panel refine a map from identifiers to notifications: after every run it is what the
  specification computes from the sequence of events and answers, in the order in which they came.\<close>

theorem AdminPanel_notifications_refine:
  assumes "ui_run (AdminPanel E) (panel_start overview now) ls s"
  shows "by_id (ap_notifications (ui_comp s)) = fold store ls (by_id (notifications_of overview))"
  using inbox.run_refines [OF assms]
  by (simp add: panel_start_def panel_init_def set_overview_def)

theorem AdminPanel_notifications_refine_witness:
  "\<exists>s. ui_run (AdminPanel sample_panel_env) (panel_start two_incidents 0) [Ext (Stream (Inr (JObj [(lit ''notifications'', JArr [info_notification])])))] s \<and>
     by_id (ap_notifications (ui_comp s)) = by_id (notifications_of two_incidents) ++ by_id [notification_of info_notification]"
proof -
  let ?m = "Inr (JObj [(lit ''notifications'', JArr [info_notification])])"
  let ?s0 = "panel_start two_incidents 0"
  have "ap_live (panel_init two_incidents 0)" by (simp add: panel_init_def reselect_def set_overview_def)
  then have "ui_step (AdminPanel sample_panel_env) ?s0 (Ext (Stream ?m))
      (apply_reaction (panel_handle sample_panel_env (Stream ?m) (panel_init two_incidents 0)) [P_Stats] [Fetch stats_request, Fetch events_request])"
    using step_ext [of "AdminPanel sample_panel_env" "panel_init two_incidents 0" "Stream ?m"] by (simp add: panel_start_def)
  from run_snoc [OF run_nil this] obtain s where s: "ui_run (AdminPanel sample_panel_env) ?s0 [Ext (Stream ?m)] s" by auto
  from AdminPanel_notifications_refine [OF s] s show ?thesis
    by (auto simp: extended_by_def notifications_of_def jget_safe_def jarray_def)
qed

subsection \<open>The keys of the inbox\<close>

text \<open>The backend lists no notification twice in an overview.\<close>

fun overview_sound :: "(panel_event, panel_wait) label \<Rightarrow> bool" where
  "overview_sound (Arrive P_Overview (Inr r)) = (\<forall>j. json_of r = Inr j \<longrightarrow> distinct (map an_id (notifications_of j)))"
| "overview_sound (Arrive (P_Action_Overview sel after) (Inr r)) = (\<forall>j. json_of r = Inr j \<longrightarrow> distinct (map an_id (notifications_of j)))"
| "overview_sound _ = True"

abbreviation keys_unique :: "panel \<Rightarrow> bool" where
  "keys_unique s \<equiv> distinct (map an_id (ap_notifications s))"

lemma overview_keys:
  "keys_unique s \<Longrightarrow> overview_sound (Arrive P_Overview a) \<Longrightarrow> keys_unique (overview_arrived P a s)"
  by (cases a) (auto simp: overview_arrived_def ok_body_def set_overview_def split: sum.splits if_splits)

lemma react_keys: "keys_unique s \<Longrightarrow> keys_unique (fst (panel_react E e s))"
  by (cases e) (simp_all add: setActiveSection_def set_filters_def ackNotification_def muteNotification_def postAction_def
      refreshServerHealth_def openActionModal_def setPendingDigest_def submitActionModal_def edit_config_def import_config_def
      stream_message_def merge_distinct Let_def
      split: list.split admin_section.split option.split modal_kind.split sum.split, auto)

lemma continue_keys: "keys_unique s \<Longrightarrow> overview_sound (Arrive w a) \<Longrightarrow> keys_unique (fst (panel_continue E w a s))"
proof (cases w)
  case (P_Action_Overview sel after)
  assume "keys_unique s" "overview_sound (Arrive w a)"
  then have "keys_unique (overview_arrived (pn_platform E) a s)"
    using P_Action_Overview by (intro overview_keys) (cases a; simp)+
  with P_Action_Overview show ?thesis by (simp add: action_overview_def Let_def split: option.split)
qed (simp_all add: overview_keys stats_arrived_def health_arrived_def merge_distinct action_answered_def action_failed_def
      action_audit_def Let_def split: sum.split)

lemma applied_keys: "keys_unique (fst r) \<Longrightarrow> keys_unique (ui_comp (apply_reaction (settle_panel E old r) ws out))"
  using settle_notifications [of E old r] by (cases "settle_panel E old r") simp

interpretation panel_keys: ui_invariant "AdminPanel E" "\<lambda>_. overview_sound" "panel_start overview now"
    "\<lambda>s. distinct (map an_id (notifications_of overview)) \<longrightarrow> keys_unique (ui_comp s)"
  by unfold_locales
    (auto simp: panel_handle_def panel_resume_def applied_keys react_keys continue_keys panel_start_def panel_init_def set_overview_def)

text \<open>C25: The inbox never has two entries with the same key: if the overviews of the backend list no notification twice,
  the identifiers of the notifications are distinct after every step, whatever the stream and the health checks deliver.\<close>

theorem AdminPanel_unique_keys:
  assumes "ui_reach (AdminPanel E) (\<lambda>_. overview_sound) (panel_start overview now) s"
    and "distinct (map an_id (notifications_of overview))"
  shows "distinct (map an_id (ap_notifications (ui_comp s)))"
  using panel_keys.reach_keeps [OF assms(1)] assms(2) by blast

theorem AdminPanel_unique_keys_witness:
  "\<exists>s. ui_reach (AdminPanel sample_panel_env) (\<lambda>_. overview_sound) (panel_start two_incidents 0) s \<and> ui_wait s = [P_Stats, P_Overview] \<and>
     distinct (map an_id (ap_notifications (ui_comp s))) \<and> length (ap_notifications (ui_comp s)) = 2"
proof -
  let ?E = sample_panel_env and ?c = "panel_init two_incidents 0"
  have n: "notifications_of two_incidents = [notification_of info_notification, notification_of critical_notification]"
    by (simp add: notifications_of_def two_incidents_def jget_safe_def jarray_def)
  have one: "an_id (notification_of critical_notification) = 1"
    by (simp add: notification_of_def critical_notification_def the_int_def opt_int_def opt_num_def jget_safe_def)
  have "ui_reach (AdminPanel ?E) (\<lambda>_. overview_sound) (panel_start two_incidents 0) \<lparr>ui_comp = ?c, ui_wait = [P_Stats], ui_out = [Fetch stats_request, Fetch events_request]\<rparr>"
    using reach_init [of "AdminPanel ?E" "\<lambda>_. overview_sound" "panel_start two_incidents 0"] by (simp add: panel_start_def)
  from reach_user [OF this, of Refresh_Overview] have r: "ui_reach (AdminPanel ?E) (\<lambda>_. overview_sound) (panel_start two_incidents 0)
      \<lparr>ui_comp = mount_config (pn_platform ?E) ?c, ui_wait = [P_Stats, P_Overview], ui_out = [Fetch stats_request, Fetch events_request, Fetch overview_request]\<rparr>"
    by (simp add: panel_view_def Let_def table_view_def filters_view_def panel_handle_def settle_quiet panel_init_def reselect_def set_overview_def)
  have "length (ap_notifications (mount_config (pn_platform ?E) ?c)) = 2"
    by (simp add: panel_init_def set_overview_def n)
  with AdminPanel_unique_keys [OF r] r show ?thesis by (force simp: n two_incidents_sel one)
qed

end
