(* ===== verification/Site_Traffic.thy ===== *)
theory Site_Traffic
  imports Vip_Section Auth_Form Admin_Panel_Runs
begin

section \<open>The requests of the pages and the route files of the site\<close>

text \<open>
  The route files under web/app/api with the methods they export, and what the pages ask for: every request of every
  run of the sign-in form, the account page, the VIP page and the administration panel has a route file that exports
  its method. The one exception is named. By the convention of the framework the directories of a route file are the
  segments of the path it serves; a name in brackets is any segment, one with dots all that follow.
\<close>

subsection \<open>Route files\<close>

datatype segment = Dir string | Param | Rest

definition route_files :: "(segment list \<times> string list) list" where
  "route_files =
    [([Dir ''api'', Dir ''admin'', Rest], [''GET'', ''POST'', ''PUT'', ''PATCH'', ''DELETE'']),
     ([Dir ''api'', Dir ''auth'', Dir ''forgot''], [''POST'']),
     ([Dir ''api'', Dir ''auth'', Dir ''login''], [''POST'']),
     ([Dir ''api'', Dir ''auth'', Dir ''logout''], [''POST'']),
     ([Dir ''api'', Dir ''auth'', Dir ''register''], [''POST'']),
     ([Dir ''api'', Dir ''auth'', Dir ''reset''], [''POST'']),
     ([Dir ''api'', Dir ''auth'', Dir ''verify''], [''POST'']),
     ([Dir ''api'', Dir ''happ-link''], [''POST'']),
     ([Dir ''api'', Dir ''payments'', Dir ''create''], [''POST'']),
     ([Dir ''api'', Dir ''payments'', Dir ''preview''], [''POST'']),
     ([Dir ''api'', Dir ''routing-profiles''], [''GET'', ''POST'']),
     ([Dir ''api'', Dir ''routing-profiles'', Param], [''PUT'', ''DELETE'']),
     ([Dir ''api'', Dir ''routing-profiles'', Dir ''system'', Param, Dir ''copy''], [''POST'']),
     ([Dir ''api'', Dir ''session''], [''GET'']),
     ([Dir ''api'', Dir ''site-config''], [''GET'']),
     ([Dir ''api'', Dir ''subscription'', Dir ''ad-block''], [''PATCH'']),
     ([Dir ''api'', Dir ''subscription'', Dir ''auto-renew''], [''PATCH''])]"

definition path_segments :: "jsstr \<Rightarrow> jsstr list" where
  "path_segments url = tl (segs (takeWhile (\<lambda>c. c \<noteq> 63) url))"

fun leads_to :: "segment list \<Rightarrow> jsstr list \<Rightarrow> bool" where
  "leads_to [] xs \<longleftrightarrow> xs = []"
| "leads_to (p # ps) [] \<longleftrightarrow> False"
| "leads_to (Dir d # ps) (x # xs) \<longleftrightarrow> x = lit d \<and> leads_to ps xs"
| "leads_to (Param # ps) (x # xs) \<longleftrightarrow> x \<noteq> [] \<and> leads_to ps xs"
| "leads_to (Rest # ps) (x # xs) \<longleftrightarrow> x \<noteq> []"

definition served :: "request \<Rightarrow> bool" where
  "served rq \<longleftrightarrow> list_ex (\<lambda>(p, methods). leads_to p (path_segments (rq_url rq)) \<and> list_ex (\<lambda>m. rq_method rq = lit m) methods) route_files"

text \<open>A path without parameters.\<close>

lemma served_at:
  "leads_to p (path_segments (lit u)) \<Longrightarrow> (p, ms) \<in> set route_files \<Longrightarrow> m \<in> set ms \<Longrightarrow>
     rq_url rq = lit u \<Longrightarrow> rq_method rq = lit m \<Longrightarrow> served rq"
  by (auto simp: served_def list_ex_iff)

lemma fetch_sel [simp]:
  "rq_url (fetch_json m u j) = u" "rq_method (fetch_json m u j) = m" "rq_url (fetch_plain m u) = u" "rq_method (fetch_plain m u) = m"
  by (simp_all add: fetch_json_def fetch_plain_def)

lemma auth_served:
  "served (fetch_json (lit ''POST'') (lit ''/api/auth/login'') j)" "served (fetch_json (lit ''POST'') (lit ''/api/auth/register'') j)"
  "served (fetch_json (lit ''POST'') (lit ''/api/auth/verify'') j)" "served (fetch_json (lit ''POST'') (lit ''/api/auth/forgot'') j)"
  "served (fetch_json (lit ''POST'') (lit ''/api/auth/reset'') j)" "served (fetch_plain (lit ''POST'') (lit ''/api/auth/logout''))"
  by (simp_all add: served_def route_files_def path_segments_def lit_Cons)

lemma account_served:
  "served (fetch_plain (lit ''GET'') (lit ''/api/session''))" "served (fetch_plain (lit ''GET'') (lit ''/api/site-config''))"
  "served (fetch_json (lit ''POST'') (lit ''/api/payments/create'') j)" "served (preview_request plan code)"
  "served (fetch_plain (lit ''POST'') (lit ''/api/happ-link''))" "served (fetch_json (lit ''PATCH'') (lit ''/api/subscription/auto-renew'') j)"
  by (simp_all add: served_def route_files_def path_segments_def lit_Cons preview_request_def)

lemma vip_served:
  "served (fetch_plain (lit ''GET'') (lit ''/api/routing-profiles''))" "served (fetch_json (lit ''POST'') (lit ''/api/routing-profiles'') j)"
  "served (fetch_json (lit ''PATCH'') (lit ''/api/subscription/ad-block'') j)"
  by (simp_all add: served_def route_files_def path_segments_def lit_Cons)

text \<open>The text of a number holds neither a slash nor a question mark.\<close>

definition plain_numbers :: "platform \<Rightarrow> bool" where
  "plain_numbers P \<longleftrightarrow> (\<forall>n. pf_number P n \<noteq> [] \<and> 47 \<notin> set (pf_number P n) \<and> 63 \<notin> set (pf_number P n))"

lemma profile_segments:
  assumes "plain_numbers P"
  shows "path_segments (profile_url P i) = [lit ''api'', lit ''routing-profiles'', pf_number P i]"
proof -
  have n: "47 \<notin> set (pf_number P i)" "63 \<notin> set (pf_number P i)" using assms by (auto simp: plain_numbers_def)
  then have "takeWhile (\<lambda>c. c \<noteq> 63) (pf_number P i) = pf_number P i" by (auto simp: takeWhile_eq_all_conv)
  with n show ?thesis by (simp add: path_segments_def profile_url_def lit_Cons segs_plain del: takeWhile_eq_all_conv)
qed

lemma profile_served:
  assumes "plain_numbers P"
  shows "served (fetch_json (lit ''PUT'') (profile_url P i) j)" "served (fetch_plain (lit ''DELETE'') (profile_url P i))"
  using assms by (simp_all add: served_def route_files_def profile_segments) (simp_all add: plain_numbers_def)

lemma copy_not_served: "\<not> served (copy_request P code token)"
  by (simp add: served_def route_files_def path_segments_def copy_request_def lit_Cons split: list.split)

subsection \<open>What the pages issue\<close>

definition asks_served :: "'x cmd \<Rightarrow> bool" where
  "asks_served k = (case k of Fetch rq \<Rightarrow> served rq | _ \<Rightarrow> True)"

lemma asks_served_simps [simp]:
  "asks_served (Fetch rq) \<longleftrightarrow> served rq" "asks_served (Push u)" "asks_served (Assign u)" "asks_served (Call x)"
  by (simp_all add: asks_served_def)

definition issues :: "('c, 'x, 'p) reaction \<Rightarrow> bool" where
  "issues r \<longleftrightarrow> list_all asks_served (fst (snd r))"

lemma issues_simps [simp]: "issues (s, out, ps) \<longleftrightarrow> list_all asks_served out"
  by (simp add: issues_def)

interpretation auth_asks: ui_outputs "AuthForm P plan" "idle_with auth_init" asks_served
proof (unfold_locales, goal_cases)
  case (2 e c)
  show ?case by (cases e) (simp_all add: onSubmit_def Let_def auth_served)
next
  case (3 p a c)
  show ?case by (simp add: onSubmit_done_def split: sum.split)
qed simp

text \<open>The promo code field and the price list, with the page they are mounted in.\<close>

lemma apply_issues: "issues (apply_code code s)"
  by (simp add: apply_code_def Let_def account_served)

lemma promo_issues: "issues (promo_handle e s)"
  by (cases e) (simp_all add: apply_issues clear_code_def type_code_def plan_changed_def Let_def split: promo_state.split)

lemma mount_issues: "issues (promo_mount code s)"
  by (simp add: promo_mount_def apply_issues)

lemma done_issues: "issues (apply_done resolved a s)"
  by (simp add: apply_done_def apply_failed_def split: sum.split)

lemma child_issues: "issues r \<Longrightarrow> issues (lift_child n k r s)"
proof -
  have "list_all asks_served cmds \<Longrightarrow> list_all asks_served (concat (map child_fetch cmds))" for cmds
  proof (induction cmds)
    case (Cons k cmds)
    then show ?case by (cases k) simp_all
  qed simp
  then show "issues r \<Longrightarrow> issues (lift_child n k r s)" by (cases r) (simp add: lift_child_def)
qed

lemma render_issues: "issues (render_child X s)"
  by (simp add: render_child_def child_issues mount_issues split: option.split)

lemma pricing_issues: "issues (pricing_handle X e s)"
  by (cases e) (simp_all add: render_issues child_issues promo_issues split: option.split)

lemma pricing_resume_issues: "issues (pricing_resume w a s)"
  by (cases w) (simp add: pricing_resume_def child_issues done_issues split: option.split)

lemma price_cmd_issues: "asks_served k \<Longrightarrow> issues r \<Longrightarrow> issues (price_cmd k r)"
  by (cases "(k, r)" rule: price_cmd.cases) (simp_all add: createPayment_def account_served)

lemma lift_pricing_issues: "issues r \<Longrightarrow> issues (lift_pricing r s)"
proof -
  have "list_all asks_served cmds \<Longrightarrow> issues acc \<Longrightarrow> issues (fold price_cmd cmds acc)" for cmds acc
    by (induction cmds arbitrary: acc) (simp_all add: price_cmd_issues)
  then show "issues r \<Longrightarrow> issues (lift_pricing r s)" by (cases r) (simp add: lift_pricing_def)
qed

lemma settle_issues: "issues r \<Longrightarrow> issues (settle V r)"
proof -
  have "issues (render_pricing V s)" for s
    by (simp add: render_pricing_def Let_def lift_pricing_issues render_issues split: option.split)
  then show "issues r \<Longrightarrow> issues (settle V r)"
    by (cases r) (simp add: settle_def issues_def split_beta)
qed

lemma dash_issues: "issues (dash_handle V e s)"
  by (cases e) (simp_all add: logout_def toggleAutoRenew_def openHapp_def in_pricing_def auth_served account_served lift_pricing_issues
      pricing_issues split: option.split)

lemma dash_resume_issues: "issues (dash_resume V w a s)"
  by (cases w) (simp_all add: load_arrived_def load_done_def autorenew_done_def payment_done_def happ_done_def logout_done_def Let_def
      lift_pricing_issues pricing_resume_issues split: option.split sum.split)

interpretation dash_asks: ui_outputs "Dashboard_page V" "dashboard_start now" asks_served
  by unfold_locales (simp_all add: dashboard_start_def load_def account_served settle_issues dash_issues dash_resume_issues
      flip: issues_def)

text \<open>The VIP page: the request that copies a preset goes past the route files.\<close>

definition vip_asks :: "platform \<Rightarrow> 'x cmd \<Rightarrow> bool" where
  "vip_asks P k = (case k of Fetch rq \<Rightarrow> plain_numbers P \<longrightarrow> served rq \<or> (\<exists>code token. rq = copy_request P code token) | _ \<Rightarrow> True)"

lemma vip_asks_simps [simp]:
  "vip_asks P (Fetch rq) \<longleftrightarrow> (plain_numbers P \<longrightarrow> served rq \<or> (\<exists>code token. rq = copy_request P code token))"
  "vip_asks P (Push u)" "vip_asks P (Assign u)" "vip_asks P (Call x)"
  by (simp_all add: vip_asks_def)

definition vip_issues :: "platform \<Rightarrow> ('c, 'x, 'p) reaction \<Rightarrow> bool" where
  "vip_issues P r \<longleftrightarrow> list_all (vip_asks P) (fst (snd r))"

lemma vip_issues_simps [simp]: "vip_issues P (s, out, ps) \<longleftrightarrow> list_all (vip_asks P) out"
  by (simp add: vip_issues_def)

lemma fetchProfiles_issues: "vip_issues P (fetchProfiles s)"
  by (simp add: fetchProfiles_def vip_served)

lemma reload_issues: "vip_issues P (reload_custom s)"
  by (simp add: reload_custom_simps vip_served)

lemma settled_issues: "(\<And>r s. vip_issues P (ok r s)) \<Longrightarrow> vip_issues P (settled Q m ok a s)"
  by (auto simp: settled_def vip_issues_def split_beta split: sum.split)

lemma save_issues: "vip_issues (vx_platform X) (saveProfile (vx_platform X) s)"
  by (simp add: saveProfile_def save_ok_def reload_custom_simps vip_served profile_served split: option.split)

lemma vip_handle_issues: "vip_issues (vx_platform X) (vip_handle X e s)"
  by (cases e) (simp_all add: toggleAdBlock_def exportToHapp_def toggleProfile_def deleteProfile_def copySystemProfile_def
      vip_served profile_served account_served save_issues split: sum.split)

lemma vip_resume_issues: "vip_issues (vx_platform X) (vip_resume X w a s)"
  by (cases w) (auto simp: profiles_arrived_def adblock_done_def toggle_done_def delete_done_def save_done_def save_ok_def
      token_arrived_def vip_failed_def copy_done_def reload_issues intro!: settled_issues split: sum.split)

lemma section_platform [simp]: "vx_platform (section_props P j) = P"
  by (simp add: section_props_def Let_def)

lemma lift_vip_issues: "vip_issues P r \<Longrightarrow> vip_issues P (lift_vip s r)"
  by (cases r) (simp add: lift_vip_def)

lemma page_settle_issues: "vip_issues P r \<Longrightarrow> vip_issues P (page_settle P r)"
  by (cases r) (auto simp: page_settle_def lift_vip_def fetchProfiles_def vip_served Let_def split: option.split)

lemma page_arrived_issues: "vip_issues P (page_arrived b a s)"
  by (auto simp: page_arrived_def page_load_done_def Let_def split: sum.split option.split)

lemma page_handle_issues: "vip_issues P (page_handle P e s)"
  using vip_handle_issues [of "section_props P _"]
  by (cases e) (auto simp: lift_vip_issues split: option.split)

lemma page_resume_issues: "vip_issues P (page_resume P w a s)"
  using vip_resume_issues [of "section_props P _"]
  by (cases w) (auto simp: lift_vip_issues page_settle_issues page_arrived_issues split: option.split)

interpretation vip_asked: ui_outputs "VipPageClient P" vip_page_start "vip_asks P"
  by unfold_locales (simp_all add: vip_page_start_def page_load_def account_served page_handle_issues page_resume_issues
      flip: vip_issues_def)

text \<open>The panel: every request goes behind the catch-all route file.\<close>

definition admin_target :: "request \<Rightarrow> bool" where
  "admin_target rq \<longleftrightarrow> take 11 (rq_url rq) = lit ''/api/admin/'' \<and> (case drop 11 (rq_url rq) of [] \<Rightarrow> False | c # _ \<Rightarrow> c \<noteq> 47 \<and> c \<noteq> 63) \<and>
     (rq_method rq = lit ''GET'' \<or> rq_method rq = lit ''POST'')"

lemma admin_target_served:
  assumes "admin_target rq"
  shows "served rq"
proof -
  obtain c t where url: "rq_url rq = lit ''/api/admin/'' @ c # t" and c: "c \<noteq> 47" "c \<noteq> 63"
  proof (cases "drop 11 (rq_url rq)")
    case Nil
    with assms show ?thesis by (simp add: admin_target_def)
  next
    case (Cons c t)
    with assms show ?thesis using that [of c t] append_take_drop_id [of 11 "rq_url rq"] by (simp add: admin_target_def)
  qed
  obtain x xs where "segs (c # takeWhile (\<lambda>c. c \<noteq> 63) t) = (c # x) # xs" using segs_hd [OF c(1)] by blast
  then have "path_segments (rq_url rq) = lit ''api'' # lit ''admin'' # (c # x) # xs"
    unfolding url using c by (simp add: path_segments_def lit_Cons del: segs.simps(2)) (simp add: lit_Cons)
  with assms show ?thesis by (auto simp: served_def route_files_def admin_target_def)
qed

lemma panel_targets:
  "admin_target overview_request" "admin_target stats_request" "admin_target events_request" "admin_target (audit_request P i)" "admin_target (admin_get (server_path P i @ t))"
  "m = lit ''GET'' \<or> m = lit ''POST'' \<Longrightarrow> admin_target (action_request m (server_path P i @ t) b)"
  "m = lit ''GET'' \<or> m = lit ''POST'' \<Longrightarrow> admin_target (action_request m (notification_path P i @ t) b)"
  by (simp_all add: admin_target_def overview_request_def stats_request_def events_request_def audit_request_def admin_get_def server_path_def notification_path_def
      action_request_def lit_Cons)

lemmas panel_served = panel_targets [THEN admin_target_served]

lemma post_issues [simp]: "issues (postAction label url body method after s) \<longleftrightarrow> served (action_request method url body)"
  by (simp add: postAction_def)

lemma panel_react_issues: "issues (panel_react E e s)"
  by (cases e) (simp_all add: panel_served ackNotification_def muteNotification_def import_config_def refreshServerHealth_def
      submitActionModal_def Let_def split: list.split option.split modal_kind.split)

lemma panel_continue_issues: "issues (panel_continue E w a s)"
  by (cases w) (simp_all add: panel_served action_answered_def action_failed_def action_overview_def action_audit_def Let_def
      split: sum.split option.split)

lemma settle_panel_issues: "issues r \<Longrightarrow> issues (settle_panel E old r)"
proof -
  assume "issues r"
  moreover obtain s out ps where r: "r = (s, out, ps)" by (cases r) auto
  ultimately show ?thesis using settle_panel_cases [of E old s out ps] by (auto simp: panel_served)
qed

interpretation panel_asks: ui_outputs "AdminPanel E" "panel_start overview now" asks_served
  by unfold_locales (simp_all add: panel_start_def panel_served panel_handle_def panel_resume_def settle_panel_issues panel_react_issues
      panel_continue_issues flip: issues_def)

text \<open>C15: Every request that the sign-in form, the account page, the VIP page or the administration panel ever sends has a route file of
  the site that exports its method. The only exception is the request of the VIP page that copies a preset, for which there is none
  at the path it uses.\<close>

theorem pages_requests_served:
  assumes "plain_numbers P" "de_platform V = P" "pn_platform E = P"
    and "ui_reach (AuthForm P plan) any (idle_with auth_init) s1" "ui_reach (Dashboard_page V) any (dashboard_start now) s2"
    and "ui_reach (AdminPanel E) any (panel_start overview clock) s3" "ui_reach (VipPageClient P) any vip_page_start s4"
  shows "(\<forall>rq. Fetch rq \<in> set (ui_out s1) \<or> Fetch rq \<in> set (ui_out s2) \<or> Fetch rq \<in> set (ui_out s3) \<longrightarrow> served rq) \<and>
    (\<forall>rq. Fetch rq \<in> set (ui_out s4) \<longrightarrow> served rq = (\<nexists>code token. rq = copy_request P code token))"
proof (intro conjI allI impI)
  fix rq
  assume "Fetch rq \<in> set (ui_out s1) \<or> Fetch rq \<in> set (ui_out s2) \<or> Fetch rq \<in> set (ui_out s3)"
  then show "served rq"
    using auth_asks.kept.reach_keeps [OF assms(4)] dash_asks.kept.reach_keeps [OF assms(5)] panel_asks.kept.reach_keeps [OF assms(6)]
    by (auto simp: list_all_iff)
next
  fix rq
  assume "Fetch rq \<in> set (ui_out s4)"
  then show "served rq = (\<nexists>code token. rq = copy_request P code token)"
    using vip_asked.kept.reach_keeps [OF assms(7)] assms(1) copy_not_served by (auto simp: list_all_iff)
qed

theorem pages_requests_served_witness:
  "served (fetch_json (lit ''POST'') (lit ''/api/auth/register'') (JObj [(lit ''email'', JStr []), (lit ''password'', JStr [])])) \<and>
   served stats_request \<and> served events_request \<and> served (fetch_plain (lit ''GET'') (lit ''/api/session''))"
proof -
  let ?P = sample_platform
  let ?rq = "fetch_json (lit ''POST'') (lit ''/api/auth/register'') (JObj [(lit ''email'', JStr []), (lit ''password'', JStr [])])"
  have n: "plain_numbers ?P" by (simp add: plain_numbers_def sample_platform_def lit_Cons)
  have a: "ui_reach (AuthForm ?P []) any (idle_with auth_init) \<lparr>ui_comp = auth_init\<lparr>af_mode := Register, af_loading := True\<rparr>,
      ui_wait = [\<lparr>sb_mode = Register, sb_isCodeSent = False\<rparr>], ui_out = [Fetch ?rq]\<rparr>"
    by (rule auth_registering) simp_all
  have s: "Fetch stats_request \<in> set (ui_out (panel_start JNull 0))" "Fetch events_request \<in> set (ui_out (panel_start JNull 0))"
    by (simp_all add: panel_start_def)
  have p: "Fetch (fetch_plain (lit ''GET'') (lit ''/api/session'')) \<in> set (ui_out vip_page_start)"
    by (simp add: vip_page_start_def page_load_def)
  have "fetch_plain (lit ''GET'') (lit ''/api/session'') \<noteq> copy_request ?P code token" for code token
    by (simp add: fetch_plain_def copy_request_def lit_Cons)
  then show ?thesis
    using pages_requests_served [where V = "sample_env\<lparr>de_platform := ?P\<rparr>" and E = "sample_panel_env\<lparr>pn_platform := ?P\<rparr>"
        and now = 0 and overview = JNull and clock = 0, OF n _ _ a reach_init reach_init reach_init] s p
    by simp
qed

end
