(* ===== verification/Home_Page.thy ===== *)
theory Home_Page
  imports Dashboard
begin

section \<open>The public pages\<close>

text \<open>
  The landing page (web/app/page.tsx) with its bar (Topbar.tsx, Brand.tsx), its questions (Faq.tsx) and the price list it
  mounts in its link mode, and the page of the policy (web/app/policy/page.tsx). The server reads the site configuration and
  renders; in the browser the state of a page is the question that is open and the price list. The year of the footer is an
  argument. Icons, pictures, animation and the waves behind the title are left out.
\<close>

subsection \<open>Questions\<close>

definition ITEMS :: "(jsstr \<times> jsstr) list" where
  "ITEMS = [(ru_q_logs, ru_a_logs), (ru_q_devices, ru_a_devices), (ru_q_vip, ru_a_vip), (ru_q_slow, ru_a_slow),
     (ru_q_cards, ru_a_cards), (ru_q_games, ru_a_games)]"

definition setOpen :: "nat \<Rightarrow> nat option \<Rightarrow> nat option" where
  "setOpen index opened = (if opened = Some index then None else Some index)"

definition faq_item :: "(nat \<Rightarrow> 'e) \<Rightarrow> nat option \<Rightarrow> nat \<times> jsstr \<times> jsstr \<Rightarrow> 'e view" where
  "faq_item toggle opened item = (case item of (index, question, answer) \<Rightarrow>
     El (lit ''div'') (Btn False (toggle index) [El (lit ''span'') [Text question]]
       # show_if (opened = Some index) (El (lit ''p'') [Text answer])))"

definition Faq :: "(nat \<Rightarrow> 'e) \<Rightarrow> nat option \<Rightarrow> 'e view" where
  "Faq toggle opened = El (lit ''div'') (map (faq_item toggle opened) (enumerate 0 ITEMS))"

subsection \<open>The bar\<close>

definition Brand :: "jsstr \<Rightarrow> 'e view" where
  "Brand href = Link href [El (lit ''span'') [Text (lit ''FBLink ''), Text (lit ''VPN'')]]"

definition NAV_LINKS :: "(jsstr \<times> jsstr) list" where
  "NAV_LINKS = [(lit ''#features'', ru_features), (lit ''#plans'', ru_tariffs), (lit ''#faq'', lit ''FAQ'')]"

definition Topbar :: "'e view" where
  "Topbar = El (lit ''header'') [Brand (lit ''/''),
     El (lit ''nav'') (map (\<lambda>(href, label). Link href [Text label]) NAV_LINKS),
     Link (lit ''/auth'') [Text ru_sign_in_link], Link (lit ''/dashboard'') [Text ru_download]]"

subsection \<open>The landing page\<close>

definition METRICS :: "(jsstr \<times> jsstr) list" where
  "METRICS = [(lit ''5'', ru_metric_servers), (lit ''0'', ru_metric_logs), (ru_metric_gbit, ru_metric_bandwidth),
     (ru_infinity, ru_metric_devices)]"

text \<open>Title, badge and description of a feature.\<close>

definition FEATURES :: "(jsstr \<times> jsstr \<times> jsstr) list" where
  "FEATURES = [(ru_feat_nologs, lit ''Privacy'', ru_feat_nologs_text), (ru_feat_fast, lit ''Performance'', ru_feat_fast_text),
     (ru_feat_manual, lit ''Global'', ru_feat_manual_text), (lit ''AmneziaWG + Xray'', lit ''Tech'', ru_feat_tech_text),
     (lit ''Kill Switch'', lit ''Safety'', ru_feat_kill_text), (lit ''Split Tunneling'', lit ''Control'', ru_feat_split_text)]"

definition home_platforms :: "site_config \<Rightarrow> (jsstr \<times> jsstr) list" where
  "home_platforms config = (let d = sc_downloads config in
     [(lit ''Android'', dl_android d), (lit ''TV'', dl_androidtv d), (lit ''Windows'', dl_windows d), (lit ''macOS'', dl_macos d),
      (lit ''Linux'', dl_linux d), (lit ''iPhone'', dl_happ d)])"

definition channel_link :: "support_channel \<Rightarrow> 'e view" where
  "channel_link channel = Link (ch_href channel) [El (lit ''span'') [Text (ch_label channel)]]"

definition mail_link :: "site_config \<Rightarrow> jsstr \<Rightarrow> 'e view" where
  "mail_link config label = Link (lit ''mailto:'' @ su_email (sc_support config)) [Text label]"

definition hero_section :: "site_config \<Rightarrow> 'e view" where
  "hero_section config = El (lit ''section'') [
     El (lit ''span'') [Text ru_hero_eyebrow],
     El (lit ''h1'') [Text ru_hero_title, El (lit ''span'') [Text ru_hero_title_gold]],
     El (lit ''p'') [Text ru_hero_text],
     Link (lit ''#plans'') [Text ru_hero_choose], Link (lit ''#platforms'') [Text ru_hero_download],
     El (lit ''div'') [Text ru_feat_nologs, Text ru_unlimited_devices, Text ru_pay_in_russia],
     El (lit ''div'') (El (lit ''span'') [Text ru_support] # map channel_link (supportChannels config)),
     El (lit ''div'') [Text (lit ''FBLink VPN''), Text ru_protection_on, Text ru_server, Text ru_sample_server, Text ru_ping, Text (lit ''42 ms'')],
     El (lit ''div'') (map (\<lambda>(label, href). Link href [Text label]) (take 5 (home_platforms config)))]"

definition metric_strip :: "'e view" where
  "metric_strip = El (lit ''section'') (map (\<lambda>(value, label). El (lit ''div'') [Text value, Text label]) METRICS)"

definition features_section :: "'e view" where
  "features_section = Part (lit ''features'') [
     El (lit ''span'') [Text ru_features], El (lit ''h2'') [Text ru_features_title], El (lit ''p'') [Text ru_features_text],
     El (lit ''div'') (map (\<lambda>(title, badge, description). El (lit ''article'') [Text badge, Text title, Text description]) FEATURES)]"

definition platforms_section :: "site_config \<Rightarrow> 'e view" where
  "platforms_section config = Part (lit ''platforms'') [
     El (lit ''span'') [Text ru_platforms], El (lit ''h2'') [Text ru_platforms_title],
     El (lit ''div'') (map (\<lambda>(label, href). Link href [Text label,
       Text (if label = lit ''iPhone'' then ru_add_to_happ else ru_download)]) (home_platforms config))]"

definition cta_section :: "site_config \<Rightarrow> 'e view" where
  "cta_section config = El (lit ''section'') [
     El (lit ''h2'') [Text ru_cta_title, El (lit ''span'') [Text ru_cta_title_gold]], El (lit ''p'') [Text ru_cta_text],
     Link (lit ''/auth'') [Text ru_create_account_now], mail_link config ru_ask_question]"

definition site_footer :: "jsstr \<Rightarrow> site_config \<Rightarrow> 'e view" where
  "site_footer year config = El (lit ''footer'') (
     [Text (lit ''FBLink VPN''), Text ru_footer_lead,
      Link (lit ''#features'') [Text ru_features], Link (lit ''#plans'') [Text ru_tariffs], Link (lit ''#faq'') [Text (lit ''FAQ'')],
      Link (lit ''/legal/terms.pdf'') [Text ru_terms], mail_link config (su_email (sc_support config))] @
     map channel_link (supportChannels config) @
     [Link (lit ''/policy'') [Text ru_policy], Text (ru_copyright @ year @ lit '' FBLink VPN'')])"

record home =
  hp_open :: "nat option"
  hp_pricing :: pricing

datatype home_event =
    Toggle_Question nat
  | In_Prices pricing_event

definition home_props :: "site_config \<Rightarrow> pricing_props" where
  "home_props config = \<lparr>px_plans = sc_plans config, px_initialPlan = None, px_initialPromoCode = [], px_loadingPlan = None,
     px_mode = Link_Mode, px_currentSubscription = None\<rparr>"

definition home_view :: "platform \<Rightarrow> jsstr \<Rightarrow> site_config \<Rightarrow> home \<Rightarrow> home_event view" where
  "home_view P year config s = El (lit ''main'') [Topbar, hero_section config, metric_strip, features_section,
     Part (lit ''plans'') [
       El (lit ''span'') [Text ru_plans_eyebrow], El (lit ''h2'') [Text ru_plans_title, El (lit ''span'') [Text ru_plans_title_gold]],
       El (lit ''p'') [Text ru_plans_text], map_view In_Prices (pricing_view P (home_props config) (hp_pricing s))],
     platforms_section config,
     Part (lit ''faq'') [
       El (lit ''span'') [Text (lit ''FAQ'')], El (lit ''h2'') [Text ru_faq_title], El (lit ''p'') [Text ru_faq_text],
       Faq Toggle_Question (hp_open s)],
     cta_section config, site_footer year config]"

text \<open>The page gives the price list no \<^verbatim>\<open>onSelect\<close>: its calls do nothing.\<close>

definition lift_prices :: "pricing_reaction \<Rightarrow> home \<Rightarrow> (home, unit, nat \<times> jsstr) reaction" where
  "lift_prices r s = (case r of (p, cmds, ps) \<Rightarrow>
     (s\<lparr>hp_pricing := p\<rparr>, concat (map (\<lambda>k. case k of Fetch rq \<Rightarrow> [Fetch rq] | Push u \<Rightarrow> [Push u] | Assign u \<Rightarrow> [Assign u] | Call _ \<Rightarrow> []) cmds), ps))"

fun home_handle :: "site_config \<Rightarrow> home_event \<Rightarrow> home \<Rightarrow> (home, unit, nat \<times> jsstr) reaction" where
  "home_handle config (Toggle_Question i) s = (s\<lparr>hp_open := setOpen i (hp_open s)\<rparr>, [], [])"
| "home_handle config (In_Prices e) s = lift_prices (pricing_handle (home_props config) e (hp_pricing s)) s"

definition home_component :: "platform \<Rightarrow> jsstr \<Rightarrow> site_config \<Rightarrow> (home, home_event, unit, nat \<times> jsstr) component" where
  "home_component P year config = \<lparr>cp_view = home_view P year config, cp_ext = (\<lambda>_ _. False), cp_handle = home_handle config,
     cp_resume = (\<lambda>w a s. lift_prices (pricing_resume w a (hp_pricing s)) s)\<rparr>"

definition home_init :: "site_config \<Rightarrow> home" where
  "home_init config = \<lparr>hp_open = Some 0, hp_pricing = pricing_init (home_props config)\<rparr>"

definition home_start :: "site_config \<Rightarrow> (home, unit, nat \<times> jsstr) ui" where
  "home_start config = (let s = home_init config in
     apply_reaction (lift_prices (render_child (home_props config) (hp_pricing s)) s) [] [])"

definition HomePage :: "platform \<Rightarrow> 'w env \<Rightarrow> jsstr \<Rightarrow> ('w sv, (home, home_event, unit, nat \<times> jsstr) component) prog" where
  "HomePage P E year = bindp (loadSiteConfig E) (\<lambda>config. ret (home_component P year (config_of config)))"

subsection \<open>The policy\<close>

definition policy_view :: "site_config \<Rightarrow> 'e view" where
  "policy_view config = El (lit ''main'') [Brand (lit ''/''), El (lit ''span'') [Text (lit ''Legal'')],
     El (lit ''h1'') [Text ru_policy_title], El (lit ''p'') [Text ru_policy_lead],
     El (lit ''article'') [El (lit ''h2'') [Text ru_policy_data], El (lit ''p'') [Text ru_policy_data_text]],
     El (lit ''article'') [El (lit ''h2'') [Text ru_policy_why], El (lit ''p'') [Text ru_policy_why_text]],
     El (lit ''article'') [El (lit ''h2'') [Text ru_support],
       El (lit ''p'') [Text ru_policy_mail, mail_link config (su_email (sc_support config)), Text (lit ''.'')],
       El (lit ''div'') (map channel_link (supportChannels config) @ [mail_link config (lit ''Email'')])],
     El (lit ''article'') [El (lit ''h2'') [Text ru_policy_requests], El (lit ''p'') [Text ru_policy_requests_text]]]"

definition PolicyPage :: "'w env \<Rightarrow> ('w sv, 'e view) prog" where
  "PolicyPage E = bindp (loadSiteConfig E) (\<lambda>config. ret (policy_view (config_of config)))"

lemma home_component_sel [simp]:
  "cp_view (home_component P year config) = home_view P year config" "\<not> cp_ext (home_component P year config) s e"
  "cp_handle (home_component P year config) = home_handle config"
  "cp_resume (home_component P year config) w a s = lift_prices (pricing_resume w a (hp_pricing s)) s"
  by (simp_all add: home_component_def)

subsection \<open>What the landing page offers\<close>

lemma home_props_sel [simp]:
  "px_plans (home_props config) = sc_plans config" "px_mode (home_props config) = Link_Mode" "px_loadingPlan (home_props config) = None"
  by (simp_all add: home_props_def)

lemma static_links [simp]:
  "links Topbar = [lit ''/'', lit ''#features'', lit ''#plans'', lit ''#faq'', lit ''/auth'', lit ''/dashboard'']"
  "links metric_strip = []" "links features_section = []" "links (Faq toggle opened) = []" "links (number_flow Q v suffix) = []"
  "links (channel_link c) = [ch_href c]" "links (mail_link config t) = [lit ''mailto:'' @ su_email (sc_support config)]"
  by (simp_all add: Topbar_def Brand_def NAV_LINKS_def metric_strip_def METRICS_def features_section_def FEATURES_def Faq_def faq_item_def
      show_if_def ITEMS_def number_flow_def channel_link_def mail_link_def)

lemma static_anchors [simp]:
  "anchors Topbar = []" "anchors metric_strip = []" "anchors features_section = [lit ''features'']" "anchors (Faq toggle opened) = []"
  "anchors (number_flow Q v suffix) = []" "anchors (channel_link c) = []" "anchors (mail_link config t) = []"
  by (simp_all add: Topbar_def Brand_def NAV_LINKS_def metric_strip_def METRICS_def features_section_def FEATURES_def Faq_def faq_item_def
      show_if_def ITEMS_def number_flow_def channel_link_def mail_link_def)

lemma card_links:
  "h \<in> set (concat (map links (PlanCard P (home_props config) s plan))) \<Longrightarrow>
     \<exists>period \<in> set (pl_periods plan). h = lit ''/auth?plan='' @ plan_id_string (pp_id period)"
  using card_period_in [of "pr_billingPeriod s" plan]
  by (auto simp: PlanCard_def Let_def show_if_def comp_def split: option.splits if_splits)

lemma card_anchors: "concat (map anchors (PlanCard P (home_props config) s plan)) = []"
  by (auto simp: PlanCard_def Let_def show_if_def comp_def split: option.splits)

lemma prices_anchors [simp]: "anchors (pricing_view P (home_props config) s) = []"
  using card_anchors [of P config s]
  by (auto simp: pricing_view_def Let_def show_if_def split: option.splits)

lemma prices_links:
  assumes "h \<in> set (links (pricing_view P (home_props config) s))"
  shows "\<exists>i \<in> set (visiblePlanIds config). h = lit ''/auth?plan='' @ plan_id_string i"
proof -
  have "\<exists>plan \<in> set (sc_plans config). h \<in> set (concat (map links (PlanCard P (home_props config) s plan)))"
    using assms by (auto simp: pricing_view_def Let_def show_if_def safePlans_def split: option.splits if_splits)
  then show ?thesis using card_links by (fastforce simp: visiblePlanIds_def)
qed

text \<open>The links of the page: those it has itself, those of the configuration, and one for every card.\<close>

definition own_links :: "jsstr list" where
  "own_links = [lit ''/'', lit ''#features'', lit ''#plans'', lit ''#faq'', lit ''#platforms'', lit ''/auth'', lit ''/dashboard'',
     lit ''/legal/terms.pdf'', lit ''/policy'']"

definition configured_links :: "site_config \<Rightarrow> jsstr list" where
  "configured_links config = map snd (home_platforms config) @ map ch_href (supportChannels config) @
     [lit ''mailto:'' @ su_email (sc_support config)]"

lemma home_links:
  "h \<in> set (links (home_view P year config s)) \<Longrightarrow>
     h \<in> set own_links \<or> h \<in> set (configured_links config) \<or> h \<in> set (links (pricing_view P (home_props config) (hp_pricing s)))"
  by (auto simp: home_view_def hero_section_def platforms_section_def cta_section_def site_footer_def own_links_def configured_links_def
      comp_def split_beta dest: in_set_takeD)

lemma concat_map_Nil: "concat (map (\<lambda>_. []) xs) = []"
  by (induction xs) simp_all

lemma home_anchors: "anchors (home_view P year config s) = map lit [''features'', ''plans'', ''platforms'', ''faq'']"
  by (simp add: home_view_def hero_section_def platforms_section_def cta_section_def site_footer_def comp_def split_beta
      concat_map_Nil)

lemma home_anchored:
  assumes "\<forall>h \<in> set (configured_links config). h = [] \<or> hd h \<noteq> 35"
  shows "anchored (home_view P year config s)"
proof -
  have "tl h \<in> set (map lit [''features'', ''plans'', ''platforms'', ''faq''])"
    if "h \<in> set (links (home_view P year config s))" "h \<noteq> []" "hd h = 35" for h
  proof -
    have "list_all (\<lambda>h. h \<noteq> [] \<and> hd h = 35 \<longrightarrow> tl h \<in> set (map lit [''features'', ''plans'', ''platforms'', ''faq''])) own_links"
      by (simp add: own_links_def lit_Cons)
    with that home_links [OF that(1)] assms prices_links [of h] show ?thesis by (fastforce simp: list_all_iff lit_Cons)
  qed
  then show ?thesis by (auto simp: anchored_def home_anchors list_all_iff)
qed

text \<open>In its link mode the price list only switches the billing period.\<close>

lemma prices_offer: "offers (pricing_view P (home_props config) s) e \<Longrightarrow> e = Switch_Billing"
  by (auto simp: pricing_view_def PlanCard_def Let_def show_if_def split: option.splits if_splits)

lemma home_offers:
  "offers (home_view P year config s) e \<Longrightarrow> e = In_Prices Switch_Billing \<or> (\<exists>i < 6. e = Toggle_Question i)"
  using prices_offer
  by (auto simp: home_view_def Topbar_def Brand_def hero_section_def metric_strip_def features_section_def platforms_section_def
      cta_section_def site_footer_def channel_link_def mail_link_def Faq_def faq_item_def ITEMS_def NAV_LINKS_def show_if_def split: if_splits prod.splits)

lemma render_link_mode: "px_mode X = Link_Mode \<Longrightarrow> render_child X s = (s\<lparr>pr_child := None\<rparr>, [], [])"
  by (simp add: render_child_def)

definition home_quiet :: "(home, unit, nat \<times> jsstr) ui \<Rightarrow> bool" where
  "home_quiet s \<longleftrightarrow> ui_wait s = [] \<and> ui_out s = [] \<and> (case hp_open (ui_comp s) of None \<Rightarrow> True | Some i \<Rightarrow> i < length ITEMS)"

interpretation home: ui_invariant "home_component P year config" any "home_start config" home_quiet
proof (unfold_locales, goal_cases)
  case 1
  show ?case by (simp add: home_start_def home_init_def Let_def render_link_mode lift_prices_def home_quiet_def ITEMS_def)
next
  case (2 c ws out e)
  from home_offers [of P year config c e] 2 show ?case
    by (auto simp: render_link_mode lift_prices_def home_quiet_def setOpen_def ITEMS_def split: option.splits if_splits)
qed (simp_all add: home_quiet_def)

text \<open>C35: Whatever the visitor does on the landing page, it sends no request and waits for nothing, the open question, if there is one, is
  one of those it has, and every link within the page leads to a part that the page has exactly once, as long as the
  configured addresses are not links within the page.\<close>

theorem HomePage_navigation:
  assumes "ui_reach (home_component P year config) any (home_start config) s"
    and "\<forall>h \<in> set (configured_links config). h = [] \<or> hd h \<noteq> 35"
  shows "ui_out s = [] \<and> ui_wait s = [] \<and> (case hp_open (ui_comp s) of None \<Rightarrow> True | Some i \<Rightarrow> i < length ITEMS) \<and>
    anchored (home_view P year config (ui_comp s)) \<and> distinct (anchors (home_view P year config (ui_comp s)))"
  using home.reach_keeps [OF assms(1)] home_anchored [OF assms(2)]
  by (simp add: home_quiet_def home_anchors lit_Cons)

theorem HomePage_navigation_witness:
  "\<exists>s. ui_reach (home_component sample_platform [] defaultSiteConfig) any (home_start defaultSiteConfig) s \<and> hp_open (ui_comp s) = None \<and>
     anchored (home_view sample_platform [] defaultSiteConfig (ui_comp s))"
proof -
  let ?C = "home_component sample_platform [] defaultSiteConfig"
  obtain c where c: "home_start defaultSiteConfig = idle_with c" "hp_open c = Some 0"
    by (simp add: home_start_def home_init_def Let_def render_link_mode lift_prices_def)
  have "offers (home_view sample_platform [] defaultSiteConfig c) (Toggle_Question 0)"
    by (simp add: home_view_def Faq_def faq_item_def ITEMS_def)
  then have r: "ui_reach ?C any (home_start defaultSiteConfig) (idle_with (c\<lparr>hp_open := None\<rparr>))"
    using reach_user [of ?C any "idle_with c" c "[]" "[]" "Toggle_Question 0"] c reach_init [of ?C any "idle_with c"]
    by (simp add: setOpen_def)
  have d: "\<forall>h \<in> set (configured_links defaultSiteConfig). h = [] \<or> hd h \<noteq> 35"
    by (simp add: configured_links_def home_platforms_def supportChannels_def defaultSiteConfig_def Let_def lit_Cons)
  from HomePage_navigation [OF r d] r show ?thesis by auto
qed

lemma HomePage_total: "never_throws (HomePage P E year)" "never_throws (PolicyPage E)"
  unfolding HomePage_def PolicyPage_def by (auto intro!: never_throws_bindp never_throws_loadSiteConfig)

lemma card_linked:
  assumes "plan \<in> set (sc_plans config)" "card_period (pr_billingPeriod s) plan = Some period"
  shows "lit ''/auth?plan='' @ plan_id_string (pp_id period) \<in> set (links (pricing_view P (home_props config) s))"
proof -
  have plan: "plan \<in> set (safePlans (sc_plans config))"
    using assms card_period_in [OF assms(2)] by (auto simp: safePlans_def)
  then have "safePlans (sc_plans config) \<noteq> []" by auto
  moreover have "lit ''/auth?plan='' @ plan_id_string (pp_id period) \<in> set (concat (map links (PlanCard P (home_props config) s plan)))"
    using assms(2) by (simp add: PlanCard_def Let_def)
  ultimately show ?thesis using plan by (auto simp: pricing_view_def Let_def)
qed

end
