(* ===== verification/Js_Lists.thy ===== *)
theory Js_Lists
  imports Js_Prelude
begin

section \<open>Lists that collect each value once\<close>

text \<open>
  Three routines of the sources append a value to an array unless the array holds it
  already: \<^verbatim>\<open>appendUnique\<close> (after trimming), \<^verbatim>\<open>uniquePushString\<close> (up to letter case) and
  the \<^verbatim>\<open>Set\<close>-backed filter of \<^verbatim>\<open>normalizeRuleText\<close>. The locale states what such a routine
  promises: a normalised value that is acceptable and whose key is new goes to the end, every
  other value leaves the array alone. Its lemmas give what the callers rely on: no key twice,
  earlier entries stay where they are, every acceptable value is there in the end and nothing
  else is.
\<close>

locale collect_once =
  fixes norm :: "'a \<Rightarrow> 'a" and key :: "'a \<Rightarrow> 'k" and ok :: "'a \<Rightarrow> bool"
    and push :: "'a list \<Rightarrow> 'a \<Rightarrow> 'a list"
  assumes push_skip: "\<not> ok (norm x) \<or> key (norm x) \<in> key ` set xs \<Longrightarrow> push xs x = xs"
    and push_add: "ok (norm x) \<Longrightarrow> key (norm x) \<notin> key ` set xs \<Longrightarrow> push xs x = xs @ [norm x]"
begin

lemma push_cases:
  obtains (skip) "\<not> ok (norm x) \<or> key (norm x) \<in> key ` set xs" "push xs x = xs"
  | (add) "ok (norm x)" "key (norm x) \<notin> key ` set xs" "push xs x = xs @ [norm x]"
  using push_skip push_add by blast

lemma push_distinct: "distinct (map key xs) \<Longrightarrow> distinct (map key (push xs x))"
  by (cases rule: push_cases [of x xs]) auto

lemma push_prefix: "\<exists>zs. push xs x = xs @ zs"
  by (cases rule: push_cases [of x xs]) auto

lemma push_keys:
  "key ` set (push xs x) = key ` set xs \<union> (if ok (norm x) then {key (norm x)} else {})"
  by (cases rule: push_cases [of x xs]) auto

lemma push_set: "set (push xs x) \<subseteq> set xs \<union> (if ok (norm x) then {norm x} else {})"
  by (cases rule: push_cases [of x xs]) auto

lemma push_twice: "push (push xs x) x = push xs x"
proof (cases rule: push_cases [of x xs])
  case skip
  then show ?thesis by simp
next
  case add
  then have "key (norm x) \<in> key ` set (push xs x)" by simp
  then show ?thesis by (rule push_skip [OF disjI2])
qed

lemma fold_distinct: "distinct (map key xs) \<Longrightarrow> distinct (map key (foldl push xs ys))"
  by (induction ys arbitrary: xs) (simp_all add: push_distinct)

lemma fold_prefix: "\<exists>zs. foldl push xs ys = xs @ zs"
proof (induction ys arbitrary: xs)
  case (Cons y ys)
  obtain zs where "push xs y = xs @ zs" using push_prefix by blast
  moreover obtain ws where "foldl push (push xs y) ys = push xs y @ ws" using Cons by blast
  ultimately show ?case by simp
qed simp

lemma fold_keys:
  "key ` set (foldl push xs ys) = key ` set xs \<union> key ` {z \<in> norm ` set ys. ok z}"
  by (induction ys arbitrary: xs) (auto simp: push_keys)

lemma fold_set: "set (foldl push xs ys) \<subseteq> set xs \<union> {z \<in> norm ` set ys. ok z}"
proof (induction ys arbitrary: xs)
  case (Cons y ys)
  have "set (foldl push (push xs y) ys) \<subseteq> set (push xs y) \<union> {z \<in> norm ` set ys. ok z}"
    by (rule Cons.IH)
  with push_set [of xs y] show ?case by (auto split: if_splits)
qed simp

lemma fold_id:
  "distinct (map key ys) \<Longrightarrow> (\<forall>y \<in> set ys. norm y = y \<and> ok y \<and> key y \<notin> key ` set xs) \<Longrightarrow>
     foldl push xs ys = xs @ ys"
proof (induction ys arbitrary: xs)
  case (Cons y ys)
  then have "push xs y = xs @ [y]" using push_add [of y xs] by simp
  moreover have "foldl push (xs @ [y]) ys = (xs @ [y]) @ ys"
    by (rule Cons.IH) (use Cons.prems in \<open>auto simp: image_iff\<close>)
  ultimately show ?case by simp
qed simp

end

text \<open>With the identity as key, the collected values are exactly the acceptable ones.\<close>

locale collect_once_id = collect_once norm "\<lambda>x. x" ok push
  for norm :: "'a \<Rightarrow> 'a" and ok :: "'a \<Rightarrow> bool" and push :: "'a list \<Rightarrow> 'a \<Rightarrow> 'a list"
begin

lemma fold_set_eq: "set (foldl push xs ys) = set xs \<union> {z \<in> norm ` set ys. ok z}"
  using fold_keys [of xs ys] by simp

lemma fold_distinct_id: "distinct xs \<Longrightarrow> distinct (foldl push xs ys)"
  using fold_distinct [of xs ys] by simp

end

end
