(* ===== verification/Routing_Profiles.thy ===== *)
theory Routing_Profiles
  imports Js_Lists Js_Text
begin

section \<open>Routing profiles (web/lib/routing-profiles.ts)\<close>

text \<open>
  The routing rules a VIP user keeps: reading a list of rules out of free text, counting and
  summarising the rules of a profile, and building the profile document that the Happ client
  imports. Of the pages, none calls \<^verbatim>\<open>buildHappRoutingProfile\<close>; the tests of the site do, and the VIP page
  exports a document of its own (\<open>exportToHapp\<close> in \<open>Vip_Section\<close>), with the rules that are switched off. A target array that a helper mutates is passed in and returned.
\<close>

datatype routing_action = Proxy | Direct

datatype routing_kind = System | Custom

record routing_profile =
  rp_id :: int
  rp_name :: jsstr
  rp_code :: jsstr
  rp_kind :: routing_kind
  rp_action :: routing_action
  rp_enabled :: bool
  rp_description :: jsstr
  rp_domains :: "jsstr list option"
  rp_domain_suffixes :: "jsstr list option"
  rp_cidrs :: "jsstr list option"
  rp_already_added :: "bool option"

record routing_rule_counts =
  rc_domains :: nat
  rc_suffixes :: nat
  rc_cidrs :: nat
  rc_total :: nat

record happ_routing_profile =
  h_Name :: jsstr
  h_GlobalProxy :: jsstr
  h_RouteOrder :: jsstr
  h_RemoteDNSType :: jsstr
  h_RemoteDNSDomain :: jsstr
  h_RemoteDNSIP :: jsstr
  h_DomesticDNSType :: jsstr
  h_DomesticDNSDomain :: jsstr
  h_DomesticDNSIP :: jsstr
  h_Geoipurl :: jsstr
  h_Geositeurl :: jsstr
  h_LastUpdated :: jsstr
  h_DnsHosts :: "(jsstr \<times> jsstr) list"
  h_DirectSites :: "jsstr list"
  h_DirectIp :: "jsstr list"
  h_ProxySites :: "jsstr list"
  h_ProxyIp :: "jsstr list"
  h_BlockSites :: "jsstr list"
  h_BlockIp :: "jsstr list"
  h_DomainStrategy :: jsstr
  h_FakeDNS :: jsstr
  h_UseChunkFiles :: jsstr

definition happDefaultDirectIpRules :: "jsstr list" where
  "happDefaultDirectIpRules =
     [lit ''10.0.0.0/8'', lit ''172.16.0.0/12'', lit ''192.168.0.0/16'', lit ''169.254.0.0/16'',
      lit ''224.0.0.0/4'', lit ''255.255.255.255'']"

subsection \<open>Rules out of free text\<close>

text \<open>The character class \<^verbatim>\<open>[\s,;]\<close>.\<close>

definition is_rule_sep :: "code_unit \<Rightarrow> bool" where
  "is_rule_sep c \<longleftrightarrow> is_ws c \<or> c = 44 \<or> c = 59"

text \<open>The filter over the \<^verbatim>\<open>seen\<close> set.\<close>

fun keep_unseen :: "jsstr list \<Rightarrow> jsstr list \<Rightarrow> jsstr list" where
  "keep_unseen seen [] = []"
| "keep_unseen seen (item # items) =
     (if item \<in> set seen then keep_unseen seen items
      else item # keep_unseen (seen @ [item]) items)"

definition normalizeRuleText :: "jsstr \<Rightarrow> jsstr list" where
  "normalizeRuleText value =
     keep_unseen [] (filter truthy (map trim (split_runs is_rule_sep value)))"

subsection \<open>Counting and summarising\<close>

definition countRoutingRules :: "routing_profile \<Rightarrow> routing_rule_counts" where
  "countRoutingRules profile =
     (let domains = (case rp_domains profile of None \<Rightarrow> 0 | Some xs \<Rightarrow> length xs);
          suffixes = (case rp_domain_suffixes profile of None \<Rightarrow> 0 | Some xs \<Rightarrow> length xs);
          cidrs = (case rp_cidrs profile of None \<Rightarrow> 0 | Some xs \<Rightarrow> length xs)
      in \<lparr>rc_domains = domains, rc_suffixes = suffixes, rc_cidrs = cidrs,
          rc_total = domains + suffixes + cidrs\<rparr>)"

definition pluralRu :: "nat \<Rightarrow> jsstr \<Rightarrow> jsstr \<Rightarrow> jsstr \<Rightarrow> jsstr" where
  "pluralRu n one few many =
     (let mod10 = n mod 10; mod100 = n mod 100
      in if mod10 = 1 \<and> mod100 \<noteq> 11 then one
         else if mod10 \<ge> 2 \<and> mod10 \<le> 4 \<and> (mod100 < 10 \<or> mod100 \<ge> 20) then few
         else many)"

definition routingSummary :: "routing_profile \<Rightarrow> jsstr" where
  "routingSummary profile =
     (let counts = countRoutingRules profile
      in if rc_total counts = 0 then ru_no_rules
         else
           let parts0 = [];
               parts1 = (if rc_domains counts > 0
                 then parts0 @ [show_nat (rc_domains counts) @ lit '' '' @
                   pluralRu (rc_domains counts) ru_domain_one ru_domain_few ru_domain_many]
                 else parts0);
               parts2 = (if rc_suffixes counts > 0
                 then parts1 @ [show_nat (rc_suffixes counts) @ lit '' '' @
                   pluralRu (rc_suffixes counts) ru_zone_one ru_zone_few ru_zone_many]
                 else parts1);
               parts3 = (if rc_cidrs counts > 0
                 then parts2 @ [show_nat (rc_cidrs counts) @ lit '' IP''] else parts2)
           in join ru_dot_sep parts3)"

subsection \<open>The Happ profile\<close>

definition appendUnique :: "jsstr list \<Rightarrow> jsstr \<Rightarrow> jsstr list" where
  "appendUnique target value =
     (let normalized = trim value
      in if truthy normalized \<and> normalized \<notin> set target then target @ [normalized] else target)"

text \<open>\<^verbatim>\<open>s.replace(/^\./, "")\<close>\<close>

fun drop_leading_dot :: "jsstr \<Rightarrow> jsstr" where
  "drop_leading_dot [] = []"
| "drop_leading_dot (c # cs) = (if c = 46 then cs else c # cs)"

definition appendHappRules ::
    "routing_profile \<Rightarrow> jsstr list \<Rightarrow> jsstr list \<Rightarrow> jsstr list \<times> jsstr list" where
  "appendHappRules profile sites ips =
     (let sites1 = foldl (\<lambda>t domain. appendUnique t (lit ''full:'' @ domain)) sites
            (nullish (rp_domains profile) []);
          sites2 = foldl (\<lambda>t suffix.
              let normalized = drop_leading_dot (trim suffix)
              in if truthy normalized then appendUnique t (lit ''domain:'' @ normalized) else t)
            sites1 (nullish (rp_domain_suffixes profile) []);
          ips1 = foldl appendUnique ips (nullish (rp_cidrs profile) [])
      in (sites2, ips1))"

text \<open>The four arrays that the loop over the profiles fills: direct sites and IPs, proxy sites
  and IPs.\<close>

definition happ_step ::
    "jsstr list \<times> jsstr list \<times> jsstr list \<times> jsstr list \<Rightarrow> routing_profile
      \<Rightarrow> jsstr list \<times> jsstr list \<times> jsstr list \<times> jsstr list" where
  "happ_step acc profile =
     (case acc of (directSites, directIp, proxySites, proxyIp) \<Rightarrow>
        if rp_action profile = Proxy
        then let (s, i) = appendHappRules profile proxySites proxyIp
             in (directSites, directIp, s, i)
        else let (s, i) = appendHappRules profile directSites directIp
             in (s, i, proxySites, proxyIp))"

definition buildHappRoutingProfile :: "routing_profile list \<Rightarrow> int \<Rightarrow> happ_routing_profile" where
  "buildHappRoutingProfile profiles nowUnix =
     (case foldl happ_step ([], happDefaultDirectIpRules, [], [])
             (filter (\<lambda>p. rp_kind p = Custom \<and> rp_enabled p) profiles)
      of (directSites, directIp, proxySites, proxyIp) \<Rightarrow>
        \<lparr>h_Name = lit ''FBLink VPN'', h_GlobalProxy = lit ''true'',
         h_RouteOrder = lit ''block-proxy-direct'', h_RemoteDNSType = lit ''DoH'',
         h_RemoteDNSDomain = lit ''https://cloudflare-dns.com/dns-query'',
         h_RemoteDNSIP = lit ''1.1.1.1'', h_DomesticDNSType = lit ''DoH'',
         h_DomesticDNSDomain = lit ''https://dns.google/dns-query'',
         h_DomesticDNSIP = lit ''8.8.8.8'',
         h_Geoipurl = lit ''https://github.com/Loyalsoldier/v2ray-rules-dat/releases/latest/download/geoip.dat'',
         h_Geositeurl = lit ''https://github.com/Loyalsoldier/v2ray-rules-dat/releases/latest/download/geosite.dat'',
         h_LastUpdated = show_int nowUnix,
         h_DnsHosts = [(lit ''cloudflare-dns.com'', lit ''1.1.1.1''),
                       (lit ''dns.google'', lit ''8.8.8.8'')],
         h_DirectSites = directSites, h_DirectIp = directIp,
         h_ProxySites = proxySites, h_ProxyIp = proxyIp,
         h_BlockSites = [], h_BlockIp = [],
         h_DomainStrategy = lit ''IPIfNonMatch'', h_FakeDNS = lit ''false'',
         h_UseChunkFiles = lit ''true''\<rparr>)"

subsection \<open>Reading rules: lemmas\<close>

lemma ws_is_sep: "is_ws c \<Longrightarrow> is_rule_sep c"
  by (simp add: is_rule_sep_def)

text \<open>The filter over the seen set collects each item once.\<close>

definition push_unseen :: "jsstr list \<Rightarrow> jsstr \<Rightarrow> jsstr list" where
  "push_unseen xs x = (if x \<in> set xs then xs else xs @ [x])"

interpretation unseen: collect_once_id "\<lambda>x. x" "\<lambda>x. True" push_unseen
  by unfold_locales (auto simp: push_unseen_def)

lemma keep_unseen_fold: "seen @ keep_unseen seen items = foldl push_unseen seen items"
  by (induction seen items rule: keep_unseen.induct) (simp_all add: push_unseen_def)

lemma normalizeRuleText_fold:
  "normalizeRuleText value =
     foldl push_unseen [] (filter truthy (map trim (split_runs is_rule_sep value)))"
  using keep_unseen_fold [of "[]"] by (simp add: normalizeRuleText_def)

lemma trim_piece: "w \<in> set (split_runs is_rule_sep s) \<Longrightarrow> trim w = w"
  using split_runs_no_sep ws_is_sep by (intro trim_no_ws) blast

lemma map_trim_pieces: "map trim (split_runs is_rule_sep s) = split_runs is_rule_sep s"
  by (rule map_idI) (rule trim_piece)

lemma set_normalizeRuleText:
  "set (normalizeRuleText s) = {w \<in> set (split_runs is_rule_sep s). w \<noteq> []}"
  by (simp add: normalizeRuleText_fold map_trim_pieces unseen.fold_set_eq)

subsection \<open>The Happ profile: lemmas\<close>

interpretation unique: collect_once_id trim "\<lambda>s. s \<noteq> []" appendUnique
  by unfold_locales (auto simp: appendUnique_def Let_def)

text \<open>What a profile contributes, as lists of values handed to \<^const>\<open>appendUnique\<close>.\<close>

definition happ_site_values :: "routing_profile \<Rightarrow> jsstr list" where
  "happ_site_values p =
     map (\<lambda>d. lit ''full:'' @ d) (nullish (rp_domains p) []) @
     map (\<lambda>n. lit ''domain:'' @ n)
       (filter truthy (map (\<lambda>s. drop_leading_dot (trim s)) (nullish (rp_domain_suffixes p) [])))"

definition happ_ip_values :: "routing_profile \<Rightarrow> jsstr list" where
  "happ_ip_values p = nullish (rp_cidrs p) []"

lemma foldl_filter_if: "foldl f a (filter P xs) = foldl (\<lambda>t x. if P x then f t x else t) a xs"
  by (induction xs arbitrary: a) simp_all

lemma appendHappRules_fold:
  "appendHappRules p sites ips =
     (foldl appendUnique sites (happ_site_values p), foldl appendUnique ips (happ_ip_values p))"
  by (simp add: appendHappRules_def happ_site_values_def happ_ip_values_def Let_def foldl_map
      foldl_filter_if)

definition with_action :: "routing_action \<Rightarrow> routing_profile list \<Rightarrow> routing_profile list" where
  "with_action a ps = filter (\<lambda>p. rp_action p = a) ps"

lemma happ_fold:
  "foldl happ_step (ds, di, xs, xi) ps =
     (foldl appendUnique ds (concat (map happ_site_values (with_action Direct ps))),
      foldl appendUnique di (concat (map happ_ip_values (with_action Direct ps))),
      foldl appendUnique xs (concat (map happ_site_values (with_action Proxy ps))),
      foldl appendUnique xi (concat (map happ_ip_values (with_action Proxy ps))))"
proof (induction ps arbitrary: ds di xs xi)
  case (Cons p ps)
  then show ?case
    by (cases "rp_action p") (simp_all add: happ_step_def appendHappRules_fold with_action_def)
qed (simp add: with_action_def)

abbreviation exported :: "routing_profile list \<Rightarrow> routing_profile list" where
  "exported ps \<equiv> filter (\<lambda>p. rp_kind p = Custom \<and> rp_enabled p) ps"

lemma happ_fields:
  "h_DirectSites (buildHappRoutingProfile ps t) =
     foldl appendUnique [] (concat (map happ_site_values (with_action Direct (exported ps))))"
  "h_DirectIp (buildHappRoutingProfile ps t) =
     foldl appendUnique happDefaultDirectIpRules
       (concat (map happ_ip_values (with_action Direct (exported ps))))"
  "h_ProxySites (buildHappRoutingProfile ps t) =
     foldl appendUnique [] (concat (map happ_site_values (with_action Proxy (exported ps))))"
  "h_ProxyIp (buildHappRoutingProfile ps t) =
     foldl appendUnique [] (concat (map happ_ip_values (with_action Proxy (exported ps))))"
  by (simp_all add: buildHappRoutingProfile_def happ_fold)

lemma trim_keeps_head: "\<not> is_ws c \<Longrightarrow> trim (c # s) \<noteq> []"
proof -
  assume "\<not> is_ws c"
  then have "c \<in> set (dropWhile is_ws (rev (c # s)))" by (induction s rule: rev_induct) auto
  with \<open>\<not> is_ws c\<close> show ?thesis by (auto simp: trim_def trim_start_def trim_end_def)
qed

lemma trim_site_value: "v \<in> set (happ_site_values p) \<Longrightarrow> trim v \<noteq> []"
proof -
  have "\<not> is_ws 102" "\<not> is_ws 100" by (simp_all add: is_ws_def)
  then show "v \<in> set (happ_site_values p) \<Longrightarrow> trim v \<noteq> []"
    by (auto simp: happ_site_values_def lit_Cons trim_keeps_head)
qed

lemma distinct_defaults: "distinct happDefaultDirectIpRules"
  by (simp add: happDefaultDirectIpRules_def)

subsection \<open>Properties\<close>

text \<open>C28: \<open>normalizeRuleText\<close> reads exactly the rules of the text: its result holds no rule twice,
  and a string is in it exactly when it is a maximal non-empty run of characters other than
  white space, comma and semicolon.\<close>

theorem normalizeRuleText_tokens:
  "distinct (normalizeRuleText s) \<and> set (normalizeRuleText s) = {w. is_token is_rule_sep s w}"
proof
  show "distinct (normalizeRuleText s)"
    by (simp add: normalizeRuleText_fold unseen.fold_distinct_id)
  show "set (normalizeRuleText s) = {w. is_token is_rule_sep s w}"
    by (simp add: set_normalizeRuleText split_runs_tokens)
qed

text \<open>Saving what was read gives the same rules again: writing the rules of a text one per
  line and reading them back changes nothing.\<close>

lemma normalizeRuleText_roundtrip:
  "normalizeRuleText (join nl (normalizeRuleText s)) = normalizeRuleText s"
proof -
  let ?ws = "normalizeRuleText s"
  have ws: "\<forall>w \<in> set ?ws. w \<noteq> [] \<and> (\<forall>c \<in> set w. \<not> is_rule_sep c)"
    using split_runs_no_sep by (auto simp: set_normalizeRuleText)
  have sep: "is_rule_sep 10" by (simp add: is_rule_sep_def is_ws_def)
  show ?thesis
  proof (cases "?ws = []")
    case True
    then show ?thesis by (simp add: normalizeRuleText_def)
  next
    case False
    then have "split_runs is_rule_sep (join [10] ?ws) = ?ws"
      using split_runs_join ws sep by blast
    then have "normalizeRuleText (join [10] ?ws) = foldl push_unseen [] (filter truthy ?ws)"
      by (metis map_trim_pieces normalizeRuleText_fold)
    also have "filter truthy ?ws = ?ws" using ws by (simp add: filter_id_conv)
    also have "foldl push_unseen [] ?ws = ?ws"
      using unseen.fold_id [of ?ws "[]"] by (simp add: normalizeRuleText_fold unseen.fold_distinct_id)
    finally show ?thesis by simp
  qed
qed

text \<open>C7: the Happ document that \<^verbatim>\<open>buildHappRoutingProfile\<close> of the library builds is exactly what the enabled
  custom profiles ask for (the export of the VIP page builds its own document, in \<open>Vip_Section\<close>): the four
  rule lists hold no rule twice, a site or address is sent through the proxy (or directly)
  exactly when an enabled custom profile with that action lists it, and the private address
  ranges always stay direct, ahead of every other direct address.\<close>

theorem buildHappRoutingProfile_exact:
  fixes ps :: "routing_profile list" and now :: int
  defines "h \<equiv> buildHappRoutingProfile ps now"
  defines "chosen \<equiv> \<lambda>a. {p \<in> set ps. rp_kind p = Custom \<and> rp_enabled p \<and> rp_action p = a}"
  shows "distinct (h_DirectSites h) \<and> distinct (h_ProxySites h) \<and>
      distinct (h_DirectIp h) \<and> distinct (h_ProxyIp h) \<and>
      set (h_DirectSites h) = (\<Union>p \<in> chosen Direct. trim ` set (happ_site_values p)) \<and>
      set (h_ProxySites h) = (\<Union>p \<in> chosen Proxy. trim ` set (happ_site_values p)) \<and>
      set (h_DirectIp h) = set happDefaultDirectIpRules \<union>
        (\<Union>p \<in> chosen Direct. trim ` set (happ_ip_values p) - {[]}) \<and>
      set (h_ProxyIp h) = (\<Union>p \<in> chosen Proxy. trim ` set (happ_ip_values p) - {[]}) \<and>
      take (length happDefaultDirectIpRules) (h_DirectIp h) = happDefaultDirectIpRules"
proof -
  obtain zs where "h_DirectIp h = happDefaultDirectIpRules @ zs"
    unfolding h_def happ_fields using unique.fold_prefix by blast
  then have "take (length happDefaultDirectIpRules) (h_DirectIp h) = happDefaultDirectIpRules"
    by simp
  moreover have "distinct (h_DirectSites h)" "distinct (h_ProxySites h)" "distinct (h_DirectIp h)"
    "distinct (h_ProxyIp h)"
    by (simp_all add: h_def happ_fields unique.fold_distinct_id distinct_defaults)
  moreover have "set (h_DirectSites h) = (\<Union>p \<in> chosen Direct. trim ` set (happ_site_values p))"
    "set (h_ProxySites h) = (\<Union>p \<in> chosen Proxy. trim ` set (happ_site_values p))"
    using trim_site_value
    by (fastforce simp: h_def chosen_def happ_fields unique.fold_set_eq with_action_def)+
  moreover have "set (h_DirectIp h) = set happDefaultDirectIpRules \<union>
      (\<Union>p \<in> chosen Direct. trim ` set (happ_ip_values p) - {[]})"
    "set (h_ProxyIp h) = (\<Union>p \<in> chosen Proxy. trim ` set (happ_ip_values p) - {[]})"
    by (auto simp: h_def chosen_def happ_fields unique.fold_set_eq with_action_def)
  ultimately show ?thesis by blast
qed

text \<open>The plural form chosen for a count is the one of the Russian plural rule: singular for
  counts ending in 1 but not 11, paucal for counts ending in 2, 3 or 4 but not 12, 13 or 14,
  and the genitive plural for all others.\<close>

lemma pluralRu_rule:
  "pluralRu n one few many =
     (if n mod 10 = 1 \<and> n mod 100 \<noteq> 11 then one
      else if n mod 10 \<in> {2, 3, 4} \<and> n mod 100 \<notin> {12, 13, 14} then few else many)"
proof -
  define k r where "k = n mod 100 div 10" and "r = n mod 100 mod 10"
  have r: "n mod 10 = r" "r < 10" by (simp_all add: r_def mod_mod_cancel)
  have n: "n mod 100 = 10 * k + r" unfolding k_def r_def by (rule mult_div_mod_eq [symmetric])
  have "(2 \<le> r \<and> r \<le> 4 \<and> (10 * k + r < 10 \<or> 20 \<le> 10 * k + r)) \<longleftrightarrow>
      (r = 2 \<or> r = 3 \<or> r = 4) \<and> 10 * k + r \<noteq> 12 \<and> 10 * k + r \<noteq> 13 \<and> 10 * k + r \<noteq> 14"
    using r(2) by presburger
  then show ?thesis by (simp add: pluralRu_def Let_def r(1) n)
qed

text \<open>The summary says "no rules" exactly for a profile without any rule.\<close>

lemma routingSummary_no_rules:
  "routingSummary p = ru_no_rules \<longleftrightarrow>
     nullish (rp_domains p) [] = [] \<and> nullish (rp_domain_suffixes p) [] = [] \<and>
     nullish (rp_cidrs p) [] = []"
proof -
  let ?c = "countRoutingRules p"
  have digit: "show_nat n @ xs \<noteq> ru_no_rules" for n xs
  proof
    assume eq: "show_nat n @ xs = ru_no_rules"
    then have "hd (show_nat n) = hd ru_no_rules" by (metis hd_append2 show_nat_nonempty)
    moreover have "hd (show_nat n) \<in> set (show_nat n)" by simp
    ultimately show False using show_nat_digits [of "hd ru_no_rules" n] by (simp add: ru_no_rules_def)
  qed
  have "rc_total ?c = 0 \<longleftrightarrow> nullish (rp_domains p) [] = [] \<and>
      nullish (rp_domain_suffixes p) [] = [] \<and> nullish (rp_cidrs p) [] = []"
    by (auto simp: countRoutingRules_def Let_def split: option.splits)
  moreover have "routingSummary p = ru_no_rules \<longleftrightarrow> rc_total ?c = 0"
  proof (cases "rc_total ?c = 0")
    case True
    then show ?thesis by (simp add: routingSummary_def)
  next
    case False
    then have "rc_domains ?c > 0 \<or> rc_suffixes ?c > 0 \<or> rc_cidrs ?c > 0"
      by (simp add: countRoutingRules_def Let_def)
    with False show ?thesis by (auto simp: routingSummary_def Let_def digit)
  qed
  ultimately show ?thesis by simp
qed

end
