(* ===== verification/Installer_Api.thy ===== *)
theory Installer_Api
  imports Js_Effects Js_Text Js_Lists
begin

section \<open>The installer framework, as the installer scripts see it\<close>

text \<open>
  The two scripts of \<^verbatim>\<open>src/deploy/installer\<close> run inside the Qt Installer Framework. The framework,
  the operating system and the user are parameters: a record of functions over a type of worlds
  \<^typ>\<open>'w\<close>, which give the answers and the world after each call. What a script does is recorded in
  order in a log of effects; \<^verbatim>\<open>console.log\<close> is left out. The script's own global
  variables are part of the state. The logic of \<open>Js_Effects\<close> gets a rule for each call of the
  framework here, and a logic of its own for what a result is a proof of: \<open>warrants v D m\<close> says that when
  \<open>m\<close> returns \<open>v\<close>, it has met an effect that satisfies \<open>D\<close> on the way.
\<close>

subsection \<open>Characters of command lines\<close>

abbreviation bs :: jsstr where "bs \<equiv> [92]"

abbreviation dq :: jsstr where "dq \<equiv> [34]"

abbreviation sq :: jsstr where "sq \<equiv> [39]"

subsection \<open>Effects\<close>

text \<open>\<^verbatim>\<open>installer.execute\<close> returns an array with the output and the exit code, which is empty when the
  program cannot be started.\<close>

type_synonym exec_result = "(jsstr \<times> int) option"

datatype dialog = Information | Warning | Critical

datatype answer = Ok | Cancel | Retry | Abort | Yes | No

datatype page = IntroductionPage | TargetDirectory | ComponentSelection | LicenseCheck |
  StartMenuSelection | StartMenuDirectoryPage | ReadyForInstallation | PerformInstallation | FinishedPage

datatype wizard_button = NextButton | FinishButton | CancelButton | CommitButton

datatype ieffect =
    Executed jsstr "jsstr list" exec_result
  | Detached jsstr "jsstr list" jsstr
  | Slept nat
  | Dialog dialog jsstr jsstr "answer list" answer
  | SetValue jsstr jsstr
  | GainAdmin bool
  | DropAdmin
  | BaseOperations
  | ElevatedOperation "jsstr list"
  | WizardPage jsstr page bool
  | PageVisible page bool
  | Click wizard_button
  | WidgetSet jsstr jsstr jsstr
  | Connected jsstr
  | Disconnected jsstr
  | AutoAnswer jsstr answer
  | AutoAccept
  | SetCancelled

record 'w ifw =
  ifw_kernelType :: jsstr
  ifw_cpu :: jsstr
  ifw_isInstaller :: bool
  ifw_isUpdater :: bool
  ifw_isUninstaller :: bool
  ifw_success :: "'w \<Rightarrow> bool"
  ifw_value :: "'w \<Rightarrow> jsstr \<Rightarrow> jsstr"
  ifw_environment :: "'w \<Rightarrow> jsstr \<Rightarrow> jsstr"
  ifw_findPath :: "'w \<Rightarrow> jsstr \<Rightarrow> jsstr list \<Rightarrow> jsstr"
  ifw_fileExists :: "'w \<Rightarrow> jsstr option \<Rightarrow> bool"
  ifw_widget :: "'w \<Rightarrow> jsstr \<Rightarrow> bool"
  ifw_targetText :: "'w \<Rightarrow> jsstr option"
  ifw_execute :: "jsstr \<Rightarrow> jsstr list \<Rightarrow> 'w \<Rightarrow> exec_result \<times> 'w"
  ifw_answer :: "dialog \<Rightarrow> jsstr \<Rightarrow> jsstr \<Rightarrow> answer list \<Rightarrow> 'w \<Rightarrow> answer \<times> 'w"
  ifw_gainAdmin :: "'w \<Rightarrow> bool \<times> 'w"
  ifw_addWizardPage :: "jsstr \<Rightarrow> page \<Rightarrow> 'w \<Rightarrow> bool \<times> 'w"
  ifw_act :: "ieffect \<Rightarrow> 'w \<Rightarrow> 'w"
  ifw_tr :: "jsstr \<Rightarrow> jsstr"
  ifw_number :: "rat \<Rightarrow> jsstr"
  ifw_toNumber :: "jsstr \<Rightarrow> rat option"
  ifw_JSON_parse :: "jsstr \<Rightarrow> json option"

text \<open>The global variables of the two scripts, which share none, beside the world.\<close>

record 'w script =
  sc_world :: 'w
  rebootMessageShown :: bool
  requestToQuitFromApp :: bool
  updaterCompleted :: nat
  desktopAppProcessRunning :: bool
  appInstalledUninstallerPath :: "jsstr option"
  appInstalledUninstallerPath_x86 :: "jsstr option"

type_synonym 'w ist = "('w script, ieffect) logged"

abbreviation world :: "'w ist \<Rightarrow> 'w" where
  "world s \<equiv> sc_world (sv_world s)"

definition script_start :: "'w \<Rightarrow> 'w ist" where
  "script_start w = \<lparr>sv_world = \<lparr>sc_world = w, rebootMessageShown = False, requestToQuitFromApp = False,
     updaterCompleted = 0, desktopAppProcessRunning = False, appInstalledUninstallerPath = None,
     appInstalledUninstallerPath_x86 = None\<rparr>, sv_log = []\<rparr>"

subsection \<open>Calls of the framework\<close>

definition record_effect :: "ieffect \<Rightarrow> 'w \<Rightarrow> 'w ist \<Rightarrow> 'w ist" where
  "record_effect e w s = s\<lparr>sv_world := (sv_world s)\<lparr>sc_world := w\<rparr>, sv_log := sv_log s @ [e]\<rparr>"

definition ask :: "('w \<Rightarrow> 'a) \<Rightarrow> ('w ist, 'a) prog" where
  "ask f = (\<lambda>s. (Inr (f (world s)), s))"

definition globals :: "('w script \<Rightarrow> 'a) \<Rightarrow> ('w ist, 'a) prog" where
  "globals f = (\<lambda>s. (Inr (f (sv_world s)), s))"

definition assign :: "('w script \<Rightarrow> 'w script) \<Rightarrow> ('w ist, unit) prog" where
  "assign f = (\<lambda>s. (Inr (), s\<lparr>sv_world := f (sv_world s)\<rparr>))"

definition act :: "'w ifw \<Rightarrow> ieffect \<Rightarrow> ('w ist, unit) prog" where
  "act I e = (\<lambda>s. (Inr (), record_effect e (ifw_act I e (world s)) s))"

definition execute :: "'w ifw \<Rightarrow> jsstr \<Rightarrow> jsstr list \<Rightarrow> ('w ist, exec_result) prog" where
  "execute I p args = (\<lambda>s. case ifw_execute I p args (world s) of
     (r, w) \<Rightarrow> (Inr r, record_effect (Executed p args r) w s))"

definition message_box :: "'w ifw \<Rightarrow> dialog \<Rightarrow> jsstr \<Rightarrow> jsstr \<Rightarrow> answer list \<Rightarrow> ('w ist, answer) prog" where
  "message_box I k title text buttons = (\<lambda>s. case ifw_answer I k title text buttons (world s) of
     (a, w) \<Rightarrow> (Inr a, record_effect (Dialog k title text buttons a) w s))"

definition gainAdminRights :: "'w ifw \<Rightarrow> ('w ist, bool) prog" where
  "gainAdminRights I = (\<lambda>s. case ifw_gainAdmin I (world s) of
     (b, w) \<Rightarrow> (Inr b, record_effect (GainAdmin b) w s))"

definition addWizardPage :: "'w ifw \<Rightarrow> jsstr \<Rightarrow> page \<Rightarrow> ('w ist, bool) prog" where
  "addWizardPage I n p = (\<lambda>s. case ifw_addWizardPage I n p (world s) of
     (b, w) \<Rightarrow> (Inr b, record_effect (WizardPage n p b) w s))"

text \<open>\<^verbatim>\<open>Number(result[1]) === n\<close> and \<^verbatim>\<open>String(result[0])\<close>.\<close>

definition exit_is :: "exec_result \<Rightarrow> int \<Rightarrow> bool" where
  "exit_is r n \<longleftrightarrow> (case r of None \<Rightarrow> False | Some (_, c) \<Rightarrow> c = n)"

definition output_of :: "exec_result \<Rightarrow> jsstr" where
  "output_of r = (case r of None \<Rightarrow> lit ''undefined'' | Some (out, _) \<Rightarrow> out)"

text \<open>\<^verbatim>\<open>s.arg(v)\<close>: the place markers \<^verbatim>\<open>%1\<close> to \<^verbatim>\<open>%99\<close> with the lowest number that occurs become
  \<open>v\<close>.\<close>

definition marker :: "jsstr \<Rightarrow> (nat \<times> nat) option" where
  "marker s = (case s of
     c # a # r \<Rightarrow> if c = 37 \<and> 48 \<le> a \<and> a \<le> 57 then
        (case r of
           b # _ \<Rightarrow> if 48 \<le> b \<and> b \<le> 57 then Some (10 * (a - 48) + (b - 48), 3) else Some (a - 48, 2)
         | [] \<Rightarrow> Some (a - 48, 2))
      else None
   | _ \<Rightarrow> None)"

fun markers :: "jsstr \<Rightarrow> nat list" where
  "markers [] = []"
| "markers (c # s) = (case marker (c # s) of
     Some (n, _) \<Rightarrow> if n = 0 then markers s else n # markers s | None \<Rightarrow> markers s)"

function substitute :: "nat \<Rightarrow> jsstr \<Rightarrow> jsstr \<Rightarrow> jsstr" where
  "substitute n v s = (case s of [] \<Rightarrow> [] | c # t \<Rightarrow>
     (case marker s of
        Some (m, k) \<Rightarrow> if m = n then v @ substitute n v (drop (k - 1) t) else c # substitute n v t
      | None \<Rightarrow> c # substitute n v t))"
  by pat_completeness auto
termination by (relation "measure (\<lambda>(_, _, s). length s)") auto

definition arg :: "jsstr \<Rightarrow> jsstr \<Rightarrow> jsstr" where
  "arg s v = (case markers s of [] \<Rightarrow> s | ns \<Rightarrow> substitute (Min (set ns)) v s)"

subsection \<open>Waiting\<close>

text \<open>\<^verbatim>\<open>sleep(ms)\<close> reads the clock until it is past the start by more than \<open>ms\<close>. \<open>clock i\<close> is the
  \<open>i\<close>-th reading; the result is the number of the reading that ends the loop, \<^const>\<open>None\<close> when none does.\<close>

partial_function (option) busy_wait :: "(nat \<Rightarrow> int) \<Rightarrow> int \<Rightarrow> nat \<Rightarrow> nat option" where
  "busy_wait clock deadline i = (if deadline \<ge> clock i then busy_wait clock deadline (Suc i) else Some i)"

definition sleep :: "(nat \<Rightarrow> int) \<Rightarrow> nat \<Rightarrow> nat option" where
  "sleep clock milliseconds = busy_wait clock (clock 0 + int milliseconds) 1"

lemmas busy_wait_unfold = busy_wait.simps

lemma busy_wait_finds:
  "\<forall>k. i \<le> k \<and> k < j \<longrightarrow> clock k \<le> d \<Longrightarrow> i \<le> j \<Longrightarrow> d < clock j \<Longrightarrow> busy_wait clock d i = Some j"
proof (induction "j - i" arbitrary: i)
  case 0
  then show ?case by (simp add: busy_wait_unfold)
next
  case (Suc n)
  then have "clock i \<le> d" "busy_wait clock d (Suc i) = Some j" by auto
  then show ?case by (simp add: busy_wait_unfold [of _ _ i])
qed

text \<open>In the programs a wait is the effect \<^const>\<open>Slept\<close>, during which the world may change.\<close>

abbreviation sleep_for :: "'w ifw \<Rightarrow> nat \<Rightarrow> ('w ist, unit) prog" where
  "sleep_for I n \<equiv> act I (Slept n)"

text \<open>\<^verbatim>\<open>for (i = 0; i < n; ++i) { if (probe()) return true; sleep(ms); } return false\<close>\<close>

fun poll :: "'w ifw \<Rightarrow> nat \<Rightarrow> ('w ist, bool) prog \<Rightarrow> nat \<Rightarrow> ('w ist, bool) prog" where
  "poll I 0 probe ms = ret False"
| "poll I (Suc n) probe ms = bindp probe (\<lambda>b. if b then ret True else thenp (sleep_for I ms) (poll I n probe ms))"

subsection \<open>Rules for the calls\<close>

lemma record_effect_sel [simp]:
  "world (record_effect e w s) = w" "sv_log (record_effect e w s) = sv_log s @ [e]"
  by (simp_all add: record_effect_def)

lemma effects_calls [effect_rules]:
  "effects Q (ask f)" "effects Q (globals g)" "effects Q (assign h)"
  "Q e \<Longrightarrow> effects Q (act I e)"
  "(\<And>r. Q (Executed p args r)) \<Longrightarrow> effects Q (execute I p args)"
  "(\<And>a. Q (Dialog k title t buttons a)) \<Longrightarrow> effects Q (message_box I k title t buttons)"
  "(\<And>b. Q (GainAdmin b)) \<Longrightarrow> effects Q (gainAdminRights I)"
  "(\<And>b. Q (WizardPage n pg b)) \<Longrightarrow> effects Q (addWizardPage I n pg)"
  by (auto simp: effects_def ask_def globals_def assign_def act_def execute_def message_box_def
      gainAdminRights_def addWizardPage_def split: prod.splits)

lemma costs_calls:
  "costs c 0 (ask f)" "costs c 0 (globals g)" "costs c 0 (assign h)"
  "costs c (c e) (act I e)"
  "(\<And>r. c (Executed p args r) \<le> n) \<Longrightarrow> costs c n (execute I p args)"
  "(\<And>a. c (Dialog k title t buttons a) \<le> n) \<Longrightarrow> costs c n (message_box I k title t buttons)"
  by (auto simp: costs_def ask_def globals_def assign_def act_def execute_def message_box_def
      split: prod.splits)

lemma effects_poll [effect_rules]:
  "effects Q probe \<Longrightarrow> Q (Slept ms) \<Longrightarrow> effects Q (poll I n probe ms)"
  by (induction n) (auto intro!: effect_rules)

lemma costs_poll:
  assumes "costs c k probe" "c (Slept ms) \<le> j"
  shows "costs c (n * (k + j)) (poll I n probe ms)"
proof (induction n)
  case 0
  then show ?case by (simp add: counts_pure)
next
  case (Suc n)
  have "costs c (k + (j + n * (k + j))) (poll I (Suc n) probe ms)"
    unfolding poll.simps
    by (intro counts_bindp counts_if assms(1) counts_pure counts_thenp Suc
        counts_weaken [OF costs_calls(4) [of c "Slept ms"] assms(2)])
  then show ?case by (simp add: algebra_simps)
qed

subsection \<open>What a result is a proof of\<close>

definition warrants :: "'a \<Rightarrow> ('x \<Rightarrow> bool) \<Rightarrow> (('w, 'x) logged, 'a) prog \<Rightarrow> bool" where
  "warrants v D m \<longleftrightarrow> traces (\<lambda>r new. r = Inr v \<longrightarrow> (\<exists>e \<in> set new. D e)) m"

named_theorems warrant_rules "what a result of a program is a proof of"

abbreviation grows :: "(('w, 'x) logged, 'a) prog \<Rightarrow> bool" where
  "grows \<equiv> effects (\<lambda>_. True)"

lemma warrants_ret [warrant_rules]: "x \<noteq> v \<Longrightarrow> warrants v D (ret x)"
  by (simp add: warrants_def traces_ret)

lemma warrants_if [warrant_rules]:
  "(b \<Longrightarrow> warrants v D m) \<Longrightarrow> (\<not> b \<Longrightarrow> warrants v D n) \<Longrightarrow> warrants v D (if b then m else n)"
  by simp

text \<open>What the last part of a program warrants, the whole does.\<close>

lemma warrants_bindp [warrant_rules]:
  "grows m \<Longrightarrow> (\<And>x. warrants v D (f x)) \<Longrightarrow> warrants v D (bindp m f)"
  unfolding warrants_def
  by (rule traces_bindp [where P = "\<lambda>_ _. True" and Q = "\<lambda>_ r new. r = Inr v \<longrightarrow> (\<exists>e \<in> set new. D e)"])
    (auto dest: traces_effects)

lemma warrants_thenp [warrant_rules]: "grows m \<Longrightarrow> warrants v D n \<Longrightarrow> warrants v D (thenp m n)"
  unfolding thenp_def by (rule warrants_bindp)

text \<open>A probe that answers \<open>b\<close> warrants what follows on that answer.\<close>

lemma warrants_branch:
  assumes m: "warrants b D m" and f: "\<And>x. x \<noteq> b \<Longrightarrow> warrants v D (f x)" and fb: "grows (f b)"
  shows "warrants v D (bindp m f)"
proof -
  have "traces (\<lambda>r new. x \<noteq> b \<longrightarrow> r = Inr v \<longrightarrow> (\<exists>e \<in> set new. D e)) (f x)" for x
    using f [of x] traces_effects [OF fb] unfolding warrants_def
    by (cases "x = b") (auto elim: traces_weaken)
  then show ?thesis
    unfolding warrants_def by (rule traces_bindp [OF m [unfolded warrants_def]]) auto
qed

lemma warrants_poll [warrant_rules]:
  "warrants True D probe \<Longrightarrow> grows probe \<Longrightarrow> warrants True D (poll I n probe ms)"
proof (induction n)
  case (Suc n)
  then show ?case unfolding poll.simps
    by (intro warrants_branch [where b = True]) (simp_all add: warrants_thenp effects_calls effects_pure)
qed (simp add: warrants_ret)

text \<open>A program whose effects include one that satisfies \<open>D\<close> whenever it ends warrants what follows.\<close>

lemma warrants_before:
  assumes "warrants () D m" "grows n"
  shows "warrants v D (thenp m n)"
  unfolding thenp_def by (rule warrants_branch [OF assms(1)]) (simp_all add: assms(2))

lemma warrants_exit:
  "(\<And>r. exit_is r 0 \<Longrightarrow> D (Executed p args r)) \<Longrightarrow> warrants True D (bindp (execute I p args) (\<lambda>r. ret (exit_is r 0)))"
  by (auto simp: warrants_def traces_def bindp_run execute_def ret_run split: prod.splits)

lemma warrants_message_box:
  "(\<And>a. D (Dialog k title t buttons a)) \<Longrightarrow> warrants () D (bindp (message_box I k title t buttons) (\<lambda>_. ret ()))"
  by (auto simp: warrants_def traces_def bindp_run message_box_def ret_run split: prod.splits)

text \<open>C30: \<^verbatim>\<open>sleep(ms)\<close> returns whenever the clock gets far enough: it stops at the first reading that is more
  than \<open>ms\<close> past the start, so at least \<open>ms\<close> milliseconds went by and no earlier reading showed that.\<close>

theorem sleep_returns:
  assumes progress: "\<exists>i > 0. clock 0 + int ms < clock i"
  shows "\<exists>i. sleep clock ms = Some i \<and> int ms < clock i - clock 0 \<and>
    (\<forall>k. 0 < k \<and> k < i \<longrightarrow> clock k - clock 0 \<le> int ms)"
proof -
  define j where "j = (LEAST i. 0 < i \<and> clock 0 + int ms < clock i)"
  have j: "0 < j" "clock 0 + int ms < clock j" and least: "\<And>k. 0 < k \<Longrightarrow> k < j \<Longrightarrow> clock k \<le> clock 0 + int ms"
    using LeastI_ex [OF progress] not_less_Least [of _ "\<lambda>i. 0 < i \<and> clock 0 + int ms < clock i"]
    unfolding j_def by (auto simp: not_less)
  have "sleep clock ms = Some j"
    unfolding sleep_def by (rule busy_wait_finds) (use j least in auto)
  with j least show ?thesis by (intro exI [of _ j]) (auto simp: algebra_simps)
qed

theorem sleep_returns_witness:
  "sleep (\<lambda>i. 40 * int i) 100 = Some 3 \<and>
   (\<exists>i. sleep (\<lambda>i. 40 * int i) 100 = Some i \<and> int 100 < 40 * int i - 40 * int 0 \<and>
     (\<forall>k. 0 < k \<and> k < i \<longrightarrow> 40 * int k - 40 * int 0 \<le> int 100))"
proof -
  have "\<exists>i > 0. 40 * int 0 + int 100 < 40 * int i" by (rule exI [of _ 3]) simp
  from sleep_returns [where clock = "\<lambda>i. 40 * int i", OF this]
  show ?thesis by (simp add: sleep_def busy_wait_unfold)
qed

end
