(* ===== verification/Installer_Component.thy ===== *)
theory Installer_Component
  imports Installer_Api
begin

section \<open>The component script of the installer\<close>

text \<open>
  \<^verbatim>\<open>meta/componentscript.js\<close>: what the installer does with the Windows service of the client. It
  recognises the path of the service's program in the output of \<^verbatim>\<open>sc\<close> and PowerShell, registers the
  service when it is missing or points elsewhere, in several ways one after the other, starts
  it, and starts the client when that worked. The regular expressions are matchers on lists of
  code units. Lower case is that of ASCII and Cyrillic letters, in paths too.
\<close>

subsection \<open>Names\<close>

definition appName :: "'w ifw \<Rightarrow> 'w \<Rightarrow> jsstr" where
  "appName I w = ifw_value I w (lit ''Name'')"

definition appLinkName :: "'w ifw \<Rightarrow> 'w \<Rightarrow> jsstr" where
  "appLinkName I w = (let title = ifw_value I w (lit ''Title'') in if truthy title then title else appName I w)"

definition serviceName :: jsstr where
  "serviceName = lit ''FBLinkVPN-service''"

definition serviceExecutableFileName :: "'w ifw \<Rightarrow> 'w \<Rightarrow> jsstr" where
  "serviceExecutableFileName I w = appName I w @ (lit ''-service.exe'')"

definition dashedServiceExecutableFileName :: jsstr where
  "dashedServiceExecutableFileName = lit ''FBLink-VPN-service.exe''"

definition legacyServiceExecutableFileName :: jsstr where
  "legacyServiceExecutableFileName = lit ''FBLink-service.exe''"

definition runningOnWindows :: "'w ifw \<Rightarrow> bool" where
  "runningOnWindows I \<longleftrightarrow> ifw_kernelType I = lit ''winnt''"

definition runningOnMacOS :: "'w ifw \<Rightarrow> bool" where
  "runningOnMacOS I \<longleftrightarrow> ifw_kernelType I = lit ''darwin''"

definition runningOnLinux :: "'w ifw \<Rightarrow> bool" where
  "runningOnLinux I \<longleftrightarrow> ifw_kernelType I = lit ''linux''"

definition appExecutableFileName :: "'w ifw \<Rightarrow> 'w \<Rightarrow> jsstr" where
  "appExecutableFileName I w = (if runningOnWindows I then appName I w @ (lit ''.exe'') else appName I w)"

fun holds_up_to_case :: "jsstr list \<Rightarrow> jsstr \<Rightarrow> bool" where
  "holds_up_to_case [] value = False"
| "holds_up_to_case (x # list) value = (if toLowerCase x = toLowerCase value then True else holds_up_to_case list value)"

definition uniquePushString :: "jsstr list \<Rightarrow> jsstr \<Rightarrow> jsstr list" where
  "uniquePushString list value = (if \<not> truthy value then list else if holds_up_to_case list value then list
     else list @ [value])"

subsection \<open>Paths\<close>

definition backslashes :: "jsstr \<Rightarrow> jsstr" where
  "backslashes s = map (\<lambda>c. if c = 47 then 92 else c) s"

text \<open>\<^verbatim>\<open>p.replace(/\\+/g, "\\")\<close>\<close>

fun collapse :: "jsstr \<Rightarrow> jsstr" where
  "collapse [] = []"
| "collapse [c] = [c]"
| "collapse (c # d # s) = (if c = 92 \<and> d = 92 then collapse (d # s) else c # collapse (d # s))"

definition is_letter :: "code_unit \<Rightarrow> bool" where
  "is_letter c \<longleftrightarrow> 65 \<le> c \<and> c \<le> 90 \<or> 97 \<le> c \<and> c \<le> 122"

text \<open>\<^verbatim>\<open>p.replace(/^([A-Za-z]:)\\+/, "$1\\")\<close>\<close>

definition collapse_drive :: "jsstr \<Rightarrow> jsstr" where
  "collapse_drive p = (case p of
     a # b # c # r \<Rightarrow> if is_letter a \<and> b = 58 \<and> c = 92 then a # b # 92 # dropWhile (\<lambda>c. c = 92) r else p
   | _ \<Rightarrow> p)"

definition normalizeWindowsPath :: "jsstr \<Rightarrow> jsstr" where
  "normalizeWindowsPath path = (if \<not> truthy path then [] else
     let p = trim (backslashes (filter (\<lambda>c. c \<noteq> 34) path));
         isUnc = starts_with p [92, 92];
         p = (if isUnc then [92, 92] @ collapse (drop 2 p) else collapse p);
         p = collapse_drive p
     in toLowerCase p)"

text \<open>\<^verbatim>\<open>s.match(/.../)\<close>: the leftmost place where a matcher succeeds.\<close>

fun first_match :: "(jsstr \<Rightarrow> 'a option) \<Rightarrow> jsstr \<Rightarrow> 'a option" where
  "first_match m [] = m []"
| "first_match m (c # s) = (case m (c # s) of Some r \<Rightarrow> Some r | None \<Rightarrow> first_match m s)"

definition is_exe :: "jsstr \<Rightarrow> bool" where
  "is_exe s \<longleftrightarrow> toLowerCase s = lit ''.exe''"

text \<open>\<^verbatim>\<open>[^\r\n]*?\.exe\<close> and \<^verbatim>\<open>[^\r\n]+\.exe\<close>, which take as little and as much as they can.\<close>

fun lazy_exe :: "jsstr \<Rightarrow> jsstr option" where
  "lazy_exe [] = None"
| "lazy_exe (c # s) = (if is_exe (take 4 (c # s)) then Some (take 4 (c # s))
     else if c = 13 \<or> c = 10 then None else map_option (\<lambda>t. c # t) (lazy_exe s))"

definition greedy_exe :: "jsstr \<Rightarrow> jsstr option" where
  "greedy_exe s = (let line = takeWhile (\<lambda>c. c \<noteq> 13 \<and> c \<noteq> 10) s in
     map_option (\<lambda>n. take n line)
       (find (\<lambda>n. is_exe (drop (n - 4) (take n line))) (rev [5..<Suc (length line)])))"

definition drive_match :: "(jsstr \<Rightarrow> jsstr option) \<Rightarrow> jsstr \<Rightarrow> jsstr option" where
  "drive_match rest s = (case s of
     a # b # c # r \<Rightarrow> if is_letter a \<and> b = 58 \<and> c = 92 then map_option (\<lambda>t. a # b # c # t) (rest r) else None
   | _ \<Rightarrow> None)"

definition extractExecutablePathWindows :: "jsstr \<Rightarrow> jsstr" where
  "extractExecutablePathWindows pathValue = (
     let line = trim pathValue;
         quoted = takeWhile (\<lambda>c. c \<noteq> 34) (tl line) in
     if line = [] then []
     else if hd line = 34 \<and> 34 \<in> set (tl line) \<and> quoted \<noteq> [] then quoted
     else case first_match (drive_match lazy_exe) line of Some exe \<Rightarrow> exe | None \<Rightarrow> line)"

text \<open>The four expressions for the output of \<^verbatim>\<open>sc qc\<close>. A dot does not match a line terminator.\<close>

definition field_match :: "jsstr \<Rightarrow> jsstr \<Rightarrow> jsstr option" where
  "field_match name s = (if toLowerCase (take (length name) s) = toLowerCase name then
     (case dropWhile is_ws (drop (length name) s) of
        c # r \<Rightarrow> if c = 58 then Some (takeWhile (\<lambda>c. c \<notin> {10, 13, 8232, 8233}) (dropWhile is_ws r)) else None
      | [] \<Rightarrow> None)
     else None)"

definition quoted_exe_match :: "jsstr \<Rightarrow> jsstr option" where
  "quoted_exe_match s = (case s of
     c # r \<Rightarrow> if c \<noteq> 58 then None else
       (case dropWhile is_ws r of
          q # t \<Rightarrow> let seg = takeWhile (\<lambda>c. c \<noteq> 34) t in
            if q = 34 \<and> 34 \<in> set t \<and> 4 < length seg \<and> is_exe (drop (length seg - 4) seg) then Some (dq @ seg @ dq)
            else None
        | [] \<Rightarrow> None)
   | [] \<Rightarrow> None)"

definition path_exe_match :: "jsstr \<Rightarrow> jsstr option" where
  "path_exe_match s = (case s of
     c # r \<Rightarrow> if c = 58 then drive_match greedy_exe (dropWhile is_ws r) else None
   | [] \<Rightarrow> None)"

definition binary_path_match :: "jsstr \<Rightarrow> jsstr option" where
  "binary_path_match output = (case first_match (field_match (lit ''BINARY_PATH_NAME'')) output of Some m \<Rightarrow> Some m
   | None \<Rightarrow> (case first_match (field_match ru_binary_path_name) output of Some m \<Rightarrow> Some m
   | None \<Rightarrow> (case first_match quoted_exe_match output of Some m \<Rightarrow> Some m
   | None \<Rightarrow> first_match path_exe_match output)))"

definition strip_lines :: "jsstr \<Rightarrow> jsstr" where
  "strip_lines s = filter (\<lambda>c. c \<noteq> 13 \<and> c \<noteq> 10) s"

text \<open>\<^verbatim>\<open>String(value).replace(/'/g, "''")\<close>\<close>

definition psSingleQuote :: "jsstr \<Rightarrow> jsstr" where
  "psSingleQuote value = concat (map (\<lambda>c. if c = 39 then [39, 39] else [c]) value)"

subsection \<open>Commands\<close>

definition powershell_args :: "jsstr \<Rightarrow> jsstr list" where
  "powershell_args script = [lit ''-NoProfile'', lit ''-ExecutionPolicy'', lit ''Bypass'', lit ''-Command'', script]"

definition runCmdWindows :: "'w ifw \<Rightarrow> jsstr \<Rightarrow> ('w ist, exec_result) prog" where
  "runCmdWindows I command = execute I (lit ''cmd'') [lit ''/c'', command]"

definition runPowerShellWindows :: "'w ifw \<Rightarrow> jsstr \<Rightarrow> ('w ist, exec_result) prog" where
  "runPowerShellWindows I script = execute I (lit ''powershell'') (powershell_args script)"

definition if_exist :: "jsstr \<Rightarrow> jsstr" where
  "if_exist path = (lit ''if exist '' @ dq) @ path @ (dq @ lit '' (exit /b 0) else (exit /b 1)'')"

definition vcRuntimeIsInstalled :: "'w ifw \<Rightarrow> 'w \<Rightarrow> bool" where
  "vcRuntimeIsInstalled I w \<longleftrightarrow>
     ifw_findPath I w (lit ''msvcp140.dll'') [ifw_value I w (lit ''RootDir'') @ (bs @ lit ''Windows'' @ bs @ lit ''System32'' @ bs)] \<noteq> []"

definition showRebootRequiredMessage :: "'w ifw \<Rightarrow> ('w ist, unit) prog" where
  "showRebootRequiredMessage I = bindp (globals rebootMessageShown) (\<lambda>shown. if shown then ret () else
     thenp (assign (\<lambda>g. g\<lparr>rebootMessageShown := True\<rparr>))
       (bindp (ask (appName I)) (\<lambda>title.
        bindp (message_box I Information title (ifw_tr I (lit ''Installation is complete. Please reboot your computer to apply VPN '' @
      lit ''service and routing changes.'')) [Ok])
          (\<lambda>_. ret ()))))"

definition incomplete_message :: "'w ifw \<Rightarrow> jsstr \<Rightarrow> jsstr \<Rightarrow> jsstr \<Rightarrow> jsstr" where
  "incomplete_message I expectedPath actualPath details =
     arg (arg (arg (ifw_tr I (lit ''Service installation is incomplete (%1 missing).'' @ [10] @ [10] @ lit ''Details:'' @
      [10] @ lit ''Expected: %2'' @ [10] @ lit ''Actual: %3''))
       serviceName) (if truthy expectedPath then expectedPath else (lit ''<empty>'')))
       (if truthy actualPath then actualPath else (lit ''<empty>'')) @
     (if truthy details then arg (ifw_tr I ([10] @ [10] @ lit ''%1'')) details else []) @
     ifw_tr I ([10] @ [10] @ lit ''Please run installer as Administrator and reinstall.'')"

definition showServiceInstallIncompleteWindows :: "'w ifw \<Rightarrow> jsstr \<Rightarrow> jsstr \<Rightarrow> jsstr \<Rightarrow> ('w ist, unit) prog" where
  "showServiceInstallIncompleteWindows I expectedPath actualPath details = bindp (ask (appName I)) (\<lambda>title.
     bindp (message_box I Critical title (incomplete_message I expectedPath actualPath details) [Ok]) (\<lambda>_. ret ()))"

definition serviceIsRunning_script :: jsstr where
  "serviceIsRunning_script = (lit ''$s=Get-Service -Name '' @ sq) @ serviceName @
     (sq @ lit '' -ErrorAction SilentlyContinue; if ($null -ne $s -and $s.Status -eq '' @ sq @
      lit ''Running'' @ sq @ lit '') { exit 0 } else { exit 1 }'')"

definition serviceIsRunningWindows :: "'w ifw \<Rightarrow> ('w ist, bool) prog" where
  "serviceIsRunningWindows I = bindp (execute I (lit ''powershell'') (powershell_args serviceIsRunning_script))
     (\<lambda>result. ret (exit_is result 0))"

definition reg_query :: jsstr where
  "reg_query = (lit ''reg query '' @ dq @ lit ''HKLM'' @ bs @ lit ''SYSTEM'' @ bs @ lit ''CurrentControlSet'' @
      bs @ lit ''Services'' @ bs) @ serviceName @ (dq @ lit '' >nul 2>&1'')"

definition serviceExistsWindows :: "'w ifw \<Rightarrow> ('w ist, bool) prog" where
  "serviceExistsWindows I = bindp (execute I (lit ''sc'') [lit ''query'', serviceName]) (\<lambda>result.
     if exit_is result 0 then ret True
     else bindp (runCmdWindows I reg_query) (\<lambda>regResult. ret (exit_is regResult 0)))"

definition expectedServiceExecutablePathWindows :: jsstr where
  "expectedServiceExecutablePathWindows = (lit ''C:'' @ bs @ lit ''Program Files'' @ bs @ lit ''FBLink VPN'' @ bs @
      lit ''FBLinkVPN-service.exe'')"

definition currentServiceBinary_script :: jsstr where
  "currentServiceBinary_script = (lit ''$svc = Get-CimInstance Win32_Service -Filter '' @ dq @ lit ''Name='' @ sq) @ serviceName @
     (sq @ dq @ lit '' -ErrorAction SilentlyContinue; '') @
     (lit ''if ($null -eq $svc) { exit 1 }; '') @
     (lit ''Write-Output $svc.PathName'')"

definition sc_binary_path :: "'w ifw \<Rightarrow> ('w ist, jsstr) prog" where
  "sc_binary_path I = bindp (execute I (lit ''sc'') [lit ''qc'', serviceName]) (\<lambda>result.
     if \<not> exit_is result 0 then ret []
     else case binary_path_match (output_of result) of
         None \<Rightarrow> ret []
       | Some m \<Rightarrow> ret (normalizeWindowsPath (extractExecutablePathWindows m)))"

definition currentServiceBinaryPathWindows :: "'w ifw \<Rightarrow> ('w ist, jsstr) prog" where
  "currentServiceBinaryPathWindows I =
     bindp (execute I (lit ''powershell'') (powershell_args currentServiceBinary_script)) (\<lambda>psResult.
       let fromWmi = extractExecutablePathWindows (output_of psResult) in
       if exit_is psResult 0 \<and> fromWmi \<noteq> [] then ret (normalizeWindowsPath fromWmi)
       else sc_binary_path I)"

definition fileExists_script :: "jsstr \<Rightarrow> jsstr" where
  "fileExists_script p = (lit ''$p='' @ sq) @ psSingleQuote p @ (sq @ lit ''; '') @ (lit ''if (Test-Path -LiteralPath $p) { exit 0 } else { exit 1 }'')"

definition fileExistsWindows :: "'w ifw \<Rightarrow> jsstr \<Rightarrow> ('w ist, bool) prog" where
  "fileExistsWindows I path = bindp (runPowerShellWindows I
       (fileExists_script (trim (strip_lines (filter (\<lambda>c. c \<noteq> 34) path))))) (\<lambda>result. ret (exit_is result 0))"

definition wildcard_script :: "jsstr \<Rightarrow> jsstr" where
  "wildcard_script targetDir = (lit ''$d='' @ sq) @ psSingleQuote targetDir @ (sq @ lit ''; '') @
     (lit ''if (-not (Test-Path -LiteralPath $d)) { exit 1 }; '') @
     (lit ''$files = Get-ChildItem -LiteralPath $d -File -Filter '' @ sq @ lit ''*service*.exe'' @ sq @
      lit '' -ErrorAction SilentlyContinue; '') @
     (lit ''if ($null -eq $files -or $files.Count -eq 0) { exit 2 }; '') @
     (lit ''$preferred = $files | Where-Object { $_.Name -match '' @ sq @ lit ''fblink.*service'' @
      bs @ lit ''.exe'' @ sq @ lit '' } | Select-Object -First 1; '') @
     (lit ''if ($null -eq $preferred) { $preferred = $files | Select-Object '' @ lit ''-First 1 }; '') @
     (lit ''Write-Output $preferred.FullName; exit 0'')"

definition findServiceExecutableByWildcardWindows :: "'w ifw \<Rightarrow> jsstr \<Rightarrow> ('w ist, jsstr) prog" where
  "findServiceExecutableByWildcardWindows I targetDir = bindp (runPowerShellWindows I (wildcard_script targetDir))
     (\<lambda>result. if \<not> exit_is result 0 then ret [] else ret (trim (strip_lines (output_of result))))"

definition target_dir :: "'w ifw \<Rightarrow> 'w \<Rightarrow> jsstr" where
  "target_dir I w = backslashes (ifw_value I w (lit ''TargetDir''))"

definition serviceExecutablePathCandidatesForRegistrationWindows :: "'w ifw \<Rightarrow> ('w ist, jsstr list) prog" where
  "serviceExecutablePathCandidatesForRegistrationWindows I =
     bindp (ask (target_dir I)) (\<lambda>targetDirRaw.
     bindp (ask (serviceExecutableFileName I)) (\<lambda>exeName.
       let candidates = uniquePushString [] expectedServiceExecutablePathWindows;
           candidates = uniquePushString candidates (targetDirRaw @ bs @ exeName);
           candidates = uniquePushString candidates (targetDirRaw @ bs @ dashedServiceExecutableFileName);
           candidates = uniquePushString candidates (targetDirRaw @ bs @ legacyServiceExecutableFileName)
       in bindp (findServiceExecutableByWildcardWindows I targetDirRaw) (\<lambda>wildcard.
            if truthy wildcard then ret (uniquePushString candidates wildcard) else ret candidates)))"

definition serviceExecutablePathCandidatesWindows :: "'w ifw \<Rightarrow> 'w \<Rightarrow> jsstr list" where
  "serviceExecutablePathCandidatesWindows I w =
     (let targetDir = normalizeWindowsPath (ifw_value I w (lit ''TargetDir'')) in
      foldl uniquePushString [] [targetDir @ bs @ serviceExecutableFileName I w,
        targetDir @ bs @ dashedServiceExecutableFileName,
        targetDir @ bs @ legacyServiceExecutableFileName,
        targetDir @ (bs @ lit ''FBLinkVPN-service.exe''),
        targetDir @ (bs @ lit ''FBLink-VPN-service.exe''),
        targetDir @ (bs @ lit ''FBLink-service.exe''),
        targetDir @ (bs @ lit ''AmneziaVPN-service.exe'')])"

text \<open>The first of the candidates that is a file.\<close>

fun first_existing :: "'w ifw \<Rightarrow> jsstr list \<Rightarrow> ('w ist, jsstr option) prog" where
  "first_existing I [] = ret None"
| "first_existing I (c # cs) = bindp (fileExistsWindows I c) (\<lambda>b. if b then ret (Some c) else first_existing I cs)"

fun resolve_attempts :: "'w ifw \<Rightarrow> jsstr \<Rightarrow> jsstr list \<Rightarrow> nat \<Rightarrow> ('w ist, jsstr) prog" where
  "resolve_attempts I targetDir candidates 0 = ret (hd candidates)"
| "resolve_attempts I targetDir candidates (Suc n) = bindp (first_existing I candidates) (\<lambda>found.
     case found of
       Some c \<Rightarrow> ret c
     | None \<Rightarrow> bindp (findServiceExecutableByWildcardWindows I targetDir) (\<lambda>wildcard.
         bindp (if wildcard \<noteq> [] then fileExistsWindows I wildcard else ret False) (\<lambda>b.
           if b then ret wildcard
           else thenp (sleep_for I 500) (resolve_attempts I targetDir candidates n))))"

definition resolveServiceExecutablePathWindows :: "'w ifw \<Rightarrow> nat \<Rightarrow> ('w ist, jsstr) prog" where
  "resolveServiceExecutablePathWindows I waitMs = bindp (ask (target_dir I)) (\<lambda>targetDir.
     bindp (ask (serviceExecutablePathCandidatesWindows I)) (\<lambda>candidates.
       resolve_attempts I targetDir candidates (max 1 (waitMs div 500))))"

definition queryServiceState_script :: jsstr where
  "queryServiceState_script = (lit ''$svc = Get-CimInstance Win32_Service -Filter '' @ dq @ lit ''Name='' @ sq) @ serviceName @
     (sq @ dq @ lit '' -ErrorAction SilentlyContinue; '') @
     (lit ''if ($null -eq $svc) { Write-Output '' @ sq @ lit ''{'' @ dq @ lit ''exists'' @ dq @
      lit '':false}'' @ sq @ lit ''; exit 0 }; '') @
     (lit ''$obj = [pscustomobject]@'' @
      lit ''{ exists = $true; PathName = $svc.PathName; State = $svc.State; '' @
      lit ''Status = $svc.Status; ExitCode = $svc.ExitCode; ProcessId = '' @
      lit ''$svc.ProcessId; StartMode = $svc.StartMode }; '') @
     (lit ''$obj | ConvertTo-Json -Compress'')"

definition no_service :: json where
  "no_service = JObj [((lit ''exists''), JBool False)]"

definition queryServiceStateWindows :: "'w ifw \<Rightarrow> ('w ist, json) prog" where
  "queryServiceStateWindows I = bindp (execute I (lit ''powershell'') (powershell_args queryServiceState_script)) (\<lambda>result.
     if \<not> exit_is result 0 then ret no_service
     else case ifw_JSON_parse I (output_of result) of Some v \<Rightarrow> ret v | None \<Rightarrow> ret no_service)"

definition run_script :: "'w ifw \<Rightarrow> jsstr \<Rightarrow> ('w ist, bool) prog" where
  "run_script I script = bindp (execute I (lit ''cmd'') [lit ''/c'', if_exist script]) (\<lambda>checkScript.
     if \<not> exit_is checkScript 0 then ret False
     else bindp (execute I (lit ''cmd'') [lit ''/c'', (lit ''call '' @ dq) @ script @ (dq)]) (\<lambda>result. ret (exit_is result 0)))"

definition runInstallServiceScriptWindows :: "'w ifw \<Rightarrow> ('w ist, bool) prog" where
  "runInstallServiceScriptWindows I = bindp (ask (target_dir I)) (\<lambda>targetDir.
     run_script I (targetDir @ (bs @ lit ''install_service.cmd'')))"

definition runPostInstallScriptWindows :: "'w ifw \<Rightarrow> ('w ist, bool) prog" where
  "runPostInstallScriptWindows I = bindp (ask (target_dir I)) (\<lambda>targetDir.
     run_script I (targetDir @ (bs @ lit ''post_install.cmd'')))"

subsection \<open>Registration\<close>

definition newService_script :: "jsstr \<Rightarrow> jsstr" where
  "newService_script expectedPath = (lit ''$ErrorActionPreference='' @ sq @ lit ''Stop'' @ sq @ lit ''; '') @
     (lit ''$svc='' @ sq) @ psSingleQuote serviceName @ (sq @ lit ''; '') @
     (lit ''$exe='' @ sq) @ psSingleQuote expectedPath @ (sq @ lit ''; '') @
     (lit ''if (-not (Test-Path -LiteralPath $exe)) { Write-Output '' @ sq @
      lit ''service_exe_missing'' @ sq @ lit ''; exit 2 }; '') @
     (lit ''$binPath = ('' @ sq @ dq @ lit ''{0}'' @ dq @ sq @ lit '' -f $exe); '') @
     (lit ''$existing = Get-Service -Name $svc -ErrorAction SilentlyContinue; '') @
     (lit ''if ($null -ne $existing) { '') @
     (lit ''  try { Stop-Service -Name $svc -Force -ErrorAction SilentlyContinue '' @
      lit ''} catch {}; '') @
     (lit ''  sc.exe delete $svc | Out-Null; '') @
     (lit ''  for($i=0; $i -lt 30; $i++){ sc.exe query $svc > $null 2>&1; '' @
      lit ''if($LASTEXITCODE -eq 1060){ break }; Start-Sleep -Milliseconds 500 }; '') @
     (lit ''}; '') @
     (lit ''New-Service -Name $svc -BinaryPathName $binPath -DisplayName '' @ sq @
      lit ''FBLink VPN Service'' @ sq @ lit '' -Description '' @ sq @ lit ''Service for FBLink VPN'' @
      sq @ lit '' -StartupType Automatic | Out-Null; '') @
     (lit ''sc.exe failure $svc reset= 100 actions= '' @
      lit ''restart/2000/restart/2000/restart/2000 | Out-Null; '') @
     (lit ''try { Start-Service -Name $svc -ErrorAction SilentlyContinue } catch '' @ lit ''{}; '') @
     (lit ''Write-Output '' @ sq @ lit ''ok'' @ sq @ lit ''; '') @
     (lit ''exit 0'')"

definition registerServiceViaPowerShellWindows :: "'w ifw \<Rightarrow> jsstr \<Rightarrow> ('w ist, bool) prog" where
  "registerServiceViaPowerShellWindows I expectedPath = bindp (runPowerShellWindows I (newService_script expectedPath))
     (\<lambda>result. ret (exit_is result 0))"

definition file_probe :: "'w ifw \<Rightarrow> jsstr \<Rightarrow> ('w ist, bool) prog" where
  "file_probe I path = bindp (runCmdWindows I (if_exist path)) (\<lambda>checkExe. ret (exit_is checkExe 0))"

text \<open>The fallback with \<^verbatim>\<open>sc.exe create\<close>; its result says whether the registration goes on.\<close>

definition sc_create :: "'w ifw \<Rightarrow> jsstr \<Rightarrow> ('w ist, bool) prog" where
  "sc_create I expectedPath =
     bindp (runCmdWindows I ((lit ''sc.exe stop '' @ dq) @ serviceName @ (dq @ lit '' >nul 2>&1''))) (\<lambda>_.
     bindp (runCmdWindows I ((lit ''sc.exe delete '' @ dq) @ serviceName @ (dq @ lit '' >nul 2>&1''))) (\<lambda>_.
     thenp (sleep_for I 1200)
     (bindp (runCmdWindows I ((lit ''sc.exe create '' @ dq) @ serviceName @ (dq @ lit '' binPath= '' @ dq @ bs @ dq) @ expectedPath @ (bs @ dq @ dq @ lit '' start= auto'')))
       (\<lambda>createRes. if \<not> exit_is createRes 0 \<and> \<not> exit_is createRes 1073 then ret False
        else bindp (runCmdWindows I ((lit ''sc.exe description '' @ dq) @ serviceName @ (dq @ lit '' '' @ dq @ lit ''FBLink VPN Service'' @ dq))) (\<lambda>_.
             bindp (runCmdWindows I ((lit ''sc.exe failure '' @ dq) @ serviceName @
                 (dq @ lit '' reset= 100 actions= restart/2000/restart/2000/restart/2000''))) (\<lambda>_. ret True))))))"

definition registerServiceFallbackWindowsWithPathWindows :: "'w ifw \<Rightarrow> jsstr \<Rightarrow> ('w ist, bool) prog" where
  "registerServiceFallbackWindowsWithPathWindows I expectedPath =
     bindp (poll I 20 (file_probe I expectedPath) 500) (\<lambda>exists.
     if \<not> exists then ret False else
     bindp (registerServiceViaPowerShellWindows I expectedPath) (\<lambda>registered.
     bindp (if registered then ret True else sc_create I expectedPath) (\<lambda>created.
     if \<not> created then ret False else
     bindp (poll I 20 (serviceExistsWindows I) 500) (\<lambda>existsInScm.
     if \<not> existsInScm then ret False else
     bindp (currentServiceBinaryPathWindows I) (\<lambda>resolvedPath.
     bindp (runCmdWindows I ((lit ''sc.exe start '' @ dq) @ serviceName @ (dq))) (\<lambda>_.
     bindp (poll I 8 (serviceIsRunningWindows I) 1000) (\<lambda>running.
     if running then ret True else serviceExistsWindows I)))))))"

fun register_candidates :: "'w ifw \<Rightarrow> jsstr list \<Rightarrow> ('w ist, bool) prog" where
  "register_candidates I [] = ret False"
| "register_candidates I (c # cs) = (let candidate = trim c in
     if candidate = [] then register_candidates I cs
     else bindp (file_probe I candidate) (\<lambda>exists.
       if \<not> exists then register_candidates I cs
       else bindp (registerServiceFallbackWindowsWithPathWindows I candidate) (\<lambda>ready.
         if ready then ret True else register_candidates I cs)))"

definition registerServiceFallbackWindows :: "'w ifw \<Rightarrow> ('w ist, bool) prog" where
  "registerServiceFallbackWindows I =
     bindp (serviceExecutablePathCandidatesForRegistrationWindows I) (register_candidates I)"

definition forceCreate_script :: "jsstr \<Rightarrow> jsstr" where
  "forceCreate_script expectedPath = (lit ''$ErrorActionPreference='' @ sq @ lit ''Stop'' @ sq @ lit ''; '') @
     (lit ''$svc='' @ sq) @ psSingleQuote serviceName @ (sq @ lit ''; '') @
     (lit ''$exe='' @ sq) @ psSingleQuote expectedPath @ (sq @ lit ''; '') @
     (lit ''$binPath = ('' @ sq @ dq @ lit ''{0}'' @ dq @ sq @ lit '' -f $exe); '') @
     (lit ''$existing = Get-Service -Name $svc -ErrorAction SilentlyContinue; '') @
     (lit ''if ($null -eq $existing) { '') @
     (lit ''  New-Service -Name $svc -BinaryPathName $binPath -DisplayName '' @ sq @
      lit ''FBLink VPN Service'' @ sq @ lit '' -Description '' @ sq @ lit ''Service for FBLink VPN'' @
      sq @ lit '' -StartupType Automatic | Out-Null; '') @
     (lit ''} else { '') @
     (lit ''  sc.exe config $svc binPath= $binPath start= auto | Out-Null; '') @
     (lit ''}; '') @
     (lit ''sc.exe description $svc '' @ sq @ lit ''FBLink VPN Service'' @ sq @ lit '' | Out-Null; '') @
     (lit ''sc.exe failure $svc reset= 100 actions= '' @
      lit ''restart/2000/restart/2000/restart/2000 | Out-Null; '') @
     (lit ''try { Start-Service -Name $svc -ErrorAction SilentlyContinue } catch '' @ lit ''{}; '') @
     (lit ''$created = Get-Service -Name $svc -ErrorAction SilentlyContinue; '') @
     (lit ''if ($null -ne $created) { exit 0 } else { exit 1 }'')"

definition forceCreateServiceKnownGoodWindows :: "'w ifw \<Rightarrow> ('w ist, bool) prog" where
  "forceCreateServiceKnownGoodWindows I =
     bindp (fileExistsWindows I expectedServiceExecutablePathWindows) (\<lambda>exists.
       if \<not> exists then ret False
       else bindp (runPowerShellWindows I (forceCreate_script expectedServiceExecutablePathWindows))
              (\<lambda>res. ret (exit_is res 0)))"

subsection \<open>Making sure that the service runs\<close>

definition field_or :: "'w ifw \<Rightarrow> json \<Rightarrow> jsstr \<Rightarrow> json \<Rightarrow> ('w ist, jsstr) prog" where
  "field_or I svc k d = bindp (lift (jget svc k)) (\<lambda>v. ret (template (ifw_number I) (jor v d)))"

definition exists_flag :: "json \<Rightarrow> ('w ist, bool) prog" where
  "exists_flag svc = bindp (lift (jget svc (lit ''exists''))) (\<lambda>v. ret (jtruthy v))"

text \<open>The state of the service as the script looks it up, three times in the same way: whether
  it exists, the path of its program, and that path in its normal form.\<close>

definition look_up_service :: "'w ifw \<Rightarrow> ('w ist, bool \<times> jsstr \<times> jsstr) prog" where
  "look_up_service I = bindp (queryServiceStateWindows I) (\<lambda>svc.
     bindp (exists_flag svc) (\<lambda>there.
     bindp (if there then ret False else serviceExistsWindows I) (\<lambda>override.
       let svc = (if override then JObj [((lit ''exists''), JBool True)] else svc) in
       bindp (field_or I svc (lit ''PathName'') (JStr [])) (\<lambda>pathName.
         let currentPathRaw = extractExecutablePathWindows pathName in
         bindp (if currentPathRaw = [] then currentServiceBinaryPathWindows I else ret currentPathRaw) (\<lambda>currentPathRaw.
           ret (there \<or> override, currentPathRaw, normalizeWindowsPath currentPathRaw))))))"

definition misplaced :: "bool \<times> jsstr \<times> jsstr \<Rightarrow> bool" where
  "misplaced svc = (case svc of (exists, _, currentPath) \<Rightarrow>
     \<not> exists \<or> currentPath \<noteq> [] \<and> currentPath \<noteq> normalizeWindowsPath expectedServiceExecutablePathWindows)"

definition repair_service :: "'w ifw \<Rightarrow> bool \<times> jsstr \<times> jsstr \<Rightarrow> ('w ist, bool \<times> jsstr \<times> jsstr) prog" where
  "repair_service I svc = (if \<not> misplaced svc then ret svc else
     bindp (runInstallServiceScriptWindows I) (\<lambda>repaired.
     bindp (if repaired then ret False else registerServiceFallbackWindows I) (\<lambda>_.
     thenp (sleep_for I 1500)
     (bindp (look_up_service I) (\<lambda>svc.
        if \<not> misplaced svc then ret svc
        else bindp (registerServiceFallbackWindows I) (\<lambda>_.
             thenp (sleep_for I 1200) (look_up_service I)))))))"

fun found_at :: "'w ifw \<Rightarrow> jsstr list \<Rightarrow> ('w ist, jsstr) prog" where
  "found_at I [] = ret []"
| "found_at I (c # cs) = (let c = trim c in
     if c = [] then found_at I cs
     else bindp (fileExistsWindows I c) (\<lambda>b. if b then ret c else found_at I cs))"

definition missing_details :: "'w ifw \<Rightarrow> ('w ist, jsstr) prog" where
  "missing_details I = bindp (serviceExecutablePathCandidatesForRegistrationWindows I) (\<lambda>candidates.
     bindp (found_at I candidates) (\<lambda>foundAt.
       if foundAt \<noteq> [] then ret (arg (ifw_tr I (lit ''Service executable was found but registration failed: %1'')) foundAt)
       else bindp (fileExistsWindows I expectedServiceExecutablePathWindows) (\<lambda>b.
         if \<not> b then ret (arg (ifw_tr I (lit ''Service executable file is missing: %1'')) expectedServiceExecutablePathWindows)
         else ret [])))"

definition recover_missing :: "'w ifw \<Rightarrow> jsstr \<Rightarrow> ('w ist, bool) prog" where
  "recover_missing I currentPathRaw =
     bindp (forceCreateServiceKnownGoodWindows I) (\<lambda>forced.
     bindp (if forced then thenp (sleep_for I 1000) (serviceExistsWindows I) else ret False) (\<lambda>there.
     if there then ret True else
     bindp (runPostInstallScriptWindows I) (\<lambda>_.
     thenp (sleep_for I 1000)
     (bindp (serviceExistsWindows I) (\<lambda>there.
     if there then ret True else
     bindp (missing_details I) (\<lambda>missingDetails.
     thenp (showServiceInstallIncompleteWindows I expectedServiceExecutablePathWindows currentPathRaw missingDetails)
       (ret False)))))))"

definition start_registered :: "'w ifw \<Rightarrow> jsstr \<Rightarrow> ('w ist, bool) prog" where
  "start_registered I currentPath =
     bindp (serviceIsRunningWindows I) (\<lambda>running.
     if running then ret True else
     bindp (execute I (lit ''sc'') [lit ''start'', serviceName]) (\<lambda>_.
     bindp (poll I 10 (serviceIsRunningWindows I) 1200) (\<lambda>running.
     if running then ret True else
     bindp (queryServiceStateWindows I) (\<lambda>svc.
     bindp (field_or I svc (lit ''State'') (JStr (lit ''unknown''))) (\<lambda>state.
     bindp (field_or I svc (lit ''ExitCode'') (JNum 0)) (\<lambda>exitCode.
       let details = arg (arg (ifw_tr I (lit ''Service status: %1, exit code: %2'')) state) exitCode in
       bindp (serviceExistsWindows I) (\<lambda>there.
       if there then ret True else
       thenp (showServiceInstallIncompleteWindows I
           (normalizeWindowsPath expectedServiceExecutablePathWindows) currentPath details)
         (ret False))))))))"

definition ensureServiceStartedAndRunningWindows :: "'w ifw \<Rightarrow> ('w ist, bool) prog" where
  "ensureServiceStartedAndRunningWindows I = bindp (look_up_service I) (\<lambda>svc.
     bindp (repair_service I svc) (\<lambda>(exists, currentPathRaw, currentPath).
       if \<not> exists then recover_missing I currentPathRaw else start_registered I currentPath))"

subsection \<open>Callbacks\<close>

definition Component :: "'w ifw \<Rightarrow> ('w ist, unit) prog" where
  "Component I = thenp (act I (Connected (lit ''component.loaded'')))
     (thenp (act I (Connected (lit ''installer.installationFinished'')))
        (act I (Connected (lit ''installer.finishButtonClicked''))))"

definition componentLoaded :: "'w ifw \<Rightarrow> ('w ist, unit) prog" where
  "componentLoaded I = (if \<not> runningOnWindows I \<or> \<not> ifw_isInstaller I then ret () else
     thenp (act I (SetValue (lit ''InstallYandexBrowser'') (lit ''true'')))
     (bindp (addWizardPage I (lit ''ReadyInstallExtrasWidget'') ReadyForInstallation) (\<lambda>added.
       if \<not> added then ret () else
       thenp (act I (PageVisible ReadyForInstallation False))
       (bindp (ask (\<lambda>w. ifw_widget I w (lit ''DynamicReadyInstallExtrasWidget''))) (\<lambda>widget.
         if \<not> widget then ret () else
         thenp (act I (WidgetSet (lit ''DynamicReadyInstallExtrasWidget'') (lit ''windowTitle'') (ifw_tr I ru_ready_to_install)))
         (thenp (act I (WidgetSet (lit ''yandexCheckBox'') (lit ''checked'') (lit ''true'')))
           (act I (Connected (lit ''yandexCheckBox.toggled'')))))))))"

definition yandexCheckBox_toggled :: "'w ifw \<Rightarrow> bool \<Rightarrow> ('w ist, unit) prog" where
  "yandexCheckBox_toggled I checked =
     act I (SetValue (lit ''InstallYandexBrowser'') (if checked then (lit ''true'') else (lit ''false'')))"

definition installationFinishedPageIsShown :: "'w ifw \<Rightarrow> ('w ist, unit) prog" where
  "installationFinishedPageIsShown I = bindp (ask (ifw_success I)) (\<lambda>success.
     if ifw_isInstaller I \<and> success then act I (Click FinishButton) else ret ())"

text \<open>\<^verbatim>\<open>createOperations\<close>: the elevated operations in the order they are added.\<close>

definition shortcut_operation :: "'w ifw \<Rightarrow> 'w \<Rightarrow> jsstr \<Rightarrow> jsstr list" where
  "shortcut_operation I w path = [lit ''CreateShortcut'', (lit ''@TargetDir@/'') @ appExecutableFileName I w, path,
     (lit ''workingDirectory=@TargetDir@''), (lit ''iconPath=@TargetDir@'' @ bs) @ appExecutableFileName I w, lit ''iconId=0'']"

definition logged_command :: "jsstr \<Rightarrow> jsstr \<Rightarrow> jsstr" where
  "logged_command script missing = (let installerLog = (lit ''%TEMP%'' @ bs @ lit ''FBLinkVPN-installer.log'') in
     (lit ''if exist '' @ dq) @ script @ (dq @ lit '' ('') @
     (lit ''call '' @ dq) @ script @ (dq @ lit '' >> '' @ dq) @ installerLog @ (dq @ lit '' 2>&1'') @
     (lit '') else ('') @
     (lit ''echo WARN: missing '') @ missing @ (lit '' >> '' @ dq) @ installerLog @ (dq @ lit '' 2>&1'') @
     (lit '') & exit /b 0''))"

definition windows_operations :: "'w ifw \<Rightarrow> 'w \<Rightarrow> jsstr list list" where
  "windows_operations I w = (
     let shortcutFileName = appLinkName I w @ (lit ''.lnk'');
         publicDir = ifw_environment I w (lit ''PUBLIC'');
         pu_path = backslashes (ifw_value I w (lit ''TargetDir'')) @ bs;
         redist = (if includes_str (ifw_cpu I) (lit ''64'') then (lit ''vc_redist.x64.exe'') else (lit ''vc_redist.x86.exe''))
     in (if truthy publicDir
         then [shortcut_operation I w (map (\<lambda>c. if c = 92 then 47 else c) publicDir @ (lit ''/Desktop/'') @ shortcutFileName)]
         else []) @
        [shortcut_operation I w (ifw_value I w (lit ''AllUsersStartMenuProgramsPath'') @ (lit ''/'') @ shortcutFileName)] @
        (if vcRuntimeIsInstalled I w then []
         else [[lit ''Execute'', (lit ''@TargetDir@'' @ bs) @ redist, lit ''/install'', lit ''/quiet'', lit ''/norestart'', lit ''/log'', lit ''vc_redist.log'']]) @
        [[lit ''Execute'', lit ''cmd'', lit ''/c'', logged_command (pu_path @ (lit ''install_service.cmd'')) (lit ''install_service.cmd''),
          (lit ''UNDOEXECUTE''), lit ''cmd'', lit ''/c'', logged_command (pu_path @ (lit ''post_uninstall.cmd'')) (lit ''post_uninstall.cmd'')],
         [lit ''Execute'', lit ''cmd'', lit ''/c'', logged_command (pu_path @ (lit ''post_install.cmd'')) (lit ''post_install.cmd'')]])"

definition elevated_operations :: "'w ifw \<Rightarrow> 'w \<Rightarrow> jsstr list list" where
  "elevated_operations I w = (
     if runningOnWindows I then windows_operations I w
     else if runningOnMacOS I then
       [[lit ''Execute'', lit ''@TargetDir@/post_install.sh'', lit ''UNDOEXECUTE'', lit ''@TargetDir@/post_uninstall.sh'']]
     else if runningOnLinux I then
       [[lit ''Execute'', lit ''bash'', lit ''@TargetDir@/post_install.sh'', lit ''UNDOEXECUTE'', lit ''bash'', lit ''@TargetDir@/post_uninstall.sh'']]
     else [])"

fun add_operations :: "'w ifw \<Rightarrow> jsstr list list \<Rightarrow> ('w ist, unit) prog" where
  "add_operations I [] = ret ()"
| "add_operations I (op # ops) = thenp (act I (ElevatedOperation op)) (add_operations I ops)"

definition createOperations :: "'w ifw \<Rightarrow> ('w ist, unit) prog" where
  "createOperations I = thenp (act I BaseOperations)
     (bindp (ask (elevated_operations I)) (add_operations I))"

text \<open>The end of \<^verbatim>\<open>installationFinished\<close>: back to the user's rights, then the client and, when it was
  chosen, the browser installer.\<close>

definition launch_client :: "'w ifw \<Rightarrow> jsstr \<Rightarrow> bool \<Rightarrow> jsstr \<Rightarrow> ('w ist, unit) prog" where
  "launch_client I command launchYandex yandexInstallerPath =
     thenp (act I DropAdmin)
     (bindp (ask (\<lambda>w. ifw_value I w (lit ''TargetDir''))) (\<lambda>dir.
      thenp (act I (Detached command [] dir))
      (bindp (if runningOnWindows I \<and> launchYandex then fileExistsWindows I yandexInstallerPath else ret False) (\<lambda>b.
       if b then bindp (ask (\<lambda>w. ifw_value I w (lit ''TargetDir''))) (\<lambda>dir. act I (Detached yandexInstallerPath [] dir))
       else ret ()))))"

definition client_command :: "'w ifw \<Rightarrow> 'w \<Rightarrow> jsstr" where
  "client_command I w = (
     if runningOnWindows I then (lit ''@TargetDir@/'') @ appExecutableFileName I w
     else if runningOnMacOS I then (lit ''/Applications/'') @ appName I w @ (lit ''.app/Contents/MacOS/'') @ appName I w
     else if runningOnLinux I then (lit ''@TargetDir@/client/'') @ appName I w
     else [])"

definition installationFinished :: "'w ifw \<Rightarrow> ('w ist, unit) prog" where
  "installationFinished I = bindp (ask (ifw_success I)) (\<lambda>success.
     if \<not> (success \<and> (ifw_isInstaller I \<or> ifw_isUpdater I)) then ret () else
     bindp (gainAdminRights I) (\<lambda>admin.
     if \<not> admin then ret () else
     bindp (ask (client_command I)) (\<lambda>command.
     if runningOnWindows I then
       bindp (ask (\<lambda>w. ifw_isInstaller I \<and> ifw_value I w (lit ''InstallYandexBrowser'') = (lit ''true''))) (\<lambda>launchYandex.
       bindp (ask (\<lambda>w. target_dir I w @ (bs @ lit ''YandexDownloader.exe''))) (\<lambda>yandexInstallerPath.
       bindp (ensureServiceStartedAndRunningWindows I) (\<lambda>serviceReady.
       bindp (execute I (lit ''sc'') [lit ''failure'', serviceName, lit ''reset='', lit ''100'', lit ''actions='', lit ''restart/2000/restart/2000/restart/2000'']) (\<lambda>_.
       if \<not> serviceReady then act I DropAdmin
       else launch_client I command launchYandex yandexInstallerPath))))
     else launch_client I command False [])))"

subsection \<open>Collecting candidates\<close>

lemma holds_up_to_case_iff: "holds_up_to_case list v \<longleftrightarrow> toLowerCase v \<in> toLowerCase ` set list"
  by (induction list) auto

text \<open>\<^const>\<open>uniquePushString\<close> keeps what \<open>collect_once\<close> promises, with letter case left out of the comparison.\<close>

interpretation candidates: collect_once "\<lambda>v. v" toLowerCase truthy uniquePushString
  by unfold_locales (auto simp: uniquePushString_def holds_up_to_case_iff)

lemma length_uniquePushString: "length (uniquePushString xs v) \<le> Suc (length xs)"
  by (simp add: uniquePushString_def)

lemma expected_path_truthy: "truthy expectedServiceExecutablePathWindows"
  by (simp add: expectedServiceExecutablePathWindows_def)

subsection \<open>Normal form of paths\<close>

lemma backslashes_simps [simp]:
  "backslashes [] = []" "backslashes (backslashes s) = backslashes s" "filter (\<lambda>c. c \<noteq> 34) (backslashes s) = backslashes (filter (\<lambda>c. c \<noteq> 34) s)"
  by (simp_all add: backslashes_def filter_map o_def) (metis (mono_tags, lifting) filter_cong numeral_eq_iff semiring_norm)

lemma collapse_Cons: "collapse (c # s) = (if c = 92 \<and> s \<noteq> [] \<and> hd s = 92 then collapse s else c # collapse s)"
  by (cases s) auto

lemma hd_collapse: "s \<noteq> [] \<Longrightarrow> collapse s \<noteq> [] \<and> hd (collapse s) = hd s"
  by (induction s rule: collapse.induct) auto

lemma last_collapse: "s \<noteq> [] \<Longrightarrow> last (collapse s) = last s"
  by (induction s rule: collapse.induct) (auto simp: hd_collapse)

lemma set_collapse: "set (collapse s) = set s"
  by (induction s rule: collapse.induct) auto

lemma collapse_idem [simp]: "collapse (collapse s) = collapse s"
proof (induction s rule: collapse.induct)
  case (3 c d s)
  then show ?case using hd_collapse [of "d # s"] by (auto simp: collapse_Cons)
qed auto

lemma collapse_map: "(\<And>c. f c = 92 \<longleftrightarrow> c = 92) \<Longrightarrow> collapse (map f s) = map f (collapse s)"
  by (induction s rule: collapse.induct) auto

lemma collapse_no_double: "collapse s = xs @ 92 # 92 # ys \<Longrightarrow> False"
proof (induction s arbitrary: xs rule: collapse.induct)
  case (3 c d s)
  show ?case
  proof (cases "c = 92 \<and> d = 92")
    case True
    with 3 show ?thesis by auto
  next
    case False
    with 3 have eq: "c # collapse (d # s) = xs @ 92 # 92 # ys" by simp
    show ?thesis
    proof (cases xs)
      case Nil
      with eq False show ?thesis using hd_collapse [of "d # s"] by auto
    next
      case (Cons x xs')
      with eq False 3(2) show ?thesis by auto
    qed
  qed
qed auto

definition path_base :: "jsstr \<Rightarrow> jsstr" where
  "path_base p = trim (backslashes (filter (\<lambda>c. c \<noteq> 34) p))"

definition path_canon :: "jsstr \<Rightarrow> jsstr" where
  "path_canon q = (if starts_with q [92, 92] then [92, 92] @ collapse (drop 2 q) else collapse q)"

lemma collapse_drive_canon: "collapse_drive (path_canon q) = path_canon q"
proof -
  have "dropWhile (\<lambda>c. c = 92) r = r" if "collapse q = a # b # 92 # r" for a b r
    using that collapse_no_double [of q "[a, b]"] by (cases r) auto
  then show ?thesis
    by (auto simp: collapse_drive_def path_canon_def is_letter_def split: list.splits)
qed

lemma normalizeWindowsPath_eq: "normalizeWindowsPath p = toLowerCase (path_canon (path_base p))"
proof -
  have "toLowerCase (path_canon (path_base [])) = []"
    by (simp add: path_base_def path_canon_def toLowerCase_def)
  then show ?thesis
    by (simp add: normalizeWindowsPath_def path_base_def [symmetric] path_canon_def [symmetric]
        collapse_drive_canon Let_def toLowerCase_def)
qed

lemma lower_cu_fixed [simp]:
  "lower_cu c = 34 \<longleftrightarrow> c = 34" "lower_cu c = 92 \<longleftrightarrow> c = 92" "lower_cu c = 47 \<longleftrightarrow> c = 47"
  "lower_cu 34 = 34" "lower_cu 92 = 92" "lower_cu 47 = 47"
  by (auto simp: lower_cu_def)

lemma starts_with_double: "starts_with q [92, 92] \<longleftrightarrow> (\<exists>r. q = 92 # 92 # r)"
  by (simp add: starts_with_iff)

lemma path_canon_lower: "path_canon (toLowerCase q) = toLowerCase (path_canon q)"
  unfolding path_canon_def starts_with_double toLowerCase_def
  by (auto simp: collapse_map Cons_eq_map_conv drop_map map_eq_Cons_conv)

lemma path_canon_idem: "path_canon (path_canon q) = path_canon q"
proof -
  have "\<not> starts_with (collapse q) [92, 92]"
    using collapse_no_double [of q "[]"] by (auto simp: starts_with_double)
  then show ?thesis by (auto simp: path_canon_def)
qed

lemma path_base_lower: "path_base (toLowerCase p) = toLowerCase (path_base p)"
proof -
  have "backslashes (filter (\<lambda>c. c \<noteq> 34) (toLowerCase p)) = toLowerCase (backslashes (filter (\<lambda>c. c \<noteq> 34) p))"
    by (simp add: toLowerCase_def backslashes_def filter_map o_def)
  then show ?thesis by (simp add: path_base_def trim_toLowerCase)
qed

lemma path_canon_ends: "q \<noteq> [] \<Longrightarrow> path_canon q \<noteq> [] \<and> hd (path_canon q) = hd q \<and> last (path_canon q) = last q"
  by (auto simp: path_canon_def hd_collapse last_collapse starts_with_double)

lemma set_path_canon: "set (path_canon q) \<subseteq> set q"
  using set_drop_subset [of 2 q] by (auto simp: path_canon_def set_collapse starts_with_double)

lemma path_base_canon: "path_base (path_canon (path_base p)) = path_canon (path_base p)"
proof -
  let ?q = "path_canon (path_base p)"
  have "set (path_base p) \<subseteq> set (backslashes (filter (\<lambda>c. c \<noteq> 34) p))"
    unfolding path_base_def by (rule set_trim)
  then have chars: "c \<noteq> 34 \<and> c \<noteq> 47" if "c \<in> set ?q" for c
    using that set_path_canon [of "path_base p"] by (auto simp: backslashes_def)
  then have "filter (\<lambda>c. c \<noteq> 34) ?q = ?q" by (simp add: filter_id_conv)
  moreover have "backslashes ?q = ?q" unfolding backslashes_def by (rule map_idI) (use chars in auto)
  moreover have "trim ?q = ?q"
  proof (cases "path_base p = []")
    case True
    then show ?thesis by (simp add: path_canon_def)
  next
    case False
    with path_canon_ends [OF False] trim_hd_last show ?thesis unfolding path_base_def by (intro trim_id) auto
  qed
  ultimately show ?thesis by (simp add: path_base_def [of ?q])
qed

text \<open>C33: The normal form of a Windows path is one: normalising twice changes nothing, and neither the letter case, nor
  the direction of the slashes, nor quotes around the path matter, so that two spellings of one path compare
  equal.\<close>

theorem normalizeWindowsPath_canonical:
  "normalizeWindowsPath (normalizeWindowsPath p) = normalizeWindowsPath p \<and>
   normalizeWindowsPath (toLowerCase p) = normalizeWindowsPath p \<and>
   normalizeWindowsPath (backslashes p) = normalizeWindowsPath p \<and>
   normalizeWindowsPath (dq @ p @ dq) = normalizeWindowsPath p"
proof (intro conjI)
  show "normalizeWindowsPath (normalizeWindowsPath p) = normalizeWindowsPath p"
    by (simp add: normalizeWindowsPath_eq path_base_lower path_base_canon path_canon_lower path_canon_idem)
  show "normalizeWindowsPath (toLowerCase p) = normalizeWindowsPath p"
    by (simp add: normalizeWindowsPath_eq path_base_lower path_canon_lower)
  show "normalizeWindowsPath (backslashes p) = normalizeWindowsPath p"
       "normalizeWindowsPath (dq @ p @ dq) = normalizeWindowsPath p"
    by (simp_all add: normalizeWindowsPath_eq path_base_def)
qed

subsection \<open>What the service programs do\<close>

text \<open>They run commands, wait, and show critical messages, nothing else.\<close>

definition quiet_work :: "(ieffect \<Rightarrow> bool) \<Rightarrow> bool" where
  "quiet_work Q \<longleftrightarrow> (\<forall>p args r. Q (Executed p args r)) \<and> (\<forall>title t buttons a. Q (Dialog Critical title t buttons a))"

definition service_work :: "(ieffect \<Rightarrow> bool) \<Rightarrow> bool" where
  "service_work Q \<longleftrightarrow> quiet_work Q \<and> (\<forall>n. Q (Slept n))"

lemma service_quiet [simp]: "service_work Q \<Longrightarrow> quiet_work Q"
  by (simp add: service_work_def)

lemma service_sleeps [effect_rules]: "service_work Q \<Longrightarrow> effects Q (sleep_for I n)"
  by (simp add: service_work_def effect_rules)

lemma work_probes [effect_rules]:
  assumes "quiet_work Q"
  shows "effects Q (runCmdWindows I c)" "effects Q (runPowerShellWindows I t)"
    "effects Q (serviceIsRunningWindows I)" "effects Q (serviceExistsWindows I)"
    "effects Q (fileExistsWindows I path)" "effects Q (file_probe I path)"
    "effects Q (findServiceExecutableByWildcardWindows I d)" "effects Q (queryServiceStateWindows I)"
    "effects Q (run_script I script)" "effects Q (sc_binary_path I)"
    "effects Q (showServiceInstallIncompleteWindows I e a d)"
    "effects Q (exists_flag j)" "effects Q (field_or I j k dflt)"
    "effects Q (execute I p args)"
  using assms
  by (simp_all add: quiet_work_def runCmdWindows_def runPowerShellWindows_def serviceIsRunningWindows_def
      serviceExistsWindows_def fileExistsWindows_def file_probe_def findServiceExecutableByWildcardWindows_def
      queryServiceStateWindows_def run_script_def sc_binary_path_def showServiceInstallIncompleteWindows_def
      exists_flag_def field_or_def effect_rules split: option.split)

lemma work_lookups [effect_rules]:
  assumes "quiet_work Q"
  shows "effects Q (currentServiceBinaryPathWindows I)"
    "effects Q (serviceExecutablePathCandidatesForRegistrationWindows I)"
    "effects Q (runInstallServiceScriptWindows I)" "effects Q (runPostInstallScriptWindows I)"
    "effects Q (registerServiceViaPowerShellWindows I path)"
    "effects Q (forceCreateServiceKnownGoodWindows I)"
  using assms
  by (simp_all add: currentServiceBinaryPathWindows_def serviceExecutablePathCandidatesForRegistrationWindows_def
      runInstallServiceScriptWindows_def runPostInstallScriptWindows_def registerServiceViaPowerShellWindows_def
      forceCreateServiceKnownGoodWindows_def effect_rules Let_def)

lemma work_sc_create [effect_rules]: "service_work Q \<Longrightarrow> effects Q (sc_create I path)"
  by (simp add: sc_create_def effect_rules)

lemma work_look_up_service [effect_rules]: "quiet_work Q \<Longrightarrow> effects Q (look_up_service I)"
  by (simp add: look_up_service_def Let_def effect_rules)

lemma work_register_path [effect_rules]:
  "service_work Q \<Longrightarrow> effects Q (registerServiceFallbackWindowsWithPathWindows I path)"
  by (simp add: registerServiceFallbackWindowsWithPathWindows_def effect_rules service_work_def)

lemma work_register_candidates [effect_rules]: "service_work Q \<Longrightarrow> effects Q (register_candidates I cs)"
  by (induction cs) (simp_all add: Let_def effect_rules)

lemma work_found_at [effect_rules]: "quiet_work Q \<Longrightarrow> effects Q (found_at I cs)"
  by (induction cs) (simp_all add: Let_def effect_rules)

lemma work_repair [effect_rules]:
  assumes "service_work Q"
  shows "effects Q (registerServiceFallbackWindows I)" "effects Q (repair_service I svc)"
  using assms by (simp_all add: registerServiceFallbackWindows_def repair_service_def effect_rules)

lemma work_missing_details [effect_rules]: "quiet_work Q \<Longrightarrow> effects Q (missing_details I)"
  by (simp add: missing_details_def effect_rules)

lemma work_ensure [effect_rules]:
  assumes "service_work Q"
  shows "effects Q (recover_missing I raw)" "effects Q (start_registered I path)"
    "effects Q (ensureServiceStartedAndRunningWindows I)"
  using assms by (simp_all add: recover_missing_def start_registered_def
      ensureServiceStartedAndRunningWindows_def Let_def effect_rules service_work_def)

lemma work_grows [simp]: "service_work (\<lambda>_. True)"
  by (simp add: service_work_def quiet_work_def)

text \<open>The effects that show the service: a query of the service manager or of its registry key, or a look at its
  state, that succeeded.\<close>

definition service_seen :: "ieffect \<Rightarrow> bool" where
  "service_seen e \<longleftrightarrow> (case e of
     Executed p args r \<Rightarrow> exit_is r 0 \<and>
       (p, args) \<in> {((lit ''sc''), [lit ''query'', serviceName]), ((lit ''cmd''), [lit ''/c'', reg_query]),
         ((lit ''powershell''), powershell_args serviceIsRunning_script)}
   | _ \<Rightarrow> False)"

definition told_incomplete :: "ieffect \<Rightarrow> bool" where
  "told_incomplete e \<longleftrightarrow> (case e of Dialog k _ _ _ _ \<Rightarrow> k = Critical | _ \<Rightarrow> False)"

lemma seen_running [warrant_rules]: "warrants True service_seen (serviceIsRunningWindows I)"
  unfolding serviceIsRunningWindows_def by (rule warrants_exit) (simp add: service_seen_def)

lemma seen_registry: "warrants True service_seen (bindp (runCmdWindows I reg_query) (\<lambda>r. ret (exit_is r 0)))"
  unfolding runCmdWindows_def by (rule warrants_exit) (simp add: service_seen_def)

lemma seen_exists [warrant_rules]: "warrants True service_seen (serviceExistsWindows I)"
proof -
  have "warrants True service_seen (bindp (bindp (execute I (lit ''sc'') [lit ''query'', serviceName]) (\<lambda>r. ret (exit_is r 0)))
      (\<lambda>b. if b then ret True else bindp (runCmdWindows I reg_query) (\<lambda>r. ret (exit_is r 0))))"
    by (rule warrants_branch [where b = True])
      (simp_all add: warrants_exit service_seen_def seen_registry effect_rules)
  then show ?thesis by (simp add: serviceExistsWindows_def bindp_assoc bindp_ret)
qed

text \<open>\<^verbatim>\<open>if (probe()) return true; ...\<close>\<close>

lemma seen_or:
  assumes "warrants True D m" "grows m" "warrants True D n"
  shows "warrants True D (bindp m (\<lambda>b. if b then ret True else n))"
  by (rule warrants_branch [where b = True]) (simp_all add: assms effect_rules)

lemma seen_recover [warrant_rules]: "warrants True service_seen (recover_missing I raw)"
  unfolding recover_missing_def
  by (intro warrants_bindp seen_or warrants_thenp warrant_rules) (simp_all add: effect_rules)

lemma seen_start [warrant_rules]: "warrants True service_seen (start_registered I path)"
  unfolding start_registered_def Let_def
  by (intro seen_or warrants_bindp warrants_thenp warrant_rules) (simp_all add: effect_rules service_work_def)

lemma told_dialog: "warrants () told_incomplete (showServiceInstallIncompleteWindows I e a d)"
  unfolding showServiceInstallIncompleteWindows_def
  by (intro warrants_bindp warrants_message_box) (simp_all add: effect_rules told_incomplete_def)

lemma told_recover: "warrants False told_incomplete (recover_missing I raw)"
  unfolding recover_missing_def
  by (intro warrants_bindp warrants_if warrants_thenp warrants_before told_dialog warrants_ret) (simp_all add: effect_rules)

lemma told_start: "warrants False told_incomplete (start_registered I path)"
  unfolding start_registered_def Let_def
  by (intro warrants_bindp warrants_if warrants_thenp warrants_before told_dialog warrants_ret)
    (simp_all add: effect_rules service_work_def)

lemma warrants_ensure:
  assumes "\<And>raw. warrants v D (recover_missing I raw)" "\<And>path. warrants v D (start_registered I path)"
  shows "warrants v D (ensureServiceStartedAndRunningWindows I)"
proof -
  have "warrants v D ((\<lambda>(exists, raw, path). if \<not> exists then recover_missing I raw else start_registered I path) svc)" for svc
    using assms by (cases svc) simp
  then show ?thesis
    unfolding ensureServiceStartedAndRunningWindows_def by (intro warrants_bindp) (simp_all add: effect_rules)
qed

subsection \<open>How long the finish step waits\<close>

definition slept :: "ieffect \<Rightarrow> nat" where
  "slept e = (case e of Slept n \<Rightarrow> n | _ \<Rightarrow> 0)"

lemma slept_quiet [simp]: "quiet_work (\<lambda>e. slept e = 0)"
  by (simp add: quiet_work_def slept_def)

lemma slept_sleep: "costs slept n (sleep_for I n)"
  using costs_calls(4) [of slept "Slept n"] by (simp add: slept_def)

lemma no_wait:
  "effects (\<lambda>e. slept e = 0) m \<Longrightarrow> costs slept n m"
  using counts_weaken [OF costs_none] by blast

lemma slept_poll:
  "effects (\<lambda>e. slept e = 0) probe \<Longrightarrow> costs slept (n * ms) (poll I n probe ms)"
  using costs_poll [of slept 0 probe ms ms n I] by (simp add: costs_none slept_def)

lemma slept_first:
  "effects (\<lambda>e. slept e = 0) m \<Longrightarrow> (\<And>x. costs slept n (f x)) \<Longrightarrow> costs slept n (bindp m f)"
  using counts_bindp [of slept 0 m n f] by (simp add: no_wait)

lemma slept_sc_create: "costs slept 1200 (sc_create I path)"
proof -
  have "costs slept (1200 + 0) (sc_create I path)" unfolding sc_create_def
    by (intro slept_first counts_thenp slept_sleep no_wait) (simp_all add: effect_rules)
  then show ?thesis by simp
qed

lemma slept_register_path: "costs slept 29200 (registerServiceFallbackWindowsWithPathWindows I path)"
proof -
  have "costs slept (20 * 500 + (1200 + (20 * 500 + (8 * 1000 + 0))))
      (registerServiceFallbackWindowsWithPathWindows I path)"
    unfolding registerServiceFallbackWindowsWithPathWindows_def
    apply (rule counts_bindp, rule slept_poll, simp add: effect_rules)
    apply (rule counts_if, rule counts_pure, rule slept_first, simp add: effect_rules)
    apply (rule counts_bindp, simp add: counts_if slept_sc_create counts_pure)
    apply (rule counts_if, rule counts_pure, rule counts_bindp, rule slept_poll, simp add: effect_rules)
    apply (rule counts_if, rule counts_pure, rule slept_first, simp add: effect_rules)
    apply (rule slept_first, simp add: effect_rules)
    apply (rule counts_bindp, rule slept_poll, simp add: effect_rules)
    apply (rule no_wait, simp add: effect_rules)
    done
  then show ?thesis by simp
qed

lemma slept_register_candidates: "costs slept (29200 * length cs) (register_candidates I cs)"
proof (induction cs)
  case (Cons c cs)
  have "costs slept (29200 + 29200 * length cs) (bindp (registerServiceFallbackWindowsWithPathWindows I path)
      (\<lambda>ready. if ready then ret True else register_candidates I cs))" for path
    by (rule counts_bindp [OF slept_register_path counts_if [OF counts_pure(1) Cons.IH]])
  moreover have rest: "costs slept (29200 + 29200 * length cs) (register_candidates I cs)"
    by (rule counts_weaken [OF Cons.IH]) simp
  ultimately have "costs slept (29200 + 29200 * length cs) (bindp (file_probe I path) (\<lambda>exists.
      if \<not> exists then register_candidates I cs
      else bindp (registerServiceFallbackWindowsWithPathWindows I path)
        (\<lambda>ready. if ready then ret True else register_candidates I cs)))" for path
    by (intro slept_first [OF work_probes(6)]) simp_all
  with rest show ?case by (simp add: Let_def)
qed (simp add: counts_pure)

text \<open>The candidates: the expected path first, at most five, none twice up to letter case.\<close>

definition candidate_list :: "jsstr list \<Rightarrow> bool" where
  "candidate_list cs \<longleftrightarrow> cs \<noteq> [] \<and> hd cs = expectedServiceExecutablePathWindows \<and> length cs \<le> 5 \<and>
     distinct (map toLowerCase cs)"

lemma candidate_list_pushes:
  assumes "length vs \<le> 4"
  shows "candidate_list (foldl uniquePushString [] (expectedServiceExecutablePathWindows # vs))"
proof -
  let ?e = "expectedServiceExecutablePathWindows"
  have start: "uniquePushString [] ?e = [?e]"
    using expected_path_truthy by (simp add: uniquePushString_def)
  obtain zs where "foldl uniquePushString [?e] vs = [?e] @ zs" using candidates.fold_prefix by blast
  moreover have "length (foldl uniquePushString xs vs) \<le> length xs + length vs" for xs
  proof (induction vs arbitrary: xs)
    case (Cons v vs)
    show ?case using Cons.IH [of "uniquePushString xs v"] length_uniquePushString [of xs v] by simp
  qed simp
  from this [of "[?e]"] assms have "length (foldl uniquePushString [?e] vs) \<le> 5" by simp
  moreover have "distinct (map toLowerCase (foldl uniquePushString [?e] vs))"
    by (rule candidates.fold_distinct) simp
  ultimately show ?thesis by (simp add: candidate_list_def start)
qed

lemma candidates_returned:
  assumes run: "serviceExecutablePathCandidatesForRegistrationWindows I s = (Inr cs, s')"
  shows "candidate_list cs"
proof -
  let ?p = "target_dir I (world s) @ bs"
  let ?vs = "[?p @ serviceExecutableFileName I (world s), ?p @ dashedServiceExecutableFileName, ?p @ legacyServiceExecutableFileName]"
  obtain wildcard where "cs = foldl uniquePushString [] (expectedServiceExecutablePathWindows # ?vs) \<or>
      cs = foldl uniquePushString [] (expectedServiceExecutablePathWindows # ?vs @ [wildcard])"
    using run unfolding serviceExecutablePathCandidatesForRegistrationWindows_def Let_def
    by (simp add: bindp_run ask_def ret_run split: prod.splits sum.splits if_splits) blast+
  with candidate_list_pushes [of "?vs @ [wildcard]"] candidate_list_pushes [of ?vs]
  show ?thesis by auto
qed

lemma costs_traces: "costs c n m \<longleftrightarrow> traces (\<lambda>r new. sum_list (map c new) \<le> n) m"
  by (simp add: costs_def traces_def)

lemma slept_register: "costs slept 146000 (registerServiceFallbackWindows I)"
  unfolding registerServiceFallbackWindows_def costs_traces
proof (rule traces_bindp)
  let ?m = "serviceExecutablePathCandidatesForRegistrationWindows I"
  have "costs slept 0 ?m" by (rule no_wait) (simp add: effect_rules)
  then show "traces (\<lambda>r new. sum_list (map slept new) = 0 \<and> (\<forall>cs. r = Inr cs \<longrightarrow> length cs \<le> 5)) ?m"
    using candidates_returned unfolding costs_def traces_def candidate_list_def by fastforce
  show "traces (\<lambda>r new. sum_list (map slept new) \<le> 29200 * length cs) (register_candidates I cs)" for cs
    using slept_register_candidates by (simp add: costs_traces)
next
  fix cs :: "jsstr list" and new1 new2 :: "ieffect list"
  assume "sum_list (map slept new1) = 0 \<and> (\<forall>cs'. Inr cs = Inr cs' \<longrightarrow> length cs' \<le> 5)"
    "sum_list (map slept new2) \<le> 29200 * length cs"
  then show "sum_list (map slept (new1 @ new2)) \<le> 146000"
    using mult_le_mono2 [of "length cs" 5 29200] by (simp del: sum_list_eq_0_iff)
qed (simp del: sum_list_eq_0_iff)

lemma slept_repair: "costs slept 294700 (repair_service I svc)"
proof -
  have "costs slept (146000 + (1500 + (146000 + (1200 + 0)))) (repair_service I svc)"
    unfolding repair_service_def
    apply (rule counts_if, rule counts_pure)
    apply (rule slept_first, simp add: effect_rules)
    apply (rule counts_bindp, rule counts_if, rule counts_pure, rule slept_register)
    apply (rule counts_thenp, rule slept_sleep)
    apply (rule slept_first, simp add: effect_rules)
    apply (rule counts_if, rule counts_pure)
    apply (rule counts_bindp, rule slept_register)
    apply (rule counts_thenp, rule slept_sleep)
    apply (rule no_wait, simp add: effect_rules)
    done
  then show ?thesis by simp
qed

lemma slept_recover: "costs slept 2000 (recover_missing I raw)"
proof -
  have "costs slept (1000 + (1000 + 0)) (recover_missing I raw)"
    unfolding recover_missing_def
    apply (rule slept_first, simp add: effect_rules)
    apply (rule counts_bindp)
     apply (rule counts_if, rule counts_weaken, rule counts_thenp, rule slept_sleep)
       apply (rule no_wait [where n = 0], simp add: effect_rules, simp, rule counts_pure)
    apply (rule counts_if, rule counts_pure, rule slept_first, simp add: effect_rules)
    apply (rule counts_thenp, rule slept_sleep)
    apply (rule no_wait, simp add: effect_rules)
    done
  then show ?thesis by simp
qed

lemma slept_start: "costs slept 12000 (start_registered I path)"
proof -
  have "costs slept (10 * 1200 + 0) (start_registered I path)"
    unfolding start_registered_def Let_def
    apply (rule slept_first, simp add: effect_rules, rule counts_if, rule counts_pure)
    apply (rule slept_first, simp add: effect_rules)
    apply (rule counts_bindp, rule slept_poll, simp add: effect_rules)
    apply (rule no_wait, simp add: effect_rules)
    done
  then show ?thesis by simp
qed

lemma slept_ensure: "costs slept 306700 (ensureServiceStartedAndRunningWindows I)"
proof -
  have "costs slept 12000 ((\<lambda>(exists, raw, path). if \<not> exists then recover_missing I raw else start_registered I path) svc)" for svc
    by (cases svc) (simp add: counts_weaken [OF slept_recover] slept_start)
  then have "costs slept (294700 + 12000) (ensureServiceStartedAndRunningWindows I)"
    unfolding ensureServiceStartedAndRunningWindows_def
    by (intro slept_first counts_bindp slept_repair) (simp_all add: effect_rules)
  then show ?thesis by simp
qed

text \<open>C8: The check of the service at the end of an installation is honest and ends: it answers that the service is
  there only after a query of the service manager, of its registry key or of its state succeeded; it
  answers that it is not only after a critical message told the user so; and the waits of its calls of \<^verbatim>\<open>sleep\<close> add up to
  at most 306.7 seconds, whatever the commands answer. What a command itself takes, such as the \<^verbatim>\<open>Start-Sleep\<close> in a
  PowerShell text, is not counted.\<close>

theorem ensureService_honest:
  assumes "ensureServiceStartedAndRunningWindows I s = (r, s')"
  shows "\<exists>new. sv_log s' = sv_log s @ new \<and>
    (r = Inr True \<longrightarrow> (\<exists>e \<in> set new. service_seen e)) \<and>
    (r = Inr False \<longrightarrow> (\<exists>e \<in> set new. told_incomplete e)) \<and>
    sum_list (map slept new) \<le> 306700"
proof -
  have "warrants True service_seen (ensureServiceStartedAndRunningWindows I)"
    by (rule warrants_ensure [OF seen_recover seen_start])
  moreover have "warrants False told_incomplete (ensureServiceStartedAndRunningWindows I)"
    by (rule warrants_ensure [OF told_recover told_start])
  ultimately show ?thesis
    using tracesD [OF traces_conj [OF traces_conj slept_ensure [unfolded costs_traces]] assms]
    unfolding warrants_def by fastforce
qed

text \<open>A machine on which every command succeeds and the service is registered at its place.\<close>

definition good_ifw :: "unit ifw" where
  "good_ifw = \<lparr>ifw_kernelType = lit ''winnt'', ifw_cpu = lit ''x86_64'', ifw_isInstaller = True, ifw_isUpdater = False,
     ifw_isUninstaller = False, ifw_success = (\<lambda>_. True), ifw_value = (\<lambda>_ k. k), ifw_environment = (\<lambda>_ _. []),
     ifw_findPath = (\<lambda>_ _ _. []), ifw_fileExists = (\<lambda>_ _. False), ifw_widget = (\<lambda>_ _. False),
     ifw_targetText = (\<lambda>_. None), ifw_execute = (\<lambda>_ _ w. (Some ([], 0), w)),
     ifw_answer = (\<lambda>_ _ _ _ w. (Ok, w)), ifw_gainAdmin = (\<lambda>w. (True, w)),
     ifw_addWizardPage = (\<lambda>_ _ w. (True, w)), ifw_act = (\<lambda>_ w. w), ifw_tr = (\<lambda>t. t),
     ifw_number = (\<lambda>_. []), ifw_toNumber = (\<lambda>_. None),
     ifw_JSON_parse = (\<lambda>_. Some (JObj [((lit ''exists''), JBool True),
       ((lit ''PathName''), JStr expectedServiceExecutablePathWindows)]))\<rparr>"

lemma good_ifw_sel [simp]:
  "ifw_execute good_ifw p args w = (Some ([], 0), w)" "ifw_gainAdmin good_ifw w = (True, w)"
  "ifw_JSON_parse good_ifw t = Some (JObj [((lit ''exists''), JBool True), ((lit ''PathName''), JStr expectedServiceExecutablePathWindows)])"
  "ifw_success good_ifw w" "ifw_isInstaller good_ifw" "runningOnWindows good_ifw" "ifw_value good_ifw w k = k"
  by (simp_all add: good_ifw_def runningOnWindows_def)

lemma trim_expected: "trim expectedServiceExecutablePathWindows = expectedServiceExecutablePathWindows"
  by (rule trim_id) (simp add: expectedServiceExecutablePathWindows_def lit_Cons is_ws_def)

lemma match_expected:
  "first_match (drive_match lazy_exe) expectedServiceExecutablePathWindows = Some expectedServiceExecutablePathWindows"
  by (simp add: expectedServiceExecutablePathWindows_def lit_Cons drive_match_def is_letter_def is_exe_def
      toLowerCase_def lower_cu_def)

lemma extract_expected: "extractExecutablePathWindows expectedServiceExecutablePathWindows = expectedServiceExecutablePathWindows"
proof -
  have "hd expectedServiceExecutablePathWindows \<noteq> 34"
    by (simp add: expectedServiceExecutablePathWindows_def lit_Cons)
  with expected_path_truthy show ?thesis
    by (simp add: extractExecutablePathWindows_def Let_def trim_expected match_expected)
qed

lemma good_look_up:
  "\<exists>s'. look_up_service good_ifw s = (Inr (True, expectedServiceExecutablePathWindows,
     normalizeWindowsPath expectedServiceExecutablePathWindows), s')"
  using expected_path_truthy
  by (simp add: look_up_service_def queryServiceStateWindows_def exists_flag_def field_or_def Let_def bindp_run
      execute_def exit_is_def ret_run lift_run jor_def extract_expected)

lemma good_ensure: "\<exists>s'. ensureServiceStartedAndRunningWindows good_ifw s = (Inr True, s')"
proof -
  let ?svc = "(True, expectedServiceExecutablePathWindows, normalizeWindowsPath expectedServiceExecutablePathWindows)"
  obtain s1 where "look_up_service good_ifw s = (Inr ?svc, s1)" using good_look_up by blast
  then show ?thesis
    by (simp add: ensureServiceStartedAndRunningWindows_def bindp_run repair_service_def misplaced_def ret_run
        start_registered_def serviceIsRunningWindows_def execute_def exit_is_def)
qed

theorem ensureService_honest_witness:
  "\<exists>s' new. ensureServiceStartedAndRunningWindows good_ifw (script_start ()) = (Inr True, s') \<and>
     sv_log s' = new \<and> (\<exists>e \<in> set new. service_seen e) \<and> sum_list (map slept new) \<le> 306700"
proof -
  obtain s' where run: "ensureServiceStartedAndRunningWindows good_ifw (script_start ()) = (Inr True, s')"
    using good_ensure by blast
  from ensureService_honest [OF run] run show ?thesis by (auto simp: script_start_def)
qed

subsection \<open>Starting the client\<close>

text \<open>Whether the script holds administrator rights after a list of effects.\<close>

definition has_rights :: "ieffect list \<Rightarrow> bool" where
  "has_rights es = foldl (\<lambda>held e. case e of GainAdmin b \<Rightarrow> held \<or> b | DropAdmin \<Rightarrow> False | _ \<Rightarrow> held) False es"

definition detaches :: "ieffect \<Rightarrow> bool" where
  "detaches e \<longleftrightarrow> (case e of Detached _ _ _ \<Rightarrow> True | _ \<Rightarrow> False)"

definition gains :: "ieffect \<Rightarrow> bool" where
  "gains e \<longleftrightarrow> (case e of GainAdmin _ \<Rightarrow> True | _ \<Rightarrow> False)"

lemma effect_kinds [simp]:
  "\<not> gains (Detached c args d)" "\<not> gains (Executed p args r)" "\<not> detaches (Executed p args r)"
  "\<not> detaches DropAdmin" "\<not> gains DropAdmin" "\<not> detaches (GainAdmin g)"
  by (simp_all add: gains_def detaches_def)

lemma has_rights_after_drop:
  assumes "\<forall>e \<in> set b. \<not> gains e"
  shows "\<not> has_rights (a @ DropAdmin # b)"
proof -
  have "foldl (\<lambda>held e. case e of GainAdmin b \<Rightarrow> held \<or> b | DropAdmin \<Rightarrow> False | _ \<Rightarrow> held) False b = False"
    using assms by (induction b) (auto simp: gains_def split: ieffect.splits)
  then show ?thesis by (simp add: has_rights_def)
qed

lemma work_silent [simp]:
  "service_work (\<lambda>e. \<not> detaches e \<and> \<not> gains e)" "quiet_work (\<lambda>e. \<not> gains e)"
  by (simp_all add: service_work_def quiet_work_def detaches_def gains_def)

text \<open>What starting a program asks of the effects before it: the rights are given back, and \<open>D\<close> was met.\<close>

definition launches_after :: "bool \<Rightarrow> ieffect list \<Rightarrow> bool" where
  "launches_after W es \<longleftrightarrow> (\<forall>a e b. es = a @ e # b \<and> detaches e \<longrightarrow>
     \<not> has_rights a \<and> (W \<longrightarrow> (\<exists>d \<in> set a. service_seen d)))"

lemma launch_client_trace:
  "traces (\<lambda>r new. \<exists>b. new = DropAdmin # b \<and> (\<forall>e \<in> set b. \<not> gains e)) (launch_client I c y path)"
proof -
  let ?rest = "bindp (ask (\<lambda>w. ifw_value I w (lit ''TargetDir''))) (\<lambda>dir. thenp (act I (Detached c [] dir))
     (bindp (if runningOnWindows I \<and> y then fileExistsWindows I path else ret False) (\<lambda>b.
       if b then bindp (ask (\<lambda>w. ifw_value I w (lit ''TargetDir''))) (\<lambda>dir. act I (Detached path [] dir)) else ret ())))"
  have rest: "effects (\<lambda>e. \<not> gains e) ?rest" by (simp only: effect_rules work_silent effect_kinds not_False_eq_True simp_thms)
  have drop: "traces (\<lambda>r new. r = Inr () \<and> new = [DropAdmin]) (act I DropAdmin)"
    by (simp add: traces_def act_def)
  show ?thesis
    unfolding launch_client_def thenp_def [of "act I DropAdmin"]
    by (rule traces_bindp [OF drop traces_effects [OF rest]]) auto
qed

lemma launches_after_app:
  assumes a: "\<forall>e \<in> set a. \<not> detaches e" "W \<longrightarrow> (\<exists>d \<in> set a. service_seen d)" and b: "\<forall>e \<in> set b. \<not> gains e"
  shows "launches_after W (a @ DropAdmin # b)"
  unfolding launches_after_def
proof (intro allI impI)
  fix p e q
  assume eq: "a @ DropAdmin # b = p @ e # q \<and> detaches e"
  then obtain u where "p = a @ DropAdmin # u" "b = u @ e # q"
    using a(1) by (auto simp: append_eq_append_conv2 Cons_eq_append_conv detaches_def append_eq_Cons_conv)
  with a(2) b show "\<not> has_rights p \<and> (W \<longrightarrow> (\<exists>d \<in> set p. service_seen d))"
    using has_rights_after_drop [of u a] by auto
qed

lemma launches_after_none: "\<forall>e \<in> set es. \<not> detaches e \<Longrightarrow> launches_after W es"
  by (auto simp: launches_after_def)

lemma traces_ask: "(\<And>x. traces P (f x)) \<Longrightarrow> traces P (bindp (ask g) f)"
  by (simp add: traces_def bindp_run ask_def)

text \<open>The part of \<^const>\<open>installationFinished\<close> with the rights held: it ends by giving them back, or with an exception
  and nothing started.\<close>

definition finishes :: "bool \<Rightarrow> exn + unit \<Rightarrow> ieffect list \<Rightarrow> bool" where
  "finishes W r new \<longleftrightarrow>
     (\<exists>a b. new = a @ DropAdmin # b \<and> (\<forall>e \<in> set a. \<not> detaches e) \<and> (\<forall>e \<in> set b. \<not> gains e) \<and>
        ((W \<longrightarrow> (\<exists>d \<in> set a. service_seen d)) \<or> b = [])) \<or>
     (\<forall>e \<in> set new. \<not> detaches e) \<and> r \<noteq> Inr ()"

lemma launch_finishes: "\<not> W \<Longrightarrow> traces (finishes W) (launch_client I c y path)"
  by (rule traces_weaken [OF launch_client_trace]) (metis finishes_def append_Nil empty_iff list.set(1))

lemma windows_finishes:
  "traces (finishes True) (bindp (ensureServiceStartedAndRunningWindows I) (\<lambda>ready.
     bindp (execute I p args) (\<lambda>_. if \<not> ready then act I DropAdmin else launch_client I c y path)))"
proof (rule traces_bindp)
  let ?m = "ensureServiceStartedAndRunningWindows I"
  show "traces (\<lambda>r new. (r = Inr True \<longrightarrow> (\<exists>e \<in> set new. service_seen e)) \<and> (\<forall>e \<in> set new. \<not> detaches e \<and> \<not> gains e)) ?m"
    by (rule traces_conj [OF warrants_ensure [OF seen_recover seen_start, unfolded warrants_def] traces_effects])
      (simp add: effect_rules)
  show "traces (\<lambda>r new. \<exists>x b. new = Executed p args x # DropAdmin # b \<and> (\<forall>e \<in> set b. \<not> gains e) \<and> (ready \<or> b = []))
      (bindp (execute I p args) (\<lambda>_. if \<not> ready then act I DropAdmin else launch_client I c y path))" for ready
  proof (rule traces_bindp)
    show "traces (\<lambda>r new. \<exists>x. r = Inr x \<and> new = [Executed p args x]) (execute I p args)"
      by (auto simp: traces_def execute_def split: prod.splits)
    show "traces (\<lambda>r new. \<exists>b. new = DropAdmin # b \<and> (\<forall>e \<in> set b. \<not> gains e) \<and> (ready \<or> b = []))
        (if \<not> ready then act I DropAdmin else launch_client I c y path)" for x :: exec_result
      using launch_client_trace [of I c y path] by (auto simp: traces_def act_def)
  qed auto
next
  fix ready r and new1 new2 :: "ieffect list"
  assume new1: "(Inr ready = Inr True \<longrightarrow> (\<exists>e \<in> set new1. service_seen e)) \<and> (\<forall>e \<in> set new1. \<not> detaches e \<and> \<not> gains e)"
    and "\<exists>x b. new2 = Executed p args x # DropAdmin # b \<and> (\<forall>e \<in> set b. \<not> gains e) \<and> (ready \<or> b = [])"
  then obtain x b where "new2 = Executed p args x # DropAdmin # b" "\<forall>e \<in> set b. \<not> gains e" "ready \<or> b = []" by blast
  with new1 show "finishes True r (new1 @ new2)"
    unfolding finishes_def by (intro disjI1 exI [of _ "new1 @ [Executed p args x]"] exI [of _ b]) auto
qed (auto simp: finishes_def)

lemma finishes_rights:
  assumes "finishes W r new"
  shows "launches_after W (GainAdmin True # new) \<and> (r = Inr () \<longrightarrow> \<not> has_rights (GainAdmin True # new))"
proof -
  consider (drop) a b where "new = a @ DropAdmin # b" "\<forall>e \<in> set a. \<not> detaches e" "\<forall>e \<in> set b. \<not> gains e"
      "(W \<longrightarrow> (\<exists>d \<in> set a. service_seen d)) \<or> b = []"
    | (thrown) "\<forall>e \<in> set new. \<not> detaches e" "r \<noteq> Inr ()"
    using assms unfolding finishes_def by blast
  then show ?thesis
  proof cases
    case drop
    then have "launches_after W ((GainAdmin True # a) @ DropAdmin # b)"
      using launches_after_app [of "GainAdmin True # a" W b] launches_after_none [of "GainAdmin True # a @ [DropAdmin]"] by auto
    with has_rights_after_drop [OF drop(3), of "GainAdmin True # a"] drop(1) show ?thesis by simp
  next
    case thrown
    then show ?thesis by (simp add: launches_after_none)
  qed
qed

text \<open>C9: When an installation is finished, the client and the browser installer are started without administrator
  rights, and on Windows only after the service of the client was seen; and when the step ends normally the
  rights it gained are given back on every path.\<close>

theorem installationFinished_launch:
  assumes run: "installationFinished I s = (r, s')"
  shows "\<exists>new. sv_log s' = sv_log s @ new \<and> launches_after (runningOnWindows I) new \<and>
    (r = Inr () \<longrightarrow> \<not> has_rights new)"
proof -
  let ?R = "\<lambda>r new. launches_after (runningOnWindows I) new \<and> (r = Inr () \<longrightarrow> \<not> has_rights new)"
  have none: "?R r []" for r by (simp add: launches_after_none has_rights_def)
  have gain: "traces (\<lambda>r new. \<exists>b. r = Inr b \<and> new = [GainAdmin b]) (gainAdminRights I)"
    by (auto simp: traces_def gainAdminRights_def split: prod.splits)
  have refused: "?R r [GainAdmin False]" for r by (simp add: launches_after_none has_rights_def)
  have "traces ?R (installationFinished I)"
    unfolding installationFinished_def
    apply (rule traces_ask, rule traces_if, rule traces_ret, rule none)
    apply (rule traces_bindp [OF gain, where Q = "\<lambda>b r new. (b \<longrightarrow> finishes (runningOnWindows I) r new) \<and> (\<not> b \<longrightarrow> new = [])"])
    subgoal for success b
      by (cases b; cases "runningOnWindows I")
        (simp_all add: traces_ret traces_ask windows_finishes launch_finishes)
    subgoal by simp
    subgoal for success b new1 r new2
      using finishes_rights [of "runningOnWindows I" r new2] refused [of r] by (cases b) auto
    done
  from tracesD [OF this run] show ?thesis .
qed

lemma good_finish:
  "\<exists>s'. installationFinished good_ifw s = (Inr (), s') \<and> (\<exists>e \<in> set (sv_log s'). detaches e)"
proof -
  let ?s1 = "record_effect (GainAdmin True) (world s) s"
  obtain s2 where "ensureServiceStartedAndRunningWindows good_ifw ?s1 = (Inr True, s2)" using good_ensure by blast
  then show ?thesis
    by (simp add: installationFinished_def bindp_run ask_def gainAdminRights_def ret_run execute_def launch_client_def
        thenp_run act_def fileExistsWindows_def runPowerShellWindows_def exit_is_def) (simp add: detaches_def)
qed

theorem installationFinished_launch_witness:
  "\<exists>s'. installationFinished good_ifw (script_start ()) = (Inr (), s') \<and>
     (\<exists>e \<in> set (sv_log s'). detaches e) \<and> launches_after True (sv_log s') \<and> \<not> has_rights (sv_log s')"
proof -
  obtain s' where run: "installationFinished good_ifw (script_start ()) = (Inr (), s')" and
    "\<exists>e \<in> set (sv_log s'). detaches e" using good_finish by blast
  with installationFinished_launch [OF run] show ?thesis by (auto simp: script_start_def)
qed

end
