(* ===== verification/Installer_Control.thy ===== *)
theory Installer_Control
  imports Installer_Api
begin

section \<open>The control script of the installer\<close>

text \<open>
  \<^verbatim>\<open>config/controlscript.js\<close>: the pages the wizard shows, the question to close a client that is running,
  which is asked until the client is gone or the user gives up, and the removal of an installation that
  is there already. Names that the component script uses too carry the suffix \<open>_ctl\<close>.
\<close>

subsection \<open>Names and paths\<close>

definition appName_ctl :: "'w ifw \<Rightarrow> 'w \<Rightarrow> jsstr" where
  "appName_ctl I w = ifw_value I w (lit ''Name'')"

definition runningOnWindows_ctl :: "'w ifw \<Rightarrow> 'w \<Rightarrow> bool" where
  "runningOnWindows_ctl I w \<longleftrightarrow> ifw_value I w (lit ''os'') = lit ''win''"

definition runningOnMacOS_ctl :: "'w ifw \<Rightarrow> 'w \<Rightarrow> bool" where
  "runningOnMacOS_ctl I w \<longleftrightarrow> ifw_value I w (lit ''os'') = lit ''mac''"

definition runningOnLinux_ctl :: "'w ifw \<Rightarrow> 'w \<Rightarrow> bool" where
  "runningOnLinux_ctl I w \<longleftrightarrow> ifw_value I w (lit ''os'') = (lit ''linux'') \<or> ifw_value I w (lit ''os'') = lit ''x11''"

definition appExecutableFileName_ctl :: "'w ifw \<Rightarrow> 'w \<Rightarrow> jsstr" where
  "appExecutableFileName_ctl I w = (if runningOnWindows_ctl I w then appName_ctl I w @ (lit ''.exe'') else appName_ctl I w)"

text \<open>A path that no branch has set is \<^verbatim>\<open>undefined\<close>, here \<^const>\<open>None\<close>.\<close>

definition uninstaller_paths :: "'w ifw \<Rightarrow> 'w \<Rightarrow> 'w script \<Rightarrow> 'w script" where
  "uninstaller_paths I w g = (
     if runningOnWindows_ctl I w then
       g\<lparr>appInstalledUninstallerPath := Some (ifw_value I w (lit ''RootDir'') @ (lit ''Program Files/FBLinkVPN/maintenancetool.exe'')),
         appInstalledUninstallerPath_x86 := Some (ifw_value I w (lit ''RootDir'') @ (lit ''Program Files (x86)/FBLinkVPN/maintenancetool.exe''))\<rparr>
     else if runningOnMacOS_ctl I w then
       g\<lparr>appInstalledUninstallerPath :=
         Some ((lit ''/Applications/'') @ appName_ctl I w @ (lit ''.app/maintenancetool.app/Contents/MacOS/maintenancetool''))\<rparr>
     else if runningOnLinux_ctl I w then
       g\<lparr>appInstalledUninstallerPath := Some ((lit ''/opt/'') @ appName_ctl I w @ (lit ''/maintenancetool''))\<rparr>
     else g)"

definition appInstalled :: "'w ifw \<Rightarrow> ('w ist, bool) prog" where
  "appInstalled I = thenp (assign (\<lambda>g. uninstaller_paths I (sc_world g) g))
     (globals (\<lambda>g. ifw_fileExists I (sc_world g) (appInstalledUninstallerPath g) \<or>
        ifw_fileExists I (sc_world g) (appInstalledUninstallerPath_x86 g)))"

text \<open>\<^verbatim>\<open>str.indexOf(suffix, from)\<close>, where a negative start counts as 0.\<close>

fun index_from :: "jsstr \<Rightarrow> jsstr \<Rightarrow> nat \<Rightarrow> int" where
  "index_from [] suffix i = (if suffix = [] then int i else -1)"
| "index_from (c # s) suffix i = (if starts_with (c # s) suffix then int i else index_from s suffix (Suc i))"

definition indexOf_from :: "jsstr \<Rightarrow> jsstr \<Rightarrow> int \<Rightarrow> int" where
  "indexOf_from str suffix start = (let k = min (nat start) (length str) in index_from (drop k str) suffix k)"

definition endsWith_ctl :: "jsstr \<Rightarrow> jsstr \<Rightarrow> bool" where
  "endsWith_ctl str suffix \<longleftrightarrow> indexOf_from str suffix (int (length str) - int (length suffix)) \<noteq> -1"

subsection \<open>Processes\<close>

definition raise_command :: "'w ifw \<Rightarrow> rat \<Rightarrow> jsstr" where
  "raise_command I pid = (lit ''tell application '' @ dq @ lit ''System Events'' @ dq @ lit '' '') @
     ([10] @ lit ''      set frontmost of the first process whose unix id is '') @ ifw_number I pid @ (lit '' to true '') @
     ([10] @ lit ''      end tell'') @
     ([10] @ lit ''       '')"

definition raiseInstallerWindow :: "'w ifw \<Rightarrow> ('w ist, unit) prog" where
  "raiseInstallerWindow I = bindp (ask (runningOnMacOS_ctl I)) (\<lambda>mac.
     if \<not> mac then ret () else
     bindp (ask (appName_ctl I)) (\<lambda>name.
     bindp (execute I (lit ''/bin/bash'') [lit ''-c'', (lit ''ps -A | grep -m1 '' @ sq) @ name @ (sq @ lit '' | awk '' @ sq @ lit ''{print $1}'' @ sq)]) (\<lambda>result.
       case (case result of None \<Rightarrow> None | Some (out, _) \<Rightarrow> ifw_toNumber I out) of
         None \<Rightarrow> ret ()
       | Some pid \<Rightarrow> if pid > 0 then bindp (execute I (lit ''osascript'') [lit ''-e'', raise_command I pid]) (\<lambda>_. ret ()) else ret ())))"

definition checkProcessIsRunning :: "'w ifw \<Rightarrow> jsstr \<Rightarrow> ('w ist, bool) prog" where
  "checkProcessIsRunning I command = bindp (execute I (lit ''/bin/bash'') [lit ''-c'', command]) (\<lambda>result.
     case result of
       None \<Rightarrow> throw TypeError
     | Some (out, _) \<Rightarrow> (let lines = split_runs (\<lambda>c. c = 10) (trim out) in
         case ifw_toNumber I (hd lines) of
           None \<Rightarrow> ret False
         | Some n \<Rightarrow> ret (n \<ge> 2)))"

definition appProcessIsRunning :: "'w ifw \<Rightarrow> ('w ist, bool) prog" where
  "appProcessIsRunning I = bindp (ask (runningOnWindows_ctl I)) (\<lambda>windows.
     if windows then
       bindp (execute I (lit ''tasklist'') []) (\<lambda>result.
       bindp (ask (appExecutableFileName_ctl I)) (\<lambda>exe.
         ret (exit_is result 0 \<and> includes_str (output_of result) exe)))
     else bindp (ask (appName_ctl I)) (\<lambda>name. checkProcessIsRunning I ((lit ''pgrep -x '' @ sq) @ name @ (sq))))"

subsection \<open>Pages\<close>

fun acts :: "'w ifw \<Rightarrow> ieffect list \<Rightarrow> ('w ist, unit) prog" where
  "acts I [] = ret ()"
| "acts I (e # es) = thenp (act I e) (acts I es)"

definition requestToQuit :: "'w ifw \<Rightarrow> ('w ist, unit) prog" where
  "requestToQuit I = thenp (assign (\<lambda>g. g\<lparr>requestToQuitFromApp := True\<rparr>))
     (thenp (acts I [PageVisible IntroductionPage False, PageVisible TargetDirectory False,
        PageVisible ComponentSelection False, PageVisible LicenseCheck False, PageVisible StartMenuSelection False,
        PageVisible ReadyForInstallation False, PageVisible PerformInstallation False, PageVisible FinishedPage False,
        Click NextButton, Click FinishButton, Click CancelButton])
     (bindp (ask (runningOnWindows_ctl I)) (\<lambda>windows. if windows then act I SetCancelled else ret ())))"

definition PerformInstallationPageCallback :: "'w ifw \<Rightarrow> ('w ist, unit) prog" where
  "PerformInstallationPageCallback I = act I (Click NextButton)"

definition LicenseAgreementPageCallback :: "'w ifw \<Rightarrow> ('w ist, unit) prog" where
  "LicenseAgreementPageCallback I = (if ifw_isUpdater I then act I (Click NextButton) else ret ())"

definition FinishedPageCallback :: "'w ifw \<Rightarrow> ('w ist, unit) prog" where
  "FinishedPageCallback I = bindp (globals desktopAppProcessRunning) (\<lambda>running.
     if running then act I (Click FinishButton)
     else if ifw_isUpdater I then thenp (act I AutoAccept) (act I (Click FinishButton))
     else ret ())"

definition RestartPageCallback :: "'w ifw \<Rightarrow> ('w ist, unit) prog" where
  "RestartPageCallback I = thenp (assign (\<lambda>g. g\<lparr>updaterCompleted := 1\<rparr>)) (act I (Click FinishButton))"

definition StartMenuDirectoryPageCallback :: "'w ifw \<Rightarrow> ('w ist, unit) prog" where
  "StartMenuDirectoryPageCallback I = act I (Click NextButton)"

definition ComponentSelectionPageCallback :: "'w ifw \<Rightarrow> ('w ist, unit) prog" where
  "ComponentSelectionPageCallback I = act I (Click NextButton)"

definition ReadyForInstallationPageCallback :: "'w ifw \<Rightarrow> ('w ist, unit) prog" where
  "ReadyForInstallationPageCallback I = (if ifw_isUpdater I then act I (Click CommitButton) else ret ())"

text \<open>\<open>ifw_targetText\<close> is the text of the directory field of the target page, when there is such a page.\<close>

definition TargetDirectoryPageCallback :: "'w ifw \<Rightarrow> ('w ist, unit) prog" where
  "TargetDirectoryPageCallback I = bindp (ask (ifw_targetText I)) (\<lambda>widget.
     case widget of
       None \<Rightarrow> ret ()
     | Some _ \<Rightarrow> acts I [Disconnected (lit ''BrowseDirectoryButton.clicked''), Connected (lit ''BrowseDirectoryButton.clicked''),
         Click NextButton])"

definition IntroductionPageCallback :: "'w ifw \<Rightarrow> ('w ist, unit) prog" where
  "IntroductionPageCallback I = bindp (globals updaterCompleted) (\<lambda>completed.
     if ifw_isUpdater I \<and> completed = 1 then thenp (act I (Click FinishButton)) (act I (Click CancelButton))
     else bindp (ask (\<lambda>w. ifw_widget I w (lit ''current''))) (\<lambda>widget.
       thenp (if ifw_isUninstaller I \<and> widget
              then thenp (act I (WidgetSet (lit ''PackageManagerRadioButton'') (lit ''visible'') (lit ''false'')))
                     (act I (WidgetSet (lit ''UpdaterRadioButton'') (lit ''visible'') (lit ''false'')))
              else ret ())
         (if ifw_isUpdater I then act I (Click NextButton) else ret ())))"

definition onBrowseButtonClicked :: "'w ifw \<Rightarrow> ('w ist, unit) prog" where
  "onBrowseButtonClicked I = bindp (ask (ifw_targetText I)) (\<lambda>widget.
     case widget of
       None \<Rightarrow> ret ()
     | Some targetDir \<Rightarrow> bindp (ask (runningOnWindows_ctl I)) (\<lambda>windows.
         if \<not> windows then ret () else
         bindp (ask (appName_ctl I)) (\<lambda>name.
           let targetDir = (if \<not> endsWith_ctl targetDir name then targetDir @ bs @ name else targetDir) in
           thenp (act I (SetValue (lit ''TargetDir'') targetDir))
             (bindp (ask (\<lambda>w. ifw_value I w (lit ''TargetDir''))) (\<lambda>dir.
                act I (WidgetSet (lit ''TargetDirectoryLineEdit'') (lit ''text'') dir))))))"

definition onNextButtonClicked :: "'w ifw \<Rightarrow> ('w ist, unit) prog" where
  "onNextButtonClicked I = bindp (ask (ifw_targetText I)) (\<lambda>widget.
     case widget of None \<Rightarrow> ret () | Some t \<Rightarrow> act I (SetValue (lit ''APP_BUNDLE_TARGET_DIR'') t))"

subsection \<open>Waiting for the client to be closed\<close>

text \<open>\<^verbatim>\<open>for (i = 0; i < n; i++) { running = appProcessIsRunning(); if (!running) break; }\<close>\<close>

fun await_stopped :: "'w ifw \<Rightarrow> nat \<Rightarrow> ('w ist, unit) prog" where
  "await_stopped I 0 = ret ()"
| "await_stopped I (Suc n) = bindp (appProcessIsRunning I) (\<lambda>running.
     thenp (assign (\<lambda>g. g\<lparr>desktopAppProcessRunning := running\<rparr>))
       (if \<not> running then ret () else await_stopped I n))"

text \<open>One pass of \<^verbatim>\<open>isDesktopAppProcessRunningMessageLoop\<close>; its result says whether it calls itself again.\<close>

definition message_pass :: "'w ifw \<Rightarrow> ('w ist, bool) prog" where
  "message_pass I = bindp (globals requestToQuitFromApp) (\<lambda>quit.
     if quit then ret False else
     thenp (if ifw_isUpdater I then await_stopped I 400 else ret ())
     (bindp (appProcessIsRunning I) (\<lambda>running.
      thenp (assign (\<lambda>g. g\<lparr>desktopAppProcessRunning := running\<rparr>))
      (if \<not> running then ret False else
       bindp (ask (appName_ctl I)) (\<lambda>name.
       bindp (message_box I Warning (name @ (lit '' installer''))
           (name @ (lit '' is active. Close the app and press '' @ dq @ lit ''Retry'' @ dq @
      lit '' button to continue installation. Press '' @ dq @ lit ''Abort'' @ dq @
      lit '' button to abort the installer and exit.''))
           [Retry, Abort]) (\<lambda>result.
         if result = Retry then ret True
         else thenp (assign (\<lambda>g. g\<lparr>requestToQuitFromApp := True\<rparr>)) (ret False)))))))"

partial_function (option) isDesktopAppProcessRunningMessageLoop ::
    "'w ifw \<Rightarrow> 'w ist \<Rightarrow> ((exn + unit) \<times> 'w ist) option" where
  "isDesktopAppProcessRunningMessageLoop I s = (case message_pass I s of (r, s') \<Rightarrow>
     (case r of
        Inl e \<Rightarrow> Some (Inl e, s')
      | Inr again \<Rightarrow> if again then isDesktopAppProcessRunningMessageLoop I s' else Some (Inr (), s')))"

subsection \<open>The controller\<close>

definition controller_setup :: "'w ifw \<Rightarrow> ('w ist, unit) prog" where
  "controller_setup I =
     bindp (if ifw_isInstaller I \<or> ifw_isUpdater I then appInstalled I else ret False) (\<lambda>_.
     bindp (ask (runningOnWindows_ctl I)) (\<lambda>windows.
     thenp (if windows then act I (SetValue (lit ''AllUsers'') (lit ''true'')) else ret ())
       (if ifw_isInstaller I
        then acts I [PageVisible ComponentSelection False, PageVisible TargetDirectory False,
          PageVisible StartMenuDirectoryPage False]
        else ret ())))"

fun wait_removed :: "'w ifw \<Rightarrow> nat \<Rightarrow> ('w ist, unit) prog" where
  "wait_removed I 0 = ret ()"
| "wait_removed I (Suc n) = thenp (sleep_for I 100)
     (bindp (globals (\<lambda>g. ifw_fileExists I (sc_world g) (appInstalledUninstallerPath g))) (\<lambda>there.
       if \<not> there then ret () else wait_removed I n))"

text \<open>\<^verbatim>\<open>if (installer.fileExists(path)) resultArray = installer.execute(path)\<close>\<close>

definition run_uninstaller :: "'w ifw \<Rightarrow> ('w script \<Rightarrow> jsstr option) \<Rightarrow> exec_result \<Rightarrow> ('w ist, exec_result) prog" where
  "run_uninstaller I path resultArray = bindp (globals path) (\<lambda>p.
     bindp (ask (\<lambda>w. ifw_fileExists I w p)) (\<lambda>there.
       if there then execute I (nullish p []) [] else ret resultArray))"

definition remove_installation :: "'w ifw \<Rightarrow> ('w ist, unit) prog" where
  "remove_installation I = bindp (appInstalled I) (\<lambda>installed.
     if \<not> installed then raiseInstallerWindow I else
     bindp (run_uninstaller I appInstalledUninstallerPath_x86 None) (\<lambda>resultArray.
     bindp (run_uninstaller I appInstalledUninstallerPath resultArray) (\<lambda>resultArray.
       if \<not> exit_is resultArray 0 then act I SetCancelled
       else thenp (wait_removed I 300) (raiseInstallerWindow I))))"

definition already_installed_text :: "'w ifw \<Rightarrow> jsstr" where
  "already_installed_text I = ifw_tr I (lit ''The application is already installed.'') @ (lit '' '') @
     ifw_tr I (lit ''We need to remove the old installation first. Do you wish to proceed?'')"

definition controller_install :: "'w ifw \<Rightarrow> ('w ist, unit) prog" where
  "controller_install I = bindp (globals requestToQuitFromApp) (\<lambda>quit.
     if quit then requestToQuit I else
     bindp (ask (runningOnMacOS_ctl I)) (\<lambda>mac.
     thenp (if mac then act I (AutoAnswer (lit ''OverwriteTargetDirectory'') Yes) else ret ())
     (bindp (appInstalled I) (\<lambda>installed.
       if \<not> installed then ret () else
       bindp (ask (appName_ctl I)) (\<lambda>name.
       bindp (message_box I Information name (already_installed_text I) [Ok, Cancel]) (\<lambda>answer.
         if answer = Ok then remove_installation I else act I SetCancelled))))))"

definition controller_uninstall :: "'w ifw \<Rightarrow> ('w ist, unit) prog" where
  "controller_uninstall I = bindp (globals requestToQuitFromApp) (\<lambda>quit. if quit then requestToQuit I else ret ())"

definition controller_update :: "'w ifw \<Rightarrow> ('w ist, unit) prog" where
  "controller_update I = thenp (act I (AutoAnswer (lit ''cancelInstallation'') No)) (act I (Connected (lit ''installer.installationFinished'')))"

definition updater_finished :: "'w ifw \<Rightarrow> ('w ist, unit) prog" where
  "updater_finished I = act I (Click NextButton)"

definition after_loop :: "'w ifw \<Rightarrow> ('w ist, unit) prog \<Rightarrow> 'w ist \<Rightarrow> ((exn + unit) \<times> 'w ist) option" where
  "after_loop I rest s = (case isDesktopAppProcessRunningMessageLoop I s of
     None \<Rightarrow> None
   | Some (r, s') \<Rightarrow> (case r of Inl e \<Rightarrow> Some (Inl e, s') | Inr _ \<Rightarrow> Some (rest s')))"

definition Controller :: "'w ifw \<Rightarrow> 'w ist \<Rightarrow> ((exn + unit) \<times> 'w ist) option" where
  "Controller I s = (case controller_setup I s of (r, s') \<Rightarrow>
     (case r of
        Inl e \<Rightarrow> Some (Inl e, s')
      | Inr _ \<Rightarrow>
          if ifw_isInstaller I then after_loop I (controller_install I) s'
          else if ifw_isUninstaller I then after_loop I (controller_uninstall I) s'
          else if ifw_isUpdater I then Some (controller_update I s')
          else Some (Inr (), s')))"

subsection \<open>The target directory\<close>

lemma index_from_iff: "index_from s p i \<noteq> -1 \<longleftrightarrow> includes_str s p"
  by (induction s arbitrary: i) (auto simp: starts_with_iff)

lemma endsWith_ctl_iff: "endsWith_ctl str suffix \<longleftrightarrow> ends_with str suffix"
proof (cases "length suffix \<le> length str")
  case True
  then obtain t u where str: "str = t @ u" "length u = length suffix"
    by (metis append_take_drop_id diff_diff_cancel length_drop)
  then have "endsWith_ctl str suffix \<longleftrightarrow> includes_str u suffix"
    by (simp add: endsWith_ctl_def indexOf_from_def index_from_iff nat_diff_distrib')
  also have "\<dots> \<longleftrightarrow> u = suffix" using str by (auto simp: includes_str_iff intro: exI [of _ "[]"])
  also have "\<dots> \<longleftrightarrow> ends_with str suffix" using str by (auto simp: ends_with_iff)
  finally show ?thesis .
next
  case False
  then have "endsWith_ctl str suffix \<longleftrightarrow> includes_str str suffix"
    by (simp add: endsWith_ctl_def indexOf_from_def index_from_iff)
  with False show ?thesis by (auto simp: includes_str_iff ends_with_iff)
qed

text \<open>After a directory is chosen on Windows, the target directory ends with the name of the application: it is
  the chosen one when that ends so already (the hand-written \<^verbatim>\<open>endsWith\<close> decides exactly that, also for a directory
  shorter than the name), and the chosen one with the name appended otherwise; the field shows the
  value that was set.\<close>

lemma onBrowseButtonClicked_target:
  assumes "ifw_targetText I (world s) = Some dir" "runningOnWindows_ctl I (world s)"
    and set_get: "\<And>k v w. ifw_value I (ifw_act I (SetValue k v) w) k = v"
  shows "\<exists>s' target. onBrowseButtonClicked I s = (Inr (), s') \<and>
    target = (if ends_with dir (appName_ctl I (world s)) then dir else dir @ bs @ appName_ctl I (world s)) \<and>
    ends_with target (appName_ctl I (world s)) \<and>
    sv_log s' = sv_log s @ [SetValue (lit ''TargetDir'') target, WidgetSet (lit ''TargetDirectoryLineEdit'') (lit ''text'') target]"
proof -
  let ?n = "appName_ctl I (world s)"
  define target where "target = (if ends_with dir ?n then dir else dir @ bs @ ?n)"
  have "ends_with target ?n" by (auto simp: target_def ends_with_iff)
  moreover have "\<exists>s'. onBrowseButtonClicked I s = (Inr (), s') \<and>
      sv_log s' = sv_log s @ [SetValue (lit ''TargetDir'') target, WidgetSet (lit ''TargetDirectoryLineEdit'') (lit ''text'') target]"
    using assms by (simp add: onBrowseButtonClicked_def bindp_run ask_def thenp_run act_def Let_def endsWith_ctl_iff target_def)
  ultimately show ?thesis unfolding target_def by blast
qed

text \<open>A machine whose world are the values of the installer.\<close>

definition value_ifw :: "(jsstr \<Rightarrow> jsstr) ifw" where
  "value_ifw = \<lparr>ifw_kernelType = [], ifw_cpu = [], ifw_isInstaller = True, ifw_isUpdater = False,
     ifw_isUninstaller = False, ifw_success = (\<lambda>_. True), ifw_value = (\<lambda>w k. w k), ifw_environment = (\<lambda>_ _. []),
     ifw_findPath = (\<lambda>_ _ _. []), ifw_fileExists = (\<lambda>_ _. False), ifw_widget = (\<lambda>_ _. False),
     ifw_targetText = (\<lambda>w. Some (w (lit ''TargetDir''))), ifw_execute = (\<lambda>_ _ w. (None, w)),
     ifw_answer = (\<lambda>_ _ _ _ w. (Ok, w)), ifw_gainAdmin = (\<lambda>w. (True, w)), ifw_addWizardPage = (\<lambda>_ _ w. (True, w)),
     ifw_act = (\<lambda>e w. case e of SetValue k v \<Rightarrow> w(k := v) | _ \<Rightarrow> w), ifw_tr = (\<lambda>t. t), ifw_number = (\<lambda>_. []),
     ifw_toNumber = (\<lambda>_. None), ifw_JSON_parse = (\<lambda>_. None)\<rparr>"

definition chosen_values :: "jsstr \<Rightarrow> jsstr" where
  "chosen_values k = (if k = (lit ''os'') then (lit ''win'') else if k = (lit ''Name'') then (lit ''FBLinkVPN'') else (lit ''D:''))"

subsection \<open>The message loop\<close>

lemmas message_loop_unfold = isDesktopAppProcessRunningMessageLoop.simps

text \<open>The state after \<open>k\<close> passes that all ended with \<^const>\<open>Retry\<close>.\<close>

fun after_retries :: "'w ifw \<Rightarrow> nat \<Rightarrow> 'w ist \<Rightarrow> 'w ist option" where
  "after_retries I 0 s = Some s"
| "after_retries I (Suc k) s = (case message_pass I s of (r, s') \<Rightarrow> if r = Inr True then after_retries I k s' else None)"

lemma message_loop_after:
  "after_retries I k s = Some s1 \<Longrightarrow>
     isDesktopAppProcessRunningMessageLoop I s = isDesktopAppProcessRunningMessageLoop I s1"
proof (induction k arbitrary: s)
  case (Suc k)
  then show ?case by (subst message_loop_unfold) (auto split: prod.splits if_splits)
qed simp

lemma message_pass_stopped:
  assumes "\<not> requestToQuitFromApp (sv_world s)" "\<not> ifw_isUpdater I"
    and "appProcessIsRunning I s = (Inr False, s1)"
  shows "message_pass I s = (Inr False, s1\<lparr>sv_world := (sv_world s1)\<lparr>desktopAppProcessRunning := False\<rparr>\<rparr>)"
  using assms by (simp add: message_pass_def bindp_run globals_def thenp_run ret_run assign_def)

text \<open>What a pass that does not ask again leaves behind.\<close>

lemma message_pass_result:
  "message_pass I s = (Inr False, s') \<Longrightarrow>
     requestToQuitFromApp (sv_world s') \<or> \<not> desktopAppProcessRunning (sv_world s')"
  unfolding message_pass_def
  by (auto simp: bindp_run thenp_run globals_def ret_run assign_def ask_def split: prod.splits sum.splits if_splits)

text \<open>\<open>keeps f m\<close>: a run of \<open>m\<close> leaves a global variable alone.\<close>

definition keeps :: "('w script \<Rightarrow> 'v) \<Rightarrow> ('w ist, 'a) prog \<Rightarrow> bool" where
  "keeps f m \<longleftrightarrow> (\<forall>s r s'. m s = (r, s') \<longrightarrow> f (sv_world s') = f (sv_world s))"

named_theorems keep_rules "programs that leave a global variable alone"

lemma keeps_calls [keep_rules]:
  assumes "\<And>g w. f (g\<lparr>sc_world := w\<rparr>) = f g"
  shows "keeps f (ret x)" "keeps f (throw e)" "keeps f (ask q)" "keeps f (globals q')" "keeps f (act I e')"
    "keeps f (execute I p args)" "keeps f (message_box I k title t bt)"
    "(\<And>g. f (h g) = f g) \<Longrightarrow> keeps f (assign h)"
  using assms by (auto simp: keeps_def ret_run throw_run ask_def globals_def act_def execute_def message_box_def
      assign_def record_effect_def split: prod.splits)

lemma keeps_bindp [keep_rules]: "keeps f m \<Longrightarrow> (\<And>x. keeps f (n x)) \<Longrightarrow> keeps f (bindp m n)"
  unfolding keeps_def by (auto simp: bindp_run split: prod.splits sum.splits)

lemma keeps_thenp [keep_rules]: "keeps f m \<Longrightarrow> keeps f n \<Longrightarrow> keeps f (thenp m n)"
  unfolding thenp_def by (rule keeps_bindp)

lemma keeps_if [keep_rules]: "keeps f m \<Longrightarrow> keeps f n \<Longrightarrow> keeps f (if b then m else n)"
  by simp

lemma keeps_checkProcess [keep_rules]:
  "(\<And>g w. f (g\<lparr>sc_world := w\<rparr>) = f g) \<Longrightarrow> keeps f (checkProcessIsRunning I c)"
  unfolding checkProcessIsRunning_def by (auto intro!: keep_rules simp: Let_def split: option.splits)

lemma keeps_running:
  "keeps requestToQuitFromApp (appProcessIsRunning I)" "keeps desktopAppProcessRunning (appProcessIsRunning I)"
  by (simp_all add: appProcessIsRunning_def keep_rules)

lemma message_loop_induct:
  assumes "isDesktopAppProcessRunningMessageLoop I s = Some (r, s')"
    and stop: "\<And>s r s'. message_pass I s = (r, s') \<Longrightarrow> r \<noteq> Inr True \<Longrightarrow> P s (map_sum (\<lambda>e. e) (\<lambda>_. ()) r) s'"
    and again: "\<And>s s1 r s'. message_pass I s = (Inr True, s1) \<Longrightarrow> P s1 r s' \<Longrightarrow> P s r s'"
  shows "P s r s'"
proof -
  have "J = I \<longrightarrow> P s (fst y) (snd y)" if "isDesktopAppProcessRunningMessageLoop J s = Some y" for J s y
  proof (rule isDesktopAppProcessRunningMessageLoop.raw_induct [OF _ that], rule impI)
    fix loop J s y
    assume IH: "\<And>J s y. loop J s = Some y \<Longrightarrow> J = I \<longrightarrow> P s (fst y) (snd y)"
      and step: "(case message_pass J s of (r, s') \<Rightarrow> (case r of Inl e \<Rightarrow> Some (Inl e, s')
        | Inr b \<Rightarrow> if b then loop J s' else Some (Inr (), s'))) = Some y" and "J = I"
    obtain r1 s1 where pass: "message_pass I s = (r1, s1)" by fastforce
    show "P s (fst y) (snd y)"
    proof (cases "r1 = Inr True")
      case True
      with step pass \<open>J = I\<close> IH [of I s1 y] again [of s s1] show ?thesis by simp
    next
      case False
      with step pass \<open>J = I\<close> have "y = (map_sum (\<lambda>e. e) (\<lambda>_. ()) r1, s1)" by (auto split: sum.splits if_splits)
      with stop [OF pass False] show ?thesis by simp
    qed
  qed
  with assms(1) show ?thesis by fastforce
qed

lemma message_loop_result:
  assumes "isDesktopAppProcessRunningMessageLoop I s = Some (Inr (), s')"
  shows "requestToQuitFromApp (sv_world s') \<or> \<not> desktopAppProcessRunning (sv_world s')"
proof -
  let ?P = "\<lambda>s (r :: exn + unit) s'. r = Inr () \<longrightarrow> requestToQuitFromApp (sv_world s') \<or> \<not> desktopAppProcessRunning (sv_world s')"
  have "?P s (Inr ()) s'"
  proof (rule message_loop_induct [OF assms, of ?P])
    fix s r s'
    assume "message_pass I s = (r, s')" "r \<noteq> Inr True"
    then show "?P s (map_sum (\<lambda>e. e) (\<lambda>_. ()) r) s'" by (cases r) (auto dest: message_pass_result)
  qed simp
  then show ?thesis by simp
qed

lemma message_loop_effects:
  assumes "isDesktopAppProcessRunningMessageLoop I s = Some (r, s')" and Q: "effects Q (message_pass I)"
  shows "\<exists>new. sv_log s' = sv_log s @ new \<and> (\<forall>e \<in> set new. Q e)"
proof (rule message_loop_induct [OF assms(1)])
  show "message_pass I s = (r, s') \<Longrightarrow> \<exists>new. sv_log s' = sv_log s @ new \<and> (\<forall>e \<in> set new. Q e)" for s r s'
    by (rule effectsD [OF Q])
next
  fix s s1 s'
  assume pass: "message_pass I s = (Inr True, s1)" and "\<exists>new. sv_log s' = sv_log s1 @ new \<and> (\<forall>e \<in> set new. Q e)"
  then obtain new2 where "sv_log s' = sv_log s1 @ new2" "\<forall>e \<in> set new2. Q e" by blast
  moreover obtain new1 where "sv_log s1 = sv_log s @ new1" "\<forall>e \<in> set new1. Q e" using effectsD [OF Q pass] by blast
  ultimately show "\<exists>new. sv_log s' = sv_log s @ new \<and> (\<forall>e \<in> set new. Q e)"
    by (intro exI [of _ "new1 @ new2"]) auto
qed

text \<open>C29: The question to close the client is asked until the client is closed, and no longer: when the user has answered
  \<^verbatim>\<open>Retry\<close> any number of times and the client then is not found among the running processes, the loop returns, without a request to
  quit and with the client noted as stopped.\<close>

theorem message_loop_live:
  assumes "after_retries I k s = Some sk" "\<not> requestToQuitFromApp (sv_world sk)" "\<not> ifw_isUpdater I"
    and "appProcessIsRunning I sk = (Inr False, s1)"
  shows "\<exists>s'. isDesktopAppProcessRunningMessageLoop I s = Some (Inr (), s') \<and>
      \<not> requestToQuitFromApp (sv_world s') \<and> \<not> desktopAppProcessRunning (sv_world s') \<and> sv_log s' = sv_log s1"
proof -
  have "\<not> requestToQuitFromApp (sv_world s1)"
    using keeps_running(1) [of I] assms(2,4) unfolding keeps_def by metis
  moreover
  have "isDesktopAppProcessRunningMessageLoop I sk =
      Some (Inr (), s1\<lparr>sv_world := (sv_world s1)\<lparr>desktopAppProcessRunning := False\<rparr>\<rparr>)"
    using message_pass_stopped [OF assms(2-4)] by (simp add: message_loop_unfold)
  ultimately show ?thesis using message_loop_after [OF assms(1)] by simp
qed

text \<open>A machine on which the client runs until the world has counted down to 0, and each answer is \<^const>\<open>Retry\<close>.\<close>

definition busy_ifw :: "nat ifw" where
  "busy_ifw = \<lparr>ifw_kernelType = lit ''winnt'', ifw_cpu = [], ifw_isInstaller = True, ifw_isUpdater = False,
     ifw_isUninstaller = False, ifw_success = (\<lambda>_. True), ifw_value = (\<lambda>_ k. if k = (lit ''os'') then (lit ''win'') else k),
     ifw_environment = (\<lambda>_ _. []), ifw_findPath = (\<lambda>_ _ _. []), ifw_fileExists = (\<lambda>_ _. False),
     ifw_widget = (\<lambda>_ _. False), ifw_targetText = (\<lambda>_. None),
     ifw_execute = (\<lambda>_ _ w. (Some (if w = 0 then [] else (lit ''Name.exe''), 0), w)),
     ifw_answer = (\<lambda>_ _ _ _ w. (Retry, w - 1)), ifw_gainAdmin = (\<lambda>w. (True, w)),
     ifw_addWizardPage = (\<lambda>_ _ w. (True, w)), ifw_act = (\<lambda>_ w. w), ifw_tr = (\<lambda>t. t),
     ifw_number = (\<lambda>_. []), ifw_toNumber = (\<lambda>_. None), ifw_JSON_parse = (\<lambda>_. None)\<rparr>"

lemma busy_sel [simp]:
  "runningOnWindows_ctl busy_ifw w" "appExecutableFileName_ctl busy_ifw w = lit ''Name.exe''"
  "ifw_execute busy_ifw p args w = (Some (if w = 0 then [] else (lit ''Name.exe''), 0), w)"
  "ifw_answer busy_ifw k title t bt w = (Retry, w - 1)" "\<not> ifw_isUpdater busy_ifw"
  by (simp_all add: busy_ifw_def runningOnWindows_ctl_def appExecutableFileName_ctl_def appName_ctl_def lit_Cons)

lemma includes_self [simp]: "includes_str x x"
  by (auto simp: includes_str_iff intro: exI [of _ "[]"])

lemma busy_running:
  "appProcessIsRunning busy_ifw s = (Inr (world s \<noteq> 0),
     record_effect (Executed (lit ''tasklist'') [] (Some (if world s = 0 then [] else (lit ''Name.exe''), 0))) (world s) s)"
  by (simp add: appProcessIsRunning_def bindp_run ask_def execute_def ret_run exit_is_def output_of_def)

lemma busy_pass:
  assumes "world s = Suc n" "\<not> requestToQuitFromApp (sv_world s)"
  shows "\<exists>s'. message_pass busy_ifw s = (Inr True, s') \<and> world s' = n \<and> \<not> requestToQuitFromApp (sv_world s')"
  using assms by (simp add: message_pass_def bindp_run thenp_run ret_run globals_def assign_def ask_def busy_running
      message_box_def) (simp add: record_effect_def)

lemma busy_retries:
  "world s = n \<Longrightarrow> \<not> requestToQuitFromApp (sv_world s) \<Longrightarrow>
     \<exists>sk. after_retries busy_ifw n s = Some sk \<and> world sk = 0 \<and> \<not> requestToQuitFromApp (sv_world sk)"
proof (induction n arbitrary: s)
  case (Suc n)
  from busy_pass [OF Suc.prems] Suc.IH show ?case by auto
qed simp

theorem message_loop_live_witness:
  "\<exists>s'. isDesktopAppProcessRunningMessageLoop busy_ifw (script_start 2) = Some (Inr (), s') \<and>
     \<not> desktopAppProcessRunning (sv_world s')"
proof -
  have start: "world (script_start (2 :: nat)) = 2" "\<not> requestToQuitFromApp (sv_world (script_start (2 :: nat)))"
    by (simp_all add: script_start_def)
  obtain sk where sk: "after_retries busy_ifw 2 (script_start 2) = Some sk" "world sk = 0" "\<not> requestToQuitFromApp (sv_world sk)"
    using busy_retries [OF start] by blast
  have "appProcessIsRunning busy_ifw sk = (Inr False, record_effect (Executed (lit ''tasklist'') [] (Some ([], 0))) 0 sk)"
    using sk(2) by (simp add: busy_running)
  from message_loop_live [OF sk(1) sk(3) _ this] show ?thesis by auto
qed

subsection \<open>Removing an installation\<close>

text \<open>The commands other than the three that look at processes and raise the window: the uninstallers.\<close>

definition uninstalls :: "ieffect \<Rightarrow> bool" where
  "uninstalls e \<longleftrightarrow> (case e of Executed p _ _ \<Rightarrow> p \<notin> {(lit ''tasklist''), lit ''/bin/bash'', (lit ''osascript'')} | _ \<Rightarrow> False)"

definition confirms :: "ieffect \<Rightarrow> bool" where
  "confirms e \<longleftrightarrow> (case e of Dialog k _ _ _ a \<Rightarrow> k = Information \<and> a = Ok | _ \<Rightarrow> False)"

text \<open>Every uninstaller comes after a confirmation, when \<open>ok\<close> says whether there was one before.\<close>

fun confirmed :: "bool \<Rightarrow> ieffect list \<Rightarrow> bool" where
  "confirmed ok [] = True"
| "confirmed ok (e # es) = ((uninstalls e \<longrightarrow> ok) \<and> confirmed (ok \<or> confirms e) es)"

lemma uninstalls_simps [simp]:
  "\<not> uninstalls (Executed (lit ''tasklist'') args r)" "\<not> uninstalls (Executed (lit ''/bin/bash'') args r)"
  "\<not> uninstalls (Executed (lit ''osascript'') args r)" "\<not> uninstalls (Dialog k title t bt a)" "\<not> uninstalls (PageVisible p v)"
  "\<not> uninstalls (Click c)" "\<not> uninstalls SetCancelled" "\<not> uninstalls (SetValue n val)" "\<not> uninstalls (AutoAnswer n a)"
  "\<not> uninstalls (Connected n)"
  by (simp_all add: uninstalls_def)

lemma confirmed_True [simp]: "confirmed True es"
  by (induction es) auto

lemma confirmed_none: "\<forall>e \<in> set es. \<not> uninstalls e \<Longrightarrow> confirmed ok es"
  by (induction es arbitrary: ok) auto

lemma confirmed_append: "confirmed ok (a @ b) \<longleftrightarrow> confirmed ok a \<and> confirmed (ok \<or> (\<exists>d \<in> set a. confirms d)) b"
  by (induction a arbitrary: ok) (auto simp: disj_assoc)

lemma confirmed_weaken: "confirmed False es \<Longrightarrow> confirmed ok es"
  by (cases ok) simp_all

lemma confirmed_app: "\<forall>e \<in> set a. \<not> uninstalls e \<Longrightarrow> confirmed False b \<Longrightarrow> confirmed False (a @ b)"
  by (simp add: confirmed_append confirmed_none confirmed_weaken)

text \<open>A program that runs no uninstaller before one that is confirmed.\<close>

lemma traces_confirmed:
  assumes "effects (\<lambda>e. \<not> uninstalls e) m"
  shows "traces (\<lambda>_. confirmed False) m"
    and "(\<And>x. traces (\<lambda>_. confirmed False) (f x)) \<Longrightarrow> traces (\<lambda>_. confirmed False) (bindp m f)"
proof -
  show "traces (\<lambda>_. confirmed False) m"
    by (rule traces_weaken [OF traces_effects [OF assms]]) (rule confirmed_none)
  show "traces (\<lambda>_. confirmed False) (bindp m f)" if "\<And>x. traces (\<lambda>_. confirmed False) (f x)"
    by (rule traces_bindp [OF traces_effects [OF assms] that]) (simp_all add: confirmed_none confirmed_app)
qed

lemma effects_acts [effect_rules]: "\<forall>e \<in> set es. Q e \<Longrightarrow> effects Q (acts I es)"
  by (induction es) (simp_all add: effect_rules)

lemma quiet_processes [effect_rules]:
  "effects (\<lambda>e. \<not> uninstalls e) (checkProcessIsRunning I c)"
  "effects (\<lambda>e. \<not> uninstalls e) (appProcessIsRunning I)"
  by (simp_all add: appProcessIsRunning_def checkProcessIsRunning_def effect_rules Let_def split: option.split)

lemma quiet_await [effect_rules]: "effects (\<lambda>e. \<not> uninstalls e) (await_stopped I n)"
  by (induction n) (simp_all add: effect_rules)

lemma quiet_pass: "effects (\<lambda>e. \<not> uninstalls e) (message_pass I)"
  by (simp add: message_pass_def effect_rules)

lemma quiet_parts [effect_rules]:
  "effects (\<lambda>e. \<not> uninstalls e) (appInstalled I)" "effects (\<lambda>e. \<not> uninstalls e) (requestToQuit I)"
  "effects (\<lambda>e. \<not> uninstalls e) (controller_setup I)" "effects (\<lambda>e. \<not> uninstalls e) (controller_uninstall I)"
  "effects (\<lambda>e. \<not> uninstalls e) (controller_update I)"
  by (simp_all add: appInstalled_def requestToQuit_def controller_setup_def controller_uninstall_def
      controller_update_def effect_rules)

lemma grows_wait [effect_rules]: "effects (\<lambda>_. True) (wait_removed I n)"
  by (induction n) (simp_all add: effect_rules)

lemma grows_uninstaller [effect_rules]:
  "effects (\<lambda>_. True) (run_uninstaller I path r)" "effects (\<lambda>_. True) (raiseInstallerWindow I)"
  "effects (\<lambda>_. True) (appInstalled I)"
  by (simp_all add: run_uninstaller_def raiseInstallerWindow_def appInstalled_def effect_rules)

lemma grows_remove [effect_rules]: "effects (\<lambda>_. True) (remove_installation I)"
  by (simp add: remove_installation_def effect_rules)

lemma dialog_confirmed:
  "traces (\<lambda>_. confirmed False) (bindp (message_box I Information name t bt)
     (\<lambda>answer. if answer = Ok then remove_installation I else act I SetCancelled))"
proof (rule traces_bindp)
  show "traces (\<lambda>r new. \<exists>a. r = Inr a \<and> new = [Dialog Information name t bt a]) (message_box I Information name t bt)"
    by (auto simp: traces_def message_box_def split: prod.splits)
  show "traces (\<lambda>r new. answer \<noteq> Ok \<longrightarrow> confirmed False new)
      (if answer = Ok then remove_installation I else act I SetCancelled)" for answer
    using traces_effects [OF grows_remove, of I] by (auto simp: traces_def act_def)
qed (auto simp: confirms_def confirmed_weaken)

lemma install_confirmed: "traces (\<lambda>_. confirmed False) (controller_install I)"
  unfolding controller_install_def thenp_def
  by (intro traces_confirmed(2) traces_if dialog_confirmed traces_ret)
    (simp_all add: effect_rules traces_confirmed(1))

text \<open>What the rest of the installation does with the variable that notes a running client, and when it removes.\<close>

lemma keeps_install:
  "keeps desktopAppProcessRunning (controller_install I)"
proof -
  have acts: "keeps desktopAppProcessRunning (acts I es)" for es
    by (induction es) (simp_all add: keep_rules)
  have "keeps desktopAppProcessRunning (appInstalled I)"
    by (simp add: appInstalled_def uninstaller_paths_def keep_rules)
  moreover have "keeps desktopAppProcessRunning (raiseInstallerWindow I)"
    unfolding raiseInstallerWindow_def by (auto intro!: keep_rules split: option.split)
  moreover have "keeps desktopAppProcessRunning (wait_removed I n)" for n
    by (induction n) (simp_all add: keep_rules)
  moreover have "keeps desktopAppProcessRunning (run_uninstaller I path r)" for path r
    by (simp add: run_uninstaller_def keep_rules)
  ultimately show ?thesis
    by (simp add: controller_install_def remove_installation_def requestToQuit_def acts keep_rules)
qed

lemma install_quits:
  "requestToQuitFromApp (sv_world s) \<Longrightarrow> controller_install I s = requestToQuit I s"
  by (simp add: controller_install_def bindp_run globals_def)

definition consented :: "'w ist \<Rightarrow> 'w ist \<Rightarrow> bool" where
  "consented s s' \<longleftrightarrow> (\<exists>new. sv_log s' = sv_log s @ new \<and> confirmed False new \<and>
     ((\<exists>e \<in> set new. uninstalls e) \<longrightarrow> \<not> desktopAppProcessRunning (sv_world s')))"

lemma consented_quiet:
  "effects (\<lambda>e. \<not> uninstalls e) m \<Longrightarrow> m s = (r, s') \<Longrightarrow> consented s s'"
  unfolding consented_def using effectsD confirmed_none by blast

lemma consented_before:
  assumes "\<exists>new. sv_log s1 = sv_log s @ new \<and> (\<forall>e \<in> set new. \<not> uninstalls e)" "consented s1 s'"
  shows "consented s s'"
proof -
  obtain n1 where n1: "sv_log s1 = sv_log s @ n1" "\<forall>e \<in> set n1. \<not> uninstalls e" using assms(1) by blast
  obtain n2 where n2: "sv_log s' = sv_log s1 @ n2" "confirmed False n2"
    "(\<exists>e \<in> set n2. uninstalls e) \<longrightarrow> \<not> desktopAppProcessRunning (sv_world s')"
    using assms(2) unfolding consented_def by blast
  then show ?thesis unfolding consented_def
    using n1 confirmed_app [OF n1(2) n2(2)] by (intro exI [of _ "n1 @ n2"]) auto
qed

lemma consented_install:
  assumes stopped: "requestToQuitFromApp (sv_world s) \<or> \<not> desktopAppProcessRunning (sv_world s)"
    and run: "controller_install I s = (r, s')"
  shows "consented s s'"
proof (cases "requestToQuitFromApp (sv_world s)")
  case True
  with run consented_quiet [OF quiet_parts(2)] show ?thesis by (simp add: install_quits)
next
  case False
  then have "\<not> desktopAppProcessRunning (sv_world s')"
    using stopped keeps_install run unfolding keeps_def by metis
  with tracesD [OF install_confirmed run] show ?thesis unfolding consented_def by blast
qed

lemma consented_after_loop:
  assumes "after_loop I rest s = Some (r, s')"
    and rest: "\<And>s2 r2 s3. requestToQuitFromApp (sv_world s2) \<or> \<not> desktopAppProcessRunning (sv_world s2) \<Longrightarrow>
      rest s2 = (r2, s3) \<Longrightarrow> consented s2 s3"
  shows "consented s s'"
proof -
  obtain r2 s2 where loop: "isDesktopAppProcessRunningMessageLoop I s = Some (r2, s2)"
    using assms(1) by (auto simp: after_loop_def split: option.splits)
  have "consented s2 s'"
  proof (cases r2)
    case (Inl e)
    with assms(1) loop have "s' = s2" by (simp add: after_loop_def)
    then show ?thesis by (simp add: consented_def)
  next
    case (Inr u)
    with assms(1) loop have "rest s2 = (r, s')" by (simp add: after_loop_def)
    moreover have "requestToQuitFromApp (sv_world s2) \<or> \<not> desktopAppProcessRunning (sv_world s2)"
      using message_loop_result loop Inr by simp
    ultimately show ?thesis by (rule rest [rotated])
  qed
  with message_loop_effects [OF loop quiet_pass] show ?thesis by (rule consented_before)
qed

text \<open>C10: An installation that is there already is removed only with the user's consent: the installer runs no command other than
  those that look at processes and raise its window before the question whether to remove it was
  answered with \<^verbatim>\<open>Ok\<close>, and it runs one at all only when the client was last found not to be running.\<close>

theorem Controller_confirms:
  assumes run: "Controller I s = Some (r, s')"
  shows "\<exists>new. sv_log s' = sv_log s @ new \<and> confirmed False new \<and>
    ((\<exists>e \<in> set new. uninstalls e) \<longrightarrow> \<not> desktopAppProcessRunning (sv_world s'))"
proof -
  obtain r1 s1 where first: "controller_setup I s = (r1, s1)" by fastforce
  have "consented s1 s'"
  proof (cases r1)
    case (Inl e)
    with run first show ?thesis by (simp add: Controller_def consented_def)
  next
    case (Inr u)
    then consider "after_loop I (controller_install I) s1 = Some (r, s')" | "after_loop I (controller_uninstall I) s1 = Some (r, s')"
      | "controller_update I s1 = (r, s')" | "s' = s1"
      using run first by (auto simp: Controller_def split: if_splits)
    then show ?thesis
    proof cases
      case 1
      then show ?thesis by (rule consented_after_loop) (rule consented_install)
    next
      case 2
      then show ?thesis by (rule consented_after_loop) (rule consented_quiet [OF quiet_parts(4)])
    next
      case 3
      then show ?thesis by (rule consented_quiet [OF quiet_parts(5)])
    qed (simp add: consented_def)
  qed
  with effectsD [OF quiet_parts(3) first] have "consented s s'" by (rule consented_before)
  then show ?thesis unfolding consented_def .
qed

text \<open>A Windows machine with an old installation, which its uninstaller removes; the world says whether it is there.\<close>

definition old_tool :: jsstr where
  "old_tool = (lit ''RootDir'') @ (lit ''Program Files/FBLinkVPN/maintenancetool.exe'')"

definition old_ifw :: "bool ifw" where
  "old_ifw = \<lparr>ifw_kernelType = lit ''winnt'', ifw_cpu = [], ifw_isInstaller = True, ifw_isUpdater = False,
     ifw_isUninstaller = False, ifw_success = (\<lambda>_. True), ifw_value = (\<lambda>_ k. if k = (lit ''os'') then (lit ''win'') else k),
     ifw_environment = (\<lambda>_ _. []), ifw_findPath = (\<lambda>_ _ _. []), ifw_fileExists = (\<lambda>w p. w \<and> p = Some old_tool),
     ifw_widget = (\<lambda>_ _. False), ifw_targetText = (\<lambda>_. Some (lit ''D:'')),
     ifw_execute = (\<lambda>p _ w. (Some ([], 0), w \<and> p = (lit ''tasklist''))),
     ifw_answer = (\<lambda>_ _ _ _ w. (Ok, w)), ifw_gainAdmin = (\<lambda>w. (True, w)),
     ifw_addWizardPage = (\<lambda>_ _ w. (True, w)), ifw_act = (\<lambda>_ w. w), ifw_tr = (\<lambda>t. t),
     ifw_number = (\<lambda>_. []), ifw_toNumber = (\<lambda>_. None), ifw_JSON_parse = (\<lambda>_. None)\<rparr>"

lemma old_sel [simp]:
  "runningOnWindows_ctl old_ifw w" "\<not> runningOnMacOS_ctl old_ifw w" "appExecutableFileName_ctl old_ifw w = lit ''Name.exe''"
  "ifw_execute old_ifw p args w = (Some ([], 0), w \<and> p = (lit ''tasklist''))" "ifw_fileExists old_ifw w q \<longleftrightarrow> w \<and> q = Some old_tool"
  "ifw_answer old_ifw k title t bt w = (Ok, w)" "\<not> ifw_isUpdater old_ifw" "ifw_isInstaller old_ifw"
  "ifw_act old_ifw e w = w"
  by (simp_all add: old_ifw_def runningOnWindows_ctl_def runningOnMacOS_ctl_def appExecutableFileName_ctl_def
      appName_ctl_def lit_Cons)

lemma old_paths [simp]:
  "uninstaller_paths old_ifw w g = g\<lparr>appInstalledUninstallerPath := Some old_tool,
     appInstalledUninstallerPath_x86 := Some ((lit ''RootDir'') @ (lit ''Program Files (x86)/FBLinkVPN/maintenancetool.exe''))\<rparr>"
  by (simp add: uninstaller_paths_def) (simp add: old_ifw_def old_tool_def)

lemma old_tool_x86 [simp]: "(lit ''RootDir'') @ (lit ''Program Files (x86)/FBLinkVPN/maintenancetool.exe'') \<noteq> old_tool" "old_tool \<noteq> (lit ''tasklist'')"
  by (simp_all add: old_tool_def lit_Cons)

lemma old_running: "appProcessIsRunning old_ifw s = (Inr False, record_effect (Executed (lit ''tasklist'') [] (Some ([], 0))) (world s) s)"
  by (simp add: appProcessIsRunning_def bindp_run ask_def execute_def ret_run exit_is_def output_of_def includes_str_iff)

lemma old_loop:
  "\<not> requestToQuitFromApp (sv_world s) \<Longrightarrow>
     \<exists>s'. isDesktopAppProcessRunningMessageLoop old_ifw s = Some (Inr (), s') \<and> world s' = world s \<and>
       \<not> requestToQuitFromApp (sv_world s') \<and> sv_log s' = sv_log s @ [Executed (lit ''tasklist'') [] (Some ([], 0))]"
  by (subst message_loop_unfold) (simp add: message_pass_stopped [OF _ _ old_running] record_effect_def)

lemma old_install:
  "world s \<Longrightarrow> \<not> requestToQuitFromApp (sv_world s) \<Longrightarrow>
     \<exists>s'. controller_install old_ifw s = (Inr (), s') \<and> Executed old_tool [] (Some ([], 0)) \<in> set (sv_log s')"
  by (simp add: controller_install_def remove_installation_def run_uninstaller_def raiseInstallerWindow_def
      appInstalled_def bindp_run thenp_run globals_def ask_def assign_def ret_run execute_def message_box_def act_def
      exit_is_def record_effect_def numeral_eq_Suc)

lemma old_controller:
  "\<exists>s'. Controller old_ifw (script_start True) = Some (Inr (), s') \<and> Executed old_tool [] (Some ([], 0)) \<in> set (sv_log s')"
proof -
  obtain s1 where "controller_setup old_ifw (script_start True) = (Inr (), s1)" "world s1" "\<not> requestToQuitFromApp (sv_world s1)"
    by (simp add: controller_setup_def appInstalled_def bindp_run thenp_run globals_def ask_def assign_def ret_run act_def
        record_effect_def script_start_def)
  with old_loop [of s1] old_install show ?thesis by (fastforce simp: Controller_def after_loop_def)
qed

theorem Controller_confirms_witness:
  "\<exists>s'. Controller old_ifw (script_start True) = Some (Inr (), s') \<and> (\<exists>e \<in> set (sv_log s'). uninstalls e) \<and>
     confirmed False (sv_log s') \<and> \<not> desktopAppProcessRunning (sv_world s')"
proof -
  obtain s' where run: "Controller old_ifw (script_start True) = Some (Inr (), s')"
    and tool: "Executed old_tool [] (Some ([], 0)) \<in> set (sv_log s')" using old_controller by blast
  have "uninstalls (Executed old_tool [] (Some ([], 0)))" by (simp add: uninstalls_def old_tool_def lit_Cons)
  with Controller_confirms [OF run] run tool show ?thesis by (auto simp: script_start_def)
qed

subsection \<open>Finding an old installation\<close>

text \<open>The installer does not find an installation that it made itself. By \<^verbatim>\<open>config/windows.xml.in\<close> the
  target directory on Windows is \<^verbatim>\<open>Program Files/FBLink VPN\<close>, while \<^verbatim>\<open>appInstalled\<close> looks for the maintenance tool in
  \<^verbatim>\<open>Program Files/FBLinkVPN\<close>: when the tool is in no other directory than the configured one, the answer
  is that the application is not installed, and the removal of the old version is skipped.\<close>

lemma appInstalled_misses_default:
  assumes "runningOnWindows_ctl I (world s)"
    and tool: "\<And>p. ifw_fileExists I (world s) (Some p) \<Longrightarrow> ends_with p (lit ''/maintenancetool.exe'') \<Longrightarrow>
      ends_with p (lit ''/FBLink VPN/maintenancetool.exe'')"
  shows "\<exists>s'. appInstalled I s = (Inr False, s')"
proof -
  have "\<not> ends_with (d @ (lit ''Program Files/FBLinkVPN/maintenancetool.exe'')) (lit ''/FBLink VPN/maintenancetool.exe'')"
    "\<not> ends_with (d @ (lit ''Program Files (x86)/FBLinkVPN/maintenancetool.exe'')) (lit ''/FBLink VPN/maintenancetool.exe'')"
    "ends_with (d @ (lit ''Program Files/FBLinkVPN/maintenancetool.exe'')) (lit ''/maintenancetool.exe'')"
    "ends_with (d @ (lit ''Program Files (x86)/FBLinkVPN/maintenancetool.exe'')) (lit ''/maintenancetool.exe'')" for d
    by (simp_all add: ends_with_def lit_Cons)
  then have "\<not> ifw_fileExists I (world s) (Some (d @ (lit ''Program Files/FBLinkVPN/maintenancetool.exe'')))"
    "\<not> ifw_fileExists I (world s) (Some (d @ (lit ''Program Files (x86)/FBLinkVPN/maintenancetool.exe'')))" for d
    using tool by blast+
  with assms(1) show ?thesis
    by (simp add: appInstalled_def thenp_run assign_def globals_def uninstaller_paths_def)
qed

end
