(* ===== verification/Spec2Isabelle.thy ===== *)
theory Spec2Isabelle
  imports Site_Traffic Home_Page Admin_Panel_Runs Routing_Profiles Api_Routes Auth_Form Vip_Section Installer_Component Installer_Control
begin

text \<open>
  This library models the web front end of FBLink VPN (\<^verbatim>\<open>src/web\<close>, Next.js and React in TypeScript) and the two
  scripts of its desktop installer (\<^verbatim>\<open>src/deploy/installer\<close>, JavaScript inside the Qt Installer Framework), and
  proves what makes them correct.

  \<^bold>\<open>The program.\<close> The browser runs pages. The pages ask route handlers of the site under \<^verbatim>\<open>/api\<close>, and the handlers
  ask the backend on behalf of the visitor, whose tokens live in two cookies that only the server reads. The landing page
  leads over the sign-in form to the account page, where a plan is paid; a VIP visitor edits routing rules and exports
  them to the Happ application; an administrator watches the servers in a panel. The installer scripts set up the
  Windows service of the desktop client and remove an older installation.

  \<^bold>\<open>Foundations.\<close>
  \<^item> \<open>Js_Prelude\<close>, \<open>Js_Lists\<close>: strings as lists of UTF-16 code units with the methods the sources call, arrays
    that collect values once (a locale, interpreted for each of the routines that do so).
  \<^item> \<open>Js_Program\<close>, \<open>Js_Effects\<close>: JSON values, programs that thread a state and may throw, and a calculus of the effects a
    program adds to a log, by which the server side and the installer are verified.
  \<^item> \<open>Js_Number\<close>, \<open>Js_Uri\<close>, \<open>Js_Base64\<close>: doubles by rounding of rationals, \<^verbatim>\<open>encodeURIComponent\<close>, the path that
    \<^verbatim>\<open>fetch\<close> makes of an address, \<^verbatim>\<open>JSON.stringify\<close> and \<^verbatim>\<open>btoa\<close>.
  \<^item> \<open>Js_Text\<close>: the literals of the sources with characters outside ASCII.
  \<^item> \<open>Ui_Machine\<close>: components as machines. A component has a state, a view that says which events the visitor can
    raise, handlers that run to their first \<^verbatim>\<open>await\<close>, and continuations that run when an answer arrives, in any order.
    The locales \<open>ui_invariant\<close> and \<open>ui_refinement\<close> are the contracts of an invariant and of a specification that
    a run follows; each component interprets them.

  \<^bold>\<open>Server side.\<close>
  \<^item> \<open>Server_Api\<close> (\<^verbatim>\<open>lib/server-api.ts\<close>): cookies, the bearer header, the refresh of the access token and the authorized
    call. The network, the cookie store and the environment variables are the record \<open>env\<close>; what is assumed of a cookie
    store is \<open>cookie_laws\<close>. Shown: how much one call sends, that only the backend is contacted, that cookies are written
    with the right options, and what the cookies hold after a refresh.
  \<^item> \<open>Site_Config\<close> (\<^verbatim>\<open>lib/site-config.ts\<close>): JSON of unknown shape laid over the built-in configuration; loading is total.
  \<^item> \<open>Api_Routes\<close> (\<^verbatim>\<open>app/api\<close>, \<^verbatim>\<open>app/admin/page.tsx\<close>): every handler, the administration proxy and the guard of the
    administration page. Shown: which hosts and cookies each handler touches (the configuration may come from another address
    than the rest), signing in and out, containment of the proxy as long as its path does not climb over \<^verbatim>\<open>..\<close>, and an
    escape where it does, the guard, and a session that the guard loses.
  \<^item> \<open>Routing_Profiles\<close> (\<^verbatim>\<open>lib/routing-profiles.ts\<close>), \<open>Admin_Lib\<close> (\<^verbatim>\<open>lib/admin.ts\<close>): the pure libraries. The Happ
    document of the first is built by tests only; the VIP page exports its own.

  \<^bold>\<open>Pages.\<close>
  \<^item> \<open>Auth_Form\<close>, \<open>Promo_Code\<close>, \<open>Pricing\<close>, \<open>Dashboard\<close>, \<open>Vip_Section\<close>: the components of the same names under
    \<^verbatim>\<open>components\<close> (\<open>Pricing\<close> is \<^verbatim>\<open>ui/ruixen-pricing-04.tsx\<close> and \<^verbatim>\<open>PlanChooser.tsx\<close>; \<open>Vip_Section\<close> also holds
    \<^verbatim>\<open>VipPageClient.tsx\<close>). A component that mounts another holds its state and lifts its reactions. Shown: at most one
    request of a kind is in flight and no control offers a second one, what is confirmed was checked (under every change of
    the plan), figures stay in bounds, the exported link decodes to the document, and the races that the code does have.
  \<^item> \<open>Home_Page\<close>: the landing page (\<^verbatim>\<open>app/page.tsx\<close>, \<^verbatim>\<open>Topbar.tsx\<close>, \<^verbatim>\<open>Brand.tsx\<close>, \<^verbatim>\<open>Faq.tsx\<close>) and the policy.
  \<^item> \<open>Admin_Text\<close>, \<open>Admin_Panel\<close>, \<open>Admin_Panel_Runs\<close> (\<^verbatim>\<open>components/admin\<close>): the texts and figures, the panel as a
    machine, and its runs. Shown: where requests go and what an update carries, that the notifications refine a map that is
    replaced or extended, that keys stay unique, that values behind a secret keyword do not show, with the condition a keyword of two words
    needs; and the defects found.
  \<^item> \<open>Site_Traffic\<close>: the route files of the site, and that they serve every request of the pages but one.
  \<^item> This theory: the path of a chosen plan through three pages.

  \<^bold>\<open>Installer.\<close> \<open>Installer_Api\<close> has the framework as the record \<open>ifw\<close> over an opaque world; \<open>Installer_Component\<close> is
  \<^verbatim>\<open>componentscript.js\<close>, \<open>Installer_Control\<close> is \<^verbatim>\<open>controlscript.js\<close>. Shown: programs start only without administrator rights and
  after the service was seen, the service check is honest and sleeps at most 306.7 seconds between its commands, the removal of an old
  installation is confirmed, and the loops return.

  \<^bold>\<open>Bounds and loops.\<close> No loop has fuel. A loop that depends on the outside (the busy wait, the message loop)
  is a \<^verbatim>\<open>partial_function\<close> whose value is \<^const>\<open>None\<close> while it does not return, and its return is proved under the
  condition the code waits for; a scan of a text is a function with a termination proof. Times are integers or doubles
  with explicit rounding; a duration is exact below two to the power of 36 times its divisor.

  \<^bold>\<open>Arguments.\<close> The texts of numbers and of exceptions, dates in words, the network, cookies, the installer framework and
  \<^verbatim>\<open>useSearchParams\<close> are arguments of the definitions that use them. Assumptions on them are named hypotheses, each
  with an instance that satisfies it.

  \<^bold>\<open>Not modelled.\<close> Presentation (class names, icons, animation, the canvas of \<^verbatim>\<open>travel-connect-signin.tsx\<close>, the shader of
  \<^verbatim>\<open>dithering-shader.tsx\<close>), layout and wrappers of pages, build settings, console output, and leaving a page while
  an answer is awaited. Letter case is that of ASCII and Cyrillic letters. The pages read a body of the backend
  at the types the source declares for it (\<open>server_of\<close>, \<open>session_of\<close>, \<open>config_of\<close>): a member that is missing or has another
  type is read as absent or as the empty value, and an exception that such a body would raise in the source does not appear. The client in C++, the Windows service, the backend and the node agent
  in Go are other programs; for the code modelled here they are answers of the environment.
\<close>

section \<open>From the landing page to the account page\<close>

lemma plan_id_of_string [simp]: "plan_id_of (plan_id_string i) = Some i"
  by (cases i) (simp_all add: plan_id_of_def)

lemma plan_id_string_truthy [simp]: "truthy (plan_id_string i)"
  by (cases i) simp_all

text \<open>What \<^verbatim>\<open>useSearchParams().get("plan")\<close> of the Next.js framework answers on the address of a page is an argument;
  the pages rely on it for the addresses they build themselves.\<close>

definition reads_plan :: "(jsstr \<Rightarrow> jsstr option) \<Rightarrow> bool" where
  "reads_plan get \<longleftrightarrow> (\<forall>i. get (lit ''/auth?plan='' @ plan_id_string i) = Some (plan_id_string i) \<and>
     get (lit ''/dashboard?plan='' @ plan_id_string i) = Some (plan_id_string i))"

text \<open>C14: The plan a visitor chooses on the landing page arrives at the account page: a card links to the sign-in form with a
  plan on sale, the form leads from there only to the account page with the same plan, and there the price list starts with
  exactly this plan selected.\<close>

theorem chosen_plan_arrives:
  assumes query: "reads_plan get"
    and card: "u \<in> set (links (pricing_view P (home_props config) prices))"
    and sign_in: "ui_reach (AuthForm Q (nullish (get u) [])) any (idle_with auth_init) a" "v \<in> set (pushes (ui_out a))"
    and account: "de_plan V = get v"
  shows "\<exists>i \<in> set (visiblePlanIds config). u = lit ''/auth?plan='' @ plan_id_string i \<and> v = lit ''/dashboard?plan='' @ plan_id_string i \<and>
    pr_selectedPlanId (pricing_init (price_props V d session)) = Some i"
proof -
  obtain i where i: "i \<in> set (visiblePlanIds config)" and u: "u = lit ''/auth?plan='' @ plan_id_string i"
    using prices_links [OF card] by blast
  with query have "nullish (get u) [] = plan_id_string i" by (simp add: reads_plan_def)
  moreover have "v = dashboard_url (nullish (get u) [])"
    using auth.reach_keeps [OF sign_in(1)] sign_in(2) by (auto simp: auth_inv_def list_all_iff)
  ultimately have v: "v = lit ''/dashboard?plan='' @ plan_id_string i" by (simp add: dashboard_url_def)
  with query account have "selectedPlan V = Some i" by (simp add: selectedPlan_def reads_plan_def)
  then have "pr_selectedPlanId (pricing_init (price_props V d session)) = Some i"
    by (simp add: pricing_init_def price_props_def Let_def)
  with i u v show ?thesis by blast
qed

definition sample_get :: "jsstr \<Rightarrow> jsstr option" where
  "sample_get u = (if take 11 u = lit ''/auth?plan='' then Some (drop 11 u)
     else if take 16 u = lit ''/dashboard?plan='' then Some (drop 16 u) else None)"

lemma sample_get_reads: "reads_plan sample_get"
  by (simp add: reads_plan_def sample_get_def lit_Cons)

theorem chosen_plan_arrives_witness:
  "\<exists>u v. u \<in> set (links (pricing_view sample_platform (home_props defaultSiteConfig) (pricing_init (home_props defaultSiteConfig)))) \<and>
     v = lit ''/dashboard?plan=basic'' \<and>
     pr_selectedPlanId (pricing_init (price_props (sample_env\<lparr>de_plan := sample_get v\<rparr>) (dashboard_init 0) (session_of JNull))) = Some Basic"
proof -
  let ?u = "lit ''/auth?plan='' @ plan_id_string Basic"
  let ?p = "pricing_init (home_props defaultSiteConfig)"
  have "card_period (pr_billingPeriod ?p) default_premium = Some (hd (pl_periods default_premium))"
    by (simp add: card_period_def at_index_def pricing_init_def billingPeriodForPlan_def home_props_def default_premium_def Let_def)
  from card_linked [of default_premium defaultSiteConfig, OF _ this]
  have u: "?u \<in> set (links (pricing_view sample_platform (home_props defaultSiteConfig) ?p))"
    by (simp add: defaultSiteConfig_def default_premium_def)
  obtain a where a: "ui_reach (AuthForm sample_platform (nullish (sample_get ?u) [])) any (idle_with auth_init) a"
      "pushes (ui_out a) = [dashboard_url (nullish (sample_get ?u) [])]"
    using sign_in_reached by blast
  let ?v = "dashboard_url (nullish (sample_get ?u) [])"
  have v: "?v = lit ''/dashboard?plan='' @ plan_id_string Basic" by (simp add: sample_get_def dashboard_url_def lit_Cons)
  have "\<exists>i \<in> set (visiblePlanIds defaultSiteConfig). ?u = lit ''/auth?plan='' @ plan_id_string i \<and> ?v = lit ''/dashboard?plan='' @ plan_id_string i \<and>
    pr_selectedPlanId (pricing_init (price_props (sample_env\<lparr>de_plan := sample_get ?v\<rparr>) (dashboard_init 0) (session_of JNull))) = Some i"
    by (rule chosen_plan_arrives [OF sample_get_reads u a(1)]) (simp_all add: a(2))
  then have "pr_selectedPlanId (pricing_init (price_props (sample_env\<lparr>de_plan := sample_get ?v\<rparr>) (dashboard_init 0) (session_of JNull))) = Some Basic"
    by (metis append_same_eq plan_id_string_inject same_append_eq)
  moreover have "?v = lit ''/dashboard?plan=basic''" unfolding v by (simp add: lit_Cons)
  ultimately show ?thesis using u by metis
qed

end
